(* ===== verification/Prelude.thy ===== *)
theory Prelude
  imports Main "HOL-Library.AList" "HOL-Library.Word"
begin

text \<open>
  What the components share: the machine integers and the instants of the Rust code, the
  \<open>HashMap\<close> of its standard library with the laws its clients rely on, the fragment of
  \<open>str\<close> the code uses, and the two interfaces every reducer of the workspace has: an
  event-driven step function that may refuse an event, and a pair of such reducers of which
  one mirrors the other.
\<close>

section \<open>Scalars\<close>

text \<open>
  \<open>u32\<close>, \<open>u64\<close> and \<open>i32\<close> keep their width. An instant (\<open>DateTime<Utc>\<close>) is the number of
  nanoseconds since the epoch, chrono's own resolution, and a duration a number of
  nanoseconds; chrono's limits (the years -262143 to 262142, where its addition panics) are
  not modelled.
\<close>

type_synonym u32 = "32 word"
type_synonym u64 = "64 word"
type_synonym i32 = "32 word"
type_synonym i64 = "64 word"
type_synonym instant = int
type_synonym duration = int

definition seconds :: "int \<Rightarrow> duration" where
  "seconds n = n * 1000000000"

definition minutes :: "int \<Rightarrow> duration" where
  "minutes n = seconds (n * 60)"

text \<open>Rust's \<open>u32::saturating_add\<close>, and the \<open>as u32\<close> cast of a \<open>usize\<close>.\<close>

definition saturating_add_u32 :: "u32 \<Rightarrow> u32 \<Rightarrow> u32" where
  "saturating_add_u32 a b = (if unat a + unat b < 2 ^ 32 then a + b else - 1)"

definition usize_as_u32 :: "nat \<Rightarrow> u32" where
  "usize_as_u32 n = word_of_nat n"

section \<open>Hash maps\<close>

text \<open>
  A \<open>HashMap\<close> is the list of its entries in the order an iteration visits them. The order is
  not specified by Rust: no theorem fixes it, each holds for every order of the entries. Keys
  are distinct (\<open>hwf\<close>), which \<open>hput\<close> and \<open>hremove\<close> keep.
\<close>

type_synonym ('k, 'v) hmap = "('k \<times> 'v) list"

definition hget :: "('k, 'v) hmap \<Rightarrow> 'k \<Rightarrow> 'v option" where
  "hget m k = map_of m k"

definition hput :: "'k \<Rightarrow> 'v \<Rightarrow> ('k, 'v) hmap \<Rightarrow> ('k, 'v) hmap" where
  "hput k v m = AList.update k v m"

definition hremove :: "'k \<Rightarrow> ('k, 'v) hmap \<Rightarrow> ('k, 'v) hmap" where
  "hremove k m = filter (\<lambda>e. fst e \<noteq> k) m"

definition hkeys :: "('k, 'v) hmap \<Rightarrow> 'k list" where
  "hkeys m = map fst m"

definition hvalues :: "('k, 'v) hmap \<Rightarrow> 'v list" where
  "hvalues m = map snd m"

definition hwf :: "('k, 'v) hmap \<Rightarrow> bool" where
  "hwf m \<longleftrightarrow> distinct (map fst m)"

section \<open>Strings and lists\<close>

text \<open>\<open>str::split_once\<close> for a character: the text before and after its first occurrence.\<close>

fun split_once :: "char \<Rightarrow> string \<Rightarrow> (string \<times> string) option" where
  "split_once c [] = None"
| "split_once c (x # xs) =
     (if x = c then Some ([], xs)
      else map_option (\<lambda>(a, b). (x # a, b)) (split_once c xs))"

text \<open>\<open>[String]::join\<close>.\<close>

fun join_with :: "string \<Rightarrow> string list \<Rightarrow> string" where
  "join_with sep [] = []"
| "join_with sep [x] = x"
| "join_with sep (x # y # ys) = x @ sep @ join_with sep (y # ys)"

text \<open>The decimal rendering of an unsigned integer (\<open>Display\<close>), and the bytes of a string.\<close>

type_synonym byte = "8 word"

fun show_nat :: "nat \<Rightarrow> string" where
  "show_nat n = (if n < 10 then [char_of (48 + n)] else show_nat (n div 10) @ [char_of (48 + n mod 10)])"

declare show_nat.simps [simp del]

definition show_u32 :: "u32 \<Rightarrow> string" where
  "show_u32 w = show_nat (unat w)"

definition as_bytes :: "string \<Rightarrow> byte list" where
  "as_bytes s = map (\<lambda>c. word_of_nat (of_char c)) s"

definition cont_byte :: "byte \<Rightarrow> bool" where
  "cont_byte b \<longleftrightarrow> 0x80 \<le> b \<and> b \<le> 0xBF"

text \<open>
  \<open>std::str::from_utf8\<close>: well-formed UTF-8 (no overlong form, no surrogate, nothing above U+10FFFF).
\<close>

fun utf8_valid :: "byte list \<Rightarrow> bool" where
  "utf8_valid [] = True"
| "utf8_valid (b # bs) =
     (if b \<le> 0x7F then utf8_valid bs
      else case bs of
        [] \<Rightarrow> False
      | c # cs \<Rightarrow>
        if 0xC2 \<le> b \<and> b \<le> 0xDF then cont_byte c \<and> utf8_valid cs
        else case cs of
          [] \<Rightarrow> False
        | d # ds \<Rightarrow>
          if 0xE0 \<le> b \<and> b \<le> 0xEF
          then cont_byte c \<and> cont_byte d \<and> (b = 0xE0 \<longrightarrow> 0xA0 \<le> c) \<and> (b = 0xED \<longrightarrow> c \<le> 0x9F) \<and> utf8_valid ds
          else case ds of
            [] \<Rightarrow> False
          | e # es \<Rightarrow>
            0xF0 \<le> b \<and> b \<le> 0xF4 \<and> cont_byte c \<and> cont_byte d \<and> cont_byte e
            \<and> (b = 0xF0 \<longrightarrow> 0x90 \<le> c) \<and> (b = 0xF4 \<longrightarrow> c \<le> 0x8F) \<and> utf8_valid es)"

definition from_utf8 :: "byte list \<Rightarrow> string option" where
  "from_utf8 bs = (if utf8_valid bs then Some (map (\<lambda>b. char_of (unat b)) bs) else None)"

text \<open>\<open>chars().take(n)\<close>: the first \<open>n\<close> scalar values, each a lead byte with its continuation bytes.\<close>

fun take_chars :: "nat \<Rightarrow> string \<Rightarrow> string" where
  "take_chars n [] = []"
| "take_chars n (c # cs) =
     (if cont_byte (word_of_nat (of_char c)) then c # take_chars n cs
      else case n of 0 \<Rightarrow> [] | Suc m \<Rightarrow> c # take_chars m cs)"

text \<open>\<open>Iterator::position\<close>: the index of the first element that satisfies the predicate.\<close>

fun position :: "('a \<Rightarrow> bool) \<Rightarrow> 'a list \<Rightarrow> nat option" where
  "position P [] = None"
| "position P (x # xs) = (if P x then Some 0 else map_option Suc (position P xs))"

text \<open>\<open>slice::get\<close>: indexing that returns an option instead of panicking.\<close>

definition nth_opt :: "'a list \<Rightarrow> nat \<Rightarrow> 'a option" where
  "nth_opt xs i = (if i < length xs then Some (xs ! i) else None)"

section \<open>The map interface and its implementation\<close>

text \<open>
  The contract of a map the components rely on: lookup after an insertion or a removal, and
  that both keep the representation invariant. The lemmas about chains of insertions are
  proved once from it.
\<close>

locale map_interface =
  fixes lookup :: "'m \<Rightarrow> 'k \<Rightarrow> 'v option"
    and insert_entry :: "'k \<Rightarrow> 'v \<Rightarrow> 'm \<Rightarrow> 'm"
    and remove_entry :: "'k \<Rightarrow> 'm \<Rightarrow> 'm"
    and wf :: "'m \<Rightarrow> bool"
  assumes lookup_insert: "wf m \<Longrightarrow> lookup (insert_entry k v m) = (lookup m)(k \<mapsto> v)"
    and lookup_remove: "wf m \<Longrightarrow> lookup (remove_entry k m) = (lookup m)(k := None)"
    and wf_insert: "wf m \<Longrightarrow> wf (insert_entry k v m)"
    and wf_remove: "wf m \<Longrightarrow> wf (remove_entry k m)"
begin

lemma lookup_insert_same: "wf m \<Longrightarrow> lookup (insert_entry k v m) k = Some v"
  by (simp add: lookup_insert)

lemma lookup_insert_other: "wf m \<Longrightarrow> k' \<noteq> k \<Longrightarrow> lookup (insert_entry k v m) k' = lookup m k'"
  by (simp add: lookup_insert)

lemma insert_insert: "wf m \<Longrightarrow>
    lookup (insert_entry k v (insert_entry k w m)) = lookup (insert_entry k v m)"
  by (simp add: lookup_insert wf_insert)

lemma fold_insert_wf: "wf m \<Longrightarrow> wf (fold (\<lambda>(k, v). insert_entry k v) es m)"
  by (induction es arbitrary: m) (auto simp: wf_insert)

lemma fold_insert_lookup_other:
  "wf m \<Longrightarrow> k \<notin> fst ` set es \<Longrightarrow> lookup (fold (\<lambda>(k, v). insert_entry k v) es m) k = lookup m k"
  by (induction es arbitrary: m) (auto simp: wf_insert lookup_insert)

end

interpretation hm: map_interface hget hput hremove hwf
proof unfold_locales
  show "hget (hput k v m) = (hget m)(k \<mapsto> v)" for m :: "('a, 'b) hmap" and k v
    by (simp add: fun_eq_iff hget_def hput_def update_conv')
  show "hget (hremove k m) = (hget m)(k := None)" for m :: "('a, 'b) hmap" and k
    by (induction m) (auto simp: fun_eq_iff hget_def hremove_def)
  show "hwf m \<Longrightarrow> hwf (hput k v m)" for m :: "('a, 'b) hmap" and k v
    by (simp add: hwf_def hput_def distinct_update)
  show "hwf m \<Longrightarrow> hwf (hremove k m)" for m :: "('a, 'b) hmap" and k
    by (induction m) (auto simp: hwf_def hremove_def)
qed

lemma hget_hput [simp]: "hget (hput k v m) k' = (if k' = k then Some v else hget m k')"
  by (simp add: hget_def hput_def update_conv')

lemma hwf_Nil [simp]: "hwf []"
  by (simp add: hwf_def)

lemma hget_Nil [simp]: "hget [] k = None"
  by (simp add: hget_def)

lemma hget_SomeD: "hget m k = Some v \<Longrightarrow> (k, v) \<in> set m"
  by (simp add: hget_def map_of_SomeD)

lemma hget_eq_Some_iff: "hwf m \<Longrightarrow> hget m k = Some v \<longleftrightarrow> (k, v) \<in> set m"
  by (simp add: hget_def hwf_def)

lemma hvalues_hget: "hwf m \<Longrightarrow> set (hvalues m) = {v. \<exists>k. hget m k = Some v}"
  by (force simp: hvalues_def hget_eq_Some_iff)

lemma hkeys_hget: "set (hkeys m) = {k. hget m k \<noteq> None}"
  by (auto simp: hkeys_def hget_def map_of_eq_None_iff domIff)

lemma hput_keys: "set (hkeys (hput k v m)) = insert k (set (hkeys m))"
  by (auto simp: hkeys_hget split: if_splits)

lemma hput_in_set: "(k', v') \<in> set (hput k v m) \<Longrightarrow> (k' = k \<and> v' = v) \<or> (k', v') \<in> set m"
  unfolding hput_def by (induction m) (auto split: if_splits)

section \<open>Facts on strings, positions and saturating addition\<close>

lemma split_once_append: "c \<notin> set a \<Longrightarrow> split_once c (a @ c # b) = Some (a, b)"
  by (induction a) auto

lemma split_once_None [simp]: "split_once c s = None \<longleftrightarrow> c \<notin> set s"
  by (induction s) auto

lemma split_once_SomeD: "split_once c s = Some (a, b) \<Longrightarrow> s = a @ c # b \<and> c \<notin> set a"
  by (induction s arbitrary: a b) (auto split: if_splits)

lemma position_None [simp]: "position P xs = None \<longleftrightarrow> (\<forall>x \<in> set xs. \<not> P x)"
  by (induction xs) auto

lemma position_SomeD:
  "position P xs = Some i \<Longrightarrow> i < length xs \<and> P (xs ! i) \<and> (\<forall>j < i. \<not> P (xs ! j))"
proof (induction xs arbitrary: i)
  case (Cons x xs)
  then show ?case
    by (cases i) (auto split: if_splits simp: less_Suc_eq_0_disj nth_Cons')
qed simp

lemma nth_opt_Some [simp]: "nth_opt xs i = Some x \<longleftrightarrow> i < length xs \<and> xs ! i = x"
  by (auto simp: nth_opt_def)

lemma unat_saturating_add:
  "unat (saturating_add_u32 a b) = min (unat a + unat b) (2 ^ 32 - 1)"
proof (cases "unat a + unat b < 2 ^ 32")
  case True
  then show ?thesis by (simp add: saturating_add_u32_def unat_word_ariths)
next
  case False
  moreover have "unat (- 1 :: u32) = 2 ^ 32 - 1" by (simp add: unsigned_minus_1_eq_mask mask_eq_exp_minus_1)
  ultimately show ?thesis by (simp add: saturating_add_u32_def)
qed

lemma saturating_add_u32_code [code]: "saturating_add_u32 a b = (let s = a + b in if s < a then - 1 else s)"
proof (cases "unat a + unat b < 2 ^ 32")
  case True
  then have "unat (a + b) = unat a + unat b" by (simp add: unat_word_ariths)
  then show ?thesis using True by (simp add: saturating_add_u32_def Let_def word_less_nat_alt)
next
  case False
  have "unat a < 2 ^ 32" "unat b < 2 ^ 32"
    using unsigned_less [of a, where 'a = nat] unsigned_less [of b, where 'a = nat] by simp_all
  then have "unat (a + b) = unat a + unat b - 2 ^ 32" "unat a + unat b - 2 ^ 32 < unat a"
    using False by (simp_all add: unat_word_ariths mod_if)
  then show ?thesis using False by (simp add: saturating_add_u32_def Let_def word_less_nat_alt)
qed

lemma byte_of_char_of [simp]: "word_of_nat (of_char (char_of (unat b) :: char)) = (b :: byte)"
proof -
  have "unat b < 2 ^ LENGTH(8)" by (rule unsigned_less)
  then show ?thesis by simp
qed

lemma from_utf8_as_bytes: "from_utf8 bs = Some s \<Longrightarrow> as_bytes s = bs"
  by (auto simp: from_utf8_def as_bytes_def o_def split: if_splits
      simp del: of_char_of intro!: map_idI)

lemma u64_two_le_one [simp]: "\<not> (2 :: u64) \<le> 1"
  by (simp add: word_le_nat_alt)

section \<open>Reducers\<close>

text \<open>
  Every state machine of the workspace is a pure function that takes the state and an event and
  gives the next state with the effects to run, or refuses the event. The runtimes log and drop
  a refused event and keep the state (\<open>settle\<close>); \<open>run_events\<close> folds it over a stream.
\<close>

definition settle :: "('s \<Rightarrow> 'e \<Rightarrow> 'err + 's \<times> 'fx list) \<Rightarrow> 's \<Rightarrow> 'e \<Rightarrow> 's" where
  "settle stp s e = (case stp s e of Inl _ \<Rightarrow> s | Inr (s', _) \<Rightarrow> s')"

fun run_events :: "('s \<Rightarrow> 'e \<Rightarrow> 'err + 's \<times> 'fx list) \<Rightarrow> 's \<Rightarrow> 'e list \<Rightarrow> 's" where
  "run_events stp s [] = s"
| "run_events stp s (e # es) = run_events stp (settle stp s e) es"

text \<open>The effects of a stream, in the order the runtime runs them.\<close>

fun run_effects :: "('s \<Rightarrow> 'e \<Rightarrow> 'err + 's \<times> 'fx list) \<Rightarrow> 's \<Rightarrow> 'e list \<Rightarrow> 'fx list" where
  "run_effects stp s [] = []"
| "run_effects stp s (e # es) =
     (case stp s e of Inl _ \<Rightarrow> [] | Inr (_, fx) \<Rightarrow> fx) @ run_effects stp (settle stp s e) es"

lemma run_events_append: "run_events stp s (xs @ ys) = run_events stp (run_events stp s xs) ys"
  by (induction xs arbitrary: s) auto

lemma settle_cases:
  obtains (refused) er where "stp s e = Inl er" "settle stp s e = s"
  | (stepped) s' fx where "stp s e = Inr (s', fx)" "settle stp s e = s'"
  by (cases "stp s e") (auto simp: settle_def)

text \<open>
  A reducer with an invariant and a preorder its accepted steps climb. What holds of one
  accepted step holds of every stream of events.
\<close>

locale reducer =
  fixes stp :: "'s \<Rightarrow> 'e \<Rightarrow> 'err + 's \<times> 'fx list"
    and inv :: "'s \<Rightarrow> bool"
    and ord :: "'s \<Rightarrow> 's \<Rightarrow> bool"
  assumes step_inv: "inv s \<Longrightarrow> stp s e = Inr (s', fx) \<Longrightarrow> inv s'"
    and step_ord: "inv s \<Longrightarrow> stp s e = Inr (s', fx) \<Longrightarrow> ord s s'"
    and ord_refl: "ord s s"
    and ord_trans: "ord a b \<Longrightarrow> ord b c \<Longrightarrow> ord a c"
begin

lemma settle_inv: "inv s \<Longrightarrow> inv (settle stp s e)"
  by (rule settle_cases [of stp s e]) (auto intro: step_inv)

lemma settle_ord: "inv s \<Longrightarrow> ord s (settle stp s e)"
  by (rule settle_cases [of stp s e]) (auto intro: step_ord ord_refl)

lemma run_inv: "inv s \<Longrightarrow> inv (run_events stp s es)"
  by (induction es arbitrary: s) (auto intro: settle_inv)

lemma run_ord: "inv s \<Longrightarrow> ord s (run_events stp s es)"
proof (induction es arbitrary: s)
  case (Cons e es)
  then show ?case using settle_ord [of s e] settle_inv [of s e] by (auto intro: ord_trans)
qed (simp add: ord_refl)

end

text \<open>
  One reducer mirrors another: the effects of each step the first accepts carry a list of events
  for the second (\<open>image_of\<close>), which from every related state leads it to a related state. A
  refused event has no effects. Then the images of the effects of a whole stream keep the two in
  step.
\<close>

locale mirrored_reducer =
  fixes stp :: "'s \<Rightarrow> 'e \<Rightarrow> 'err + 's \<times> 'fx list"
    and mir :: "'t \<Rightarrow> 'f \<Rightarrow> 'err2 + 't \<times> 'fx2 list"
    and image_of :: "'fx list \<Rightarrow> 'f list"
    and legal :: "'e \<Rightarrow> bool"
    and rel :: "'s \<Rightarrow> 't \<Rightarrow> bool"
  assumes simulate: "rel s t \<Longrightarrow> legal e \<Longrightarrow> stp s e = Inr (s', fx) \<Longrightarrow>
      rel s' (run_events mir t (image_of fx))"
    and image_Nil: "image_of [] = []"
    and image_append: "image_of (xs @ ys) = image_of xs @ image_of ys"
begin

lemma run_simulates:
  "rel s t \<Longrightarrow> (\<forall>e \<in> set es. legal e) \<Longrightarrow>
     rel (run_events stp s es) (run_events mir t (image_of (run_effects stp s es)))"
proof (induction es arbitrary: s t)
  case Nil
  then show ?case by (simp add: image_Nil)
next
  case (Cons e es)
  show ?case
  proof (cases rule: settle_cases [of stp s e])
    case (refused er)
    with Cons show ?thesis by simp
  next
    case (stepped s' fx)
    with Cons.prems have "rel s' (run_events mir t (image_of fx))"
      by (intro simulate [of s t e]) auto
    with Cons stepped show ?thesis by (simp add: image_append run_events_append)
  qed
qed

end

end
