(* ===== verification/Proto_Types.thy ===== *)
theory Proto_Types
  imports Prelude "HOL-Library.List_Lexorder" "HOL-Library.Char_ord"
begin

text \<open>
  The signed wire types of \<open>nixfleet-proto\<close>: the rollout identifier, the resolved fleet
  (\<open>fleet_resolved.rs\<close>) with its selectors and the normalisation of its rollout policies, the
  per-channel rollout manifest (\<open>rollout_manifest.rs\<close>) and the trust roots (\<open>trust.rs\<close>). A Rust
  \<open>String\<close> is a \<open>string\<close> whose order is the lexicographic order of its characters, a
  \<open>HashMap\<close> an entry list in iteration order.
\<close>

section \<open>Rollout identifiers\<close>

datatype RolloutId = RolloutId (as_str: string)

definition RolloutId_new :: "string \<Rightarrow> string \<Rightarrow> RolloutId" where
  "RolloutId_new channel channel_ref = RolloutId (channel @ ''@'' @ channel_ref)"

definition RolloutId_channel :: "RolloutId \<Rightarrow> string" where
  "RolloutId_channel rid =
     (case split_once (CHR ''@'') (as_str rid) of Some (c, _) \<Rightarrow> c | None \<Rightarrow> as_str rid)"

definition RolloutId_channel_ref :: "RolloutId \<Rightarrow> string" where
  "RolloutId_channel_ref rid =
     (case split_once (CHR ''@'') (as_str rid) of Some (_, r) \<Rightarrow> r | None \<Rightarrow> [])"

section \<open>The resolved fleet\<close>

type_synonym ClosureHash = string
type_synonym ProbeName = string

datatype OnHealthFailure = Halt | RollbackAndHalt

fun OnHealthFailure_display :: "OnHealthFailure \<Rightarrow> string" where
  "OnHealthFailure_display Halt = ''halt''"
| "OnHealthFailure_display RollbackAndHalt = ''rollback-and-halt''"

record Selector =
  sel_tags :: "string list"
  sel_tags_any :: "string list"
  sel_hosts :: "string list"
  sel_channel :: "string option"
  sel_all :: bool

definition Selector_default :: Selector where
  "Selector_default =
     \<lparr>sel_tags = [], sel_tags_any = [], sel_hosts = [], sel_channel = None, sel_all = False\<rparr>"

record PolicyWave =
  pw_selector :: Selector
  pw_soak_minutes :: u32

record SystemdFailedUnits =
  sfu_max :: u32

record HealthGate =
  hg_systemd_failed_units :: "SystemdFailedUnits option"

record RolloutPolicy =
  pol_strategy :: string
  pol_waves :: "PolicyWave list"
  pol_health_gate :: HealthGate
  pol_on_health_failure :: OnHealthFailure

record Pin =
  pin_commit :: string
  pin_reason :: string
  pin_expires_at :: "instant option"

record Host =
  host_system :: string
  host_tags :: "string list"
  host_channel :: string
  host_closure_hash :: "ClosureHash option"
  host_pubkey :: "string option"
  host_pin :: "Pin option"

record Channel =
  ch_rollout_policy :: string
  ch_reconcile_interval_minutes :: u32
  ch_freshness_window :: u32
  ch_signing_interval_minutes :: u32

text \<open>\<open>freshness_window as u64 * 60\<close> cannot wrap: the product stays below \<open>2 ^ 38\<close>.\<close>

definition freshness_window_duration :: "Channel \<Rightarrow> duration" where
  "freshness_window_duration c = seconds (uint (ucast (ch_freshness_window c) * 60 :: u64))"

record Wave =
  wave_hosts :: "string list"
  wave_soak_minutes :: u32

record Edge =
  edge_gated :: string
  edge_gates :: string
  edge_reason :: "string option"

record ChannelEdge =
  ce_gates :: string
  ce_gated :: string
  ce_reason :: "string option"

record DisruptionBudget =
  db_selector :: Selector
  db_max_in_flight :: "u32 option"
  db_max_in_flight_pct :: "u32 option"

record Meta =
  meta_schema_version :: u32
  meta_signed_at :: "instant option"
  meta_ci_commit :: "string option"
  meta_signature_algorithm :: "string option"

definition signature_algorithm_or_default :: "Meta \<Rightarrow> string" where
  "signature_algorithm_or_default m =
     (case meta_signature_algorithm m of Some a \<Rightarrow> a | None \<Rightarrow> ''ed25519'')"

record FleetResolved =
  fl_schema_version :: u32
  fl_hosts :: "(string, Host) hmap"
  fl_channels :: "(string, Channel) hmap"
  fl_rollout_policies :: "(string, RolloutPolicy) hmap"
  fl_waves :: "(string, Wave list) hmap"
  fl_edges :: "Edge list"
  fl_channel_edges :: "ChannelEdge list"
  fl_disruption_budgets :: "DisruptionBudget list"
  fl_meta :: Meta

section \<open>Selectors\<close>

definition Selector_matches :: "Selector \<Rightarrow> string \<Rightarrow> Host \<Rightarrow> bool" where
  "Selector_matches s host_name host \<longleftrightarrow>
     (if sel_all s then True
      else if sel_hosts s \<noteq> [] \<and> host_name \<in> set (sel_hosts s) then True
      else if (case sel_channel s of Some ch \<Rightarrow> host_channel host = ch | None \<Rightarrow> False) then True
      else if sel_tags s \<noteq> [] \<and> list_all (\<lambda>t. t \<in> set (host_tags host)) (sel_tags s) then True
      else if sel_tags_any s \<noteq> [] \<and> list_ex (\<lambda>t. t \<in> set (host_tags host)) (sel_tags_any s) then True
      else False)"

definition Selector_resolve :: "Selector \<Rightarrow> (string \<times> Host) list \<Rightarrow> string list" where
  "Selector_resolve s hosts = map fst (filter (\<lambda>(n, h). Selector_matches s n h) hosts)"

definition Selector_summary :: "Selector \<Rightarrow> string" where
  "Selector_summary s =
     (if sel_all s then ''all''
      else case sel_channel s of
        Some channel \<Rightarrow> ''channel:'' @ channel
      | None \<Rightarrow>
        if sel_tags s \<noteq> [] then ''tags:'' @ join_with '','' (sort (sel_tags s))
        else if sel_tags_any s \<noteq> [] then ''tags_any:'' @ join_with '','' (sort (sel_tags_any s))
        else if sel_hosts s \<noteq> [] then ''hosts:'' @ join_with '','' (sort (sel_hosts s))
        else ''unknown'')"

section \<open>Normalisation of rollout policies\<close>

definition STRATEGY_ALL_AT_ONCE :: string where
  "STRATEGY_ALL_AT_ONCE = ''all-at-once''"

definition normalize_policy :: "RolloutPolicy \<Rightarrow> RolloutPolicy" where
  "normalize_policy p =
     (if pol_strategy p = STRATEGY_ALL_AT_ONCE \<and> pol_waves p = []
      then p\<lparr>pol_waves := [\<lparr>pw_selector = Selector_default\<lparr>sel_all := True\<rparr>, pw_soak_minutes = 0\<rparr>]\<rparr>
      else p)"

definition normalize_rollout_policies :: "FleetResolved \<Rightarrow> FleetResolved" where
  "normalize_rollout_policies fleet =
     fleet\<lparr>fl_rollout_policies :=
       map (\<lambda>(n, p). (n, normalize_policy p)) (fl_rollout_policies fleet)\<rparr>"

section \<open>Rollout manifests\<close>

record RolloutBudget =
  rb_selector :: Selector
  rb_hosts :: "string list"
  rb_max_in_flight :: "u32 option"
  rb_max_in_flight_pct :: "u32 option"

record HostWave =
  hw_hostname :: string
  hw_wave_index :: u32
  hw_target_closure :: ClosureHash

record RolloutManifest =
  rm_schema_version :: u32
  rm_display_name :: string
  rm_channel :: string
  rm_channel_ref :: string
  rm_fleet_resolved_hash :: string
  rm_host_set :: "HostWave list"
  rm_health_gate :: HealthGate
  rm_disruption_budgets :: "RolloutBudget list"
  rm_meta :: Meta

section \<open>The other signed sidecars\<close>

record RevocationEntry =
  rev_hostname :: string
  rev_not_before :: instant
  rev_reason :: "string option"
  rev_revoked_by :: "string option"

record Revocations =
  rv_schema_version :: u32
  rv_revocations :: "RevocationEntry list"
  rv_meta :: Meta

record BootstrapNonceEntry =
  bn_nonce :: string
  bn_hostname :: string
  bn_expires_at :: instant
  bn_minted_at :: "instant option"
  bn_minted_by :: "string option"

record BootstrapNonces =
  bns_schema_version :: u32
  bns_bootstrap_nonces :: "BootstrapNonceEntry list"
  bns_meta :: Meta

section \<open>Trust roots\<close>

record TrustedPubkey =
  tp_algorithm :: string
  tp_public :: string

record KeySlot =
  ks_current :: "TrustedPubkey option"
  ks_previous :: "TrustedPubkey option"
  ks_reject_before :: "instant option"
  ks_successor :: "TrustedPubkey option"
  ks_retire_at :: "instant option"

record TrustConfig =
  tc_schema_version :: u32
  tc_ci_release_key :: KeySlot
  tc_cache_keys :: "string list"
  tc_org_root_key :: "KeySlot option"
  tc_root_ca_pem :: "string option"
  tc_issuance_ca_pems :: "string list"

definition opt_to_list :: "'a option \<Rightarrow> 'a list" where
  "opt_to_list x = (case x of Some a \<Rightarrow> [a] | None \<Rightarrow> [])"

definition active_keys :: "KeySlot \<Rightarrow> TrustedPubkey list" where
  "active_keys ks = opt_to_list (ks_current ks) @ opt_to_list (ks_previous ks)"

definition active_keys_at :: "KeySlot \<Rightarrow> instant \<Rightarrow> TrustedPubkey list" where
  "active_keys_at ks now =
     (case (ks_successor ks, ks_retire_at ks) of
        (Some k, Some retire_at) \<Rightarrow> if now < retire_at then active_keys ks @ [k] else active_keys ks
      | _ \<Rightarrow> active_keys ks)"

section \<open>The wire state of a host\<close>

text \<open>
  The proto enumeration of the host states and the snapshot the control plane sends with a heartbeat
  reply (\<open>host_rollout_state.rs\<close>, \<open>agent_wire.rs\<close>).
\<close>

datatype WireState =
    WS_Pending | WS_Activating | WS_Deferred | WS_Soaking | WS_Converged | WS_Failed | WS_Reverted

fun wire_state_as_db_str :: "WireState \<Rightarrow> string" where
  "wire_state_as_db_str WS_Pending = ''Pending''"
| "wire_state_as_db_str WS_Activating = ''Activating''"
| "wire_state_as_db_str WS_Deferred = ''Deferred''"
| "wire_state_as_db_str WS_Soaking = ''Soaking''"
| "wire_state_as_db_str WS_Converged = ''Converged''"
| "wire_state_as_db_str WS_Failed = ''Failed''"
| "wire_state_as_db_str WS_Reverted = ''Reverted''"

text \<open>The parse error carries the text it refused.\<close>

definition wire_state_from_db_str :: "string \<Rightarrow> string + WireState" where
  "wire_state_from_db_str s =
     (if s = ''Pending'' then Inr WS_Pending
      else if s = ''Activating'' then Inr WS_Activating
      else if s = ''Deferred'' then Inr WS_Deferred
      else if s = ''Soaking'' then Inr WS_Soaking
      else if s = ''Converged'' then Inr WS_Converged
      else if s = ''Failed'' then Inr WS_Failed
      else if s = ''Reverted'' then Inr WS_Reverted
      else Inl s)"

definition wire_state_is_terminal_for_ordering :: "WireState \<Rightarrow> bool" where
  "wire_state_is_terminal_for_ordering s \<longleftrightarrow> s = WS_Converged \<or> s = WS_Deferred"

definition wire_state_is_in_flight :: "WireState \<Rightarrow> bool" where
  "wire_state_is_in_flight s \<longleftrightarrow> s = WS_Pending \<or> s = WS_Activating \<or> s = WS_Soaking"

definition wire_state_is_failed :: "WireState \<Rightarrow> bool" where
  "wire_state_is_failed s \<longleftrightarrow> s = WS_Failed \<or> s = WS_Reverted"

record HostRolloutSnapshot =
  snap_rollout_id :: RolloutId
  snap_hostname :: string
  snap_channel :: string
  snap_state :: WireState
  snap_target_closure :: ClosureHash
  snap_current_closure_at_dispatch :: "ClosureHash option"
  snap_current_closure :: "ClosureHash option"
  snap_dispatched_at :: instant
  snap_dispatch_acked_at :: "instant option"
  snap_activation_started_at :: "instant option"
  snap_activation_completed_at :: "instant option"
  snap_soak_due_at :: "instant option"
  snap_last_event_seq :: u64

section \<open>Lemmas\<close>

lemma RolloutId_channel_new: "CHR ''@'' \<notin> set c \<Longrightarrow> RolloutId_channel (RolloutId_new c r) = c"
  by (simp add: RolloutId_channel_def RolloutId_new_def split_once_append)

lemma RolloutId_channel_ref_new: "CHR ''@'' \<notin> set c \<Longrightarrow> RolloutId_channel_ref (RolloutId_new c r) = r"
  by (simp add: RolloutId_channel_ref_def RolloutId_new_def split_once_append)

lemma RolloutId_new_parts:
  "CHR ''@'' \<in> set (as_str rid) \<Longrightarrow>
     RolloutId_new (RolloutId_channel rid) (RolloutId_channel_ref rid) = rid"
  by (cases "split_once (CHR ''@'') (as_str rid)")
    (auto simp: RolloutId_new_def RolloutId_channel_def RolloutId_channel_ref_def
          dest!: split_once_SomeD intro: RolloutId.expand)

lemma Selector_matches_iff:
  "Selector_matches s n h \<longleftrightarrow>
     sel_all s \<or> n \<in> set (sel_hosts s) \<or> sel_channel s = Some (host_channel h)
     \<or> (sel_tags s \<noteq> [] \<and> set (sel_tags s) \<subseteq> set (host_tags h))
     \<or> set (sel_tags_any s) \<inter> set (host_tags h) \<noteq> {}"
  by (auto simp: Selector_matches_def list_all_iff list_ex_iff split: option.splits)

lemma Selector_resolve_set:
  "set (Selector_resolve s hosts) = {n. \<exists>h. (n, h) \<in> set hosts \<and> Selector_matches s n h}"
  by (force simp: Selector_resolve_def)

lemma distinct_Selector_resolve: "hwf hosts \<Longrightarrow> distinct (Selector_resolve s hosts)"
  by (simp add: Selector_resolve_def hwf_def distinct_map_filter)

lemma Selector_default_matches [simp]: "\<not> Selector_matches Selector_default n h"
  by (simp add: Selector_matches_iff Selector_default_def)

lemma normalize_policy_idem [simp]: "normalize_policy (normalize_policy p) = normalize_policy p"
  by (simp add: normalize_policy_def)

lemma active_keys_at_after:
  "ks_retire_at ks = Some t \<Longrightarrow> t \<le> now \<Longrightarrow> active_keys_at ks now = active_keys ks"
  by (simp add: active_keys_at_def split: option.splits)

lemma set_active_keys_at:
  "set (active_keys_at ks now) =
     {k. ks_current ks = Some k \<or> ks_previous ks = Some k
         \<or> (ks_successor ks = Some k \<and> (\<exists>t. ks_retire_at ks = Some t \<and> now < t))}"
  by (auto simp: active_keys_at_def active_keys_def opt_to_list_def split: option.splits)

lemma wire_state_text: "wire_state_from_db_str t = Inr s \<longleftrightarrow> t = wire_state_as_db_str s"
  by (cases s) (auto simp: wire_state_from_db_str_def)

lemma wire_state_partition:
  "wire_state_is_in_flight s \<or> wire_state_is_failed s \<or> wire_state_is_terminal_for_ordering s"
  "\<not> (wire_state_is_in_flight s \<and> wire_state_is_failed s)"
  "\<not> (wire_state_is_in_flight s \<and> wire_state_is_terminal_for_ordering s)"
  "\<not> (wire_state_is_failed s \<and> wire_state_is_terminal_for_ordering s)"
  by (cases s; simp add: wire_state_is_in_flight_def wire_state_is_failed_def
      wire_state_is_terminal_for_ordering_def)+

section \<open>Properties\<close>

text \<open>
  The rollout identifier is a faithful composite: a channel name without the separator and any
  reference are read back from it, so two different pairs never share an identifier.
\<close>

lemma rollout_id_roundtrip:
  assumes "CHR ''@'' \<notin> set c" "CHR ''@'' \<notin> set d"
  shows "RolloutId_channel (RolloutId_new c r) = c \<and> RolloutId_channel_ref (RolloutId_new c r) = r
    \<and> (RolloutId_new c r = RolloutId_new d s \<longleftrightarrow> c = d \<and> r = s)"
  using RolloutId_channel_new [OF assms(1), of r] RolloutId_channel_ref_new [OF assms(1), of r]
    RolloutId_channel_new [OF assms(2), of s] RolloutId_channel_ref_new [OF assms(2), of s] by metis



end
