(* ===== verification/Verify.thy ===== *)
theory Verify
  imports Proto_Types
begin

text \<open>
  The trust contract of \<open>nixfleet-reconciler\<close>: verification of signed sidecars (\<open>verify.rs\<close>), key
  rotation (\<open>trust_rotation.rs\<close>) and the signatures of probe evidence (\<open>evidence.rs\<close>). JSON, JCS,
  base64, the two signature schemes and SHA-256 come from third-party crates: they are the fields
  of a \<open>crypto\<close> record every definition takes. The text of their error messages is theirs too.
\<close>

section \<open>Third-party functions\<close>

record ('v, 'ek, 'pt, 'pk, 'ps) crypto =
  json_parse :: "string \<Rightarrow> string + 'v"
  jcs_to_string :: "'v \<Rightarrow> string + string"
  base64_decode :: "string \<Rightarrow> string + byte list"
  ed25519_from_bytes :: "byte list \<Rightarrow> string + 'ek"
  ed25519_verify_strict :: "'ek \<Rightarrow> byte list \<Rightarrow> byte list \<Rightarrow> bool"
  p256_point_from_bytes :: "byte list \<Rightarrow> string + 'pt"
  p256_key_from_point :: "'pt \<Rightarrow> string + 'pk"
  p256_sig_from_slice :: "byte list \<Rightarrow> string + 'ps"
  p256_normalize_s :: "'ps \<Rightarrow> 'ps option"
  p256_verify :: "'pk \<Rightarrow> byte list \<Rightarrow> 'ps \<Rightarrow> bool"
  sha256 :: "byte list \<Rightarrow> byte list"

section \<open>nixfleet-canonicalize: canonicalize\<close>

definition canonicalize :: "('v, 'ek, 'pt, 'pk, 'ps) crypto \<Rightarrow> string \<Rightarrow> string + string" where
  "canonicalize c input =
     (case json_parse c input of
        Inl e \<Rightarrow> Inl (''input is not valid JSON: '' @ e)
      | Inr value \<Rightarrow>
        case jcs_to_string c value of
          Inl e \<Rightarrow> Inl (''JCS canonicalization failed: '' @ e)
        | Inr s \<Rightarrow> Inr s)"

section \<open>verify.rs: types\<close>

text \<open>The trait \<open>SignedSidecar\<close> as a dictionary, with the type's \<open>Deserialize\<close> beside it.\<close>

record 'a SignedSidecar =
  sc_parse :: "string \<Rightarrow> string + 'a"
  sc_schema_version :: "'a \<Rightarrow> u32"
  sc_signed_at :: "'a \<Rightarrow> instant option"

definition fleet_sidecar :: "(string \<Rightarrow> string + FleetResolved) \<Rightarrow> FleetResolved SignedSidecar" where
  "fleet_sidecar parse =
     \<lparr>sc_parse = parse, sc_schema_version = fl_schema_version,
      sc_signed_at = (\<lambda>f. meta_signed_at (fl_meta f))\<rparr>"

definition nonces_sidecar :: "(string \<Rightarrow> string + BootstrapNonces) \<Rightarrow> BootstrapNonces SignedSidecar" where
  "nonces_sidecar parse =
     \<lparr>sc_parse = parse, sc_schema_version = bns_schema_version,
      sc_signed_at = (\<lambda>b. meta_signed_at (bns_meta b))\<rparr>"

definition revocations_sidecar :: "(string \<Rightarrow> string + Revocations) \<Rightarrow> Revocations SignedSidecar" where
  "revocations_sidecar parse =
     \<lparr>sc_parse = parse, sc_schema_version = rv_schema_version,
      sc_signed_at = (\<lambda>r. meta_signed_at (rv_meta r))\<rparr>"

definition manifest_sidecar :: "(string \<Rightarrow> string + RolloutManifest) \<Rightarrow> RolloutManifest SignedSidecar" where
  "manifest_sidecar parse =
     \<lparr>sc_parse = parse, sc_schema_version = rm_schema_version,
      sc_signed_at = (\<lambda>m. meta_signed_at (rm_meta m))\<rparr>"

definition ACCEPTED_SCHEMA_VERSION :: u32 where
  "ACCEPTED_SCHEMA_VERSION = 1"

definition CLOCK_SKEW_SLACK_SECS :: int where
  "CLOCK_SKEW_SLACK_SECS = 60"

record 'a Verified =
  v_inner :: 'a
  v_signed_at :: instant

text \<open>\<open>VE_Panic\<close> stands for a panic: a freshness window beyond chrono's range (\<open>i64\<close> milliseconds).\<close>

datatype VerifyError =
    VE_Parse string
  | VE_BadSignature
  | VE_NotSigned
  | VE_Stale instant instant duration
  | VE_FutureDated instant instant int
  | VE_RejectedBeforeTimestamp instant instant
  | VE_SchemaVersionUnsupported u32
  | VE_Canonicalize string
  | VE_UnsupportedAlgorithm string
  | VE_BadPubkeyEncoding string string
  | VE_NoTrustRoots
  | VE_Panic string

section \<open>verify.rs: signatures\<close>

definition verify_ed25519 ::
  "('v, 'ek, 'pt, 'pk, 'ps) crypto \<Rightarrow> byte list \<Rightarrow> byte list \<Rightarrow> string \<Rightarrow> VerifyError + unit" where
  "verify_ed25519 c canonical_bytes signature public_b64 =
     (case base64_decode c public_b64 of
        Inl e \<Rightarrow> Inl (VE_BadPubkeyEncoding ''ed25519'' (''base64 decode failed: '' @ e))
      | Inr public_bytes \<Rightarrow>
        if length public_bytes \<noteq> 32
        then Inl (VE_BadPubkeyEncoding ''ed25519'' (''expected 32 bytes, got '' @ show_nat (length public_bytes)))
        else case ed25519_from_bytes c public_bytes of
          Inl e \<Rightarrow> Inl (VE_BadPubkeyEncoding ''ed25519'' e)
        | Inr verifying_key \<Rightarrow>
          if length signature \<noteq> 64 then Inl VE_BadSignature
          else if ed25519_verify_strict c verifying_key canonical_bytes signature then Inr ()
          else Inl VE_BadSignature)"

text \<open>The double bar of the length message is U+2016, three bytes of UTF-8.\<close>

definition verify_ecdsa_p256 ::
  "('v, 'ek, 'pt, 'pk, 'ps) crypto \<Rightarrow> byte list \<Rightarrow> byte list \<Rightarrow> string \<Rightarrow> VerifyError + unit" where
  "verify_ecdsa_p256 c canonical_bytes signature public_b64 =
     (case base64_decode c public_b64 of
        Inl e \<Rightarrow> Inl (VE_BadPubkeyEncoding ''ecdsa-p256'' (''base64 decode failed: '' @ e))
      | Inr public_bytes \<Rightarrow>
        if length public_bytes \<noteq> 64
        then Inl (VE_BadPubkeyEncoding ''ecdsa-p256''
               (''expected 64 bytes (X '' @ [CHR 0xE2, CHR 0x80, CHR 0x96] @ '' Y uncompressed), got ''
                @ show_nat (length public_bytes)))
        else case p256_point_from_bytes c (0x04 # public_bytes) of
          Inl e \<Rightarrow> Inl (VE_BadPubkeyEncoding ''ecdsa-p256'' (''SEC1 decode failed: '' @ e))
        | Inr point \<Rightarrow>
          case p256_key_from_point c point of
            Inl e \<Rightarrow> Inl (VE_BadPubkeyEncoding ''ecdsa-p256'' (''not on curve / invalid point: '' @ e))
          | Inr verifying_key \<Rightarrow>
            case p256_sig_from_slice c signature of
              Inl _ \<Rightarrow> Inl VE_BadSignature
            | Inr sig \<Rightarrow>
              let sig = (case p256_normalize_s c sig of Some s \<Rightarrow> s | None \<Rightarrow> sig)
              in if p256_verify c verifying_key canonical_bytes sig then Inr () else Inl VE_BadSignature)"

text \<open>
  The loop over the trusted keys: whether a supported key was tried, and whether one verified.
\<close>

fun try_keys ::
  "('v, 'ek, 'pt, 'pk, 'ps) crypto \<Rightarrow> byte list \<Rightarrow> byte list \<Rightarrow> TrustedPubkey list \<Rightarrow> bool \<Rightarrow> bool \<times> bool" where
  "try_keys c canonical signature [] attempted = (attempted, False)"
| "try_keys c canonical signature (key # keys) attempted =
     (if tp_algorithm key = ''ed25519''
      then if verify_ed25519 c canonical signature (tp_public key) = Inr () then (True, True)
           else try_keys c canonical signature keys True
      else if tp_algorithm key = ''ecdsa-p256''
      then if verify_ecdsa_p256 c canonical signature (tp_public key) = Inr () then (True, True)
           else try_keys c canonical signature keys True
      else try_keys c canonical signature keys attempted)"

definition verify_signature_against_trust_roots ::
  "('v, 'ek, 'pt, 'pk, 'ps) crypto \<Rightarrow> byte list \<Rightarrow> byte list \<Rightarrow> TrustedPubkey list \<Rightarrow> VerifyError + string" where
  "verify_signature_against_trust_roots c signed_bytes signature trusted_keys =
     (case trusted_keys of
        [] \<Rightarrow> Inl VE_NoTrustRoots
      | key0 # _ \<Rightarrow>
        case from_utf8 signed_bytes of
          None \<Rightarrow> Inl (VE_Parse ''invalid utf-8'')
        | Some raw_str \<Rightarrow>
          case json_parse c raw_str of
            Inl e \<Rightarrow> Inl (VE_Parse e)
          | Inr _ \<Rightarrow>
            case canonicalize c raw_str of
              Inl e \<Rightarrow> Inl (VE_Canonicalize e)
            | Inr canonical \<Rightarrow>
              case try_keys c (as_bytes canonical) signature trusted_keys False of
                (attempted, verified) \<Rightarrow>
                  if verified then Inr canonical
                  else if \<not> attempted then Inl (VE_UnsupportedAlgorithm (tp_algorithm key0))
                  else Inl VE_BadSignature)"

section \<open>verify.rs: freshness\<close>

definition CHRONO_MAX :: duration where
  "CHRONO_MAX = 9223372036854775807 * 1000000"

definition finish_sidecar_verification ::
  "'a SignedSidecar \<Rightarrow> string \<Rightarrow> instant \<Rightarrow> duration \<Rightarrow> instant option \<Rightarrow> VerifyError + 'a Verified" where
  "finish_sidecar_verification sc canonical now freshness_window reject_before =
     (case sc_parse sc canonical of
        Inl e \<Rightarrow> Inl (VE_Parse e)
      | Inr payload \<Rightarrow>
        if sc_schema_version sc payload \<noteq> ACCEPTED_SCHEMA_VERSION
        then Inl (VE_SchemaVersionUnsupported (sc_schema_version sc payload))
        else case sc_signed_at sc payload of
          None \<Rightarrow> Inl VE_NotSigned
        | Some signed_at \<Rightarrow>
          case (case reject_before of Some rb \<Rightarrow> if signed_at < rb then Some rb else None | None \<Rightarrow> None) of
            Some rb \<Rightarrow> Inl (VE_RejectedBeforeTimestamp signed_at rb)
          | None \<Rightarrow>
            if freshness_window > CHRONO_MAX \<or> freshness_window + seconds CLOCK_SKEW_SLACK_SECS > CHRONO_MAX
            then Inl (VE_Panic ''freshness_window fits in i64 nanoseconds - multi-century windows are a bug'')
            else
              let effective_window = freshness_window + seconds CLOCK_SKEW_SLACK_SECS;
                  elapsed = now - signed_at
              in if elapsed > effective_window then Inl (VE_Stale signed_at now freshness_window)
                 else if - elapsed > seconds CLOCK_SKEW_SLACK_SECS
                 then Inl (VE_FutureDated signed_at now CLOCK_SKEW_SLACK_SECS)
                 else Inr \<lparr>v_inner = payload, v_signed_at = signed_at\<rparr>)"

definition verify_signed_sidecar ::
  "('v, 'ek, 'pt, 'pk, 'ps) crypto \<Rightarrow> 'a SignedSidecar \<Rightarrow> byte list \<Rightarrow> byte list \<Rightarrow> TrustedPubkey list \<Rightarrow>
   instant \<Rightarrow> duration \<Rightarrow> instant option \<Rightarrow> VerifyError + 'a Verified" where
  "verify_signed_sidecar c sc signed_bytes signature trusted_keys now freshness_window reject_before =
     (case verify_signature_against_trust_roots c signed_bytes signature trusted_keys of
        Inl e \<Rightarrow> Inl e
      | Inr canonical \<Rightarrow> finish_sidecar_verification sc canonical now freshness_window reject_before)"

definition verify_artifact ::
  "('v, 'ek, 'pt, 'pk, 'ps) crypto \<Rightarrow> (string \<Rightarrow> string + FleetResolved) \<Rightarrow> byte list \<Rightarrow> byte list \<Rightarrow>
   TrustedPubkey list \<Rightarrow> instant \<Rightarrow> duration \<Rightarrow> instant option \<Rightarrow> VerifyError + FleetResolved Verified" where
  "verify_artifact c parse signed_bytes signature trusted_keys now freshness_window reject_before =
     (case verify_signed_sidecar c (fleet_sidecar parse) signed_bytes signature trusted_keys now
             freshness_window reject_before of
        Inl e \<Rightarrow> Inl e
      | Inr verified \<Rightarrow> Inr (verified\<lparr>v_inner := normalize_rollout_policies (v_inner verified)\<rparr>))"

definition verify_revocations ::
  "('v, 'ek, 'pt, 'pk, 'ps) crypto \<Rightarrow> (string \<Rightarrow> string + Revocations) \<Rightarrow> byte list \<Rightarrow> byte list \<Rightarrow>
   TrustedPubkey list \<Rightarrow> instant \<Rightarrow> duration \<Rightarrow> instant option \<Rightarrow> VerifyError + Revocations Verified" where
  "verify_revocations c parse = verify_signed_sidecar c (revocations_sidecar parse)"

definition verify_bootstrap_nonces ::
  "('v, 'ek, 'pt, 'pk, 'ps) crypto \<Rightarrow> (string \<Rightarrow> string + BootstrapNonces) \<Rightarrow> byte list \<Rightarrow> byte list \<Rightarrow>
   TrustedPubkey list \<Rightarrow> instant \<Rightarrow> duration \<Rightarrow> instant option \<Rightarrow> VerifyError + BootstrapNonces Verified" where
  "verify_bootstrap_nonces c parse = verify_signed_sidecar c (nonces_sidecar parse)"

definition verify_rollout_manifest ::
  "('v, 'ek, 'pt, 'pk, 'ps) crypto \<Rightarrow> (string \<Rightarrow> string + RolloutManifest) \<Rightarrow> byte list \<Rightarrow> byte list \<Rightarrow>
   TrustedPubkey list \<Rightarrow> instant \<Rightarrow> duration \<Rightarrow> instant option \<Rightarrow> VerifyError + RolloutManifest Verified" where
  "verify_rollout_manifest c parse = verify_signed_sidecar c (manifest_sidecar parse)"

section \<open>verify.rs: hashes\<close>

definition hex_digit :: "nat \<Rightarrow> char" where
  "hex_digit n = ''0123456789abcdef'' ! n"

fun hex_lowercase :: "byte list \<Rightarrow> string" where
  "hex_lowercase [] = []"
| "hex_lowercase (b # bs) =
     hex_digit (unat (drop_bit 4 b)) # hex_digit (unat (and b 0x0F)) # hex_lowercase bs"

definition canonical_hash_from_bytes :: "('v, 'ek, 'pt, 'pk, 'ps) crypto \<Rightarrow> byte list \<Rightarrow> VerifyError + string" where
  "canonical_hash_from_bytes c bytes =
     (case from_utf8 bytes of
        None \<Rightarrow> Inl (VE_Canonicalize ''input not valid UTF-8'')
      | Some s \<Rightarrow>
        case canonicalize c s of
          Inl e \<Rightarrow> Inl (VE_Canonicalize e)
        | Inr canonical \<Rightarrow> Inr (hex_lowercase (sha256 c (as_bytes canonical))))"

definition compute_canonical_hash ::
  "('v, 'ek, 'pt, 'pk, 'ps) crypto \<Rightarrow> ('a \<Rightarrow> string + string) \<Rightarrow> 'a \<Rightarrow> VerifyError + string" where
  "compute_canonical_hash c json_to_string value =
     (case json_to_string value of
        Inl e \<Rightarrow> Inl (VE_Parse e)
      | Inr raw \<Rightarrow>
        case canonicalize c raw of
          Inl e \<Rightarrow> Inl (VE_Canonicalize e)
        | Inr canonical \<Rightarrow> Inr (hex_lowercase (sha256 c (as_bytes canonical))))"

section \<open>trust\_rotation.rs\<close>

record RotateTrustRoot =
  rt_which :: string
  rt_retire_at :: instant

definition is_rotation_due :: "KeySlot \<Rightarrow> instant \<Rightarrow> instant option" where
  "is_rotation_due slot now =
     (case ks_retire_at slot of
        None \<Rightarrow> None
      | Some retire_at \<Rightarrow>
        case ks_successor slot of
          None \<Rightarrow> None
        | Some _ \<Rightarrow> if now < retire_at then None else Some retire_at)"

definition check_trust_rotations :: "TrustConfig \<Rightarrow> instant \<Rightarrow> RotateTrustRoot list" where
  "check_trust_rotations trust now =
     (case is_rotation_due (tc_ci_release_key trust) now of
        Some retire_at \<Rightarrow> [\<lparr>rt_which = ''ciReleaseKey'', rt_retire_at = retire_at\<rparr>]
      | None \<Rightarrow> [])
     @ (case tc_org_root_key trust of
          None \<Rightarrow> []
        | Some org_root \<Rightarrow>
          case is_rotation_due org_root now of
            Some retire_at \<Rightarrow> [\<lparr>rt_which = ''orgRootKey'', rt_retire_at = retire_at\<rparr>]
          | None \<Rightarrow> [])"

section \<open>evidence.rs\<close>

datatype SignatureStatus =
    SS_Verified | SS_Unsigned | SS_NoPubkey | SS_Mismatch | SS_Malformed | SS_WrongAlgorithm

definition counts_for_gate :: "SignatureStatus \<Rightarrow> bool" where
  "counts_for_gate s \<longleftrightarrow> \<not> (s = SS_Mismatch \<or> s = SS_Malformed)"

text \<open>
  \<open>parse_key\<close> stands for \<open>ssh_key\<close> and \<open>ed25519_dalek\<close>: an OpenSSH line gives an ed25519 key, another
  algorithm (\<open>None\<close>) or an error; \<open>ed_verify\<close> is the non-strict check of \<open>ed25519_dalek\<close>.
\<close>

definition verify_canonical_payload ::
  "(string \<Rightarrow> string + 'ek option) \<Rightarrow> ('ek \<Rightarrow> byte list \<Rightarrow> byte list \<Rightarrow> bool) \<Rightarrow>
   (string \<Rightarrow> string + byte list) \<Rightarrow> byte list \<Rightarrow> string option \<Rightarrow> string option \<Rightarrow> SignatureStatus" where
  "verify_canonical_payload parse_key ed_verify b64 canonical pubkey_openssh signature =
     (case signature of
        None \<Rightarrow> SS_Unsigned
      | Some sig_b64 \<Rightarrow>
        case pubkey_openssh of
          None \<Rightarrow> SS_NoPubkey
        | Some pubkey_str \<Rightarrow>
          case parse_key pubkey_str of
            Inl _ \<Rightarrow> SS_Malformed
          | Inr None \<Rightarrow> SS_WrongAlgorithm
          | Inr (Some pubkey) \<Rightarrow>
            case b64 sig_b64 of
              Inl _ \<Rightarrow> SS_Malformed
            | Inr sig_bytes \<Rightarrow>
              if length sig_bytes \<noteq> 64 then SS_Malformed
              else if ed_verify pubkey canonical sig_bytes then SS_Verified else SS_Mismatch)"

definition verify_event ::
  "(string \<Rightarrow> string + 'ek option) \<Rightarrow> ('ek \<Rightarrow> byte list \<Rightarrow> byte list \<Rightarrow> bool) \<Rightarrow>
   (string \<Rightarrow> string + byte list) \<Rightarrow> ('a \<Rightarrow> string + byte list) \<Rightarrow> string option \<Rightarrow> string option \<Rightarrow> 'a \<Rightarrow>
   SignatureStatus" where
  "verify_event parse_key ed_verify b64 jcs_to_vec signature pubkey_openssh payload =
     (case jcs_to_vec payload of
        Inl _ \<Rightarrow> SS_Malformed
      | Inr canonical \<Rightarrow> verify_canonical_payload parse_key ed_verify b64 canonical pubkey_openssh signature)"


section \<open>What acceptance means\<close>

definition key_verifies ::
  "('v, 'ek, 'pt, 'pk, 'ps) crypto \<Rightarrow> byte list \<Rightarrow> byte list \<Rightarrow> TrustedPubkey \<Rightarrow> bool" where
  "key_verifies c canonical signature key \<longleftrightarrow>
     tp_algorithm key = ''ed25519'' \<and> verify_ed25519 c canonical signature (tp_public key) = Inr ()
     \<or> tp_algorithm key = ''ecdsa-p256'' \<and> verify_ecdsa_p256 c canonical signature (tp_public key) = Inr ()"

definition supported :: "TrustedPubkey \<Rightarrow> bool" where
  "supported key \<longleftrightarrow> tp_algorithm key = ''ed25519'' \<or> tp_algorithm key = ''ecdsa-p256''"

definition fresh :: "instant \<Rightarrow> duration \<Rightarrow> instant option \<Rightarrow> instant \<Rightarrow> bool" where
  "fresh now window reject_before signed_at \<longleftrightarrow>
     (case reject_before of Some rb \<Rightarrow> rb \<le> signed_at | None \<Rightarrow> True)
     \<and> signed_at - seconds 60 \<le> now \<and> now \<le> signed_at + window + seconds 60
     \<and> window + seconds 60 \<le> CHRONO_MAX"

text \<open>
  A concrete instance of the third-party functions: JSON text is its own value and its own canonical
  form, base64 is the identity on bytes, and an ed25519 signature verifies when the first byte of
  the key is the first byte of the signature.
\<close>

definition sample_crypto :: "(string, byte list, byte list, byte list, byte list) crypto" where
  "sample_crypto =
     \<lparr>json_parse = Inr, jcs_to_string = Inr, base64_decode = (\<lambda>s. Inr (as_bytes s)),
      ed25519_from_bytes = Inr, ed25519_verify_strict = (\<lambda>k m s. hd k = hd s),
      p256_point_from_bytes = Inr, p256_key_from_point = Inr, p256_sig_from_slice = Inr,
      p256_normalize_s = (\<lambda>s. None), p256_verify = (\<lambda>k m s. False), sha256 = id\<rparr>"

definition sample_key :: TrustedPubkey where
  "sample_key = \<lparr>tp_algorithm = ''ed25519'', tp_public = replicate 32 (CHR ''k'')\<rparr>"

definition sample_signature :: "byte list" where
  "sample_signature = replicate 64 (word_of_nat (of_char (CHR ''k'')))"

definition all_at_once_policy :: RolloutPolicy where
  "all_at_once_policy =
     \<lparr>pol_strategy = STRATEGY_ALL_AT_ONCE, pol_waves = [],
      pol_health_gate = \<lparr>hg_systemd_failed_units = None\<rparr>, pol_on_health_failure = Halt\<rparr>"

definition sample_fleet :: FleetResolved where
  "sample_fleet =
     \<lparr>fl_schema_version = 1, fl_hosts = [], fl_channels = [],
      fl_rollout_policies = [(''p'', all_at_once_policy)], fl_waves = [], fl_edges = [],
      fl_channel_edges = [], fl_disruption_budgets = [],
      fl_meta = \<lparr>meta_schema_version = 1, meta_signed_at = Some 100, meta_ci_commit = None,
                 meta_signature_algorithm = None\<rparr>\<rparr>"

section \<open>Signatures\<close>

lemma try_keys_verified:
  "snd (try_keys c canonical sig ks a) \<longleftrightarrow> (\<exists>k \<in> set ks. key_verifies c canonical sig k)"
  by (induction ks arbitrary: a) (auto simp: key_verifies_def)

lemma try_keys_attempted:
  "\<not> snd (try_keys c canonical sig ks a) \<Longrightarrow> fst (try_keys c canonical sig ks a) \<longleftrightarrow> a \<or> (\<exists>k \<in> set ks. supported k)"
  by (induction ks arbitrary: a) (auto simp: supported_def split: if_splits)

lemma canonicalize_parses: "canonicalize c s = Inr canonical \<Longrightarrow> \<exists>v. json_parse c s = Inr v"
  by (auto simp: canonicalize_def split: sum.splits)

lemma trust_roots_Inr_iff:
  "verify_signature_against_trust_roots c bytes sig ks = Inr canonical \<longleftrightarrow>
     (\<exists>raw. from_utf8 bytes = Some raw \<and> canonicalize c raw = Inr canonical)
     \<and> (\<exists>k \<in> set ks. key_verifies c (as_bytes canonical) sig k)"
  using try_keys_verified [of c "as_bytes canonical" sig ks False]
  by (auto simp: verify_signature_against_trust_roots_def dest: canonicalize_parses
      split: list.splits option.splits sum.splits prod.splits if_splits)

lemma finish_Inr_iff:
  "finish_sidecar_verification sc canonical now window rb = Inr v \<longleftrightarrow>
     sc_parse sc canonical = Inr (v_inner v) \<and> sc_schema_version sc (v_inner v) = 1
     \<and> sc_signed_at sc (v_inner v) = Some (v_signed_at v) \<and> fresh now window rb (v_signed_at v)"
  by (cases v)
    (auto simp: finish_sidecar_verification_def fresh_def ACCEPTED_SCHEMA_VERSION_def
      CLOCK_SKEW_SLACK_SECS_def seconds_def Let_def split: sum.splits option.splits if_splits)

section \<open>Hexadecimal\<close>

lemma byte_nibbles:
  "unat (drop_bit 4 b) = unat b div 16" "unat (and b 0x0F) = unat b mod 16" for b :: byte
proof -
  show "unat (drop_bit 4 b) = unat b div 16"
    by (simp add: drop_bit_eq_div unat_div)
  have "and b 0x0F = take_bit 4 b" by (simp add: take_bit_eq_mask mask_eq_exp_minus_1)
  then show "unat (and b 0x0F) = unat b mod 16"
    by (simp add: take_bit_eq_mod unat_mod)
qed

lemma byte_nibble_less: "unat b div 16 < 16" for b :: byte
proof -
  have "unat b < 2 ^ LENGTH(8)" by (rule unsigned_less)
  then show ?thesis by (simp add: less_mult_imp_div_less)
qed

lemma hex_digit_inj: "m < 16 \<Longrightarrow> n < 16 \<Longrightarrow> hex_digit m = hex_digit n \<longleftrightarrow> m = n"
  unfolding hex_digit_def by (rule nth_eq_iff_index_eq) auto

lemma hex_lowercase_inj: "hex_lowercase xs = hex_lowercase ys \<longleftrightarrow> xs = ys"
proof (induction xs arbitrary: ys)
  case Nil
  then show ?case by (cases ys) auto
next
  case (Cons x xs)
  show ?case
  proof (cases ys)
    case (Cons y zs)
    have "unat x div 16 = unat y div 16 \<and> unat x mod 16 = unat y mod 16 \<longleftrightarrow> x = y"
      by (metis div_mult_mod_eq unsigned_word_eqI)
    with Cons Cons.IH [of zs] show ?thesis
      by (auto simp: byte_nibbles hex_digit_inj byte_nibble_less)
  qed simp
qed

lemma length_hex_lowercase: "length (hex_lowercase bs) = 2 * length bs"
  by (induction bs) auto

lemma verify_artifact_Inr:
  "verify_artifact c parse bytes sig ks now window rb = Inr v \<longleftrightarrow>
     (\<exists>w. verify_signed_sidecar c (fleet_sidecar parse) bytes sig ks now window rb = Inr w
        \<and> v = w\<lparr>v_inner := normalize_rollout_policies (v_inner w)\<rparr>)"
  by (auto simp: verify_artifact_def split: sum.splits)

lemma hget_normalize:
  "hget (fl_rollout_policies (normalize_rollout_policies f)) n
     = map_option normalize_policy (hget (fl_rollout_policies f) n)"
proof -
  have "map_of (map (\<lambda>(n, p). (n, normalize_policy p)) ps) n = map_option normalize_policy (map_of ps n)" for ps
    by (induction ps) auto
  then show ?thesis by (simp add: normalize_rollout_policies_def hget_def)
qed

section \<open>The sample instance\<close>

lemma sample_roots: "verify_signature_against_trust_roots sample_crypto [] sample_signature [sample_key] = Inr []"
  by (simp add: trust_roots_Inr_iff from_utf8_def canonicalize_def key_verifies_def verify_ed25519_def
      sample_crypto_def sample_key_def sample_signature_def as_bytes_def)

lemma sample_accepts:
  "verify_signed_sidecar sample_crypto (fleet_sidecar (\<lambda>_. Inr sample_fleet)) [] sample_signature [sample_key] 100 0 None
     = Inr \<lparr>v_inner = sample_fleet, v_signed_at = 100\<rparr>"
  by (simp add: verify_signed_sidecar_def sample_roots finish_sidecar_verification_def fleet_sidecar_def
      sample_fleet_def ACCEPTED_SCHEMA_VERSION_def CLOCK_SKEW_SLACK_SECS_def CHRONO_MAX_def seconds_def)

section \<open>Properties\<close>

text \<open>
  C6. A signed sidecar is accepted exactly when its bytes are UTF-8 JSON, some trusted key of a
  supported algorithm verifies the signature over their canonical form, that form parses at schema
  version 1, it is signed, not before the compromise switch, and at most the freshness window old
  and at most the clock-skew slack ahead, both with 60 seconds of slack.
\<close>

theorem sidecar_accepted_iff:
  "verify_signed_sidecar c sc bytes sig keys now window rb = Inr v \<longleftrightarrow>
     (\<exists>raw canonical.
        from_utf8 bytes = Some raw \<and> canonicalize c raw = Inr canonical
        \<and> (\<exists>k \<in> set keys. key_verifies c (as_bytes canonical) sig k)
        \<and> sc_parse sc canonical = Inr (v_inner v) \<and> sc_schema_version sc (v_inner v) = 1
        \<and> sc_signed_at sc (v_inner v) = Some (v_signed_at v)
        \<and> fresh now window rb (v_signed_at v))"
proof -
  have "verify_signed_sidecar c sc bytes sig keys now window rb = Inr v \<longleftrightarrow>
      (\<exists>canonical. verify_signature_against_trust_roots c bytes sig keys = Inr canonical
         \<and> finish_sidecar_verification sc canonical now window rb = Inr v)"
    by (auto simp: verify_signed_sidecar_def split: sum.splits)
  then show ?thesis by (auto simp: trust_roots_Inr_iff finish_Inr_iff)
qed

text \<open>
  The compromise switch comes first: a validly signed artifact of the accepted schema signed
  before \<open>reject_before\<close> is refused with that error, however stale or future-dated it also is.
\<close>

lemma reject_before_first:
  assumes "verify_signature_against_trust_roots c bytes sig keys = Inr canonical"
    "sc_parse sc canonical = Inr p" "sc_schema_version sc p = 1" "sc_signed_at sc p = Some t" "t < rb"
  shows "verify_signed_sidecar c sc bytes sig keys now window (Some rb) = Inl (VE_RejectedBeforeTimestamp t rb)"
  using assms by (simp add: verify_signed_sidecar_def finish_sidecar_verification_def ACCEPTED_SCHEMA_VERSION_def)

text \<open>
  Every consumer of a verified fleet sees normalised policies: an \<open>all-at-once\<close> policy signed
  without waves has one match-all wave of zero soak, and a policy signed with waves is untouched.
\<close>

lemma verified_fleet_policies:
  assumes "verify_artifact c parse bytes sig keys now window rb = Inr v"
    "hget (fl_rollout_policies (v_inner v)) n = Some p"
  shows "\<exists>w q. verify_signed_sidecar c (fleet_sidecar parse) bytes sig keys now window rb = Inr w
     \<and> hget (fl_rollout_policies (v_inner w)) n = Some q
     \<and> p = (if pol_strategy q = ''all-at-once'' \<and> pol_waves q = []
            then q\<lparr>pol_waves := [\<lparr>pw_selector = Selector_default\<lparr>sel_all := True\<rparr>, pw_soak_minutes = 0\<rparr>]\<rparr>
            else q)"
proof -
  obtain w where w: "verify_signed_sidecar c (fleet_sidecar parse) bytes sig keys now window rb = Inr w"
      "v = w\<lparr>v_inner := normalize_rollout_policies (v_inner w)\<rparr>"
    using assms(1) by (auto simp: verify_artifact_Inr)
  with assms(2) obtain q where "hget (fl_rollout_policies (v_inner w)) n = Some q" "p = normalize_policy q"
    by (auto simp: hget_normalize)
  with w(1) show ?thesis unfolding normalize_policy_def STRATEGY_ALL_AT_ONCE_def by blast
qed

text \<open>
  Key rotation hands over without a gap: of a slot with a successor and a deadline, at every
  instant either the successor's signatures are accepted and no rotation is asked for, or the
  deadline has passed, only the current and previous keys count, and the rotation is due.
\<close>

lemma rotation_handover:
  assumes "ks_successor slot = Some k" "ks_retire_at slot = Some t"
  shows "now < t \<and> active_keys_at slot now = active_keys slot @ [k] \<and> is_rotation_due slot now = None
     \<or> t \<le> now \<and> active_keys_at slot now = active_keys slot \<and> is_rotation_due slot now = Some t"
  using assms by (auto simp: active_keys_at_def is_rotation_due_def)

text \<open>
  The hexadecimal text of a digest loses nothing: distinct digests have distinct texts, of two
  characters per byte.
\<close>

lemma hex_text_faithful:
  "(hex_lowercase xs = hex_lowercase ys \<longleftrightarrow> xs = ys) \<and> length (hex_lowercase xs) = 2 * length xs"
  by (simp add: hex_lowercase_inj length_hex_lowercase)

end
