(* ===== verification/Manifest.thy ===== *)
theory Manifest
  imports Verify "HOL-Library.Multiset"
begin

text \<open>
  The projection of one channel of the resolved fleet onto its rollout manifest
  (\<open>nixfleet-reconciler/src/manifest.rs\<close>), which the release tool and the control plane both run: its
  result must not depend on the iteration order of the fleet's hash maps, because the bytes are
  signed.
\<close>

section \<open>manifest.rs\<close>

definition host_wave_of :: "string \<Rightarrow> Wave list option \<Rightarrow> string \<times> Host \<Rightarrow> HostWave list" where
  "host_wave_of channel waves entry =
     (case entry of (hostname, host) \<Rightarrow>
        if host_channel host \<noteq> channel then []
        else case host_closure_hash host of
          None \<Rightarrow> []
        | Some target_closure \<Rightarrow>
          let wave_index =
                (case waves of
                   Some ws \<Rightarrow>
                     (case position (\<lambda>w. hostname \<in> set (wave_hosts w)) ws of
                        Some i \<Rightarrow> usize_as_u32 i
                      | None \<Rightarrow> 0)
                 | None \<Rightarrow> 0)
          in [\<lparr>hw_hostname = hostname, hw_wave_index = wave_index, hw_target_closure = target_closure\<rparr>])"

definition snapshot_budget :: "(string, Host) hmap \<Rightarrow> DisruptionBudget \<Rightarrow> RolloutBudget" where
  "snapshot_budget hosts b =
     \<lparr>rb_selector = db_selector b, rb_hosts = sort (Selector_resolve (db_selector b) hosts),
      rb_max_in_flight = db_max_in_flight b, rb_max_in_flight_pct = db_max_in_flight_pct b\<rparr>"

definition project_manifest ::
  "FleetResolved \<Rightarrow> string \<Rightarrow> string \<Rightarrow> instant \<Rightarrow> string option \<Rightarrow> string \<Rightarrow>
   string + RolloutManifest option" where
  "project_manifest fleet channel fleet_resolved_hash signed_at ci_commit signature_algorithm =
     (case hget (fl_channels fleet) channel of
        None \<Rightarrow> Inl (''channel '' @ channel @ '' missing from fleet.channels'')
      | Some channel_def \<Rightarrow>
        case hget (fl_rollout_policies fleet) (ch_rollout_policy channel_def) of
          None \<Rightarrow> Inl (''rollout policy '' @ ch_rollout_policy channel_def @ '' for channel '' @ channel
                        @ '' not found in fleet.rolloutPolicies'')
        | Some policy \<Rightarrow>
          let waves = hget (fl_waves fleet) channel;
              host_set = concat (map (host_wave_of channel waves) (fl_hosts fleet))
          in if host_set = [] then Inr None
             else Inr (Some
               \<lparr>rm_schema_version = 1,
                rm_display_name = channel @ ''@''
                  @ (case ci_commit of Some c \<Rightarrow> take_chars 8 c | None \<Rightarrow> ''unknown''),
                rm_channel = channel,
                rm_channel_ref = (case ci_commit of Some c \<Rightarrow> c | None \<Rightarrow> []),
                rm_fleet_resolved_hash = fleet_resolved_hash,
                rm_host_set = sort_key hw_hostname host_set,
                rm_health_gate = pol_health_gate policy,
                rm_disruption_budgets = map (snapshot_budget (fl_hosts fleet)) (fl_disruption_budgets fleet),
                rm_meta = \<lparr>meta_schema_version = 1, meta_signed_at = Some signed_at,
                           meta_ci_commit = ci_commit,
                           meta_signature_algorithm = Some signature_algorithm\<rparr>\<rparr>))"

definition compute_rollout_id_for_channel ::
  "FleetResolved \<Rightarrow> string \<Rightarrow> string \<Rightarrow> string + string option" where
  "compute_rollout_id_for_channel fleet fleet_resolved_hash channel =
     (case meta_signed_at (fl_meta fleet) of
        None \<Rightarrow> Inl ''fleet.meta.signedAt is None - cannot project manifest''
      | Some signed_at \<Rightarrow>
        case project_manifest fleet channel fleet_resolved_hash signed_at (meta_ci_commit (fl_meta fleet))
               (signature_algorithm_or_default (fl_meta fleet)) of
          Inl e \<Rightarrow> Inl e
        | Inr None \<Rightarrow> Inr None
        | Inr (Some manifest) \<Rightarrow>
            Inr (Some (as_str (RolloutId_new (rm_channel manifest) (rm_channel_ref manifest)))))"

definition current_rollout_ids :: "FleetResolved \<Rightarrow> string \<Rightarrow> string set" where
  "current_rollout_ids fleet fleet_resolved_hash =
     set (concat (map
       (\<lambda>ch. case compute_rollout_id_for_channel fleet fleet_resolved_hash ch of
                Inr (Some rid) \<Rightarrow> [rid] | _ \<Rightarrow> [])
       (hkeys (fl_channels fleet))))"

text \<open>Two snapshots of the same fleet: the same entries of every map, iterated in another order.\<close>

definition same_fleet :: "FleetResolved \<Rightarrow> FleetResolved \<Rightarrow> bool" where
  "same_fleet f g \<longleftrightarrow>
     hwf (fl_hosts f) \<and> mset (fl_hosts g) = mset (fl_hosts f)
     \<and> hget (fl_channels g) = hget (fl_channels f)
     \<and> hget (fl_rollout_policies g) = hget (fl_rollout_policies f)
     \<and> hget (fl_waves g) = hget (fl_waves f)
     \<and> fl_disruption_budgets g = fl_disruption_budgets f"

definition eligible :: "FleetResolved \<Rightarrow> string \<Rightarrow> string \<Rightarrow> Host \<Rightarrow> bool" where
  "eligible fleet channel n h \<longleftrightarrow>
     (n, h) \<in> set (fl_hosts fleet) \<and> host_channel h = channel \<and> host_closure_hash h \<noteq> None"

definition two_hosts :: "(string, Host) hmap" where
  "two_hosts =
     [(''b'', \<lparr>host_system = ''x86'', host_tags = [], host_channel = ''stable'', host_closure_hash = Some ''cb'',
              host_pubkey = None, host_pin = None\<rparr>),
      (''a'', \<lparr>host_system = ''x86'', host_tags = [], host_channel = ''stable'', host_closure_hash = Some ''ca'',
              host_pubkey = None, host_pin = None\<rparr>)]"

definition two_host_fleet :: "(string, Host) hmap \<Rightarrow> FleetResolved" where
  "two_host_fleet hosts =
     sample_fleet\<lparr>fl_hosts := hosts,
       fl_channels := [(''stable'', \<lparr>ch_rollout_policy = ''p'', ch_reconcile_interval_minutes = 1,
                                    ch_freshness_window = 60, ch_signing_interval_minutes = 1\<rparr>)]\<rparr>"

lemma mset_concat_map: "mset (concat (map f xs)) = sum_mset (image_mset (mset \<circ> f) (mset xs))"
  by (induction xs) auto

lemma host_wave_of_hostname: "hw \<in> set (host_wave_of ch ws e) \<Longrightarrow> hw_hostname hw = fst e"
  by (auto simp: host_wave_of_def Let_def split: prod.splits if_splits option.splits)

lemma distinct_host_waves:
  "hwf hosts \<Longrightarrow> distinct (map hw_hostname (concat (map (host_wave_of ch ws) hosts)))"
proof (induction hosts)
  case (Cons e hosts)
  have "distinct (map hw_hostname (host_wave_of ch ws e))"
    by (auto simp: host_wave_of_def Let_def split: prod.splits option.splits)
  moreover have "fst e \<notin> fst ` set hosts" "hwf hosts" using Cons.prems by (auto simp: hwf_def)
  ultimately show ?case using Cons.IH by (force dest: host_wave_of_hostname)
qed simp

lemma sort_key_same:
  assumes "mset xs = mset ys" "distinct (map k ys)"
  shows "sort_key k xs = sort_key k ys"
proof (rule sort_key_inj_key_eq)
  show "mset xs = mset (sort_key k ys)" using assms(1) by simp
  have "set xs = set ys" using assms(1) by (metis set_mset_mset)
  then show "inj_on k (set xs)" using assms(2) by (simp add: distinct_map)
  show "sorted (map k (sort_key k ys))" by simp
qed

lemma same_host_set:
  assumes "same_fleet f g"
  shows "sort_key hw_hostname (concat (map (host_wave_of ch ws) (fl_hosts g)))
    = sort_key hw_hostname (concat (map (host_wave_of ch ws) (fl_hosts f)))"
    "(concat (map (host_wave_of ch ws) (fl_hosts g)) = []) = (concat (map (host_wave_of ch ws) (fl_hosts f)) = [])"
proof -
  have m: "mset (concat (map (host_wave_of ch ws) (fl_hosts g))) = mset (concat (map (host_wave_of ch ws) (fl_hosts f)))"
    using assms by (simp add: mset_concat_map same_fleet_def)
  then show "sort_key hw_hostname (concat (map (host_wave_of ch ws) (fl_hosts g)))
    = sort_key hw_hostname (concat (map (host_wave_of ch ws) (fl_hosts f)))"
    using assms by (intro sort_key_same distinct_host_waves) (auto simp: same_fleet_def)
  from m show "(concat (map (host_wave_of ch ws) (fl_hosts g)) = []) = (concat (map (host_wave_of ch ws) (fl_hosts f)) = [])"
    by (metis mset_zero_iff)
qed

lemma same_budget:
  assumes "same_fleet f g"
  shows "snapshot_budget (fl_hosts g) b = snapshot_budget (fl_hosts f) b"
proof -
  have "mset (Selector_resolve s (fl_hosts g)) = mset (Selector_resolve s (fl_hosts f))" for s
    using assms by (simp add: Selector_resolve_def same_fleet_def mset_map mset_filter)
  then have "sort (Selector_resolve s (fl_hosts g)) = sort (Selector_resolve s (fl_hosts f))" for s
    by (metis sorted_list_of_multiset_mset)
  then show ?thesis by (simp add: snapshot_budget_def)
qed

lemma projected_host_set:
  assumes "project_manifest fleet ch frh sa ci alg = Inr (Some m)"
  shows "rm_host_set m = sort_key hw_hostname (concat (map (host_wave_of ch (hget (fl_waves fleet) ch)) (fl_hosts fleet)))"
  using assms by (auto simp: project_manifest_def Let_def split: option.splits if_splits)

lemma host_wave_of_iff:
  "hw \<in> set (host_wave_of ch ws (n, h)) \<longleftrightarrow>
     host_channel h = ch \<and> hw_hostname hw = n \<and> host_closure_hash h = Some (hw_target_closure hw)
     \<and> hw_wave_index hw = (case Option.bind ws (position (\<lambda>w. n \<in> set (wave_hosts w))) of Some i \<Rightarrow> usize_as_u32 i | None \<Rightarrow> 0)"
  by (cases hw) (auto simp: host_wave_of_def Let_def simp del: position_None split: option.splits)

lemma sorted_distinct_strict: "sorted xs \<Longrightarrow> distinct xs \<Longrightarrow> sorted_wrt (<) xs"
  by (induction xs) (auto simp: less_le)

section \<open>Properties\<close>

text \<open>
  The manifest of a channel does not depend on the iteration order of the fleet's hash maps: two
  snapshots with the same entries project to the same manifest, so producer and control plane sign
  and re-derive the same bytes.
\<close>

lemma projection_order_independent:
  assumes "same_fleet f g"
  shows "project_manifest g ch frh sa ci alg = project_manifest f ch frh sa ci alg"
proof -
  have "hget (fl_channels g) = hget (fl_channels f)" "hget (fl_rollout_policies g) = hget (fl_rollout_policies f)"
    "hget (fl_waves g) = hget (fl_waves f)" "fl_disruption_budgets g = fl_disruption_budgets f"
    using assms by (simp_all add: same_fleet_def)
  moreover have "snapshot_budget (fl_hosts g) = snapshot_budget (fl_hosts f)"
    using same_budget [OF assms] by auto
  ultimately show ?thesis
    unfolding project_manifest_def Let_def by (simp only: same_host_set [OF assms])
qed

text \<open>
  A projected manifest lists, strictly sorted by name, exactly the hosts of the channel that
  declare a closure, each with that closure and the index of the first wave that names it; a channel
  without such a host has no manifest.
\<close>

lemma projection_exact:
  assumes "hwf (fl_hosts fleet)" "project_manifest fleet ch frh sa ci alg = Inr om"
  shows "case om of
     None \<Rightarrow> (\<forall>n h. \<not> eligible fleet ch n h)
   | Some m \<Rightarrow>
       sorted_wrt (<) (map hw_hostname (rm_host_set m)) \<and> rm_channel m = ch
       \<and> (\<forall>hw. hw \<in> set (rm_host_set m) \<longleftrightarrow>
            (\<exists>h. eligible fleet ch (hw_hostname hw) h \<and> host_closure_hash h = Some (hw_target_closure hw)
              \<and> hw_wave_index hw =
                  (case Option.bind (hget (fl_waves fleet) ch) (position (\<lambda>w. hw_hostname hw \<in> set (wave_hosts w))) of
                     Some i \<Rightarrow> usize_as_u32 i | None \<Rightarrow> 0)))"
proof (cases om)
  case None
  have "concat (map (host_wave_of ch (hget (fl_waves fleet) ch)) (fl_hosts fleet)) = []"
    using assms(2) None by (auto simp: project_manifest_def Let_def split: option.splits if_splits)
  then have "\<forall>e \<in> set (fl_hosts fleet). host_wave_of ch (hget (fl_waves fleet) ch) e = []" by auto
  then show ?thesis using None by (fastforce simp: eligible_def host_wave_of_def Let_def split: option.splits)
next
  case (Some m)
  let ?hs = "concat (map (host_wave_of ch (hget (fl_waves fleet) ch)) (fl_hosts fleet))"
  have hs: "rm_host_set m = sort_key hw_hostname ?hs" using assms(2) Some by (simp add: projected_host_set)
  have "distinct (map hw_hostname (rm_host_set m))"
    using distinct_host_waves [OF assms(1), of ch "hget (fl_waves fleet) ch"] unfolding hs
    by (metis distinct_map distinct_sort mset_sort set_mset_mset)
  then have "sorted_wrt (<) (map hw_hostname (rm_host_set m))"
    by (intro sorted_distinct_strict) (simp_all add: hs)
  moreover have "rm_channel m = ch"
    using assms(2) Some by (auto simp: project_manifest_def Let_def split: option.splits if_splits)
  moreover have "set (rm_host_set m) = (\<Union>e \<in> set (fl_hosts fleet). set (host_wave_of ch (hget (fl_waves fleet) ch) e))"
    by (simp add: hs)
  ultimately show ?thesis unfolding Some option.case
    by (auto simp: eligible_def host_wave_of_iff) (metis host_wave_of_iff)+
qed

end
