(* ===== verification/Host_State.thy ===== *)
theory Host_State
  imports Proto_Types
begin

text \<open>
  The data of the per-host state machine (\<open>nixfleet-state-machine/src\<close>): the record of a
  (rollout, host) pair, the events that drive it (\<open>Local\<close> on the agent, \<open>Remote\<close> on the control
  plane's mirror), the effects it describes and the errors it returns.
\<close>

section \<open>state.rs\<close>

datatype HostState =
    HS_Pending | HS_Activating | HS_Deferred | HS_Soaking | HS_Converged | HS_Failed | HS_Reverted

datatype ProbeStatus = Pass | Fail

datatype ProbeMode = Enforce | Observe | Disabled

definition ProbeMode_default :: ProbeMode where
  "ProbeMode_default = Enforce"

record ProbeSubResult =
  psr_control_id :: string
  psr_status :: ProbeStatus
  psr_framework :: string
  psr_article :: "string option"
  psr_effective_mode :: ProbeMode
  psr_override_reason :: "string option"

record ProbeRecord =
  pr_status :: ProbeStatus
  pr_mode :: ProbeMode
  pr_last_observed_at :: instant
  pr_last_pass_at :: "instant option"
  pr_failure_reason :: "string option"

record HostRolloutState =
  hrs_rollout_id :: RolloutId
  hrs_hostname :: string
  hrs_channel :: string
  hrs_state :: HostState
  hrs_target_closure :: ClosureHash
  hrs_current_closure_at_dispatch :: "ClosureHash option"
  hrs_current_closure :: "ClosureHash option"
  hrs_reverted_to :: "ClosureHash option"
  hrs_dispatched_at :: instant
  hrs_dispatch_acked_at :: "instant option"
  hrs_activation_started_at :: "instant option"
  hrs_activation_completed_at :: "instant option"
  hrs_activation_failed_at :: "instant option"
  hrs_probe_observed_first_at :: "instant option"
  hrs_probe_failure_first_at :: "instant option"
  hrs_soak_due_at :: "instant option"
  hrs_converged_at :: "instant option"
  hrs_failed_at :: "instant option"
  hrs_policy_applied :: "OnHealthFailure option"
  hrs_reverted_at :: "instant option"
  hrs_probes :: "(ProbeName, ProbeRecord) hmap"
  hrs_last_event_seq :: u64

definition new_pending ::
  "RolloutId \<Rightarrow> string \<Rightarrow> string \<Rightarrow> ClosureHash \<Rightarrow> instant \<Rightarrow> instant \<Rightarrow> HostRolloutState" where
  "new_pending rollout_id hostname channel target_closure dispatched_at soak_due_at =
     \<lparr>hrs_rollout_id = rollout_id, hrs_hostname = hostname, hrs_channel = channel,
      hrs_state = HS_Pending, hrs_target_closure = target_closure,
      hrs_current_closure_at_dispatch = None, hrs_current_closure = None, hrs_reverted_to = None,
      hrs_dispatched_at = dispatched_at, hrs_dispatch_acked_at = None,
      hrs_activation_started_at = None, hrs_activation_completed_at = None,
      hrs_activation_failed_at = None, hrs_probe_observed_first_at = None,
      hrs_probe_failure_first_at = None, hrs_soak_due_at = Some soak_due_at,
      hrs_converged_at = None, hrs_failed_at = None, hrs_policy_applied = None,
      hrs_reverted_at = None, hrs_probes = [], hrs_last_event_seq = 0\<rparr>"

section \<open>event.rs\<close>

record ProbeTopologyEntry =
  pte_probe_name :: ProbeName
  pte_kind :: string
  pte_mode :: ProbeMode

text \<open>Constructor arguments stand in the order of the fields of the source's variants.\<close>

datatype Event =
    LocalActivate ClosureHash ClosureHash instant instant u64
      \<comment> \<open>current closure at dispatch, target closure, received at, soak due at, seq\<close>
  | LocalActivationStarted instant string u64
  | LocalActivationCompleted ClosureHash i32 instant u64
  | LocalActivationDeferred string instant u64
  | LocalActivationFailed i32 string instant u64
  | LocalProbeTopologyDeclared "ProbeTopologyEntry list" instant u64
  | LocalProbeObservedFirst ProbeName ProbeMode instant u64
  | LocalProbeResult ProbeName ProbeMode ProbeStatus instant "string option"
      "ProbeSubResult list option" u64
  | LocalProbeFailureFirst ProbeName ProbeMode instant u64
  | LocalSustainedFailureCrossed instant u64 "ProbeName list" OnHealthFailure u64
  | LocalRollbackCompleted ClosureHash i32 instant u64
  | LocalConvergedReached instant ClosureHash u64
  | RemoteDispatchAck ClosureHash instant u64
  | RemoteActivationStarted instant string u64
  | RemoteActivationDeferred string instant u64
  | RemoteActivationCompleted ClosureHash i32 instant u64
  | RemoteActivationFailed i32 string instant u64
  | RemoteProbeTopologyDeclared "ProbeTopologyEntry list" instant u64
  | RemoteProbeObservedFirst ProbeName ProbeMode instant u64
  | RemoteProbeResult ProbeName ProbeMode ProbeStatus instant "string option"
      "ProbeSubResult list option" u64
  | RemoteProbeFailureFirst ProbeName ProbeMode instant u64
  | RemoteFailed instant u64 "ProbeName list" OnHealthFailure u64
  | RemoteRollbackComplete ClosureHash i32 instant u64
  | RemoteConverged instant ClosureHash u64

primrec event_seq :: "Event \<Rightarrow> u64" where
  "event_seq (LocalActivate _ _ _ _ seq) = seq"
| "event_seq (LocalActivationStarted _ _ seq) = seq"
| "event_seq (LocalActivationCompleted _ _ _ seq) = seq"
| "event_seq (LocalActivationDeferred _ _ seq) = seq"
| "event_seq (LocalActivationFailed _ _ _ seq) = seq"
| "event_seq (LocalProbeTopologyDeclared _ _ seq) = seq"
| "event_seq (LocalProbeObservedFirst _ _ _ seq) = seq"
| "event_seq (LocalProbeResult _ _ _ _ _ _ seq) = seq"
| "event_seq (LocalProbeFailureFirst _ _ _ seq) = seq"
| "event_seq (LocalSustainedFailureCrossed _ _ _ _ seq) = seq"
| "event_seq (LocalRollbackCompleted _ _ _ seq) = seq"
| "event_seq (LocalConvergedReached _ _ seq) = seq"
| "event_seq (RemoteDispatchAck _ _ seq) = seq"
| "event_seq (RemoteActivationStarted _ _ seq) = seq"
| "event_seq (RemoteActivationCompleted _ _ _ seq) = seq"
| "event_seq (RemoteActivationDeferred _ _ seq) = seq"
| "event_seq (RemoteActivationFailed _ _ _ seq) = seq"
| "event_seq (RemoteProbeTopologyDeclared _ _ seq) = seq"
| "event_seq (RemoteProbeObservedFirst _ _ _ seq) = seq"
| "event_seq (RemoteProbeResult _ _ _ _ _ _ seq) = seq"
| "event_seq (RemoteProbeFailureFirst _ _ _ seq) = seq"
| "event_seq (RemoteFailed _ _ _ _ seq) = seq"
| "event_seq (RemoteRollbackComplete _ _ _ seq) = seq"
| "event_seq (RemoteConverged _ _ seq) = seq"

primrec event_name :: "Event \<Rightarrow> string" where
  "event_name (LocalActivate _ _ _ _ _) = ''LocalActivate''"
| "event_name (LocalActivationStarted _ _ _) = ''LocalActivationStarted''"
| "event_name (LocalActivationCompleted _ _ _ _) = ''LocalActivationCompleted''"
| "event_name (LocalActivationDeferred _ _ _) = ''LocalActivationDeferred''"
| "event_name (LocalActivationFailed _ _ _ _) = ''LocalActivationFailed''"
| "event_name (LocalProbeTopologyDeclared _ _ _) = ''LocalProbeTopologyDeclared''"
| "event_name (LocalProbeObservedFirst _ _ _ _) = ''LocalProbeObservedFirst''"
| "event_name (LocalProbeResult _ _ _ _ _ _ _) = ''LocalProbeResult''"
| "event_name (LocalProbeFailureFirst _ _ _ _) = ''LocalProbeFailureFirst''"
| "event_name (LocalSustainedFailureCrossed _ _ _ _ _) = ''LocalSustainedFailureCrossed''"
| "event_name (LocalRollbackCompleted _ _ _ _) = ''LocalRollbackCompleted''"
| "event_name (LocalConvergedReached _ _ _) = ''LocalConvergedReached''"
| "event_name (RemoteDispatchAck _ _ _) = ''RemoteDispatchAck''"
| "event_name (RemoteActivationStarted _ _ _) = ''RemoteActivationStarted''"
| "event_name (RemoteActivationCompleted _ _ _ _) = ''RemoteActivationCompleted''"
| "event_name (RemoteActivationDeferred _ _ _) = ''RemoteActivationDeferred''"
| "event_name (RemoteActivationFailed _ _ _ _) = ''RemoteActivationFailed''"
| "event_name (RemoteProbeTopologyDeclared _ _ _) = ''RemoteProbeTopologyDeclared''"
| "event_name (RemoteProbeObservedFirst _ _ _ _) = ''RemoteProbeObservedFirst''"
| "event_name (RemoteProbeResult _ _ _ _ _ _ _) = ''RemoteProbeResult''"
| "event_name (RemoteProbeFailureFirst _ _ _ _) = ''RemoteProbeFailureFirst''"
| "event_name (RemoteFailed _ _ _ _ _) = ''RemoteFailed''"
| "event_name (RemoteRollbackComplete _ _ _ _) = ''RemoteRollbackComplete''"
| "event_name (RemoteConverged _ _ _) = ''RemoteConverged''"

section \<open>effect.rs\<close>

datatype OutboundAgentEvent =
    O_DispatchAck ClosureHash instant u64
  | O_ActivationStarted instant string u64
  | O_ActivationCompleted ClosureHash i32 instant u64
  | O_ActivationFailed i32 string instant u64
  | O_ActivationDeferred string instant u64
  | O_ProbeTopologyDeclared "ProbeTopologyEntry list" instant u64
  | O_ProbeObservedFirst ProbeName ProbeMode instant u64
  | O_ProbeResult ProbeName ProbeMode ProbeStatus instant "string option"
      "ProbeSubResult list option" u64
  | O_ProbeFailureFirst ProbeName ProbeMode instant u64
  | O_Failed instant u64 "ProbeName list" OnHealthFailure u64
  | O_RollbackComplete ClosureHash i32 instant u64
  | O_Converged instant ClosureHash u64

datatype LogLevel = Trace | Debug | Info | Warn | Error

text \<open>The value of a metric (\<open>f64\<close>) is its bit pattern: no arithmetic is done on it.\<close>

datatype Effect =
    LocalFireSwitch RolloutId ClosureHash
  | LocalFireRollbackTo RolloutId ClosureHash
  | LocalResetProbeCache RolloutId
  | LocalEmitEvent RolloutId OutboundAgentEvent bool
  | RemoteQueueDispatch string RolloutId ClosureHash instant
  | RemoteInsertQuarantine string ClosureHash
  | RemoteOpenRolloutRecord RolloutId string string
  | RemoteAppendEventLog string RolloutId OutboundAgentEvent
  | RecordTransition string RolloutId HostState HostState instant
  | EmitMetric string "(string \<times> string) list" u64
  | EmitLog LogLevel string string "(string \<times> string) list"

section \<open>error.rs\<close>

datatype TransitionError =
    IllegalForState HostState string RolloutId string
  | SeqRegression u64 u64 RolloutId string
  | Invariant string
  | Unimplemented HostState string

section \<open>rehydration.rs\<close>

definition rehydration_effects :: "HostRolloutState \<Rightarrow> Effect list" where
  "rehydration_effects s =
     (case hrs_state s of
        HS_Pending \<Rightarrow> []
      | _ \<Rightarrow> [LocalResetProbeCache (hrs_rollout_id s)])"

end
