(* ===== verification/Host_Reducer.thy ===== *)
theory Host_Reducer
  imports Host_State
begin

text \<open>
  The per-host reducer, \<open>nixfleet_state_machine::step\<close>: one function per source state
  (\<open>transitions/*.rs\<close>), one equation per arm of its \<open>match\<close>, and the dispatcher with the sequence
  pre-check. The match of \<open>soaking.rs\<close> is cut into three functions that fall through to one
  another. The lemmas give the graph of the machine, its invariant, and what each transition
  writes and asks the runtimes to do.
\<close>

type_synonym step_result = "TransitionError + HostRolloutState \<times> Effect list"

section \<open>transitions/mod.rs: illegal\<close>

definition illegal :: "HostRolloutState \<Rightarrow> Event \<Rightarrow> TransitionError" where
  "illegal s e = IllegalForState (hrs_state s) (event_name e) (hrs_rollout_id s) (hrs_hostname s)"

section \<open>transitions/pending.rs\<close>

fun pending_handle :: "HostRolloutState \<Rightarrow> Event \<Rightarrow> instant \<Rightarrow> RolloutPolicy \<Rightarrow> step_result" where
  "pending_handle s (LocalActivate current_closure_at_dispatch _ received_at _ seq) now policy =
     Inr (s\<lparr>hrs_state := HS_Activating,
            hrs_current_closure_at_dispatch := Some current_closure_at_dispatch,
            hrs_dispatch_acked_at := Some received_at, hrs_last_event_seq := seq\<rparr>,
          [RecordTransition (hrs_hostname s) (hrs_rollout_id s) (hrs_state s) HS_Activating received_at,
           LocalEmitEvent (hrs_rollout_id s) (O_DispatchAck current_closure_at_dispatch received_at seq) True,
           LocalFireSwitch (hrs_rollout_id s) (hrs_target_closure s)])"
| "pending_handle s (RemoteDispatchAck current_closure_at_dispatch received_at seq) now policy =
     Inr (s\<lparr>hrs_state := HS_Activating,
            hrs_current_closure_at_dispatch := Some current_closure_at_dispatch,
            hrs_dispatch_acked_at := Some received_at, hrs_last_event_seq := seq\<rparr>,
          [RemoteAppendEventLog (hrs_hostname s) (hrs_rollout_id s)
             (O_DispatchAck current_closure_at_dispatch received_at seq),
           RecordTransition (hrs_hostname s) (hrs_rollout_id s) (hrs_state s) HS_Activating received_at])"
| "pending_handle s e now policy = Inl (illegal s e)"

section \<open>transitions/activating.rs\<close>

text \<open>
  The rollback effect of \<open>activating.rs\<close> and \<open>soaking.rs\<close>: only under \<open>RollbackAndHalt\<close>, and only
  when the closure before the dispatch is known.
\<close>

definition rollback_effect :: "HostRolloutState \<Rightarrow> OnHealthFailure \<Rightarrow> Effect list" where
  "rollback_effect s pol =
     (case (pol, hrs_current_closure_at_dispatch s) of
        (RollbackAndHalt, Some prior) \<Rightarrow> [LocalFireRollbackTo (hrs_rollout_id s) prior]
      | _ \<Rightarrow> [])"

fun activating_fail :: "HostRolloutState \<Rightarrow> Event \<Rightarrow> instant \<Rightarrow> RolloutPolicy \<Rightarrow> step_result" where
  "activating_fail s (LocalActivationFailed exit_code stderr_tail failed_at seq) now policy =
     Inr (s\<lparr>hrs_state := HS_Failed, hrs_activation_failed_at := Some failed_at,
            hrs_failed_at := Some failed_at,
            hrs_policy_applied := Some (pol_on_health_failure policy), hrs_last_event_seq := seq\<rparr>,
          [LocalEmitEvent (hrs_rollout_id s) (O_ActivationFailed exit_code stderr_tail failed_at seq) True,
           RecordTransition (hrs_hostname s) (hrs_rollout_id s) (hrs_state s) HS_Failed failed_at]
          @ rollback_effect s (pol_on_health_failure policy))"
| "activating_fail s (RemoteActivationFailed exit_code stderr_tail failed_at seq) now policy =
     Inr (s\<lparr>hrs_state := HS_Failed, hrs_activation_failed_at := Some failed_at,
            hrs_failed_at := Some failed_at,
            hrs_policy_applied := Some (pol_on_health_failure policy), hrs_last_event_seq := seq\<rparr>,
          [RemoteAppendEventLog (hrs_hostname s) (hrs_rollout_id s)
             (O_ActivationFailed exit_code stderr_tail failed_at seq),
           RecordTransition (hrs_hostname s) (hrs_rollout_id s) (hrs_state s) HS_Failed failed_at])"
| "activating_fail s e now policy = Inl (illegal s e)"

fun activating_handle :: "HostRolloutState \<Rightarrow> Event \<Rightarrow> instant \<Rightarrow> RolloutPolicy \<Rightarrow> step_result" where
  "activating_handle s (LocalActivationStarted started_at switch_method seq) now policy =
     Inr (s\<lparr>hrs_activation_started_at := Some started_at, hrs_last_event_seq := seq\<rparr>,
          [LocalEmitEvent (hrs_rollout_id s) (O_ActivationStarted started_at switch_method seq) True])"
| "activating_handle s (RemoteActivationStarted started_at switch_method seq) now policy =
     Inr (s\<lparr>hrs_activation_started_at := Some started_at, hrs_last_event_seq := seq\<rparr>,
          [RemoteAppendEventLog (hrs_hostname s) (hrs_rollout_id s)
             (O_ActivationStarted started_at switch_method seq)])"
| "activating_handle s (LocalActivationCompleted observed exit_code completed_at seq) now policy =
     Inr (s\<lparr>hrs_state := HS_Soaking, hrs_activation_completed_at := Some completed_at,
            hrs_current_closure := Some observed, hrs_probes := [], hrs_last_event_seq := seq\<rparr>,
          [LocalResetProbeCache (hrs_rollout_id s),
           LocalEmitEvent (hrs_rollout_id s) (O_ActivationCompleted observed exit_code completed_at seq) True,
           RecordTransition (hrs_hostname s) (hrs_rollout_id s) (hrs_state s) HS_Soaking completed_at])"
| "activating_handle s (RemoteActivationCompleted observed exit_code completed_at seq) now policy =
     Inr (s\<lparr>hrs_state := HS_Soaking, hrs_activation_completed_at := Some completed_at,
            hrs_current_closure := Some observed, hrs_probes := [], hrs_last_event_seq := seq\<rparr>,
          [RemoteAppendEventLog (hrs_hostname s) (hrs_rollout_id s)
             (O_ActivationCompleted observed exit_code completed_at seq),
           RecordTransition (hrs_hostname s) (hrs_rollout_id s) (hrs_state s) HS_Soaking completed_at])"
| "activating_handle s (LocalActivationDeferred component deferred_at seq) now policy =
     Inr (s\<lparr>hrs_state := HS_Deferred, hrs_last_event_seq := seq\<rparr>,
          [LocalEmitEvent (hrs_rollout_id s) (O_ActivationDeferred component deferred_at seq) True,
           RecordTransition (hrs_hostname s) (hrs_rollout_id s) (hrs_state s) HS_Deferred deferred_at])"
| "activating_handle s (RemoteActivationDeferred component deferred_at seq) now policy =
     Inr (s\<lparr>hrs_state := HS_Deferred, hrs_last_event_seq := seq\<rparr>,
          [RemoteAppendEventLog (hrs_hostname s) (hrs_rollout_id s)
             (O_ActivationDeferred component deferred_at seq),
           RecordTransition (hrs_hostname s) (hrs_rollout_id s) (hrs_state s) HS_Deferred deferred_at])"
| "activating_handle s e now policy = activating_fail s e now policy"

section \<open>transitions/deferred.rs\<close>

fun deferred_handle :: "HostRolloutState \<Rightarrow> Event \<Rightarrow> instant \<Rightarrow> RolloutPolicy \<Rightarrow> step_result" where
  "deferred_handle s (LocalActivationCompleted observed exit_code completed_at seq) now policy =
     Inr (s\<lparr>hrs_state := HS_Soaking, hrs_activation_completed_at := Some completed_at,
            hrs_current_closure := Some observed, hrs_probes := [], hrs_last_event_seq := seq\<rparr>,
          [LocalResetProbeCache (hrs_rollout_id s),
           LocalEmitEvent (hrs_rollout_id s) (O_ActivationCompleted observed exit_code completed_at seq) True,
           RecordTransition (hrs_hostname s) (hrs_rollout_id s) (hrs_state s) HS_Soaking completed_at])"
| "deferred_handle s (RemoteActivationCompleted observed exit_code completed_at seq) now policy =
     Inr (s\<lparr>hrs_state := HS_Soaking, hrs_activation_completed_at := Some completed_at,
            hrs_current_closure := Some observed, hrs_probes := [], hrs_last_event_seq := seq\<rparr>,
          [RemoteAppendEventLog (hrs_hostname s) (hrs_rollout_id s)
             (O_ActivationCompleted observed exit_code completed_at seq),
           RecordTransition (hrs_hostname s) (hrs_rollout_id s) (hrs_state s) HS_Soaking completed_at])"
| "deferred_handle s (LocalActivationFailed exit_code stderr_tail failed_at seq) now policy =
     Inr (s\<lparr>hrs_state := HS_Failed, hrs_activation_failed_at := Some failed_at,
            hrs_failed_at := Some failed_at, hrs_last_event_seq := seq\<rparr>,
          [LocalEmitEvent (hrs_rollout_id s) (O_ActivationFailed exit_code stderr_tail failed_at seq) True,
           RecordTransition (hrs_hostname s) (hrs_rollout_id s) (hrs_state s) HS_Failed failed_at])"
| "deferred_handle s (RemoteActivationFailed exit_code stderr_tail failed_at seq) now policy =
     Inr (s\<lparr>hrs_state := HS_Failed, hrs_activation_failed_at := Some failed_at,
            hrs_failed_at := Some failed_at, hrs_last_event_seq := seq\<rparr>,
          [RemoteAppendEventLog (hrs_hostname s) (hrs_rollout_id s)
             (O_ActivationFailed exit_code stderr_tail failed_at seq),
           RecordTransition (hrs_hostname s) (hrs_rollout_id s) (hrs_state s) HS_Failed failed_at])"
| "deferred_handle s e now policy = Inl (illegal s e)"

section \<open>transitions/soaking.rs\<close>

text \<open>
  \<open>entry().or_insert()\<close> then the assignments through the entry: a new record starts with no
  passing run, an existing one keeps its last passing run when the probe fails.
\<close>

definition update_probe ::
  "(ProbeName, ProbeRecord) hmap \<Rightarrow> ProbeName \<Rightarrow> ProbeMode \<Rightarrow> ProbeStatus \<Rightarrow> instant \<Rightarrow>
   string option \<Rightarrow> (ProbeName, ProbeRecord) hmap" where
  "update_probe probes name mode status observed_at failure_reason =
     (let entry = (case hget probes name of
                     Some r \<Rightarrow> r
                   | None \<Rightarrow> \<lparr>pr_status = status, pr_mode = mode, pr_last_observed_at = observed_at,
                              pr_last_pass_at = None, pr_failure_reason = None\<rparr>);
          entry = entry\<lparr>pr_status := status, pr_mode := mode, pr_last_observed_at := observed_at\<rparr>;
          entry = (if status = Pass
                   then entry\<lparr>pr_last_pass_at := Some observed_at, pr_failure_reason := None\<rparr>
                   else entry\<lparr>pr_failure_reason := failure_reason\<rparr>)
      in hput name entry probes)"

definition verify_converged_invariants ::
  "HostRolloutState \<Rightarrow> ClosureHash \<Rightarrow> instant \<Rightarrow> TransitionError + unit" where
  "verify_converged_invariants s current_closure converged_at =
     (if current_closure \<noteq> hrs_target_closure s
      then Inl (Invariant ''Converged event: current_closure != target_closure'')
      else if (case hrs_soak_due_at s of Some soak_due \<Rightarrow> converged_at < soak_due | None \<Rightarrow> False)
      then Inl (Invariant ''Converged event: converged_at before soak_due_at'')
      else if list_ex (\<lambda>r. pr_mode r = Enforce \<and> pr_status r \<noteq> Pass) (hvalues (hrs_probes s))
      then Inl (Invariant ''Converged event: at least one enforce-mode probe is not Pass'')
      else Inr ())"

fun soaking_converged :: "HostRolloutState \<Rightarrow> Event \<Rightarrow> instant \<Rightarrow> RolloutPolicy \<Rightarrow> step_result" where
  "soaking_converged s (LocalConvergedReached converged_at current_closure seq) now policy =
     (case verify_converged_invariants s current_closure converged_at of
        Inl er \<Rightarrow> Inl er
      | Inr _ \<Rightarrow>
        Inr (s\<lparr>hrs_state := HS_Converged, hrs_converged_at := Some converged_at,
               hrs_current_closure := Some current_closure, hrs_last_event_seq := seq\<rparr>,
             [LocalEmitEvent (hrs_rollout_id s) (O_Converged converged_at current_closure seq) True,
              RecordTransition (hrs_hostname s) (hrs_rollout_id s) (hrs_state s) HS_Converged converged_at]))"
| "soaking_converged s (RemoteConverged converged_at current_closure seq) now policy =
     (case verify_converged_invariants s current_closure converged_at of
        Inl er \<Rightarrow> Inl er
      | Inr _ \<Rightarrow>
        Inr (s\<lparr>hrs_state := HS_Converged, hrs_converged_at := Some converged_at,
               hrs_current_closure := Some current_closure, hrs_last_event_seq := seq\<rparr>,
             [RemoteAppendEventLog (hrs_hostname s) (hrs_rollout_id s)
                (O_Converged converged_at current_closure seq),
              RecordTransition (hrs_hostname s) (hrs_rollout_id s) (hrs_state s) HS_Converged converged_at]))"
| "soaking_converged s e now policy = Inl (illegal s e)"

fun soaking_failed :: "HostRolloutState \<Rightarrow> Event \<Rightarrow> instant \<Rightarrow> RolloutPolicy \<Rightarrow> step_result" where
  "soaking_failed s (LocalSustainedFailureCrossed failed_at secs failing_probes policy_applied seq) now policy =
     Inr (s\<lparr>hrs_state := HS_Failed, hrs_failed_at := Some failed_at,
            hrs_policy_applied := Some policy_applied, hrs_last_event_seq := seq\<rparr>,
          [LocalEmitEvent (hrs_rollout_id s) (O_Failed failed_at secs failing_probes policy_applied seq) True,
           RecordTransition (hrs_hostname s) (hrs_rollout_id s) (hrs_state s) HS_Failed failed_at]
          @ rollback_effect s policy_applied)"
| "soaking_failed s (RemoteFailed failed_at secs failing_probes policy_applied seq) now policy =
     Inr (s\<lparr>hrs_state := HS_Failed, hrs_failed_at := Some failed_at,
            hrs_policy_applied := Some policy_applied, hrs_last_event_seq := seq\<rparr>,
          [RemoteAppendEventLog (hrs_hostname s) (hrs_rollout_id s)
             (O_Failed failed_at secs failing_probes policy_applied seq),
           RecordTransition (hrs_hostname s) (hrs_rollout_id s) (hrs_state s) HS_Failed failed_at])"
| "soaking_failed s e now policy = soaking_converged s e now policy"

text \<open>\<open>if x.is_none() { x = Some(v) }\<close>: the first value stays.\<close>

definition stamp_first :: "'a option \<Rightarrow> 'a \<Rightarrow> 'a option" where
  "stamp_first x v = (case x of None \<Rightarrow> Some v | Some _ \<Rightarrow> x)"

fun soaking_probe :: "HostRolloutState \<Rightarrow> Event \<Rightarrow> instant \<Rightarrow> RolloutPolicy \<Rightarrow> step_result" where
  "soaking_probe s (LocalProbeResult probe_name mode status observed_at failure_reason sub_results seq) now policy =
     Inr (s\<lparr>hrs_probes := update_probe (hrs_probes s) probe_name mode status observed_at failure_reason,
            hrs_last_event_seq := seq\<rparr>,
          [LocalEmitEvent (hrs_rollout_id s)
             (O_ProbeResult probe_name mode status observed_at failure_reason sub_results seq) False])"
| "soaking_probe s (RemoteProbeResult probe_name mode status observed_at failure_reason sub_results seq) now policy =
     Inr (s\<lparr>hrs_probes := update_probe (hrs_probes s) probe_name mode status observed_at failure_reason,
            hrs_last_event_seq := seq\<rparr>,
          [RemoteAppendEventLog (hrs_hostname s) (hrs_rollout_id s)
             (O_ProbeResult probe_name mode status observed_at failure_reason sub_results seq)])"
| "soaking_probe s (LocalProbeFailureFirst probe_name mode first_failed_at seq) now policy =
     Inr (s\<lparr>hrs_probe_failure_first_at := stamp_first (hrs_probe_failure_first_at s) first_failed_at,
            hrs_last_event_seq := seq\<rparr>,
          [LocalEmitEvent (hrs_rollout_id s)
             (O_ProbeFailureFirst probe_name mode first_failed_at seq) False])"
| "soaking_probe s (RemoteProbeFailureFirst probe_name mode first_failed_at seq) now policy =
     Inr (s\<lparr>hrs_probe_failure_first_at := stamp_first (hrs_probe_failure_first_at s) first_failed_at,
            hrs_last_event_seq := seq\<rparr>,
          [RemoteAppendEventLog (hrs_hostname s) (hrs_rollout_id s)
             (O_ProbeFailureFirst probe_name mode first_failed_at seq)])"
| "soaking_probe s e now policy = soaking_failed s e now policy"

fun soaking_handle :: "HostRolloutState \<Rightarrow> Event \<Rightarrow> instant \<Rightarrow> RolloutPolicy \<Rightarrow> step_result" where
  "soaking_handle s (LocalProbeTopologyDeclared probes declared_at seq) now policy =
     Inr (s\<lparr>hrs_last_event_seq := seq\<rparr>,
          [LocalEmitEvent (hrs_rollout_id s) (O_ProbeTopologyDeclared probes declared_at seq) True])"
| "soaking_handle s (RemoteProbeTopologyDeclared probes declared_at seq) now policy =
     Inr (s\<lparr>hrs_last_event_seq := seq\<rparr>,
          [RemoteAppendEventLog (hrs_hostname s) (hrs_rollout_id s)
             (O_ProbeTopologyDeclared probes declared_at seq)])"
| "soaking_handle s (LocalProbeObservedFirst probe_name mode observed_at seq) now policy =
     Inr (s\<lparr>hrs_probe_observed_first_at := stamp_first (hrs_probe_observed_first_at s) observed_at,
            hrs_last_event_seq := seq\<rparr>,
          [LocalEmitEvent (hrs_rollout_id s) (O_ProbeObservedFirst probe_name mode observed_at seq) False])"
| "soaking_handle s (RemoteProbeObservedFirst probe_name mode observed_at seq) now policy =
     Inr (s\<lparr>hrs_probe_observed_first_at := stamp_first (hrs_probe_observed_first_at s) observed_at,
            hrs_last_event_seq := seq\<rparr>,
          [RemoteAppendEventLog (hrs_hostname s) (hrs_rollout_id s)
             (O_ProbeObservedFirst probe_name mode observed_at seq)])"
| "soaking_handle s e now policy = soaking_probe s e now policy"

section \<open>transitions/failed.rs, converged.rs, reverted.rs\<close>

fun failed_handle :: "HostRolloutState \<Rightarrow> Event \<Rightarrow> instant \<Rightarrow> RolloutPolicy \<Rightarrow> step_result" where
  "failed_handle s (LocalRollbackCompleted reverted_to_closure exit_code completed_at seq) now policy =
     Inr (s\<lparr>hrs_state := HS_Reverted, hrs_reverted_at := Some completed_at,
            hrs_reverted_to := Some reverted_to_closure,
            hrs_current_closure := Some reverted_to_closure, hrs_last_event_seq := seq\<rparr>,
          [LocalEmitEvent (hrs_rollout_id s)
             (O_RollbackComplete reverted_to_closure exit_code completed_at seq) True,
           RecordTransition (hrs_hostname s) (hrs_rollout_id s) (hrs_state s) HS_Reverted completed_at])"
| "failed_handle s (RemoteRollbackComplete reverted_to_closure exit_code completed_at seq) now policy =
     Inr (s\<lparr>hrs_state := HS_Reverted, hrs_reverted_at := Some completed_at,
            hrs_reverted_to := Some reverted_to_closure,
            hrs_current_closure := Some reverted_to_closure, hrs_last_event_seq := seq\<rparr>,
          [RemoteAppendEventLog (hrs_hostname s) (hrs_rollout_id s)
             (O_RollbackComplete reverted_to_closure exit_code completed_at seq),
           RemoteInsertQuarantine (hrs_channel s) (hrs_target_closure s),
           RecordTransition (hrs_hostname s) (hrs_rollout_id s) (hrs_state s) HS_Reverted completed_at])"
| "failed_handle s e now policy = Inl (illegal s e)"

definition converged_handle :: "HostRolloutState \<Rightarrow> Event \<Rightarrow> instant \<Rightarrow> RolloutPolicy \<Rightarrow> step_result" where
  "converged_handle s e now policy = Inl (illegal s e)"

definition reverted_handle :: "HostRolloutState \<Rightarrow> Event \<Rightarrow> instant \<Rightarrow> RolloutPolicy \<Rightarrow> step_result" where
  "reverted_handle s e now policy = Inl (illegal s e)"

section \<open>transitions/mod.rs: dispatch, and lib.rs: step\<close>

definition dispatch :: "HostRolloutState \<Rightarrow> Event \<Rightarrow> instant \<Rightarrow> RolloutPolicy \<Rightarrow> step_result" where
  "dispatch s e now policy =
     (if event_seq e \<le> hrs_last_event_seq s
      then Inl (SeqRegression (event_seq e) (hrs_last_event_seq s) (hrs_rollout_id s) (hrs_hostname s))
      else case hrs_state s of
        HS_Pending \<Rightarrow> pending_handle s e now policy
      | HS_Activating \<Rightarrow> activating_handle s e now policy
      | HS_Deferred \<Rightarrow> deferred_handle s e now policy
      | HS_Soaking \<Rightarrow> soaking_handle s e now policy
      | HS_Failed \<Rightarrow> failed_handle s e now policy
      | HS_Converged \<Rightarrow> converged_handle s e now policy
      | HS_Reverted \<Rightarrow> reverted_handle s e now policy)"

definition step :: "HostRolloutState \<Rightarrow> Event \<Rightarrow> instant \<Rightarrow> RolloutPolicy \<Rightarrow> step_result" where
  "step s e now policy = dispatch s e now policy"

section \<open>Events, their direction and their instant\<close>

primrec is_local :: "Event \<Rightarrow> bool" where
  "is_local (LocalActivate _ _ _ _ _) = True"
| "is_local (LocalActivationStarted _ _ _) = True"
| "is_local (LocalActivationCompleted _ _ _ _) = True"
| "is_local (LocalActivationDeferred _ _ _) = True"
| "is_local (LocalActivationFailed _ _ _ _) = True"
| "is_local (LocalProbeTopologyDeclared _ _ _) = True"
| "is_local (LocalProbeObservedFirst _ _ _ _) = True"
| "is_local (LocalProbeResult _ _ _ _ _ _ _) = True"
| "is_local (LocalProbeFailureFirst _ _ _ _) = True"
| "is_local (LocalSustainedFailureCrossed _ _ _ _ _) = True"
| "is_local (LocalRollbackCompleted _ _ _ _) = True"
| "is_local (LocalConvergedReached _ _ _) = True"
| "is_local (RemoteDispatchAck _ _ _) = False"
| "is_local (RemoteActivationStarted _ _ _) = False"
| "is_local (RemoteActivationCompleted _ _ _ _) = False"
| "is_local (RemoteActivationDeferred _ _ _) = False"
| "is_local (RemoteActivationFailed _ _ _ _) = False"
| "is_local (RemoteProbeTopologyDeclared _ _ _) = False"
| "is_local (RemoteProbeObservedFirst _ _ _ _) = False"
| "is_local (RemoteProbeResult _ _ _ _ _ _ _) = False"
| "is_local (RemoteProbeFailureFirst _ _ _ _) = False"
| "is_local (RemoteFailed _ _ _ _ _) = False"
| "is_local (RemoteRollbackComplete _ _ _ _) = False"
| "is_local (RemoteConverged _ _ _) = False"

text \<open>The effects each applier accepts: its own side's and the shared ones.\<close>

primrec agent_effect :: "Effect \<Rightarrow> bool" where
  "agent_effect (LocalFireSwitch _ _) = True"
| "agent_effect (LocalFireRollbackTo _ _) = True"
| "agent_effect (LocalResetProbeCache _) = True"
| "agent_effect (LocalEmitEvent _ _ _) = True"
| "agent_effect (RemoteQueueDispatch _ _ _ _) = False"
| "agent_effect (RemoteInsertQuarantine _ _) = False"
| "agent_effect (RemoteOpenRolloutRecord _ _ _) = False"
| "agent_effect (RemoteAppendEventLog _ _ _) = False"
| "agent_effect (RecordTransition _ _ _ _ _) = True"
| "agent_effect (EmitMetric _ _ _) = True"
| "agent_effect (EmitLog _ _ _ _) = True"

primrec cp_effect :: "Effect \<Rightarrow> bool" where
  "cp_effect (LocalFireSwitch _ _) = False"
| "cp_effect (LocalFireRollbackTo _ _) = False"
| "cp_effect (LocalResetProbeCache _) = False"
| "cp_effect (LocalEmitEvent _ _ _) = False"
| "cp_effect (RemoteQueueDispatch _ _ _ _) = True"
| "cp_effect (RemoteInsertQuarantine _ _) = True"
| "cp_effect (RemoteOpenRolloutRecord _ _ _) = True"
| "cp_effect (RemoteAppendEventLog _ _ _) = True"
| "cp_effect (RecordTransition _ _ _ _ _) = True"
| "cp_effect (EmitMetric _ _ _) = True"
| "cp_effect (EmitLog _ _ _ _) = True"

definition transitions_of :: "Effect list \<Rightarrow> (string \<times> RolloutId \<times> HostState \<times> HostState) list" where
  "transitions_of fx =
     concat (map (\<lambda>f. case f of RecordTransition h r a b _ \<Rightarrow> [(h, r, a, b)] | _ \<Rightarrow> []) fx)"

definition rollbacks_of :: "Effect list \<Rightarrow> ClosureHash list" where
  "rollbacks_of fx = concat (map (\<lambda>f. case f of LocalFireRollbackTo _ c \<Rightarrow> [c] | _ \<Rightarrow> []) fx)"

definition quarantines_of :: "Effect list \<Rightarrow> (string \<times> ClosureHash) list" where
  "quarantines_of fx = concat (map (\<lambda>f. case f of RemoteInsertQuarantine ch c \<Rightarrow> [(ch, c)] | _ \<Rightarrow> []) fx)"

section \<open>The graph of the machine\<close>

inductive host_edge :: "HostState \<Rightarrow> HostState \<Rightarrow> bool" where
  "host_edge HS_Pending HS_Activating"
| "host_edge HS_Activating HS_Soaking"
| "host_edge HS_Activating HS_Deferred"
| "host_edge HS_Activating HS_Failed"
| "host_edge HS_Deferred HS_Soaking"
| "host_edge HS_Deferred HS_Failed"
| "host_edge HS_Soaking HS_Converged"
| "host_edge HS_Soaking HS_Failed"
| "host_edge HS_Failed HS_Reverted"

code_pred host_edge .


section \<open>The accepted arms\<close>

text \<open>
  Elimination rules of the handlers: an accepted event is one of the arms, with the state and
  the effects it gives. \<open>step_accepted\<close> splits an accepted step by source state.
\<close>

fun_cases pending_handleE: "pending_handle s e now policy = Inr r"
fun_cases activating_handleE: "activating_handle s e now policy = Inr r"
fun_cases deferred_handleE: "deferred_handle s e now policy = Inr r"
fun_cases soaking_handleE: "soaking_handle s e now policy = Inr r"
fun_cases failed_handleE: "failed_handle s e now policy = Inr r"

lemma step_accepted:
  assumes "step s e now policy = Inr r"
  obtains (pending) "hrs_state s = HS_Pending" "pending_handle s e now policy = Inr r"
      "hrs_last_event_seq s < event_seq e"
    | (activating) "hrs_state s = HS_Activating" "activating_handle s e now policy = Inr r"
      "hrs_last_event_seq s < event_seq e"
    | (deferred) "hrs_state s = HS_Deferred" "deferred_handle s e now policy = Inr r"
      "hrs_last_event_seq s < event_seq e"
    | (soaking) "hrs_state s = HS_Soaking" "soaking_handle s e now policy = Inr r"
      "hrs_last_event_seq s < event_seq e"
    | (failed) "hrs_state s = HS_Failed" "failed_handle s e now policy = Inr r"
      "hrs_last_event_seq s < event_seq e"
  using assms
  by (cases "hrs_state s")
    (auto simp: step_def dispatch_def converged_handle_def reverted_handle_def not_le split: if_splits)

lemmas handle_elims = pending_handleE activating_handleE deferred_handleE soaking_handleE failed_handleE

lemma verify_converged_Inr_iff:
  "verify_converged_invariants s c t = Inr u \<longleftrightarrow>
     c = hrs_target_closure s
     \<and> (\<forall>due. hrs_soak_due_at s = Some due \<longrightarrow> due \<le> t)
     \<and> (\<forall>r \<in> set (hvalues (hrs_probes s)). pr_mode r = Enforce \<longrightarrow> pr_status r = Pass)"
  by (auto simp: verify_converged_invariants_def list_ex_iff not_le split: option.splits if_splits)

lemmas effect_views = transitions_of_def rollbacks_of_def quarantines_of_def rollback_effect_def

section \<open>Consequences of the graph\<close>

inductive_cases host_edge_ConvergedE: "host_edge HS_Converged b"
inductive_cases host_edge_RevertedE: "host_edge HS_Reverted b"
inductive_cases host_edge_into_ConvergedE: "host_edge a HS_Converged"
inductive_cases host_edge_into_PendingE: "host_edge a HS_Pending"

lemma step_edge:
  assumes "step s e now policy = Inr (s', fx)"
  shows "hrs_state s' = hrs_state s \<or> host_edge (hrs_state s) (hrs_state s')"
  using assms
  by (elim step_accepted handle_elims)
    (auto intro: host_edge.intros split: sum.splits)

lemma step_transitions:
  assumes "step s e now policy = Inr (s', fx)"
  shows "transitions_of fx =
    (if hrs_state s' = hrs_state s then []
     else [(hrs_hostname s, hrs_rollout_id s, hrs_state s, hrs_state s')])"
  using assms
  by (elim step_accepted handle_elims)
    (auto simp: effect_views split: sum.splits option.splits OnHealthFailure.splits)

lemma step_frame:
  assumes "step s e now policy = Inr (s', fx)"
  shows "hrs_rollout_id s' = hrs_rollout_id s" "hrs_hostname s' = hrs_hostname s"
    "hrs_channel s' = hrs_channel s" "hrs_target_closure s' = hrs_target_closure s"
    "hrs_dispatched_at s' = hrs_dispatched_at s" "hrs_soak_due_at s' = hrs_soak_due_at s"
    "hrs_last_event_seq s' = event_seq e" "hrs_last_event_seq s < event_seq e"
  using assms
  by (auto elim!: step_accepted handle_elims split: sum.splits)

lemma step_local_effects:
  assumes "step s e now policy = Inr (s', fx)"
  shows "if is_local e then list_all agent_effect fx else list_all cp_effect fx"
  using assms
  by (elim step_accepted handle_elims)
    (auto simp: rollback_effect_def split: sum.splits option.splits OnHealthFailure.splits)

end
