(* ===== verification/Host_Invariants.thy ===== *)
theory Host_Invariants
  imports Host_Reducer
begin

text \<open>
  The invariant of the per-host record, phase by phase, and the order its accepted steps climb;
  the interpretation of the reducer interface on \<open>step\<close> carries both to every stream of events.
  Then the properties of the machine: its graph, its sequencing, the conditions of convergence,
  the rollback and the quarantine it asks for.
\<close>

section \<open>The invariant\<close>

definition unprobed :: "HostRolloutState \<Rightarrow> bool" where
  "unprobed s \<longleftrightarrow> hrs_probes s = [] \<and> hrs_probe_observed_first_at s = None
     \<and> hrs_probe_failure_first_at s = None \<and> hrs_activation_completed_at s = None
     \<and> hrs_current_closure s = None"

definition unfailed :: "HostRolloutState \<Rightarrow> bool" where
  "unfailed s \<longleftrightarrow> hrs_failed_at s = None \<and> hrs_activation_failed_at s = None
     \<and> hrs_policy_applied s = None \<and> hrs_reverted_at s = None \<and> hrs_reverted_to s = None"

definition acked :: "HostRolloutState \<Rightarrow> bool" where
  "acked s \<longleftrightarrow> hrs_dispatch_acked_at s \<noteq> None \<and> hrs_current_closure_at_dispatch s \<noteq> None"

definition activated :: "HostRolloutState \<Rightarrow> bool" where
  "activated s \<longleftrightarrow> hrs_activation_completed_at s \<noteq> None \<and> hrs_current_closure s \<noteq> None"

definition enforce_probes_pass :: "HostRolloutState \<Rightarrow> bool" where
  "enforce_probes_pass s \<longleftrightarrow>
     (\<forall>r \<in> set (hvalues (hrs_probes s)). pr_mode r = Enforce \<longrightarrow> pr_status r = Pass)"

definition soak_elapsed_at :: "HostRolloutState \<Rightarrow> instant \<Rightarrow> bool" where
  "soak_elapsed_at s t \<longleftrightarrow> (case hrs_soak_due_at s of Some due \<Rightarrow> due \<le> t | None \<Rightarrow> True)"

definition probe_record_ok :: "ProbeRecord \<Rightarrow> bool" where
  "probe_record_ok r \<longleftrightarrow>
     (pr_status r = Pass \<longrightarrow> pr_last_pass_at r = Some (pr_last_observed_at r) \<and> pr_failure_reason r = None)"

definition probes_ok :: "(ProbeName, ProbeRecord) hmap \<Rightarrow> bool" where
  "probes_ok ps \<longleftrightarrow> hwf ps \<and> (\<forall>r \<in> set (hvalues ps). probe_record_ok r)"

definition phase_inv :: "HostRolloutState \<Rightarrow> bool" where
  "phase_inv s \<longleftrightarrow>
     (case hrs_state s of
        HS_Pending \<Rightarrow> unprobed s \<and> unfailed s \<and> hrs_converged_at s = None
          \<and> hrs_dispatch_acked_at s = None \<and> hrs_activation_started_at s = None
      | HS_Activating \<Rightarrow> acked s \<and> unprobed s \<and> unfailed s \<and> hrs_converged_at s = None
      | HS_Deferred \<Rightarrow> acked s \<and> unprobed s \<and> unfailed s \<and> hrs_converged_at s = None
      | HS_Soaking \<Rightarrow> acked s \<and> activated s \<and> unfailed s \<and> hrs_converged_at s = None
      | HS_Converged \<Rightarrow> acked s \<and> activated s \<and> unfailed s
          \<and> hrs_current_closure s = Some (hrs_target_closure s)
          \<and> enforce_probes_pass s
          \<and> (case hrs_converged_at s of Some t \<Rightarrow> soak_elapsed_at s t | None \<Rightarrow> False)
      | HS_Failed \<Rightarrow> acked s \<and> hrs_failed_at s \<noteq> None \<and> hrs_converged_at s = None
          \<and> hrs_reverted_at s = None \<and> hrs_reverted_to s = None
          \<and> (activated s \<and> hrs_activation_failed_at s = None \<and> hrs_policy_applied s \<noteq> None
             \<or> unprobed s \<and> hrs_activation_failed_at s = hrs_failed_at s)
      | HS_Reverted \<Rightarrow> acked s \<and> hrs_failed_at s \<noteq> None \<and> hrs_converged_at s = None
          \<and> hrs_reverted_at s \<noteq> None \<and> hrs_reverted_to s \<noteq> None
          \<and> hrs_current_closure s = hrs_reverted_to s)"

definition host_inv :: "HostRolloutState \<Rightarrow> bool" where
  "host_inv s \<longleftrightarrow> probes_ok (hrs_probes s) \<and> phase_inv s"

text \<open>What later states keep of earlier ones: identity, target, deadline, and a path in the graph.\<close>

definition host_le :: "HostRolloutState \<Rightarrow> HostRolloutState \<Rightarrow> bool" where
  "host_le s t \<longleftrightarrow> hrs_rollout_id t = hrs_rollout_id s \<and> hrs_hostname t = hrs_hostname s
     \<and> hrs_channel t = hrs_channel s \<and> hrs_target_closure t = hrs_target_closure s
     \<and> hrs_dispatched_at t = hrs_dispatched_at s \<and> hrs_soak_due_at t = hrs_soak_due_at s
     \<and> hrs_last_event_seq s \<le> hrs_last_event_seq t
     \<and> host_edge\<^sup>*\<^sup>* (hrs_state s) (hrs_state t)"

text \<open>The reducer over timed events: each carries the instant and the policy \<open>step\<close> is called with.\<close>

type_synonym timed_event = "Event \<times> instant \<times> RolloutPolicy"

definition host_step :: "HostRolloutState \<Rightarrow> timed_event \<Rightarrow> step_result" where
  "host_step s te = (case te of (e, now, policy) \<Rightarrow> step s e now policy)"

text \<open>A trail of recorded transitions leads from one host state to another along the graph.\<close>

fun trail :: "HostState \<Rightarrow> (string \<times> RolloutId \<times> HostState \<times> HostState) list \<Rightarrow> HostState \<Rightarrow> bool" where
  "trail a [] b \<longleftrightarrow> a = b"
| "trail a ((_, _, x, y) # ts) b \<longleftrightarrow> x = a \<and> host_edge x y \<and> trail y ts b"

text \<open>A sample record, policy and stream: dispatch, activation, one passing probe, convergence.\<close>

definition sample_policy :: RolloutPolicy where
  "sample_policy =
     \<lparr>pol_strategy = ''canary'', pol_waves = [], pol_health_gate = \<lparr>hg_systemd_failed_units = None\<rparr>,
      pol_on_health_failure = RollbackAndHalt\<rparr>"

definition sample_pending :: HostRolloutState where
  "sample_pending = new_pending (RolloutId_new ''stable'' ''r1'') ''h1'' ''stable'' ''t'' 0 5"

definition timed :: "Event \<Rightarrow> timed_event" where
  "timed e = (e, 0, sample_policy)"

definition sample_activate :: timed_event where
  "sample_activate = timed (LocalActivate ''p'' ''t'' 1 5 1)"

definition sample_soak :: "timed_event list" where
  "sample_soak = [sample_activate, timed (LocalActivationCompleted ''t'' 0 2 2)]"

definition sample_soaking :: HostRolloutState where
  "sample_soaking = run_events host_step sample_pending sample_soak"

definition realizes :: "HostState \<Rightarrow> HostState \<Rightarrow> timed_event list \<Rightarrow> timed_event \<Rightarrow> bool" where
  "realizes a b es te \<longleftrightarrow>
     (let s = run_events host_step sample_pending es
      in hrs_state s = a \<and> (case host_step s te of Inr (s', _) \<Rightarrow> hrs_state s' = b | Inl _ \<Rightarrow> False))"

lemmas inv_defs = host_inv_def phase_inv_def unprobed_def unfailed_def acked_def activated_def
  enforce_probes_pass_def soak_elapsed_at_def

lemma hput_values: "v' \<in> set (hvalues (hput k v m)) \<Longrightarrow> v' = v \<or> v' \<in> set (hvalues m)"
  by (force simp: hvalues_def dest: hput_in_set)

lemma probes_ok_Nil [simp]: "probes_ok []"
  by (simp add: probes_ok_def hvalues_def)

lemma probes_ok_update: "probes_ok ps \<Longrightarrow> probes_ok (update_probe ps n m st t fr)"
  by (auto simp: probes_ok_def update_probe_def Let_def probe_record_ok_def hm.wf_insert dest!: hput_values)

lemma update_probe_same:
  "hget (update_probe ps n m st t fr) n =
     Some \<lparr>pr_status = st, pr_mode = m, pr_last_observed_at = t,
           pr_last_pass_at = (if st = Pass then Some t else Option.bind (hget ps n) pr_last_pass_at),
           pr_failure_reason = (if st = Pass then None else fr)\<rparr>"
  by (auto simp: update_probe_def Let_def split: option.split)

lemma update_probe_other: "k \<noteq> n \<Longrightarrow> hget (update_probe ps n m st t fr) k = hget ps k"
  by (simp add: update_probe_def Let_def)

lemma new_pending_inv: "host_inv (new_pending rid h ch tc da sd)"
  by (simp add: inv_defs new_pending_def)

lemma step_probes_ok:
  assumes "step s e now policy = Inr (s', fx)" "probes_ok (hrs_probes s)"
  shows "probes_ok (hrs_probes s')"
  using assms by (elim step_accepted handle_elims) (auto simp: probes_ok_update split: sum.splits)

lemma step_phase_inv:
  assumes "step s e now policy = Inr (s', fx)" "phase_inv s"
  shows "phase_inv s'"
  using assms
  by (elim step_accepted handle_elims)
    (auto simp: inv_defs verify_converged_Inr_iff split: sum.splits option.splits)

lemma step_host_inv: "step s e now policy = Inr (s', fx) \<Longrightarrow> host_inv s \<Longrightarrow> host_inv s'"
  using step_probes_ok step_phase_inv unfolding host_inv_def by blast

lemma step_host_le: "step s e now policy = Inr (s', fx) \<Longrightarrow> host_le s s'"
  using step_frame [of s e now policy s' fx] step_edge [of s e now policy s' fx]
  by (auto simp: host_le_def)

interpretation host_machine: reducer host_step host_inv host_le
proof unfold_locales
  fix s e s' fx
  assume st: "host_step s e = Inr (s', fx)" and inv: "host_inv s"
  show "host_inv s'" using st inv by (auto simp: host_step_def step_host_inv split: prod.splits)
  show "host_le s s'" using st by (auto simp: host_step_def step_host_le split: prod.splits)
qed (auto simp: host_le_def)

section \<open>Effects of a step\<close>

lemma step_rollbacks:
  assumes "step s e now policy = Inr (s', fx)"
  shows "rollbacks_of fx =
    (case e of
       LocalActivationFailed _ _ _ _ \<Rightarrow>
         if hrs_state s = HS_Activating \<and> pol_on_health_failure policy = RollbackAndHalt
         then opt_to_list (hrs_current_closure_at_dispatch s) else []
     | LocalSustainedFailureCrossed _ _ _ pol _ \<Rightarrow>
         if pol = RollbackAndHalt then opt_to_list (hrs_current_closure_at_dispatch s) else []
     | _ \<Rightarrow> [])"
  using assms
  by (elim step_accepted handle_elims)
    (auto simp: effect_views opt_to_list_def split: sum.splits option.splits OnHealthFailure.splits)

lemma step_stale: "event_seq e \<le> hrs_last_event_seq s \<Longrightarrow>
   step s e now policy = Inl (SeqRegression (event_seq e) (hrs_last_event_seq s) (hrs_rollout_id s) (hrs_hostname s))"
  by (simp add: step_def dispatch_def)

lemma run_stale:
  "\<forall>te \<in> set es. event_seq (fst te) \<le> hrs_last_event_seq s \<Longrightarrow> run_events host_step s es = s"
  by (induction es) (auto simp: settle_def host_step_def step_stale split: prod.splits)

lemma step_terminal:
  "hrs_state s \<in> {HS_Converged, HS_Reverted} \<Longrightarrow> \<exists>er. step s e now policy = Inl er"
  by (auto simp: step_def dispatch_def converged_handle_def reverted_handle_def)

lemma transitions_of_append: "transitions_of (xs @ ys) = transitions_of xs @ transitions_of ys"
  by (simp add: transitions_of_def)

lemma transitions_of_Nil [simp]: "transitions_of [] = []"
  by (simp add: transitions_of_def)

lemma run_trail:
  "trail (hrs_state s) (transitions_of (run_effects host_step s es)) (hrs_state (run_events host_step s es))"
proof (induction es arbitrary: s)
  case (Cons te es)
  obtain e now policy where te: "te = (e, now, policy)" by (cases te)
  show ?case
  proof (cases rule: settle_cases [of host_step s te])
    case (refused er)
    with Cons show ?thesis by (simp add: transitions_of_append)
  next
    case (stepped s' fx)
    then have "step s e now policy = Inr (s', fx)" by (simp add: host_step_def te)
    from step_transitions [OF this] step_edge [OF this] Cons.IH [of s'] stepped
    show ?thesis by (auto simp: transitions_of_append)
  qed
qed simp

lemma effects_side_run:
  assumes "\<forall>te \<in> set es. is_local (fst te) = l"
  shows "list_all (if l then agent_effect else cp_effect) (run_effects host_step s es)"
  using assms
proof (induction es arbitrary: s)
  case (Cons te es)
  obtain e now policy where te: "te = (e, now, policy)" by (cases te)
  show ?case
  proof (cases rule: settle_cases [of host_step s te])
    case (refused er)
    with Cons show ?thesis by simp
  next
    case (stepped s' fx)
    then have "step s e now policy = Inr (s', fx)" by (simp add: host_step_def te)
    from step_local_effects [OF this] Cons stepped te show ?thesis by (auto split: if_splits)
  qed
qed simp

section \<open>The sample run\<close>

lemmas sample_defs = sample_policy_def sample_pending_def timed_def sample_activate_def sample_soak_def
  sample_soaking_def host_step_def new_pending_def step_def dispatch_def settle_def

lemma sample_soaking_eq:
  "sample_soaking = sample_pending\<lparr>hrs_state := HS_Soaking, hrs_current_closure_at_dispatch := Some ''p'',
     hrs_dispatch_acked_at := Some 1, hrs_activation_completed_at := Some 2,
     hrs_current_closure := Some ''t'', hrs_last_event_seq := 2\<rparr>"
  by (simp add: sample_defs)

lemma every_edge_realized: "host_edge a b \<Longrightarrow> \<exists>es te. realizes a b es te"
proof (induction rule: host_edge.induct)
  case 1
  have "realizes HS_Pending HS_Activating [] sample_activate"
    by (simp add: realizes_def sample_defs)
  then show ?case by blast
next
  case 2
  have "realizes HS_Activating HS_Soaking [sample_activate] (timed (LocalActivationCompleted ''t'' 0 2 2))"
    by (simp add: realizes_def sample_defs)
  then show ?case by blast
next
  case 3
  have "realizes HS_Activating HS_Deferred [sample_activate] (timed (LocalActivationDeferred ''dbus'' 2 2))"
    by (simp add: realizes_def sample_defs)
  then show ?case by blast
next
  case 4
  have "realizes HS_Activating HS_Failed [sample_activate] (timed (LocalActivationFailed 1 [] 2 2))"
    by (simp add: realizes_def sample_defs)
  then show ?case by blast
next
  case 5
  have "realizes HS_Deferred HS_Soaking [sample_activate, timed (LocalActivationDeferred ''dbus'' 2 2)]
      (timed (LocalActivationCompleted ''t'' 0 3 3))"
    by (simp add: realizes_def sample_defs)
  then show ?case by blast
next
  case 6
  have "realizes HS_Deferred HS_Failed [sample_activate, timed (LocalActivationDeferred ''dbus'' 2 2)]
      (timed (LocalActivationFailed 1 [] 3 3))"
    by (simp add: realizes_def sample_defs)
  then show ?case by blast
next
  case 7
  have "realizes HS_Soaking HS_Converged sample_soak (timed (LocalConvergedReached 5 ''t'' 3))"
    by (simp add: realizes_def sample_defs verify_converged_invariants_def hvalues_def)
  then show ?case by blast
next
  case 8
  have "realizes HS_Soaking HS_Failed sample_soak (timed (LocalSustainedFailureCrossed 5 60 [] Halt 3))"
    by (simp add: realizes_def sample_defs)
  then show ?case by blast
next
  case 9
  have "realizes HS_Failed HS_Reverted (sample_soak @ [timed (LocalSustainedFailureCrossed 5 60 [] Halt 3)])
      (timed (LocalRollbackCompleted ''p'' 0 6 4))"
    by (simp add: realizes_def sample_defs)
  then show ?case by blast
qed

section \<open>Properties\<close>

text \<open>
  C3. Every record reached from a fresh one by any stream of events satisfies the phase invariant:
  each transition timestamp, closure and probe entry is present exactly in the phases that own it,
  and a converged record runs its target closure, after its soak deadline, with every enforced
  probe passing.
\<close>

theorem host_record_invariant:
  "host_inv (run_events host_step (new_pending rid h ch tc da sd) es)"
  by (rule host_machine.run_inv [OF new_pending_inv])

text \<open>
  C4. The only way into \<open>Converged\<close> is a convergence event in \<open>Soaking\<close> whose closure is the target,
  whose instant is not before the soak deadline and at which no enforced probe fails.
\<close>

theorem converged_conditions:
  assumes "step s e now policy = Inr (s', fx)" "hrs_state s' = HS_Converged"
  shows "hrs_state s = HS_Soaking
     \<and> (\<exists>t seq. (e = LocalConvergedReached t (hrs_target_closure s) seq
               \<or> e = RemoteConverged t (hrs_target_closure s) seq)
          \<and> soak_elapsed_at s t \<and> enforce_probes_pass s
          \<and> hrs_converged_at s' = Some t \<and> hrs_current_closure s' = Some (hrs_target_closure s'))"
  using assms
  by (elim step_accepted handle_elims)
    (auto simp: verify_converged_Inr_iff soak_elapsed_at_def enforce_probes_pass_def split: sum.splits option.splits)

theorem converged_conditions_witness:
  "hrs_state sample_soaking = HS_Soaking \<and> soak_elapsed_at sample_soaking 5 \<and> enforce_probes_pass sample_soaking"
  using converged_conditions [of sample_soaking "LocalConvergedReached 5 ''t'' 3" 0 sample_policy]
  by (simp add: sample_soaking_eq sample_pending_def new_pending_def step_def dispatch_def
      verify_converged_invariants_def hvalues_def)

text \<open>
  Conversely a soaking host that meets the three conditions converges on either side: neither
  the agent's nor the control plane's reducer refuses its convergence event.
\<close>

lemma converged_accepted:
  assumes "hrs_state s = HS_Soaking" "hrs_last_event_seq s < seq"
    "soak_elapsed_at s t" "enforce_probes_pass s"
    "e \<in> {LocalConvergedReached t (hrs_target_closure s) seq, RemoteConverged t (hrs_target_closure s) seq}"
  shows "\<exists>s' fx. step s e now policy = Inr (s', fx) \<and> hrs_state s' = HS_Converged \<and> hrs_converged_at s' = Some t"
proof -
  have "verify_converged_invariants s (hrs_target_closure s) t = Inr ()"
    using assms by (auto simp: verify_converged_Inr_iff soak_elapsed_at_def enforce_probes_pass_def)
  with assms show ?thesis by (auto simp: step_def dispatch_def)
qed

text \<open>
  The transitions of the reducer are exactly the edges of the published graph: every change of
  state it makes is an edge, and every edge is taken from a record reached by a stream of events.
\<close>

lemma transition_graph:
  "host_edge a b \<longleftrightarrow> a \<noteq> b \<and>
     (\<exists>rid h ch tc da sd es te s' fx.
        host_step (run_events host_step (new_pending rid h ch tc da sd) es) te = Inr (s', fx)
        \<and> hrs_state (run_events host_step (new_pending rid h ch tc da sd) es) = a \<and> hrs_state s' = b)"
    (is "_ \<longleftrightarrow> a \<noteq> b \<and> ?realized")
proof
  assume e: "host_edge a b"
  obtain es te where "realizes a b es te" using every_edge_realized [OF e] by blast
  then obtain s' fx where "host_step (run_events host_step sample_pending es) te = Inr (s', fx)"
      "hrs_state (run_events host_step sample_pending es) = a" "hrs_state s' = b"
    by (auto simp: realizes_def Let_def split: sum.splits)
  then have ?realized unfolding sample_pending_def by blast
  moreover have "a \<noteq> b" using e by (auto elim: host_edge.cases)
  ultimately show "a \<noteq> b \<and> ?realized" by blast
next
  assume "a \<noteq> b \<and> ?realized"
  then show "host_edge a b" using step_edge by (auto simp: host_step_def split: prod.splits) metis
qed

text \<open>
  The \<open>RecordTransition\<close> effects of a whole stream, in order, are a path of the graph from the
  first state of the record to its last: the audit trail neither omits nor invents a transition.
\<close>

lemma transitions_recorded:
  "trail (hrs_state s) (transitions_of (run_effects host_step s es)) (hrs_state (run_events host_step s es))"
  by (rule run_trail)

text \<open>
  Redelivery is harmless: events whose sequence number is not above the last one accepted
  change nothing, wherever in a stream they are delivered again.
\<close>

lemma replay_no_op:
  assumes "\<forall>te \<in> set dup. event_seq (fst te) \<le> hrs_last_event_seq (run_events host_step s xs)"
  shows "run_events host_step s (xs @ dup @ ys) = run_events host_step s (xs @ ys)"
  using run_stale [OF assms] by (simp add: run_events_append)

text \<open>
  \<open>Converged\<close> and \<open>Reverted\<close> are final: every event is refused and no stream changes the record.
\<close>

lemma terminal_states_final:
  assumes "hrs_state s = HS_Converged \<or> hrs_state s = HS_Reverted"
  shows "run_events host_step s es = s \<and> run_effects host_step s es = []"
  using assms
proof (induction es)
  case (Cons te es)
  obtain e now policy where te: "te = (e, now, policy)" by (cases te)
  obtain er where "step s e now policy = Inl er" using step_terminal [of s e now policy] Cons.prems by blast
  with Cons te show ?case by (simp add: settle_def host_step_def)
qed simp

text \<open>
  A rollback is fired only by the agent, only when an activation or a soak fails under
  \<open>RollbackAndHalt\<close>, always to the closure the host ran before the dispatch, and then at most once.
\<close>

lemma rollback_target:
  assumes "step s e now policy = Inr (s', fx)" "host_inv s"
  shows "rollbacks_of fx =
    (case e of
       LocalActivationFailed _ _ _ _ \<Rightarrow>
         if hrs_state s = HS_Activating \<and> pol_on_health_failure policy = RollbackAndHalt
         then [the (hrs_current_closure_at_dispatch s)] else []
     | LocalSustainedFailureCrossed _ _ _ pol _ \<Rightarrow>
         if pol = RollbackAndHalt then [the (hrs_current_closure_at_dispatch s)] else []
     | _ \<Rightarrow> [])"
proof -
  have "hrs_state s \<noteq> HS_Pending \<Longrightarrow> \<exists>c. hrs_current_closure_at_dispatch s = Some c"
    using assms(2) by (cases "hrs_state s") (auto simp: inv_defs)
  moreover have "hrs_state s = HS_Pending \<Longrightarrow> rollbacks_of fx = [] \<and> (\<forall>a b c d. e \<noteq> LocalActivationFailed a b c d)
      \<and> (\<forall>a b c d f. e \<noteq> LocalSustainedFailureCrossed a b c d f)"
    using assms(1) by (auto elim!: step_accepted pending_handleE simp: effect_views)
  ultimately show ?thesis
    using step_rollbacks [OF assms(1)]
    by (cases "hrs_state s = HS_Pending") (auto simp: opt_to_list_def split: Event.splits)
qed

text \<open>
  A closure is quarantined exactly when the control plane's copy sees a rollback complete: the
  target closure of the rollout, on the rollout's channel.
\<close>

lemma quarantine_on_revert:
  assumes "step s e now policy = Inr (s', fx)"
  shows "quarantines_of fx =
    (if hrs_state s' = HS_Reverted \<and> \<not> is_local e then [(hrs_channel s, hrs_target_closure s)] else [])"
  using assms
  by (elim step_accepted handle_elims)
    (auto simp: effect_views split: sum.splits option.splits OnHealthFailure.splits)

text \<open>
  C30. A reducer fed with one side's events only asks for effects that side's applier accepts:
  \<open>Local\<close> events never yield a control-plane effect and \<open>Remote\<close> events never yield an agent effect.
\<close>

theorem effects_stay_on_their_side:
  assumes "\<forall>te \<in> set es. is_local (fst te) = l"
  shows "list_all (if l then agent_effect else cp_effect) (run_effects host_step s es)"
  by (rule effects_side_run [OF assms])

theorem effects_stay_on_their_side_witness:
  "list_all agent_effect (run_effects host_step sample_pending sample_soak)
     \<and> run_effects host_step sample_pending sample_soak \<noteq> []"
  using effects_stay_on_their_side [of sample_soak True sample_pending]
  by (simp add: sample_defs)

end
