(* ===== verification/Rollout_Reducer.thy ===== *)
theory Rollout_Reducer
  imports Host_Invariants
begin

text \<open>
  The rollout-level reducer (\<open>nixfleet-state-machine/src/rollout\<close>), which the control plane alone
  runs: the eight states of a (channel, rollout) record, one function per source state, and the
  dispatcher. The lemmas give its graph, the invariant of the record, the monotone wave cursor, and
  that a halted rollout never comes back.
\<close>

section \<open>state.rs\<close>

datatype RolloutState =
    RS_Opening | RS_Active | RS_Converging | RS_Terminal | RS_Reverted | RS_Failed
  | RS_Superseded | RS_Pruned

record RolloutRecord =
  rr_rollout_id :: RolloutId
  rr_channel :: string
  rr_target_ref :: string
  rr_state :: RolloutState
  rr_current_wave :: u32
  rr_opened_event_log_seq :: "i64 option"
  rr_last_transition_event_log_seq :: "i64 option"
  rr_opened_at :: instant
  rr_terminal_at :: "instant option"
  rr_superseded_at :: "instant option"

fun as_db_str :: "RolloutState \<Rightarrow> string" where
  "as_db_str RS_Opening = ''Opening''"
| "as_db_str RS_Active = ''Active''"
| "as_db_str RS_Converging = ''Converging''"
| "as_db_str RS_Terminal = ''Terminal''"
| "as_db_str RS_Reverted = ''Reverted''"
| "as_db_str RS_Failed = ''Failed''"
| "as_db_str RS_Superseded = ''Superseded''"
| "as_db_str RS_Pruned = ''Pruned''"

definition from_db_str :: "string \<Rightarrow> RolloutState option" where
  "from_db_str s =
     (if s = ''Opening'' then Some RS_Opening
      else if s = ''Active'' then Some RS_Active
      else if s = ''Converging'' then Some RS_Converging
      else if s = ''Terminal'' then Some RS_Terminal
      else if s = ''Reverted'' then Some RS_Reverted
      else if s = ''Failed'' then Some RS_Failed
      else if s = ''Superseded'' then Some RS_Superseded
      else if s = ''Pruned'' then Some RS_Pruned
      else None)"

definition is_terminal_for_ordering :: "RolloutState \<Rightarrow> bool" where
  "is_terminal_for_ordering s \<longleftrightarrow> s = RS_Terminal \<or> s = RS_Superseded"

section \<open>event.rs, effect.rs, error.rs\<close>

datatype RolloutEvent =
    RolloutOpened RolloutId string string instant
  | HostJoined RolloutId string u32 instant
  | HostStateChanged RolloutId string HostState HostState instant
  | WaveAdvanced RolloutId u32 u32 instant
  | RolloutTerminal RolloutId instant
  | SuccessorOpened RolloutId RolloutId instant
  | RetentionExpired RolloutId instant
  | OperatorClearance RolloutId string string instant

primrec RolloutEvent_kind :: "RolloutEvent \<Rightarrow> string" where
  "RolloutEvent_kind (RolloutOpened _ _ _ _) = ''RolloutOpened''"
| "RolloutEvent_kind (HostJoined _ _ _ _) = ''HostJoined''"
| "RolloutEvent_kind (HostStateChanged _ _ _ _ _) = ''HostStateChanged''"
| "RolloutEvent_kind (WaveAdvanced _ _ _ _) = ''WaveAdvanced''"
| "RolloutEvent_kind (RolloutTerminal _ _) = ''RolloutTerminal''"
| "RolloutEvent_kind (SuccessorOpened _ _ _) = ''SuccessorOpened''"
| "RolloutEvent_kind (RetentionExpired _ _) = ''RetentionExpired''"
| "RolloutEvent_kind (OperatorClearance _ _ _ _) = ''OperatorClearance''"

datatype RolloutEffect =
    RecordRolloutTransition RolloutId RolloutState RolloutState instant
  | UpdateCurrentWave RolloutId u32
  | InsertQuarantineFromRollout string ClosureHash
  | SchedulePruning RolloutId i64

primrec RolloutEffect_kind :: "RolloutEffect \<Rightarrow> string" where
  "RolloutEffect_kind (RecordRolloutTransition _ _ _ _) = ''RecordRolloutTransition''"
| "RolloutEffect_kind (UpdateCurrentWave _ _) = ''UpdateCurrentWave''"
| "RolloutEffect_kind (InsertQuarantineFromRollout _ _) = ''InsertQuarantineFromRollout''"
| "RolloutEffect_kind (SchedulePruning _ _) = ''SchedulePruning''"

datatype RolloutTransitionError =
    RIllegalForState RolloutState string RolloutId
  | SupersessionExpected RolloutId string
  | RInvariant string
  | RUnimplemented RolloutState string

type_synonym rollout_result = "RolloutTransitionError + RolloutRecord \<times> RolloutEffect list"

section \<open>transitions/mod.rs: helpers\<close>

definition transition_effect :: "RolloutRecord \<Rightarrow> RolloutState \<Rightarrow> RolloutState \<Rightarrow> instant \<Rightarrow> RolloutEffect" where
  "transition_effect r from to at = RecordRolloutTransition (rr_rollout_id r) from to at"

definition rollout_illegal :: "RolloutState \<Rightarrow> RolloutEvent \<Rightarrow> RolloutId \<Rightarrow> RolloutTransitionError" where
  "rollout_illegal from e rid = RIllegalForState from (RolloutEvent_kind e) rid"

section \<open>One function per source state\<close>

fun opening_step :: "RolloutRecord \<Rightarrow> RolloutEvent \<Rightarrow> instant \<Rightarrow> rollout_result" where
  "opening_step r (HostJoined _ _ _ at) now =
     (let r = r\<lparr>rr_state := RS_Active\<rparr>
      in Inr (r, [transition_effect r RS_Opening RS_Active at]))"
| "opening_step r (SuccessorOpened _ _ at) now =
     (let r = r\<lparr>rr_state := RS_Superseded, rr_superseded_at := Some at\<rparr>
      in Inr (r, [transition_effect r RS_Opening RS_Superseded at]))"
| "opening_step r e now = Inl (rollout_illegal RS_Opening e (rr_rollout_id r))"

fun active_step :: "RolloutRecord \<Rightarrow> RolloutEvent \<Rightarrow> instant \<Rightarrow> rollout_result" where
  "active_step r (HostJoined _ _ _ _) now = Inr (r, [])"
| "active_step r (HostStateChanged _ _ _ to at) now =
     (case to of
        HS_Reverted \<Rightarrow>
          (let r = r\<lparr>rr_state := RS_Reverted\<rparr>
           in Inr (r, [transition_effect r RS_Active RS_Reverted at]))
      | HS_Failed \<Rightarrow>
          (let r = r\<lparr>rr_state := RS_Failed\<rparr>
           in Inr (r, [transition_effect r RS_Active RS_Failed at]))
      | _ \<Rightarrow> Inr (r, []))"
| "active_step r (WaveAdvanced _ from_wave to_wave at) now =
     (if to_wave > from_wave
      then if to_wave > rr_current_wave r
           then Inr (r\<lparr>rr_current_wave := to_wave\<rparr>, [UpdateCurrentWave (rr_rollout_id r) to_wave])
           else Inr (r, [])
      else let r = r\<lparr>rr_state := RS_Converging\<rparr>
           in Inr (r, [transition_effect r RS_Active RS_Converging at]))"
| "active_step r (RolloutTerminal _ at) now =
     (let r = r\<lparr>rr_state := RS_Terminal, rr_terminal_at := Some at\<rparr>
      in Inr (r, [transition_effect r RS_Active RS_Terminal at]))"
| "active_step r (SuccessorOpened _ _ at) now =
     (let r = r\<lparr>rr_state := RS_Superseded, rr_superseded_at := Some at\<rparr>
      in Inr (r, [transition_effect r RS_Active RS_Superseded at]))"
| "active_step r e now = Inl (rollout_illegal RS_Active e (rr_rollout_id r))"

fun converging_step :: "RolloutRecord \<Rightarrow> RolloutEvent \<Rightarrow> instant \<Rightarrow> rollout_result" where
  "converging_step r (WaveAdvanced _ from_wave to_wave at) now =
     (if to_wave > from_wave
      then let r = r\<lparr>rr_state := RS_Active\<rparr>;
               effects = [transition_effect r RS_Converging RS_Active at]
           in if to_wave > rr_current_wave r
              then Inr (r\<lparr>rr_current_wave := to_wave\<rparr>,
                        effects @ [UpdateCurrentWave (rr_rollout_id r) to_wave])
              else Inr (r, effects)
      else Inr (r, []))"
| "converging_step r (RolloutTerminal _ at) now =
     (let r = r\<lparr>rr_state := RS_Terminal, rr_terminal_at := Some at\<rparr>
      in Inr (r, [transition_effect r RS_Converging RS_Terminal at]))"
| "converging_step r (HostStateChanged _ _ _ to at) now =
     (case to of
        HS_Reverted \<Rightarrow>
          (let r = r\<lparr>rr_state := RS_Reverted\<rparr>
           in Inr (r, [transition_effect r RS_Converging RS_Reverted at]))
      | HS_Failed \<Rightarrow>
          (let r = r\<lparr>rr_state := RS_Failed\<rparr>
           in Inr (r, [transition_effect r RS_Converging RS_Failed at]))
      | _ \<Rightarrow> Inr (r, []))"
| "converging_step r (SuccessorOpened _ _ at) now =
     (let r = r\<lparr>rr_state := RS_Superseded, rr_superseded_at := Some at\<rparr>
      in Inr (r, [transition_effect r RS_Converging RS_Superseded at]))"
| "converging_step r (HostJoined _ _ _ _) now = Inr (r, [])"
| "converging_step r e now = Inl (rollout_illegal RS_Converging e (rr_rollout_id r))"

fun terminal_step :: "RolloutRecord \<Rightarrow> RolloutEvent \<Rightarrow> instant \<Rightarrow> rollout_result" where
  "terminal_step r (SuccessorOpened _ _ at) now =
     (let r = r\<lparr>rr_state := RS_Superseded, rr_superseded_at := Some at\<rparr>
      in Inr (r, [transition_effect r RS_Terminal RS_Superseded at]))"
| "terminal_step r (RetentionExpired _ at) now =
     (let r = r\<lparr>rr_state := RS_Pruned\<rparr>
      in Inr (r, [transition_effect r RS_Terminal RS_Pruned at]))"
| "terminal_step r (RolloutTerminal _ _) now = Inr (r, [])"
| "terminal_step r (HostStateChanged _ _ _ _ _) now = Inr (r, [])"
| "terminal_step r (HostJoined _ _ _ _) now = Inr (r, [])"
| "terminal_step r e now = Inl (rollout_illegal RS_Terminal e (rr_rollout_id r))"

fun reverted_step :: "RolloutRecord \<Rightarrow> RolloutEvent \<Rightarrow> instant \<Rightarrow> rollout_result" where
  "reverted_step r (SuccessorOpened _ _ at) now =
     (let r = r\<lparr>rr_state := RS_Superseded, rr_superseded_at := Some at\<rparr>
      in Inr (r, [transition_effect r RS_Reverted RS_Superseded at]))"
| "reverted_step r (RetentionExpired _ at) now =
     (let r = r\<lparr>rr_state := RS_Pruned\<rparr>
      in Inr (r, [transition_effect r RS_Reverted RS_Pruned at]))"
| "reverted_step r (OperatorClearance rid op why at) now =
     Inl (RUnimplemented RS_Reverted (RolloutEvent_kind (OperatorClearance rid op why at)))"
| "reverted_step r (RolloutOpened rid ch ref at) now =
     Inl (rollout_illegal RS_Reverted (RolloutOpened rid ch ref at) (rr_rollout_id r))"
| "reverted_step r e now = Inr (r, [])"

fun failed_step :: "RolloutRecord \<Rightarrow> RolloutEvent \<Rightarrow> instant \<Rightarrow> rollout_result" where
  "failed_step r (SuccessorOpened _ _ at) now =
     (let r = r\<lparr>rr_state := RS_Superseded, rr_superseded_at := Some at\<rparr>
      in Inr (r, [transition_effect r RS_Failed RS_Superseded at]))"
| "failed_step r (RetentionExpired _ at) now =
     (let r = r\<lparr>rr_state := RS_Pruned\<rparr>
      in Inr (r, [transition_effect r RS_Failed RS_Pruned at]))"
| "failed_step r (OperatorClearance rid op why at) now =
     Inl (RUnimplemented RS_Failed (RolloutEvent_kind (OperatorClearance rid op why at)))"
| "failed_step r (RolloutOpened rid ch ref at) now =
     Inl (rollout_illegal RS_Failed (RolloutOpened rid ch ref at) (rr_rollout_id r))"
| "failed_step r e now = Inr (r, [])"

fun superseded_step :: "RolloutRecord \<Rightarrow> RolloutEvent \<Rightarrow> instant \<Rightarrow> rollout_result" where
  "superseded_step r (RetentionExpired _ at) now =
     (let r = r\<lparr>rr_state := RS_Pruned\<rparr>
      in Inr (r, [transition_effect r RS_Superseded RS_Pruned at]))"
| "superseded_step r (RolloutOpened rid ch ref at) now =
     Inl (rollout_illegal RS_Superseded (RolloutOpened rid ch ref at) (rr_rollout_id r))"
| "superseded_step r (OperatorClearance rid op why at) now =
     Inl (rollout_illegal RS_Superseded (OperatorClearance rid op why at) (rr_rollout_id r))"
| "superseded_step r e now = Inr (r, [])"

definition pruned_step :: "RolloutRecord \<Rightarrow> RolloutEvent \<Rightarrow> instant \<Rightarrow> rollout_result" where
  "pruned_step r e now = Inl (rollout_illegal RS_Pruned e (rr_rollout_id r))"

section \<open>Dispatch\<close>

definition rollout_dispatch :: "RolloutRecord \<Rightarrow> RolloutEvent \<Rightarrow> instant \<Rightarrow> rollout_result" where
  "rollout_dispatch r e now =
     (case rr_state r of
        RS_Opening \<Rightarrow> opening_step r e now
      | RS_Active \<Rightarrow> active_step r e now
      | RS_Converging \<Rightarrow> converging_step r e now
      | RS_Terminal \<Rightarrow> terminal_step r e now
      | RS_Reverted \<Rightarrow> reverted_step r e now
      | RS_Failed \<Rightarrow> failed_step r e now
      | RS_Superseded \<Rightarrow> superseded_step r e now
      | RS_Pruned \<Rightarrow> pruned_step r e now)"

definition rollout_step :: "RolloutRecord \<Rightarrow> RolloutEvent \<Rightarrow> instant \<Rightarrow> rollout_result" where
  "rollout_step r e now = rollout_dispatch r e now"

text \<open>The reducer as the runtimes fold it: each event comes with the instant it is processed at.\<close>

definition rollout_machine_step :: "RolloutRecord \<Rightarrow> RolloutEvent \<times> instant \<Rightarrow> rollout_result" where
  "rollout_machine_step r en = rollout_step r (fst en) (snd en)"

section \<open>The graph, the invariant and the order of the machine\<close>

inductive rollout_edge :: "RolloutState \<Rightarrow> RolloutState \<Rightarrow> bool" where
  "rollout_edge RS_Opening RS_Active"
| "rollout_edge RS_Active RS_Converging"
| "rollout_edge RS_Converging RS_Active"
| "a \<in> {RS_Active, RS_Converging} \<Longrightarrow> b \<in> {RS_Terminal, RS_Reverted, RS_Failed} \<Longrightarrow> rollout_edge a b"
| "a \<in> {RS_Opening, RS_Active, RS_Converging, RS_Terminal, RS_Reverted, RS_Failed} \<Longrightarrow>
     rollout_edge a RS_Superseded"
| "a \<in> {RS_Terminal, RS_Reverted, RS_Failed, RS_Superseded} \<Longrightarrow> rollout_edge a RS_Pruned"

definition rollout_inv :: "RolloutRecord \<Rightarrow> bool" where
  "rollout_inv r \<longleftrightarrow>
     (rr_state r = RS_Terminal \<longrightarrow> rr_terminal_at r \<noteq> None)
     \<and> (rr_terminal_at r \<noteq> None \<longrightarrow> rr_state r \<in> {RS_Terminal, RS_Superseded, RS_Pruned})
     \<and> (rr_state r = RS_Superseded \<longrightarrow> rr_superseded_at r \<noteq> None)
     \<and> (rr_superseded_at r \<noteq> None \<longrightarrow> rr_state r \<in> {RS_Superseded, RS_Pruned})"

definition rollout_le :: "RolloutRecord \<Rightarrow> RolloutRecord \<Rightarrow> bool" where
  "rollout_le r q \<longleftrightarrow> rr_rollout_id q = rr_rollout_id r \<and> rr_channel q = rr_channel r
     \<and> rr_target_ref q = rr_target_ref r \<and> rr_opened_at q = rr_opened_at r
     \<and> rr_current_wave r \<le> rr_current_wave q \<and> rollout_edge\<^sup>*\<^sup>* (rr_state r) (rr_state q)"

definition rollout_transitions :: "RolloutEffect list \<Rightarrow> (RolloutId \<times> RolloutState \<times> RolloutState) list" where
  "rollout_transitions fx =
     concat (map (\<lambda>f. case f of RecordRolloutTransition r a b _ \<Rightarrow> [(r, a, b)] | _ \<Rightarrow> []) fx)"

definition wave_updates :: "RolloutEffect list \<Rightarrow> u32 list" where
  "wave_updates fx = concat (map (\<lambda>f. case f of UpdateCurrentWave _ w \<Rightarrow> [w] | _ \<Rightarrow> []) fx)"

definition sample_record :: RolloutRecord where
  "sample_record =
     \<lparr>rr_rollout_id = RolloutId_new ''stable'' ''r1'', rr_channel = ''stable'', rr_target_ref = ''r1'',
      rr_state = RS_Opening, rr_current_wave = 0, rr_opened_event_log_seq = None,
      rr_last_transition_event_log_seq = None, rr_opened_at = 0, rr_terminal_at = None,
      rr_superseded_at = None\<rparr>"

section \<open>Accepted steps\<close>

fun_cases opening_stepE: "opening_step r e now = Inr res"
fun_cases active_stepE: "active_step r e now = Inr res"
fun_cases converging_stepE: "converging_step r e now = Inr res"
fun_cases terminal_stepE: "terminal_step r e now = Inr res"
fun_cases reverted_stepE: "reverted_step r e now = Inr res"
fun_cases failed_stepE: "failed_step r e now = Inr res"
fun_cases superseded_stepE: "superseded_step r e now = Inr res"

lemmas rollout_elims = opening_stepE active_stepE converging_stepE terminal_stepE reverted_stepE
  failed_stepE superseded_stepE

lemma rollout_step_accepted:
  assumes "rollout_step r e now = Inr res"
  obtains (op) "rr_state r = RS_Opening" "opening_step r e now = Inr res"
    | (active) "rr_state r = RS_Active" "active_step r e now = Inr res"
    | (converging) "rr_state r = RS_Converging" "converging_step r e now = Inr res"
    | (terminal) "rr_state r = RS_Terminal" "terminal_step r e now = Inr res"
    | (reverted) "rr_state r = RS_Reverted" "reverted_step r e now = Inr res"
    | (failed) "rr_state r = RS_Failed" "failed_step r e now = Inr res"
    | (superseded) "rr_state r = RS_Superseded" "superseded_step r e now = Inr res"
  using assms
  by (cases "rr_state r") (auto simp: rollout_step_def rollout_dispatch_def pruned_step_def)

lemmas rollout_splits = HostState.splits if_splits

lemma rollout_step_edge:
  assumes "rollout_step r e now = Inr (r', fx)"
  shows "rr_state r' = rr_state r \<or> rollout_edge (rr_state r) (rr_state r')"
  using assms
  by (elim rollout_step_accepted rollout_elims)
    (auto simp: Let_def intro: rollout_edge.intros split: rollout_splits)

lemma rollout_step_frame:
  assumes "rollout_step r e now = Inr (r', fx)"
  shows "rr_rollout_id r' = rr_rollout_id r" "rr_channel r' = rr_channel r"
    "rr_target_ref r' = rr_target_ref r" "rr_opened_at r' = rr_opened_at r"
    "rr_current_wave r \<le> rr_current_wave r'"
  using assms
  by (elim rollout_step_accepted rollout_elims; auto simp: Let_def split: rollout_splits)+

lemma rollout_step_inv:
  assumes "rollout_step r e now = Inr (r', fx)" "rollout_inv r"
  shows "rollout_inv r'"
  using assms
  by (elim rollout_step_accepted rollout_elims)
    (auto simp: Let_def rollout_inv_def split: rollout_splits)

lemma rollout_step_transitions:
  assumes "rollout_step r e now = Inr (r', fx)"
  shows "rollout_transitions fx =
    (if rr_state r' = rr_state r then [] else [(rr_rollout_id r, rr_state r, rr_state r')])"
  using assms
  by (elim rollout_step_accepted rollout_elims)
    (auto simp: Let_def rollout_transitions_def transition_effect_def split: rollout_splits)

lemma rollout_step_waves:
  assumes "rollout_step r e now = Inr (r', fx)"
  shows "wave_updates fx =
    (if rr_current_wave r' = rr_current_wave r then [] else [rr_current_wave r'])"
  using assms
  by (elim rollout_step_accepted rollout_elims)
    (auto simp: Let_def wave_updates_def transition_effect_def split: rollout_splits)

lemma rollout_wave_moves:
  assumes "rollout_step r e now = Inr (r', fx)" "rr_current_wave r' \<noteq> rr_current_wave r"
  shows "\<exists>rid from at. e = WaveAdvanced rid from (rr_current_wave r') at \<and> from < rr_current_wave r'
     \<and> rr_state r \<in> {RS_Active, RS_Converging} \<and> rr_state r' = RS_Active"
  using assms
  by (elim rollout_step_accepted rollout_elims)
    (auto simp: Let_def split: rollout_splits)

interpretation rollout_machine: reducer rollout_machine_step rollout_inv rollout_le
proof unfold_locales
  fix r en r' fx
  assume st: "rollout_machine_step r en = Inr (r', fx)" and inv: "rollout_inv r"
  show "rollout_inv r'" using st inv by (simp add: rollout_machine_step_def rollout_step_inv)
  show "rollout_le r r'"
    using rollout_step_frame [of r "fst en" "snd en" r' fx] rollout_step_edge [of r "fst en" "snd en" r' fx] st
    by (auto simp: rollout_machine_step_def rollout_le_def)
qed (auto simp: rollout_le_def)

lemma halted_edge: "rollout_edge\<^sup>*\<^sup>* a b \<Longrightarrow> a \<in> {RS_Failed, RS_Reverted} \<Longrightarrow>
    b \<in> {a, RS_Superseded, RS_Pruned}"
  by (induction rule: rtranclp_induct) (auto elim: rollout_edge.cases)

lemma run_waves:
  "sorted_wrt (<) (rr_current_wave r # wave_updates (run_effects rollout_machine_step r es))
   \<and> last (rr_current_wave r # wave_updates (run_effects rollout_machine_step r es))
       = rr_current_wave (run_events rollout_machine_step r es)"
proof (induction es arbitrary: r)
  case Nil
  then show ?case by (simp add: wave_updates_def)
next
  case (Cons en es)
  have app: "wave_updates (xs @ ys) = wave_updates xs @ wave_updates ys" for xs ys
    by (simp add: wave_updates_def)
  show ?case
  proof (cases rule: settle_cases [of rollout_machine_step r en])
    case (refused er)
    with Cons.IH [of r] show ?thesis by simp
  next
    case (stepped r' fx)
    then have st: "rollout_step r (fst en) (snd en) = Inr (r', fx)" by (simp add: rollout_machine_step_def)
    show ?thesis
    proof (cases "rr_current_wave r' = rr_current_wave r")
      case True
      with stepped rollout_step_waves [OF st] Cons.IH [of r'] show ?thesis by (simp add: app)
    next
      case False
      with rollout_step_frame(5) [OF st] have "rr_current_wave r < rr_current_wave r'" by simp
      with False stepped rollout_step_waves [OF st] Cons.IH [of r'] show ?thesis
        by (auto simp: app)
    qed
  qed
qed

section \<open>Properties\<close>

text \<open>
  From a well-formed record every stream of rollout events leads to a well-formed one: a terminal
  rollout has its terminal instant, a superseded one its supersession instant, neither stamp appears
  in another phase, the identity is kept, the wave cursor never goes back and every state change is
  along the graph of the eight states.
\<close>

lemma rollout_record_invariant:
  assumes "rollout_inv r"
  shows "rollout_inv (run_events rollout_machine_step r es) \<and> rollout_le r (run_events rollout_machine_step r es)"
  using rollout_machine.run_inv [OF assms] rollout_machine.run_ord [OF assms] by simp

text \<open>
  The wave cursor and its persisted copy agree: the \<open>UpdateCurrentWave\<close> effects of a stream are
  strictly increasing from the initial cursor, and the last of them is the cursor of the record.
\<close>

lemma wave_cursor_monotone:
  "sorted_wrt (<) (rr_current_wave r # wave_updates (run_effects rollout_machine_step r es))
   \<and> last (rr_current_wave r # wave_updates (run_effects rollout_machine_step r es))
       = rr_current_wave (run_events rollout_machine_step r es)"
  by (rule run_waves)

text \<open>
  Only a \<open>WaveAdvanced\<close> towards a later wave, on a live rollout, moves the cursor; a host that
  joins, whatever its wave, never does.
\<close>

lemma wave_cursor_only_by_wave_advanced:
  assumes "rollout_step r e now = Inr (r', fx)" "rr_current_wave r' \<noteq> rr_current_wave r"
  shows "\<exists>rid from at. e = WaveAdvanced rid from (rr_current_wave r') at \<and> from < rr_current_wave r'
     \<and> rr_current_wave r < rr_current_wave r'
     \<and> rr_state r \<in> {RS_Active, RS_Converging} \<and> rr_state r' = RS_Active"
  using rollout_wave_moves [OF assms] rollout_step_frame(5) [OF assms(1)] assms(2) by auto

text \<open>
  A halted rollout stays halted: from \<open>Failed\<close> or \<open>Reverted\<close> no stream of events leads back to a live
  state or to \<open>Terminal\<close>; the only exits are supersession and pruning.
\<close>

lemma halted_rollout_stays_halted:
  assumes "rr_state r = RS_Failed \<or> rr_state r = RS_Reverted" "rollout_inv r"
  shows "rr_state (run_events rollout_machine_step r es) \<in> {rr_state r, RS_Superseded, RS_Pruned}"
proof -
  have "rollout_edge\<^sup>*\<^sup>* (rr_state r) (rr_state (run_events rollout_machine_step r es))"
    using rollout_machine.run_ord [OF assms(2)] by (simp add: rollout_le_def)
  from halted_edge [OF this] assms(1) show ?thesis by auto
qed

text \<open>
  The stored form of a rollout state reads back as that state, and nothing else is read as one.
\<close>

lemma rollout_state_db_roundtrip: "from_db_str s = Some st \<longleftrightarrow> s = as_db_str st"
  by (cases st) (auto simp: from_db_str_def)

end
