(* ===== verification/Planner.thy ===== *)
theory Planner
  imports Manifest Rollout_Reducer
begin

text \<open>
  The planner of the control plane (\<open>nixfleet-reconciler\<close>: \<open>planner_types.rs\<close>, \<open>planner_gates/*.rs\<close>,
  \<open>planner.rs\<close>): the six gates, the stack that runs them, and \<open>plan_next\<close>, which opens rollouts and
  queues or defers the dispatch of each pending host.
\<close>

section \<open>planner\_types.rs\<close>

record SignedManifestSet =
  sm_fleet :: "FleetResolved Verified"
  sm_rollouts :: "(string, RolloutManifest Verified) hmap"

definition sm_fleet_inner :: "SignedManifestSet \<Rightarrow> FleetResolved" where
  "sm_fleet_inner ms = v_inner (sm_fleet ms)"

record RolloutSummary =
  sum_rollout_id :: RolloutId
  sum_channel :: string
  sum_target_ref :: string
  sum_opened_at :: instant
  sum_terminal_at :: "instant option"
  sum_current_wave :: u32
  sum_budgets :: "RolloutBudget list"

record FleetState =
  fs_host_states :: "(RolloutId \<times> string, HostRolloutState) hmap"
  fs_rollouts :: "(RolloutId, RolloutSummary) hmap"
  fs_outstanding_failing_enforce_probes :: "(RolloutId, (string, nat) hmap) hmap"

type_synonym QuarantineSet = "(string, string set) hmap"

datatype PlanAction =
    OpenRollout RolloutId string string
  | QueueDispatch string RolloutId ClosureHash instant
  | RecordHaltLifted string
  | DeferDispatch string RolloutId string string

section \<open>planner\_gates/mod.rs: GateBlock\<close>

datatype GateBlock =
    GB_ChannelEdges string
  | GB_WavePromotion u32 u32
  | GB_HostUnstaged string
  | GB_HostEdge string
  | GB_DisruptionBudget u32 u32 string
  | GB_ComplianceWave nat u32
  | GB_Quarantined string string

text \<open>The dash of the \<open>HostUnstaged\<close> message is U+2014, three bytes of UTF-8.\<close>

fun gate_reason :: "GateBlock \<Rightarrow> string" where
  "gate_reason (GB_ChannelEdges predecessor_channel) =
     ''channelEdges predecessor channel '' @ [CHR 0x27] @ predecessor_channel @ [CHR 0x27] @ '' not converged''"
| "gate_reason (GB_WavePromotion host_wave current_wave) =
     ''wave-promotion: host_wave='' @ show_u32 host_wave @ '' > current_wave='' @ show_u32 current_wave"
| "gate_reason (GB_HostUnstaged channel) =
     ''wave-promotion: channel '' @ [CHR 0x27] @ channel @ [CHR 0x27]
     @ '' declares waves but this host is not assigned to any of them ''
     @ [CHR 0xE2, CHR 0x80, CHR 0x94]
     @ '' fix the fleet declaration or the host'' @ [CHR 0x27] @ ''s tag/wave selector''"
| "gate_reason (GB_HostEdge gating_host) =
     ''host-edge: gating host '' @ [CHR 0x27] @ gating_host @ [CHR 0x27] @ '' not yet Converged''"
| "gate_reason (GB_DisruptionBudget in_flight limit selector_summary) =
     ''disruption-budget: '' @ show_u32 in_flight @ ''/'' @ show_u32 limit @ '' in flight ('' @ selector_summary @ '')''"
| "gate_reason (GB_ComplianceWave failing_events_count host_wave) =
     ''compliance-wave: '' @ show_nat failing_events_count
     @ '' outstanding failure(s) on hosts in wave < '' @ show_u32 host_wave"
| "gate_reason (GB_Quarantined channel closure_hash) =
     ''channel '' @ channel @ '' closure '' @ closure_hash
     @ '' quarantined (sustained probe failures); push a new closure to clear''"

fun gate_discriminator :: "GateBlock \<Rightarrow> string" where
  "gate_discriminator (GB_ChannelEdges _) = ''channel-edges''"
| "gate_discriminator (GB_WavePromotion _ _) = ''wave-promotion''"
| "gate_discriminator (GB_HostUnstaged _) = ''wave-promotion-host-unstaged''"
| "gate_discriminator (GB_HostEdge _) = ''host-edge''"
| "gate_discriminator (GB_DisruptionBudget _ _ _) = ''disruption-budget''"
| "gate_discriminator (GB_ComplianceWave _ _) = ''compliance-wave''"
| "gate_discriminator (GB_Quarantined _ _) = ''quarantine''"

section \<open>The gates\<close>

definition quarantine_check :: "QuarantineSet \<Rightarrow> string \<Rightarrow> ClosureHash \<Rightarrow> GateBlock option" where
  "quarantine_check quarantines channel target_closure =
     (case hget quarantines channel of
        None \<Rightarrow> None
      | Some closures \<Rightarrow>
        if target_closure \<in> closures then Some (GB_Quarantined channel target_closure) else None)"

definition predecessor_active :: "FleetState \<Rightarrow> SignedManifestSet \<Rightarrow> string \<Rightarrow> bool" where
  "predecessor_active fs ms predecessor =
     (case hget (sm_rollouts ms) predecessor of
        None \<Rightarrow> False
      | Some rollout_manifest \<Rightarrow>
        case hget (fs_rollouts fs) (RolloutId_new predecessor (rm_channel_ref (v_inner rollout_manifest))) of
          None \<Rightarrow> True
        | Some summary \<Rightarrow> sum_terminal_at summary = None)"

definition channel_edges_check :: "FleetState \<Rightarrow> SignedManifestSet \<Rightarrow> string \<Rightarrow> GateBlock option" where
  "channel_edges_check fs ms successor_channel =
     (case find (\<lambda>e. ce_gated e = successor_channel \<and> predecessor_active fs ms (ce_gates e))
             (fl_channel_edges (sm_fleet_inner ms)) of
        Some edge \<Rightarrow> Some (GB_ChannelEdges (ce_gates edge))
      | None \<Rightarrow> None)"

definition wave_promotion_check ::
  "FleetState \<Rightarrow> SignedManifestSet \<Rightarrow> string \<Rightarrow> RolloutId \<Rightarrow> GateBlock option" where
  "wave_promotion_check fs ms host rollout_id =
     (case hget (fl_hosts (sm_fleet_inner ms)) host of
        None \<Rightarrow> None
      | Some h \<Rightarrow>
        case hget (fl_waves (sm_fleet_inner ms)) (host_channel h) of
          None \<Rightarrow> None
        | Some waves \<Rightarrow>
          if waves = [] then None
          else case position (\<lambda>w. host \<in> set (wave_hosts w)) waves of
            None \<Rightarrow> Some (GB_HostUnstaged (host_channel h))
          | Some i \<Rightarrow>
            let host_wave = usize_as_u32 i;
                current_wave = (case hget (fs_rollouts fs) rollout_id of Some r \<Rightarrow> sum_current_wave r | None \<Rightarrow> 0)
            in if host_wave > current_wave then Some (GB_WavePromotion host_wave current_wave) else None)"

definition ordering_eligible :: "FleetState \<Rightarrow> RolloutId \<Rightarrow> string \<Rightarrow> bool" where
  "ordering_eligible fs rollout_id h \<longleftrightarrow>
     (case hget (fs_host_states fs) (rollout_id, h) of
        Some s \<Rightarrow> hrs_state s = HS_Converged \<or> hrs_state s = HS_Deferred
      | None \<Rightarrow> False)"

definition same_channel :: "FleetResolved \<Rightarrow> string \<Rightarrow> string \<Rightarrow> bool" where
  "same_channel fleet gates channel \<longleftrightarrow>
     (case hget (fl_hosts fleet) gates of Some h \<Rightarrow> host_channel h = channel | None \<Rightarrow> False)"

definition host_edges_check ::
  "FleetState \<Rightarrow> SignedManifestSet \<Rightarrow> string \<Rightarrow> RolloutId \<Rightarrow> GateBlock option" where
  "host_edges_check fs ms host rollout_id =
     (case hget (fl_hosts (sm_fleet_inner ms)) host of
        None \<Rightarrow> None
      | Some h \<Rightarrow>
        case find (\<lambda>e. edge_gated e = host
                     \<and> same_channel (sm_fleet_inner ms) (edge_gates e) (host_channel h)
                     \<and> \<not> ordering_eligible fs rollout_id (edge_gates e))
               (fl_edges (sm_fleet_inner ms)) of
          Some edge \<Rightarrow> Some (GB_HostEdge (edge_gates edge))
        | None \<Rightarrow> None)"

definition is_in_flight :: "HostState \<Rightarrow> bool" where
  "is_in_flight s \<longleftrightarrow> s = HS_Activating \<or> s = HS_Soaking"

text \<open>\<open>count += 1\<close> on a \<open>u32\<close>: with fewer than \<open>2 ^ 32\<close> records it cannot overflow.\<close>

definition in_flight_count :: "FleetState \<Rightarrow> Selector \<Rightarrow> u32" where
  "in_flight_count fs selector =
     foldl (\<lambda>count (rollout_id, summary).
       case find (\<lambda>b. rb_selector b = selector) (sum_budgets summary) of
         None \<Rightarrow> count
       | Some matching_budget \<Rightarrow>
         foldl (\<lambda>count ((rid, hostname), state).
           if rid \<noteq> rollout_id then count
           else if hostname \<notin> set (rb_hosts matching_budget) then count
           else if is_in_flight (hrs_state state) then count + 1
           else count) count (fs_host_states fs)) 0 (fs_rollouts fs)"

type_synonym tick_counts = "(Selector, u32) hmap"

definition budget_check :: "FleetState \<Rightarrow> string \<Rightarrow> tick_counts \<Rightarrow> RolloutBudget \<Rightarrow> GateBlock option" where
  "budget_check fs host tick_dispatched budget =
     (if host \<notin> set (rb_hosts budget) then None
      else case rb_max_in_flight budget of
        None \<Rightarrow> None
      | Some limit \<Rightarrow>
        let in_flight = in_flight_count fs (rb_selector budget);
            pending_this_tick = (case hget tick_dispatched (rb_selector budget) of Some n \<Rightarrow> n | None \<Rightarrow> 0);
            total = saturating_add_u32 in_flight pending_this_tick
        in if total \<ge> limit then Some (GB_DisruptionBudget total limit (Selector_summary (rb_selector budget)))
           else None)"

fun first_block :: "('a \<Rightarrow> GateBlock option) \<Rightarrow> 'a list \<Rightarrow> GateBlock option" where
  "first_block f [] = None"
| "first_block f (x # xs) = (case f x of Some b \<Rightarrow> Some b | None \<Rightarrow> first_block f xs)"

definition disruption_budget_check :: "FleetState \<Rightarrow> RolloutId \<Rightarrow> string \<Rightarrow> tick_counts \<Rightarrow> GateBlock option" where
  "disruption_budget_check fs rollout_id host tick_dispatched =
     (case hget (fs_rollouts fs) rollout_id of
        None \<Rightarrow> None
      | Some rollout \<Rightarrow> first_block (budget_check fs host tick_dispatched) (sum_budgets rollout))"

definition compliance_wave_check ::
  "FleetState \<Rightarrow> SignedManifestSet \<Rightarrow> string \<Rightarrow> RolloutId \<Rightarrow> GateBlock option" where
  "compliance_wave_check fs ms host rollout_id =
     (case hget (fl_hosts (sm_fleet_inner ms)) host of
        None \<Rightarrow> None
      | Some h \<Rightarrow>
        case hget (fl_waves (sm_fleet_inner ms)) (host_channel h) of
          None \<Rightarrow> None
        | Some waves \<Rightarrow>
          case position (\<lambda>w. host \<in> set (wave_hosts w)) waves of
            None \<Rightarrow> None
          | Some 0 \<Rightarrow> None
          | Some host_wave \<Rightarrow>
            case hget (fs_outstanding_failing_enforce_probes fs) rollout_id of
              None \<Rightarrow> None
            | Some per_host \<Rightarrow>
              let failing_count =
                    sum_list (map (\<lambda>h. case hget per_host h of Some n \<Rightarrow> n | None \<Rightarrow> 0)
                      (concat (map wave_hosts (take host_wave waves))))
              in if failing_count > 0 then Some (GB_ComplianceWave failing_count (usize_as_u32 host_wave))
                 else None)"

section \<open>planner\_gates/mod.rs: evaluate\_for\_dispatch\<close>

definition evaluate_for_dispatch ::
  "FleetState \<Rightarrow> SignedManifestSet \<Rightarrow> QuarantineSet \<Rightarrow> RolloutId \<Rightarrow> string \<Rightarrow> ClosureHash \<Rightarrow> string \<Rightarrow>
   tick_counts \<Rightarrow> GateBlock option" where
  "evaluate_for_dispatch fs ms quarantines rollout_id host target_closure channel tick_dispatched =
     (case quarantine_check quarantines channel target_closure of
        Some b \<Rightarrow> Some b
      | None \<Rightarrow>
        case channel_edges_check fs ms channel of
          Some b \<Rightarrow> Some b
        | None \<Rightarrow>
          case wave_promotion_check fs ms host rollout_id of
            Some b \<Rightarrow> Some b
          | None \<Rightarrow>
            case host_edges_check fs ms host rollout_id of
              Some b \<Rightarrow> Some b
            | None \<Rightarrow>
              case disruption_budget_check fs rollout_id host tick_dispatched of
                Some b \<Rightarrow> Some b
              | None \<Rightarrow> compliance_wave_check fs ms host rollout_id)"

section \<open>planner.rs\<close>

definition open_actions :: "SignedManifestSet \<Rightarrow> FleetState \<Rightarrow> PlanAction list" where
  "open_actions ms fs =
     concat (map (\<lambda>(channel, rollout_manifest).
       let channel_ref = rm_channel_ref (v_inner rollout_manifest);
           rollout_id = RolloutId_new channel channel_ref
       in if hget (fs_rollouts fs) rollout_id = None then [OpenRollout rollout_id channel channel_ref] else [])
       (sm_rollouts ms))"

text \<open>\<open>*tick_dispatched.entry(selector).or_insert(0) += 1\<close> for each budget that names the host.\<close>

definition bump_ticks :: "string \<Rightarrow> RolloutBudget list \<Rightarrow> tick_counts \<Rightarrow> tick_counts" where
  "bump_ticks host budgets ticks =
     foldl (\<lambda>ticks budget.
       if host \<in> set (rb_hosts budget)
       then hput (rb_selector budget)
              ((case hget ticks (rb_selector budget) of Some n \<Rightarrow> n | None \<Rightarrow> 0) + 1) ticks
       else ticks) ticks budgets"

text \<open>One host of one rollout: the actions and the counters after it.\<close>

definition plan_host ::
  "SignedManifestSet \<Rightarrow> FleetState \<Rightarrow> QuarantineSet \<Rightarrow> instant \<Rightarrow> RolloutId \<Rightarrow> RolloutSummary \<Rightarrow>
   (RolloutId \<times> string) \<times> HostRolloutState \<Rightarrow> PlanAction list \<times> tick_counts \<Rightarrow>
   PlanAction list \<times> tick_counts" where
  "plan_host ms fs quarantines now rollout_id summary entry acc =
     (case (entry, acc) of (((rid, host), state), (actions, ticks)) \<Rightarrow>
        if rid \<noteq> rollout_id then acc
        else if hrs_state state \<noteq> HS_Pending then acc
        else if hrs_dispatch_acked_at state \<noteq> None then acc
        else
          case evaluate_for_dispatch fs ms quarantines rollout_id host (hrs_target_closure state)
                 (sum_channel summary) ticks of
            Some b \<Rightarrow> (actions @ [DeferDispatch host rollout_id (gate_discriminator b) (gate_reason b)], ticks)
          | None \<Rightarrow>
            (actions @ [QueueDispatch host rollout_id (hrs_target_closure state)
                          (case hrs_soak_due_at state of Some t \<Rightarrow> t | None \<Rightarrow> now)],
             bump_ticks host (sum_budgets summary) ticks))"

definition plan_rollout ::
  "SignedManifestSet \<Rightarrow> FleetState \<Rightarrow> QuarantineSet \<Rightarrow> instant \<Rightarrow> RolloutId \<times> RolloutSummary \<Rightarrow>
   PlanAction list \<times> tick_counts \<Rightarrow> PlanAction list \<times> tick_counts" where
  "plan_rollout ms fs quarantines now rollout acc =
     (case rollout of (rollout_id, summary) \<Rightarrow>
        if sum_terminal_at summary \<noteq> None then acc
        else fold (plan_host ms fs quarantines now rollout_id summary) (fs_host_states fs) acc)"

definition plan_next ::
  "SignedManifestSet \<Rightarrow> FleetState \<Rightarrow> QuarantineSet \<Rightarrow> instant \<Rightarrow> PlanAction list" where
  "plan_next ms fs quarantines now =
     fst (fold (plan_rollout ms fs quarantines now) (fs_rollouts fs) (open_actions ms fs, []))"

definition compute_soak_due_at :: "instant \<Rightarrow> u32 \<Rightarrow> instant" where
  "compute_soak_due_at dispatched_at soak_minutes = dispatched_at + minutes (uint soak_minutes)"

definition active_rollout_for_host :: "FleetState \<Rightarrow> string \<Rightarrow> RolloutId option" where
  "active_rollout_for_host fs host_id =
     map_option (\<lambda>((rid, _), _). rid) (find (\<lambda>((_, h), _). h = host_id) (fs_host_states fs))"

section \<open>What a plan promises\<close>

fun first_some :: "'b option list \<Rightarrow> 'b option" where
  "first_some [] = None"
| "first_some (x # xs) = (case x of Some b \<Rightarrow> Some b | None \<Rightarrow> first_some xs)"

type_synonym dispatch_request =
  "FleetState \<times> SignedManifestSet \<times> QuarantineSet \<times> RolloutId \<times> string \<times> ClosureHash \<times> string \<times> tick_counts"

definition dispatch_gates :: "dispatch_request \<Rightarrow> GateBlock option list" where
  "dispatch_gates req = (case req of (fs, ms, q, rid, host, tc, ch, ticks) \<Rightarrow>
     [quarantine_check q ch tc, channel_edges_check fs ms ch, wave_promotion_check fs ms host rid,
      host_edges_check fs ms host rid, disruption_budget_check fs rid host ticks,
      compliance_wave_check fs ms host rid])"

definition dispatch_verdict :: "dispatch_request \<Rightarrow> GateBlock option" where
  "dispatch_verdict req = (case req of (fs, ms, q, rid, host, tc, ch, ticks) \<Rightarrow>
     evaluate_for_dispatch fs ms q rid host tc ch ticks)"

definition budget_gates :: "FleetState \<times> string \<times> tick_counts \<times> RolloutBudget list \<Rightarrow> GateBlock option list" where
  "budget_gates req = (case req of (fs, host, ticks, bs) \<Rightarrow> map (budget_check fs host ticks) bs)"

definition budget_verdict :: "FleetState \<times> string \<times> tick_counts \<times> RolloutBudget list \<Rightarrow> GateBlock option" where
  "budget_verdict req = (case req of (fs, host, ticks, bs) \<Rightarrow> first_block (budget_check fs host ticks) bs)"

text \<open>The (rollout, host) an action of the second phase is about.\<close>

fun action_subject :: "PlanAction \<Rightarrow> (RolloutId \<times> string) option" where
  "action_subject (QueueDispatch h r _ _) = Some (r, h)"
| "action_subject (DeferDispatch h r _ _) = Some (r, h)"
| "action_subject _ = None"

definition awaiting :: "RolloutId \<Rightarrow> (RolloutId \<times> string) \<times> HostRolloutState \<Rightarrow> bool" where
  "awaiting rid e \<longleftrightarrow> fst (fst e) = rid \<and> hrs_state (snd e) = HS_Pending \<and> hrs_dispatch_acked_at (snd e) = None"

definition awaiting_hosts :: "FleetState \<Rightarrow> (RolloutId \<times> string) list" where
  "awaiting_hosts fs =
     concat (map (\<lambda>(rid, sm). if sum_terminal_at sm = None
                              then map fst (filter (awaiting rid) (fs_host_states fs)) else [])
       (fs_rollouts fs))"

definition queue_ok ::
  "SignedManifestSet \<Rightarrow> FleetState \<Rightarrow> QuarantineSet \<Rightarrow> instant \<Rightarrow> PlanAction \<Rightarrow> bool" where
  "queue_ok ms fs q now a =
     (case a of
        QueueDispatch h r tc due \<Rightarrow>
          (\<exists>sm st ticks. (r, sm) \<in> set (fs_rollouts fs) \<and> sum_terminal_at sm = None
             \<and> ((r, h), st) \<in> set (fs_host_states fs) \<and> awaiting r ((r, h), st) \<and> tc = hrs_target_closure st
             \<and> due = (case hrs_soak_due_at st of Some t \<Rightarrow> t | None \<Rightarrow> now)
             \<and> evaluate_for_dispatch fs ms q r h tc (sum_channel sm) ticks = None)
      | DeferDispatch h r g why \<Rightarrow>
          (\<exists>sm st ticks b. (r, sm) \<in> set (fs_rollouts fs) \<and> ((r, h), st) \<in> set (fs_host_states fs)
             \<and> evaluate_for_dispatch fs ms q r h (hrs_target_closure st) (sum_channel sm) ticks = Some b
             \<and> g = gate_discriminator b \<and> why = gate_reason b)
      | _ \<Rightarrow> True)"

definition tick_count :: "tick_counts \<Rightarrow> Selector \<Rightarrow> u32" where
  "tick_count ticks sel = (case hget ticks sel of Some n \<Rightarrow> n | None \<Rightarrow> 0)"

definition names_host :: "Selector \<Rightarrow> string \<Rightarrow> RolloutBudget list \<Rightarrow> bool" where
  "names_host sel host bs \<longleftrightarrow> list_ex (\<lambda>b. rb_selector b = sel \<and> host \<in> set (rb_hosts b)) bs"

text \<open>Whether an action dispatches a host that counts against the budget of a selector.\<close>

definition charged :: "FleetState \<Rightarrow> Selector \<Rightarrow> PlanAction \<Rightarrow> bool" where
  "charged fs sel a =
     (case a of
        QueueDispatch h r _ _ \<Rightarrow>
          (case hget (fs_rollouts fs) r of Some sm \<Rightarrow> names_host sel h (sum_budgets sm) | None \<Rightarrow> False)
      | _ \<Rightarrow> False)"

text \<open>Every open rollout snapshots the budget of the selector once, with the same limit.\<close>

definition uniform_budget :: "FleetState \<Rightarrow> Selector \<Rightarrow> u32 \<Rightarrow> bool" where
  "uniform_budget fs sel limit \<longleftrightarrow>
     (\<forall>(rid, sm) \<in> set (fs_rollouts fs). distinct (map rb_selector (sum_budgets sm))
        \<and> (\<forall>b \<in> set (sum_budgets sm). rb_selector b = sel \<longrightarrow> rb_max_in_flight b = Some limit))"

definition budget_tick_inv :: "FleetState \<Rightarrow> Selector \<Rightarrow> u32 \<Rightarrow> PlanAction list \<times> tick_counts \<Rightarrow> bool" where
  "budget_tick_inv fs sel limit acc \<longleftrightarrow>
     length (filter (charged fs sel) (fst acc)) = unat (tick_count (snd acc) sel)
     \<and> (tick_count (snd acc) sel = 0
        \<or> unat (in_flight_count fs sel) + unat (tick_count (snd acc) sel) \<le> unat limit)"

text \<open>
  One channel whose rollout \<open>stable@r1\<close> is open with two pending hosts, and a budget of one host in
  flight over both.
\<close>

definition sample_selector :: Selector where
  "sample_selector = Selector_default\<lparr>sel_all := True\<rparr>"

definition sample_budget :: RolloutBudget where
  "sample_budget =
     \<lparr>rb_selector = sample_selector, rb_hosts = [''a'', ''b''], rb_max_in_flight = Some 1, rb_max_in_flight_pct = None\<rparr>"

definition sample_rid :: RolloutId where
  "sample_rid = RolloutId ''stable@r1''"

definition sample_summary :: RolloutSummary where
  "sample_summary =
     \<lparr>sum_rollout_id = sample_rid, sum_channel = ''stable'', sum_target_ref = ''r1'', sum_opened_at = 0,
      sum_terminal_at = None, sum_current_wave = 0, sum_budgets = [sample_budget]\<rparr>"

definition sample_manifests :: SignedManifestSet where
  "sample_manifests =
     \<lparr>sm_fleet = \<lparr>v_inner = two_host_fleet two_hosts, v_signed_at = 0\<rparr>, sm_rollouts = []\<rparr>"

definition pending_entry :: "string \<Rightarrow> (RolloutId \<times> string) \<times> HostRolloutState" where
  "pending_entry h = ((sample_rid, h), new_pending sample_rid h ''stable'' ''t'' 0 5)"

definition sample_fleet_state :: "string list \<Rightarrow> FleetState" where
  "sample_fleet_state hosts =
     \<lparr>fs_host_states = map pending_entry hosts, fs_rollouts = [(sample_rid, sample_summary)],
      fs_outstanding_failing_enforce_probes = []\<rparr>"

text \<open>The wave cursor of a rollout as the gate reads it.\<close>

definition current_wave_of :: "FleetState \<Rightarrow> RolloutId \<Rightarrow> u32" where
  "current_wave_of fs rid = (case hget (fs_rollouts fs) rid of Some r \<Rightarrow> sum_current_wave r | None \<Rightarrow> 0)"



section \<open>The gate stack\<close>

lemma first_some_None [simp]: "first_some xs = None \<longleftrightarrow> (\<forall>x \<in> set xs. x = None)"
  by (induction xs) (auto split: option.splits)

lemma first_some_SomeD:
  "first_some xs = Some b \<Longrightarrow> \<exists>i < length xs. xs ! i = Some b \<and> (\<forall>j < i. xs ! j = None)"
proof (induction xs)
  case (Cons x xs)
  show ?case
  proof (cases x)
    case None
    with Cons obtain i where "i < length xs" "xs ! i = Some b" "\<forall>j < i. xs ! j = None" by auto
    with None show ?thesis by (intro exI [of _ "Suc i"]) (auto simp: less_Suc_eq_0_disj)
  qed (use Cons in auto)
qed simp

text \<open>
  The contract of a stack of gates: the verdict on a request is that of the first gate that blocks.
\<close>

locale gate_stack =
  fixes gates :: "'c \<Rightarrow> 'b option list"
    and verdict :: "'c \<Rightarrow> 'b option"
  assumes first_block_wins: "verdict c = first_some (gates c)"
begin

lemma pass_iff: "verdict c = None \<longleftrightarrow> (\<forall>g \<in> set (gates c). g = None)"
  by (simp add: first_block_wins)

lemma block_first: "verdict c = Some b \<Longrightarrow>
    \<exists>i < length (gates c). gates c ! i = Some b \<and> (\<forall>j < i. gates c ! j = None)"
  by (simp add: first_block_wins first_some_SomeD)

end

interpretation dispatch_stack: gate_stack dispatch_gates dispatch_verdict
  by unfold_locales
    (auto simp: dispatch_gates_def dispatch_verdict_def evaluate_for_dispatch_def split: option.splits prod.splits)

lemma first_block_eq: "first_block f bs = first_some (map f bs)"
  by (induction bs) (auto split: option.splits)

interpretation budget_stack: gate_stack budget_gates budget_verdict
  by unfold_locales (simp add: budget_verdict_def budget_gates_def first_block_eq split: prod.splits)

lemma evaluate_None_iff:
  "evaluate_for_dispatch fs ms q rid host tc ch ticks = None \<longleftrightarrow>
     quarantine_check q ch tc = None \<and> channel_edges_check fs ms ch = None
     \<and> wave_promotion_check fs ms host rid = None \<and> host_edges_check fs ms host rid = None
     \<and> disruption_budget_check fs rid host ticks = None \<and> compliance_wave_check fs ms host rid = None"
  using dispatch_stack.pass_iff [of "(fs, ms, q, rid, host, tc, ch, ticks)"]
  by (simp add: dispatch_gates_def dispatch_verdict_def)

section \<open>Single gates\<close>

lemma find_SomeD: "find P xs = Some x \<Longrightarrow> x \<in> set xs \<and> P x"
  by (induction xs) (auto split: if_splits)

lemma quarantine_None:
  "quarantine_check q ch tc = None \<longleftrightarrow> (case hget q ch of Some cs \<Rightarrow> tc \<notin> cs | None \<Rightarrow> True)"
  by (auto simp: quarantine_check_def split: option.splits)

lemma channel_edges_None:
  "channel_edges_check fs ms ch = None \<longleftrightarrow>
     (\<forall>e \<in> set (fl_channel_edges (sm_fleet_inner ms)). ce_gated e = ch \<longrightarrow> \<not> predecessor_active fs ms (ce_gates e))"
  by (auto simp: channel_edges_check_def find_None_iff dest!: find_SomeD split: option.splits)

lemma wave_promotion_None:
  "wave_promotion_check fs ms host rid = None \<longleftrightarrow>
     (\<forall>h ws. hget (fl_hosts (sm_fleet_inner ms)) host = Some h \<longrightarrow>
        hget (fl_waves (sm_fleet_inner ms)) (host_channel h) = Some ws \<longrightarrow> ws \<noteq> [] \<longrightarrow>
        (\<exists>i. position (\<lambda>w. host \<in> set (wave_hosts w)) ws = Some i \<and> usize_as_u32 i \<le> current_wave_of fs rid))"
  by (auto simp: wave_promotion_check_def current_wave_of_def Let_def not_less simp del: position_None split: option.splits)

lemma compliance_wave_NoneD:
  assumes "compliance_wave_check fs ms host rid = None"
    "hget (fl_hosts (sm_fleet_inner ms)) host = Some h"
    "hget (fl_waves (sm_fleet_inner ms)) (host_channel h) = Some ws"
    "position (\<lambda>w. host \<in> set (wave_hosts w)) ws = Some i"
    "hget (fs_outstanding_failing_enforce_probes fs) rid = Some per_host"
    "w \<in> set (take i ws)" "g \<in> set (wave_hosts w)"
  shows "hget per_host g \<in> {None, Some 0}"
proof (cases i)
  case (Suc k)
  have "sum_list (map (\<lambda>h. case hget per_host h of Some n \<Rightarrow> n | None \<Rightarrow> 0) (concat (map wave_hosts (take i ws)))) = 0"
    using assms(1-5) Suc by (simp add: compliance_wave_check_def Let_def split: if_splits)
  moreover have "g \<in> set (concat (map wave_hosts (take i ws)))" using assms(6,7) by auto
  ultimately have "(case hget per_host g of Some n \<Rightarrow> n | None \<Rightarrow> 0) = 0" by (auto simp: sum_list_eq_0_iff)
  then show ?thesis by (simp split: option.splits)
qed (use assms in simp)

lemma host_edges_None:
  "host_edges_check fs ms host rid = None \<longleftrightarrow>
     (\<forall>h e. hget (fl_hosts (sm_fleet_inner ms)) host = Some h \<longrightarrow> e \<in> set (fl_edges (sm_fleet_inner ms)) \<longrightarrow>
        edge_gated e = host \<longrightarrow> same_channel (sm_fleet_inner ms) (edge_gates e) (host_channel h) \<longrightarrow>
        ordering_eligible fs rid (edge_gates e))"
  by (auto simp: host_edges_check_def find_None_iff dest!: find_SomeD split: option.splits)

section \<open>The folds of the planner\<close>

lemma plan_fold_inv:
  assumes base: "I acc"
    and stp: "\<And>rid sm e a. (rid, sm) \<in> set rs \<Longrightarrow> sum_terminal_at sm = None \<Longrightarrow> e \<in> set (fs_host_states fs) \<Longrightarrow>
       I a \<Longrightarrow> I (plan_host ms fs q now rid sm e a)"
  shows "I (fold (plan_rollout ms fs q now) rs acc)"
proof -
  have inner: "I (fold (plan_host ms fs q now rid sm) hs a)"
    if "(rid, sm) \<in> set rs" "sum_terminal_at sm = None" "set hs \<subseteq> set (fs_host_states fs)" "I a" for rid sm hs a
    using that
  proof (induction hs arbitrary: a)
    case (Cons e hs)
    then have "I (plan_host ms fs q now rid sm e a)" by (intro stp) auto
    with Cons show ?case by simp
  qed simp
  have "I (fold (plan_rollout ms fs q now) ps a)" if "set ps \<subseteq> set rs" "I a" for ps a
    using that
  proof (induction ps arbitrary: a)
    case (Cons p ps)
    obtain rid sm where p: "p = (rid, sm)" by (cases p)
    have "I (plan_rollout ms fs q now p a)"
      using Cons.prems inner [of rid sm "fs_host_states fs" a] by (auto simp: plan_rollout_def p)
    with Cons show ?case by simp
  qed simp
  with base show ?thesis by blast
qed

lemma plan_host_subjects:
  "map action_subject (fst (plan_host ms fs q now rid sm e acc)) =
     map action_subject (fst acc) @ (if awaiting rid e then [Some (fst e)] else [])"
  by (cases e; cases acc) (auto simp: plan_host_def awaiting_def split: option.splits)

lemma plan_hosts_subjects:
  "map action_subject (fst (fold (plan_host ms fs q now rid sm) hs acc)) =
     map action_subject (fst acc) @ map (Some \<circ> fst) (filter (awaiting rid) hs)"
  by (induction hs arbitrary: acc) (auto simp: plan_host_subjects)

lemma plan_rollouts_subjects:
  "map action_subject (fst (fold (plan_rollout ms fs q now) rs acc)) =
     map action_subject (fst acc) @
     map Some (concat (map (\<lambda>(rid, sm). if sum_terminal_at sm = None
                              then map fst (filter (awaiting rid) (fs_host_states fs)) else []) rs))"
  by (induction rs arbitrary: acc) (auto simp: plan_rollout_def plan_hosts_subjects o_def split: prod.splits)

lemma open_actions_subjects: "a \<in> set (open_actions ms fs) \<Longrightarrow> action_subject a = None"
  by (auto simp: open_actions_def Let_def split: if_splits)

lemma plan_next_ok: "a \<in> set (plan_next ms fs q now) \<Longrightarrow> queue_ok ms fs q now a"
proof -
  have "\<forall>a \<in> set (fst (fold (plan_rollout ms fs q now) (fs_rollouts fs) (open_actions ms fs, []))). queue_ok ms fs q now a"
  proof (rule plan_fold_inv [where I = "\<lambda>acc. \<forall>a \<in> set (fst acc). queue_ok ms fs q now a"])
    show "\<forall>a \<in> set (fst (open_actions ms fs, [])). queue_ok ms fs q now a"
      by (auto simp: open_actions_def queue_ok_def Let_def split: if_splits)
  next
    fix rid sm e and acc :: "PlanAction list \<times> tick_counts"
    assume r: "(rid, sm) \<in> set (fs_rollouts fs)" "sum_terminal_at sm = None" "e \<in> set (fs_host_states fs)"
      and I: "\<forall>a \<in> set (fst acc). queue_ok ms fs q now a"
    obtain rid' h st where e: "e = ((rid', h), st)" by (metis surj_pair)
    obtain as ticks where acc: "acc = (as, ticks)" by (cases acc)
    show "\<forall>a \<in> set (fst (plan_host ms fs q now rid sm e acc)). queue_ok ms fs q now a"
    proof (cases "awaiting rid e \<and> rid' = rid")
      case True
      show ?thesis
      proof (cases "evaluate_for_dispatch fs ms q rid h (hrs_target_closure st) (sum_channel sm) ticks")
        case None
        with True r I show ?thesis by (auto simp: plan_host_def e acc queue_ok_def awaiting_def)
      next
        case (Some b)
        with True r I show ?thesis by (auto simp: plan_host_def e acc queue_ok_def awaiting_def)
      qed
    next
      case False
      with I show ?thesis by (auto simp: plan_host_def e acc awaiting_def)
    qed
  qed
  then show "a \<in> set (plan_next ms fs q now) \<Longrightarrow> queue_ok ms fs q now a" by (simp add: plan_next_def)
qed

section \<open>The disruption budget within a tick\<close>

lemma bump_ticks_count:
  "distinct (map rb_selector bs) \<Longrightarrow>
     tick_count (bump_ticks h bs ticks) sel = tick_count ticks sel + (if names_host sel h bs then 1 else 0)"
proof (induction bs arbitrary: ticks)
  case (Cons b bs)
  let ?ticks = "if h \<in> set (rb_hosts b) then hput (rb_selector b) (tick_count ticks (rb_selector b) + 1) ticks else ticks"
  have "bump_ticks h (b # bs) ticks = bump_ticks h bs ?ticks"
    by (simp add: bump_ticks_def tick_count_def)
  moreover have "rb_selector b = sel \<Longrightarrow> \<not> names_host sel h bs"
    using Cons.prems by (auto simp: names_host_def list_ex_iff) (metis imageI)
  ultimately show ?case
    using Cons by (auto simp: names_host_def tick_count_def)
qed (simp add: bump_ticks_def names_host_def)

lemma budget_pass_room:
  assumes "disruption_budget_check fs rid h ticks = None" "hget (fs_rollouts fs) rid = Some sm"
    "names_host sel h (sum_budgets sm)"
    "\<forall>b \<in> set (sum_budgets sm). rb_selector b = sel \<longrightarrow> rb_max_in_flight b = Some limit"
  shows "unat (in_flight_count fs sel) + unat (tick_count ticks sel) < unat limit"
proof -
  obtain b where b: "b \<in> set (sum_budgets sm)" "rb_selector b = sel" "h \<in> set (rb_hosts b)"
    using assms(3) by (auto simp: names_host_def list_ex_iff)
  have "budget_check fs h ticks b = None"
    using assms(1,2) b(1) by (simp add: disruption_budget_check_def first_block_eq)
  then have "saturating_add_u32 (in_flight_count fs sel) (tick_count ticks sel) < limit"
    using assms(4) b by (simp add: budget_check_def tick_count_def Let_def not_le split: if_splits)
  then have "min (unat (in_flight_count fs sel) + unat (tick_count ticks sel)) (2 ^ 32 - 1) < unat limit"
    by (simp add: word_less_nat_alt unat_saturating_add)
  moreover have "unat limit < 2 ^ LENGTH(32)" by (rule unsigned_less)
  ultimately show ?thesis by simp
qed

lemma budget_tick_step:
  assumes wf: "hwf (fs_rollouts fs)" and u: "uniform_budget fs sel limit"
    and r: "(rid, sm) \<in> set (fs_rollouts fs)" and I: "budget_tick_inv fs sel limit acc"
  shows "budget_tick_inv fs sel limit (plan_host ms fs q now rid sm e acc)"
proof -
  obtain rid' h st where e: "e = ((rid', h), st)" by (metis surj_pair)
  obtain as ticks where acc: "acc = (as, ticks)" by (cases acc)
  have sm: "hget (fs_rollouts fs) rid = Some sm" using wf r by (simp add: hget_eq_Some_iff)
  have lim: "distinct (map rb_selector (sum_budgets sm))"
      "\<forall>b \<in> set (sum_budgets sm). rb_selector b = sel \<longrightarrow> rb_max_in_flight b = Some limit"
    using u r by (auto simp: uniform_budget_def)
  show ?thesis
  proof (cases "awaiting rid e \<and> rid' = rid
      \<and> evaluate_for_dispatch fs ms q rid h (hrs_target_closure st) (sum_channel sm) ticks = None")
    case True
    then have step: "plan_host ms fs q now rid sm e acc =
        (as @ [QueueDispatch h rid (hrs_target_closure st) (case hrs_soak_due_at st of Some t \<Rightarrow> t | None \<Rightarrow> now)],
         bump_ticks h (sum_budgets sm) ticks)"
      by (simp add: plan_host_def e acc awaiting_def)
    show ?thesis
    proof (cases "names_host sel h (sum_budgets sm)")
      case named: True
      have room: "unat (in_flight_count fs sel) + unat (tick_count ticks sel) < unat limit"
        using True sm named lim(2) by (intro budget_pass_room) (auto simp: evaluate_None_iff)
      moreover have "unat limit < 2 ^ LENGTH(32)" by (rule unsigned_less)
      ultimately have "unat (tick_count ticks sel + 1) = unat (tick_count ticks sel) + 1"
        by (simp add: unat_word_ariths)
      with room named I sm lim(1) show ?thesis
        unfolding step budget_tick_inv_def by (simp add: acc bump_ticks_count charged_def)
    next
      case False
      with I sm lim(1) show ?thesis
        unfolding step budget_tick_inv_def by (simp add: acc bump_ticks_count charged_def)
    qed
  next
    case False
    have "snd (plan_host ms fs q now rid sm e acc) = ticks \<and>
        filter (charged fs sel) (fst (plan_host ms fs q now rid sm e acc)) = filter (charged fs sel) as"
      using False by (auto simp: plan_host_def e acc awaiting_def charged_def split: option.splits)
    with I show ?thesis by (simp add: budget_tick_inv_def acc)
  qed
qed

lemma plan_next_budget_inv:
  assumes "hwf (fs_rollouts fs)" "uniform_budget fs sel limit"
  shows "budget_tick_inv fs sel limit (fold (plan_rollout ms fs q now) (fs_rollouts fs) (open_actions ms fs, []))"
proof (rule plan_fold_inv)
  have "filter (charged fs sel) (open_actions ms fs) = []"
    by (auto simp: filter_empty_conv open_actions_def charged_def Let_def split: if_splits)
  then show "budget_tick_inv fs sel limit (open_actions ms fs, [])"
    by (simp add: budget_tick_inv_def tick_count_def)
qed (use budget_tick_step assms in blast)

section \<open>A sample fleet\<close>

lemmas sample_planner_defs = sample_selector_def sample_budget_def sample_rid_def sample_summary_def
  sample_manifests_def pending_entry_def sample_fleet_state_def two_host_fleet_def two_hosts_def sample_fleet_def

lemma sample_plan:
  "plan_next sample_manifests (sample_fleet_state [''a'', ''b'']) [] 9 =
     [QueueDispatch ''a'' sample_rid ''t'' 5,
      DeferDispatch ''b'' sample_rid ''disruption-budget'' (gate_reason (GB_DisruptionBudget 1 1 ''all''))]"
  "plan_next sample_manifests (sample_fleet_state [''b'', ''a'']) [] 9 =
     [QueueDispatch ''b'' sample_rid ''t'' 5,
      DeferDispatch ''a'' sample_rid ''disruption-budget'' (gate_reason (GB_DisruptionBudget 1 1 ''all''))]"
  by (simp_all add: plan_next_def plan_rollout_def plan_host_def open_actions_def evaluate_for_dispatch_def
      quarantine_check_def channel_edges_check_def wave_promotion_check_def host_edges_check_def
      disruption_budget_check_def budget_check_def in_flight_count_def is_in_flight_def compliance_wave_check_def
      bump_ticks_def sm_fleet_inner_def sample_planner_defs new_pending_def hget_def saturating_add_u32_def
      Selector_default_def Selector_summary_def hput_def)

section \<open>Properties\<close>



text \<open>
  A plan answers every waiting host exactly once: the hosts of its queue and defer actions are,
  in order, the pending unacknowledged hosts of the unfinished rollouts. None is forgotten or
  answered twice.
\<close>

lemma plan_answers_every_waiting_host:
  "filter (\<lambda>x. x \<noteq> None) (map action_subject (plan_next ms fs q now)) = map Some (awaiting_hosts fs)"
proof -
  have "filter (\<lambda>x. x \<noteq> None) (map action_subject (open_actions ms fs)) = []"
    by (auto simp: filter_empty_conv dest: open_actions_subjects)
  moreover have "filter (\<lambda>x. x \<noteq> None) (map Some xs) = map Some xs" for xs :: "(RolloutId \<times> string) list"
    by (induction xs) auto
  ultimately show ?thesis
    unfolding plan_next_def plan_rollouts_subjects awaiting_hosts_def fst_conv filter_append by simp
qed

lemma plan_next_opens:
  "OpenRollout rid ch ref \<in> set (plan_next ms fs q now) \<longleftrightarrow>
     (\<exists>m. (ch, m) \<in> set (sm_rollouts ms) \<and> ref = rm_channel_ref (v_inner m) \<and> rid = RolloutId_new ch ref
        \<and> hget (fs_rollouts fs) rid = None)"
proof -
  have grow: "OpenRollout rid ch ref \<in> set (fst (fold (plan_rollout ms fs q now) rs acc)) \<longleftrightarrow>
      OpenRollout rid ch ref \<in> set (fst acc)" for rs acc
  proof (rule plan_fold_inv [where I = "\<lambda>a. OpenRollout rid ch ref \<in> set (fst a) \<longleftrightarrow> OpenRollout rid ch ref \<in> set (fst acc)"])
    fix r sm e and a :: "PlanAction list \<times> tick_counts"
    assume "OpenRollout rid ch ref \<in> set (fst a) \<longleftrightarrow> OpenRollout rid ch ref \<in> set (fst acc)"
    then show "OpenRollout rid ch ref \<in> set (fst (plan_host ms fs q now r sm e a)) \<longleftrightarrow> OpenRollout rid ch ref \<in> set (fst acc)"
      by (cases e; cases a) (auto simp: plan_host_def split: option.splits if_splits)
  qed simp
  have "OpenRollout rid ch ref \<in> set (open_actions ms fs) \<longleftrightarrow>
     (\<exists>m. (ch, m) \<in> set (sm_rollouts ms) \<and> ref = rm_channel_ref (v_inner m) \<and> rid = RolloutId_new ch ref
        \<and> hget (fs_rollouts fs) rid = None)"
    by (force simp: open_actions_def Let_def split: if_splits)
  then show ?thesis by (simp add: plan_next_def grow)
qed

text \<open>
  A rollout is opened exactly for each channel whose verified manifest advertises a reference
  that has no rollout row, under the canonical identifier: never again for one already open,
  finished or superseded, and always for a successor.
\<close>

lemma open_rollout_exact:
  "OpenRollout rid ch ref \<in> set (plan_next ms fs q now) \<longleftrightarrow>
     (\<exists>m. (ch, m) \<in> set (sm_rollouts ms) \<and> ref = rm_channel_ref (v_inner m) \<and> rid = RolloutId_new ch ref
        \<and> hget (fs_rollouts fs) rid = None)"
  by (rule plan_next_opens)



text \<open>
  The budget binds one tick only. A queued host stays pending until its agent acknowledges, so
  the next tick counts it neither in flight nor dispatched; with the same records in another
  iteration order that tick queues the other host of a budget of one.
\<close>

lemma budget_exceeded_across_ticks:
  "mset (fs_host_states (sample_fleet_state [''b'', ''a''])) = mset (fs_host_states (sample_fleet_state [''a'', ''b'']))
   \<and> rb_max_in_flight sample_budget = Some 1
   \<and> QueueDispatch ''a'' sample_rid ''t'' 5 \<in> set (plan_next sample_manifests (sample_fleet_state [''a'', ''b'']) [] 9)
   \<and> QueueDispatch ''b'' sample_rid ''t'' 5 \<in> set (plan_next sample_manifests (sample_fleet_state [''b'', ''a'']) [] 9)"
  unfolding sample_plan by (simp add: sample_fleet_state_def sample_budget_def)

text \<open>
  Quarantine wins over every other gate: a waiting host whose target closure is quarantined on
  its channel is deferred, with the quarantine as the reported gate, whatever the other gates say.
\<close>

lemma quarantine_first:
  assumes "hwf (fs_host_states fs)" "hwf (fs_rollouts fs)"
    "hget (fs_rollouts fs) rid = Some sm" "sum_terminal_at sm = None"
    "hget (fs_host_states fs) (rid, host) = Some st" "hrs_state st = HS_Pending" "hrs_dispatch_acked_at st = None"
    "hget q (sum_channel sm) = Some closures" "hrs_target_closure st \<in> closures"
  shows "DeferDispatch host rid ''quarantine'' (gate_reason (GB_Quarantined (sum_channel sm) (hrs_target_closure st)))
      \<in> set (plan_next ms fs q now)
    \<and> (\<forall>tc due. QueueDispatch host rid tc due \<notin> set (plan_next ms fs q now))"
proof -
  have blk: "evaluate_for_dispatch fs ms q rid host (hrs_target_closure st) (sum_channel sm) ticks
      = Some (GB_Quarantined (sum_channel sm) (hrs_target_closure st))" for ticks
    using assms(8,9) by (simp add: evaluate_for_dispatch_def quarantine_check_def)
  have uniq: "((rid, host), st') \<in> set (fs_host_states fs) \<Longrightarrow> st' = st"
      "(rid, sm') \<in> set (fs_rollouts fs) \<Longrightarrow> sm' = sm" for st' sm'
    using assms(1,2,3,5) by (auto simp flip: hget_eq_Some_iff)
  have noq: "QueueDispatch host rid tc due \<notin> set (plan_next ms fs q now)" for tc due
    using plan_next_ok [of "QueueDispatch host rid tc due" ms fs q now] uniq blk by (auto simp: queue_ok_def)
  have "(rid, host) \<in> set (awaiting_hosts fs)"
    using hget_SomeD [OF assms(5)] hget_SomeD [OF assms(3)] assms(4,6,7)
    by (auto simp: awaiting_hosts_def awaiting_def intro!: bexI [of _ "(rid, sm)"] rev_image_eqI [of "((rid, host), st)"])
  then have "Some (rid, host) \<in> set (filter (\<lambda>x. x \<noteq> None) (map action_subject (plan_next ms fs q now)))"
    unfolding plan_next_def plan_rollouts_subjects awaiting_hosts_def by auto
  then obtain a where a: "a \<in> set (plan_next ms fs q now)" "action_subject a = Some (rid, host)" by auto
  with noq obtain g why where d: "a = DeferDispatch host rid g why" by (cases a) auto
  from plan_next_ok [OF a(1)] d uniq blk
  have "g = ''quarantine''" "why = gate_reason (GB_Quarantined (sum_channel sm) (hrs_target_closure st))"
    by (auto simp: queue_ok_def)
  with a(1) d noq show ?thesis by simp
qed

end
