(* ===== verification/CP_Db.thy ===== *)
theory CP_Db
  imports Planner
begin

text \<open>
  The SQLite store of the control plane (\<open>nixfleet-control-plane/src/db\<close>): one list of rows per
  table and one function per SQL statement of the source. Text columns that encode an enum are
  kept as text and decoded on the way out, so that a row can fail to decode; timestamps are
  instants (\<open>to_rfc3339\<close> and \<open>parse_from_rfc3339\<close> are inverse and the text order of UTC timestamps
  is their order), and the \<open>probes_json\<close> column holds the map its JSON text encodes. A \<open>SELECT\<close>
  without \<open>ORDER BY\<close> visits the rows in table order.
\<close>

section \<open>Tables with a primary key\<close>

definition select_row :: "('r \<Rightarrow> 'k) \<Rightarrow> 'k \<Rightarrow> 'r list \<Rightarrow> 'r option" where
  "select_row key k t = find (\<lambda>r. key r = k) t"

text \<open>\<open>INSERT ... ON CONFLICT (key) DO UPDATE SET\<close> every other column.\<close>

definition upsert_row :: "('r \<Rightarrow> 'k) \<Rightarrow> 'r \<Rightarrow> 'r list \<Rightarrow> 'r list" where
  "upsert_row key r t =
     (if key r \<in> key ` set t then map (\<lambda>x. if key x = key r then r else x) t else t @ [r])"

text \<open>\<open>INSERT OR IGNORE\<close>, \<open>ON CONFLICT (key) DO NOTHING\<close>.\<close>

definition insert_ignore :: "('r \<Rightarrow> 'k) \<Rightarrow> 'r \<Rightarrow> 'r list \<Rightarrow> 'r list" where
  "insert_ignore key r t = (if key r \<in> key ` set t then t else t @ [r])"

definition update_where :: "('r \<Rightarrow> bool) \<Rightarrow> ('r \<Rightarrow> 'r) \<Rightarrow> 'r list \<Rightarrow> 'r list" where
  "update_where P f t = map (\<lambda>r. if P r then f r else r) t"

definition delete_where :: "('r \<Rightarrow> bool) \<Rightarrow> 'r list \<Rightarrow> 'r list" where
  "delete_where P t = filter (\<lambda>r. \<not> P r) t"

text \<open>\<open>PRIMARY KEY\<close>: no two rows share the key.\<close>

definition unique_key :: "('r \<Rightarrow> 'k) \<Rightarrow> 'r list \<Rightarrow> bool" where
  "unique_key key t \<longleftrightarrow> distinct (map key t)"

datatype db_error = UnknownState string | UnknownPolicy string

section \<open>host\_rollout\_records.rs\<close>

record HostRecordRow =
  col_rollout_id :: RolloutId
  col_hostname :: string
  col_channel :: string
  col_state :: string
  col_target_closure :: ClosureHash
  col_current_closure_at_dispatch :: "ClosureHash option"
  col_current_closure :: "ClosureHash option"
  col_reverted_to :: "ClosureHash option"
  col_dispatched_at :: instant
  col_dispatch_acked_at :: "instant option"
  col_activation_started_at :: "instant option"
  col_activation_completed_at :: "instant option"
  col_activation_failed_at :: "instant option"
  col_probe_observed_first_at :: "instant option"
  col_probe_failure_first_at :: "instant option"
  col_soak_due_at :: "instant option"
  col_converged_at :: "instant option"
  col_failed_at :: "instant option"
  col_policy_applied :: "string option"
  col_reverted_at :: "instant option"
  col_probes_json :: "(ProbeName, ProbeRecord) hmap"
  col_last_event_seq :: i64

fun state_to_db :: "HostState \<Rightarrow> string" where
  "state_to_db HS_Pending = ''Pending''"
| "state_to_db HS_Activating = ''Activating''"
| "state_to_db HS_Deferred = ''Deferred''"
| "state_to_db HS_Soaking = ''Soaking''"
| "state_to_db HS_Converged = ''Converged''"
| "state_to_db HS_Failed = ''Failed''"
| "state_to_db HS_Reverted = ''Reverted''"

definition state_from_db :: "string \<Rightarrow> string + HostState" where
  "state_from_db s =
     (if s = ''Pending'' then Inr HS_Pending
      else if s = ''Activating'' then Inr HS_Activating
      else if s = ''Deferred'' then Inr HS_Deferred
      else if s = ''Soaking'' then Inr HS_Soaking
      else if s = ''Converged'' then Inr HS_Converged
      else if s = ''Failed'' then Inr HS_Failed
      else if s = ''Reverted'' then Inr HS_Reverted
      else Inl s)"

fun policy_to_db :: "OnHealthFailure \<Rightarrow> string" where
  "policy_to_db Halt = ''halt''"
| "policy_to_db RollbackAndHalt = ''rollback-and-halt''"

definition policy_from_db :: "string \<Rightarrow> string + OnHealthFailure" where
  "policy_from_db s =
     (if s = ''halt'' then Inr Halt
      else if s = ''rollback-and-halt'' then Inr RollbackAndHalt
      else Inl s)"

text \<open>The parameters \<open>upsert_inner\<close> binds; \<open>last_event_seq as i64\<close> keeps the 64 bits.\<close>

definition state_to_row :: "HostRolloutState \<Rightarrow> HostRecordRow" where
  "state_to_row s =
     \<lparr>col_rollout_id = hrs_rollout_id s, col_hostname = hrs_hostname s, col_channel = hrs_channel s,
      col_state = state_to_db (hrs_state s), col_target_closure = hrs_target_closure s,
      col_current_closure_at_dispatch = hrs_current_closure_at_dispatch s,
      col_current_closure = hrs_current_closure s, col_reverted_to = hrs_reverted_to s,
      col_dispatched_at = hrs_dispatched_at s, col_dispatch_acked_at = hrs_dispatch_acked_at s,
      col_activation_started_at = hrs_activation_started_at s,
      col_activation_completed_at = hrs_activation_completed_at s,
      col_activation_failed_at = hrs_activation_failed_at s,
      col_probe_observed_first_at = hrs_probe_observed_first_at s,
      col_probe_failure_first_at = hrs_probe_failure_first_at s,
      col_soak_due_at = hrs_soak_due_at s, col_converged_at = hrs_converged_at s,
      col_failed_at = hrs_failed_at s,
      col_policy_applied = map_option policy_to_db (hrs_policy_applied s),
      col_reverted_at = hrs_reverted_at s, col_probes_json = hrs_probes s,
      col_last_event_seq = hrs_last_event_seq s\<rparr>"

definition row_to_state :: "HostRecordRow \<Rightarrow> db_error + HostRolloutState" where
  "row_to_state row =
     (case state_from_db (col_state row) of
        Inl e \<Rightarrow> Inl (UnknownState e)
      | Inr st \<Rightarrow>
        case (case col_policy_applied row of
                None \<Rightarrow> Inr None
              | Some p \<Rightarrow> (case policy_from_db p of Inl e \<Rightarrow> Inl e | Inr q \<Rightarrow> Inr (Some q))) of
          Inl e \<Rightarrow> Inl (UnknownPolicy e)
        | Inr pol \<Rightarrow>
          Inr \<lparr>hrs_rollout_id = col_rollout_id row, hrs_hostname = col_hostname row,
               hrs_channel = col_channel row, hrs_state = st,
               hrs_target_closure = col_target_closure row,
               hrs_current_closure_at_dispatch = col_current_closure_at_dispatch row,
               hrs_current_closure = col_current_closure row, hrs_reverted_to = col_reverted_to row,
               hrs_dispatched_at = col_dispatched_at row,
               hrs_dispatch_acked_at = col_dispatch_acked_at row,
               hrs_activation_started_at = col_activation_started_at row,
               hrs_activation_completed_at = col_activation_completed_at row,
               hrs_activation_failed_at = col_activation_failed_at row,
               hrs_probe_observed_first_at = col_probe_observed_first_at row,
               hrs_probe_failure_first_at = col_probe_failure_first_at row,
               hrs_soak_due_at = col_soak_due_at row, hrs_converged_at = col_converged_at row,
               hrs_failed_at = col_failed_at row, hrs_policy_applied = pol,
               hrs_reverted_at = col_reverted_at row, hrs_probes = col_probes_json row,
               hrs_last_event_seq = col_last_event_seq row\<rparr>)"

definition record_key :: "HostRecordRow \<Rightarrow> RolloutId \<times> string" where
  "record_key row = (col_rollout_id row, col_hostname row)"

definition upsert :: "HostRolloutState \<Rightarrow> HostRecordRow list \<Rightarrow> HostRecordRow list" where
  "upsert s t = upsert_row record_key (state_to_row s) t"

definition load :: "RolloutId \<Rightarrow> string \<Rightarrow> HostRecordRow list \<Rightarrow> db_error + HostRolloutState option" where
  "load rollout_id hostname t =
     (case select_row record_key (rollout_id, hostname) t of
        None \<Rightarrow> Inr None
      | Some row \<Rightarrow> (case row_to_state row of Inl e \<Rightarrow> Inl e | Inr s \<Rightarrow> Inr (Some s)))"

text \<open>\<open>out.push(r?)\<close> over the rows of a query: the first row that does not decode is the result.\<close>

fun decode_rows :: "HostRecordRow list \<Rightarrow> db_error + HostRolloutState list" where
  "decode_rows [] = Inr []"
| "decode_rows (row # rows) =
     (case row_to_state row of
        Inl e \<Rightarrow> Inl e
      | Inr s \<Rightarrow> (case decode_rows rows of Inl e \<Rightarrow> Inl e | Inr out \<Rightarrow> Inr (s # out)))"

definition all_for_rollout :: "RolloutId \<Rightarrow> HostRecordRow list \<Rightarrow> db_error + HostRolloutState list" where
  "all_for_rollout rollout_id t = decode_rows (filter (\<lambda>r. col_rollout_id r = rollout_id) t)"

definition active_for_host :: "string \<Rightarrow> HostRecordRow list \<Rightarrow> db_error + HostRolloutState list" where
  "active_for_host hostname t =
     decode_rows (filter (\<lambda>r. col_hostname r = hostname \<and>
       col_state r \<in> {''Pending'', ''Activating'', ''Deferred'', ''Soaking'', ''Failed''}) t)"

section \<open>rollouts.rs\<close>

record RolloutRowTuple =
  rrt_rollout_id :: RolloutId
  rrt_channel :: string
  rrt_target_ref :: string
  rrt_state :: string
  rrt_current_wave :: i64
  rrt_opened_event_log_seq :: "i64 option"
  rrt_last_transition_event_log_seq :: "i64 option"
  rrt_opened_at :: instant
  rrt_terminal_at :: "instant option"
  rrt_superseded_at :: "instant option"

record RolloutRow =
  row_rollout_id :: RolloutId
  row_channel :: string
  row_target_ref :: string
  row_state :: RolloutState
  row_current_wave :: u32
  row_opened_event_log_seq :: "i64 option"
  row_last_transition_event_log_seq :: "i64 option"
  row_opened_at :: instant
  row_terminal_at :: "instant option"
  row_superseded_at :: "instant option"

record ActiveRollout =
  ar_rollout_id :: RolloutId
  ar_channel :: string
  ar_current_wave :: u32
  ar_created_at :: instant
  ar_terminal_at :: "instant option"

definition record_rollout_opened ::
  "RolloutId \<Rightarrow> string \<Rightarrow> string \<Rightarrow> instant \<Rightarrow> i64 option \<Rightarrow> RolloutRowTuple list \<Rightarrow> RolloutRowTuple list" where
  "record_rollout_opened rollout_id channel target_ref opened_at opened_event_log_seq t =
     insert_ignore rrt_rollout_id
       \<lparr>rrt_rollout_id = rollout_id, rrt_channel = channel, rrt_target_ref = target_ref,
        rrt_state = ''Opening'', rrt_current_wave = 0,
        rrt_opened_event_log_seq = opened_event_log_seq,
        rrt_last_transition_event_log_seq = opened_event_log_seq,
        rrt_opened_at = opened_at, rrt_terminal_at = None, rrt_superseded_at = None\<rparr> t"

definition transition_columns ::
  "RolloutState \<Rightarrow> instant \<Rightarrow> i64 option \<Rightarrow> RolloutRowTuple \<Rightarrow> RolloutRowTuple" where
  "transition_columns to at event_log_seq row =
     (case to of
        RS_Terminal \<Rightarrow>
          row\<lparr>rrt_state := as_db_str to, rrt_last_transition_event_log_seq := event_log_seq,
              rrt_terminal_at := Some at\<rparr>
      | RS_Superseded \<Rightarrow>
          row\<lparr>rrt_state := as_db_str to, rrt_last_transition_event_log_seq := event_log_seq,
              rrt_superseded_at := Some at\<rparr>
      | _ \<Rightarrow>
          row\<lparr>rrt_state := as_db_str to, rrt_last_transition_event_log_seq := event_log_seq\<rparr>)"

definition record_rollout_transition ::
  "RolloutId \<Rightarrow> RolloutState \<Rightarrow> instant \<Rightarrow> i64 option \<Rightarrow> RolloutRowTuple list \<Rightarrow> RolloutRowTuple list" where
  "record_rollout_transition rollout_id to at event_log_seq t =
     update_where (\<lambda>r. rrt_rollout_id r = rollout_id \<and> rrt_state r \<noteq> as_db_str to)
       (transition_columns to at event_log_seq) t"

text \<open>\<open>wave as i64\<close>, compared by SQLite as a signed integer; \<open>COALESCE(?3, column)\<close>.\<close>

definition set_current_wave ::
  "RolloutId \<Rightarrow> u32 \<Rightarrow> i64 option \<Rightarrow> RolloutRowTuple list \<Rightarrow> RolloutRowTuple list" where
  "set_current_wave rollout_id wave event_log_seq t =
     update_where (\<lambda>r. rrt_rollout_id r = rollout_id \<and> sint (rrt_current_wave r) < sint (ucast wave :: i64))
       (\<lambda>r. r\<lparr>rrt_current_wave := ucast wave,
              rrt_last_transition_event_log_seq :=
                (case event_log_seq of Some s \<Rightarrow> Some s | None \<Rightarrow> rrt_last_transition_event_log_seq r)\<rparr>) t"

definition current_wave :: "RolloutId \<Rightarrow> RolloutRowTuple list \<Rightarrow> u32 option" where
  "current_wave rollout_id t =
     map_option (\<lambda>r. ucast (rrt_current_wave r)) (select_row rrt_rollout_id rollout_id t)"

definition tuple_to_row :: "RolloutRowTuple \<Rightarrow> db_error + RolloutRow" where
  "tuple_to_row r =
     (case from_db_str (rrt_state r) of
        None \<Rightarrow> Inl (UnknownState (rrt_state r))
      | Some st \<Rightarrow>
        Inr \<lparr>row_rollout_id = rrt_rollout_id r, row_channel = rrt_channel r,
             row_target_ref = rrt_target_ref r, row_state = st,
             row_current_wave = ucast (rrt_current_wave r),
             row_opened_event_log_seq = rrt_opened_event_log_seq r,
             row_last_transition_event_log_seq = rrt_last_transition_event_log_seq r,
             row_opened_at = rrt_opened_at r, row_terminal_at = rrt_terminal_at r,
             row_superseded_at = rrt_superseded_at r\<rparr>)"

definition rollouts_state :: "RolloutId \<Rightarrow> RolloutRowTuple list \<Rightarrow> db_error + RolloutRow option" where
  "rollouts_state rollout_id t =
     (case select_row rrt_rollout_id rollout_id t of
        None \<Rightarrow> Inr None
      | Some r \<Rightarrow> (case tuple_to_row r of Inl e \<Rightarrow> Inl e | Inr row \<Rightarrow> Inr (Some row)))"

text \<open>\<open>ORDER BY opened_at DESC, rollout_id\<close>: newest first, ties by the bytes of the id.\<close>

fun text_le :: "string \<Rightarrow> string \<Rightarrow> bool" where
  "text_le [] ys = True"
| "text_le (x # xs) [] = False"
| "text_le (x # xs) (y # ys) =
     ((of_char x :: nat) < of_char y \<or> (x = y \<and> text_le xs ys))"

definition row_before :: "RolloutRowTuple \<Rightarrow> RolloutRowTuple \<Rightarrow> bool" where
  "row_before a b \<longleftrightarrow>
     rrt_opened_at a > rrt_opened_at b
     \<or> (rrt_opened_at a = rrt_opened_at b
        \<and> text_le (as_str (rrt_rollout_id a)) (as_str (rrt_rollout_id b)))"

fun insert_by :: "('a \<Rightarrow> 'a \<Rightarrow> bool) \<Rightarrow> 'a \<Rightarrow> 'a list \<Rightarrow> 'a list" where
  "insert_by le x [] = [x]"
| "insert_by le x (y # ys) = (if le x y then x # y # ys else y # insert_by le x ys)"

definition sort_by :: "('a \<Rightarrow> 'a \<Rightarrow> bool) \<Rightarrow> 'a list \<Rightarrow> 'a list" where
  "sort_by le xs = foldr (insert_by le) xs []"

definition list_filtered :: "bool \<Rightarrow> RolloutRowTuple list \<Rightarrow> ActiveRollout list" where
  "list_filtered exclude_terminal t =
     map (\<lambda>r. \<lparr>ar_rollout_id = rrt_rollout_id r, ar_channel = rrt_channel r,
               ar_current_wave = ucast (rrt_current_wave r), ar_created_at = rrt_opened_at r,
               ar_terminal_at = rrt_terminal_at r\<rparr>)
       (sort_by row_before
         (filter (\<lambda>r. if exclude_terminal
                      then rrt_state r \<notin> {''Superseded'', ''Pruned'', ''Terminal''}
                      else rrt_state r \<notin> {''Superseded'', ''Pruned''}) t))"

definition list_active :: "RolloutRowTuple list \<Rightarrow> ActiveRollout list" where
  "list_active t = list_filtered False t"

definition list_in_flight :: "RolloutRowTuple list \<Rightarrow> ActiveRollout list" where
  "list_in_flight t = list_filtered True t"

definition prunable :: "instant \<Rightarrow> RolloutRowTuple \<Rightarrow> bool" where
  "prunable cutoff r \<longleftrightarrow>
     rrt_state r \<in> {''Superseded'', ''Terminal'', ''Failed'', ''Reverted''}
     \<and> ((case rrt_superseded_at r of Some t \<Rightarrow> t < cutoff | None \<Rightarrow> False)
        \<or> (case rrt_terminal_at r of Some t \<Rightarrow> t < cutoff | None \<Rightarrow> False))"

definition prune_finished_rollouts ::
  "instant \<Rightarrow> int \<Rightarrow> RolloutRowTuple list \<times> HostRecordRow list \<Rightarrow>
   (RolloutRowTuple list \<times> HostRecordRow list) \<times> nat \<times> nat" where
  "prune_finished_rollouts now max_age_hours tables =
     (case tables of (rollouts, records) \<Rightarrow>
        let cutoff = now - minutes (max_age_hours * 60);
            finished = filter (prunable cutoff) rollouts;
            records' = delete_where (\<lambda>r. col_rollout_id r \<in> rrt_rollout_id ` set finished) records;
            rollouts' = delete_where (prunable cutoff) rollouts
        in ((rollouts', records'),
            length records - length records', length rollouts - length rollouts'))"

section \<open>dispatch\_queue.rs\<close>

record QueuedDispatch =
  qd_hostname :: string
  qd_rollout_id :: RolloutId
  qd_target_closure :: ClosureHash
  qd_soak_due_at :: instant
  qd_enqueued_at :: instant

definition queue_key :: "QueuedDispatch \<Rightarrow> string \<times> RolloutId" where
  "queue_key q = (qd_hostname q, qd_rollout_id q)"

definition queue_upsert :: "QueuedDispatch \<Rightarrow> QueuedDispatch list \<Rightarrow> QueuedDispatch list" where
  "queue_upsert q t = upsert_row queue_key q t"

text \<open>\<open>WHERE hostname = ?1 ORDER BY enqueued_at ASC LIMIT 1\<close>, then the delete of that row.\<close>

definition oldest :: "QueuedDispatch list \<Rightarrow> QueuedDispatch option" where
  "oldest t =
     (case sort_by (\<lambda>a b. qd_enqueued_at a \<le> qd_enqueued_at b) t of [] \<Rightarrow> None | q # _ \<Rightarrow> Some q)"

definition take_for_host :: "string \<Rightarrow> QueuedDispatch list \<Rightarrow> QueuedDispatch option \<times> QueuedDispatch list" where
  "take_for_host hostname t =
     (let row = oldest (filter (\<lambda>q. qd_hostname q = hostname) t)
      in (row,
          case row of
            None \<Rightarrow> t
          | Some q \<Rightarrow> delete_where (\<lambda>x. queue_key x = (qd_hostname q, qd_rollout_id q)) t))"

definition peek_for_host :: "string \<Rightarrow> QueuedDispatch list \<Rightarrow> bool" where
  "peek_for_host hostname t \<longleftrightarrow> length (filter (\<lambda>q. qd_hostname q = hostname) t) > 0"

section \<open>quarantined\_closures.rs\<close>

record QuarantineRow =
  qr_channel :: string
  qr_closure_hash :: ClosureHash
  qr_quarantined_at :: instant
  qr_triggering_event_log_seq :: "i64 option"

definition quarantine_key :: "QuarantineRow \<Rightarrow> string \<times> ClosureHash" where
  "quarantine_key q = (qr_channel q, qr_closure_hash q)"

definition quarantine_insert ::
  "string \<Rightarrow> ClosureHash \<Rightarrow> instant \<Rightarrow> i64 option \<Rightarrow> QuarantineRow list \<Rightarrow> QuarantineRow list" where
  "quarantine_insert channel closure_hash quarantined_at seq t =
     insert_ignore quarantine_key
       \<lparr>qr_channel = channel, qr_closure_hash = closure_hash, qr_quarantined_at = quarantined_at,
        qr_triggering_event_log_seq = seq\<rparr> t"

definition active_by_channel :: "QuarantineRow list \<Rightarrow> QuarantineSet" where
  "active_by_channel t =
     foldl (\<lambda>out q. hput (qr_channel q)
              (insert (qr_closure_hash q) (case hget out (qr_channel q) of Some s \<Rightarrow> s | None \<Rightarrow> {})) out) [] t"

definition quarantine_list_active :: "QuarantineRow list \<Rightarrow> QuarantineRow list" where
  "quarantine_list_active t = sort_by (\<lambda>a b. qr_quarantined_at a \<ge> qr_quarantined_at b) t"

section \<open>probe\_failures.rs\<close>

record ProbeFailureInsert =
  pf_rollout_id :: RolloutId
  pf_host_id :: string
  pf_probe_name :: ProbeName
  pf_control_id :: "string option"
  pf_framework :: "string option"
  pf_observed_at :: instant

definition insert_many :: "ProbeFailureInsert list \<Rightarrow> ProbeFailureInsert list \<Rightarrow> ProbeFailureInsert list" where
  "insert_many rows t = (if rows = [] then t else t @ rows)"

definition failure_control :: "ProbeFailureInsert \<Rightarrow> string" where
  "failure_control r = (case pf_control_id r of Some c \<Rightarrow> c | None \<Rightarrow> pf_probe_name r)"

text \<open>\<open>COUNT(DISTINCT COALESCE(control_id, probe_name))\<close> of one group.\<close>

definition distinct_controls :: "RolloutId \<Rightarrow> string \<Rightarrow> ProbeFailureInsert list \<Rightarrow> nat" where
  "distinct_controls rollout_id host t =
     length (remdups (map failure_control
       (filter (\<lambda>r. pf_rollout_id r = rollout_id \<and> pf_host_id r = host) t)))"

text \<open>\<open>GROUP BY rollout_id, host_id\<close>, folded into the two-level map.\<close>

definition outstanding_failing_enforce_probes_by_rollout ::
  "ProbeFailureInsert list \<Rightarrow> (RolloutId, (string, nat) hmap) hmap" where
  "outstanding_failing_enforce_probes_by_rollout t =
     foldl (\<lambda>out (rollout, host).
       hput rollout
         (hput host (distinct_controls rollout host t)
           (case hget out rollout of Some m \<Rightarrow> m | None \<Rightarrow> [])) out)
       [] (remdups (map (\<lambda>r. (pf_rollout_id r, pf_host_id r)) t))"

section \<open>revocations.rs, tokens.rs, allowed\_nonces.rs\<close>

text \<open>\<open>datetime('now')\<close> is the clock cut to whole seconds.\<close>

definition sql_datetime :: "instant \<Rightarrow> instant" where
  "sql_datetime now = seconds (now div seconds 1)"

record CertRevocation =
  cr_hostname :: string
  cr_not_before :: instant
  cr_reason :: "string option"
  cr_revoked_at :: instant
  cr_revoked_by :: "string option"

definition revoke_cert ::
  "instant \<Rightarrow> string \<Rightarrow> instant \<Rightarrow> string option \<Rightarrow> string option \<Rightarrow> CertRevocation list \<Rightarrow> CertRevocation list" where
  "revoke_cert now hostname not_before reason revoked_by t =
     upsert_row cr_hostname
       \<lparr>cr_hostname = hostname, cr_not_before = not_before, cr_reason = reason,
        cr_revoked_at = sql_datetime now, cr_revoked_by = revoked_by\<rparr> t"

definition cert_revoked_before :: "string \<Rightarrow> CertRevocation list \<Rightarrow> instant option" where
  "cert_revoked_before hostname t = map_option cr_not_before (select_row cr_hostname hostname t)"

definition retain_only :: "string list \<Rightarrow> CertRevocation list \<Rightarrow> CertRevocation list \<times> nat" where
  "retain_only keep t =
     (if keep = [] then ([], length t)
      else let t' = delete_where (\<lambda>r. cr_hostname r \<notin> set keep) t in (t', length t - length t'))"

record TokenReplay =
  tr_nonce :: string
  tr_hostname :: string
  tr_first_seen :: instant

datatype RecordTokenOutcome = Recorded | AlreadyRecorded

definition token_seen :: "string \<Rightarrow> TokenReplay list \<Rightarrow> bool" where
  "token_seen nonce t \<longleftrightarrow> select_row tr_nonce nonce t \<noteq> None"

definition record_token_nonce ::
  "instant \<Rightarrow> string \<Rightarrow> string \<Rightarrow> TokenReplay list \<Rightarrow> RecordTokenOutcome \<times> TokenReplay list" where
  "record_token_nonce now nonce hostname t =
     (if nonce \<in> tr_nonce ` set t then (AlreadyRecorded, t)
      else (Recorded, t @ [\<lparr>tr_nonce = nonce, tr_hostname = hostname, tr_first_seen = sql_datetime now\<rparr>]))"

text \<open>The age is a whole number of hours, as the prune timer passes it.\<close>

definition prune_token_replay :: "instant \<Rightarrow> nat \<Rightarrow> TokenReplay list \<Rightarrow> TokenReplay list" where
  "prune_token_replay now max_age_hours t =
     delete_where (\<lambda>r. tr_first_seen r < sql_datetime now - minutes (int max_age_hours * 60)) t"

type_synonym AllowedNoncesView = "(string, BootstrapNonceEntry) hmap"

definition from_artifact :: "BootstrapNonces \<Rightarrow> AllowedNoncesView" where
  "from_artifact a = foldl (\<lambda>m e. hput (bn_nonce e) e m) [] (bns_bootstrap_nonces a)"

definition lookup_nonce :: "AllowedNoncesView \<Rightarrow> string \<Rightarrow> BootstrapNonceEntry option" where
  "lookup_nonce v nonce = hget v nonce"

definition entry_is_live :: "BootstrapNonceEntry \<Rightarrow> instant \<Rightarrow> bool" where
  "entry_is_live entry now \<longleftrightarrow> bn_expires_at entry \<ge> now"

section \<open>What the tables store\<close>

text \<open>The key of a record, and a table that stores exactly the records of a list.\<close>

definition host_key :: "HostRolloutState \<Rightarrow> RolloutId \<times> string" where
  "host_key s = (hrs_rollout_id s, hrs_hostname s)"

definition active_states :: "HostState set" where
  "active_states = {HS_Pending, HS_Activating, HS_Deferred, HS_Soaking, HS_Failed}"

text \<open>A table of rollouts whose states decode and whose wave cursors are \<open>u32\<close> values.\<close>

definition rollout_table_ok :: "RolloutRowTuple list \<Rightarrow> bool" where
  "rollout_table_ok t \<longleftrightarrow>
     unique_key rrt_rollout_id t
     \<and> (\<forall>r \<in> set t. from_db_str (rrt_state r) \<noteq> None \<and> uint (rrt_current_wave r) < 2 ^ 32)"

text \<open>The dispatches handed out by a sequence of long polls, in order.\<close>

fun drain :: "string \<Rightarrow> nat \<Rightarrow> QueuedDispatch list \<Rightarrow> QueuedDispatch list \<times> QueuedDispatch list" where
  "drain host 0 t = ([], t)"
| "drain host (Suc n) t =
     (case take_for_host host t of
        (None, t') \<Rightarrow> ([], t')
      | (Some q, t') \<Rightarrow> (let (qs, t'') = drain host n t' in (q # qs, t'')))"

text \<open>A queued dispatch, for the concrete instances.\<close>

definition queued :: "string \<Rightarrow> instant \<Rightarrow> QueuedDispatch" where
  "queued host at =
     \<lparr>qd_hostname = host, qd_rollout_id = RolloutId (''stable@'' @ replicate (nat at) (CHR ''a'')),
      qd_target_closure = ''closure'', qd_soak_due_at = at, qd_enqueued_at = at\<rparr>"

section \<open>Table contracts\<close>

text \<open>
  A table read by its key. \<open>keyed_table\<close> has the two reads every statement relies on; \<open>upsert_table\<close>
  adds a write that always wins, \<open>first_wins_table\<close> one that never changes a row that is there.
\<close>

locale keyed_table =
  fixes key :: "'r \<Rightarrow> 'k"
    and get :: "'k \<Rightarrow> 't \<Rightarrow> 'r option"
    and rows :: "'t \<Rightarrow> 'r list"
    and wf :: "'t \<Rightarrow> bool"
  assumes get_iff: "wf t \<Longrightarrow> get k t = Some r \<longleftrightarrow> r \<in> set (rows t) \<and> key r = k"
begin

lemma get_key: "wf t \<Longrightarrow> get k t = Some r \<Longrightarrow> key r = k"
  by (simp add: get_iff)

lemma mem_get: "wf t \<Longrightarrow> r \<in> set (rows t) \<longleftrightarrow> get (key r) t = Some r"
  by (simp add: get_iff)

lemma get_None: "wf t \<Longrightarrow> get k t = None \<longleftrightarrow> k \<notin> key ` set (rows t)"
  by (cases "get k t") (auto simp: mem_get dest: get_key intro!: image_eqI)

lemma rows_unique: "wf t \<Longrightarrow> r \<in> set (rows t) \<Longrightarrow> r' \<in> set (rows t) \<Longrightarrow> key r = key r' \<Longrightarrow> r = r'"
  using get_iff [of t "key r" r] get_iff [of t "key r" r'] by simp

end

locale upsert_table = keyed_table key get rows wf
  for key :: "'r \<Rightarrow> 'k"
    and get :: "'k \<Rightarrow> 't \<Rightarrow> 'r option"
    and rows :: "'t \<Rightarrow> 'r list"
    and wf :: "'t \<Rightarrow> bool" +
  fixes put :: "'r \<Rightarrow> 't \<Rightarrow> 't"
  assumes wf_put: "wf t \<Longrightarrow> wf (put r t)"
    and get_put: "wf t \<Longrightarrow> get k (put r t) = (if k = key r then Some r else get k t)"
begin

lemma puts_wf: "wf t \<Longrightarrow> wf (fold put rs t)"
  by (induction rs arbitrary: t) (auto simp: wf_put)

lemma puts_other: "wf t \<Longrightarrow> k \<notin> key ` set rs \<Longrightarrow> get k (fold put rs t) = get k t"
  by (induction rs arbitrary: t) (auto simp: wf_put get_put)

lemma puts_distinct:
  "wf t \<Longrightarrow> distinct (map key rs) \<Longrightarrow> r \<in> set rs \<Longrightarrow> get (key r) (fold put rs t) = Some r"
proof (induction rs arbitrary: t)
  case (Cons x rs)
  then show ?case
    by (cases "r = x") (auto simp: wf_put get_put puts_other)
qed simp

lemma put_rows: "wf t \<Longrightarrow> set (rows (put r t)) = insert r {x \<in> set (rows t). key x \<noteq> key r}"
  by (auto simp: mem_get wf_put get_put split: if_splits)

end

locale first_wins_table = keyed_table key get rows wf
  for key :: "'r \<Rightarrow> 'k"
    and get :: "'k \<Rightarrow> 't \<Rightarrow> 'r option"
    and rows :: "'t \<Rightarrow> 'r list"
    and wf :: "'t \<Rightarrow> bool" +
  fixes ins :: "'r \<Rightarrow> 't \<Rightarrow> 't"
  assumes wf_ins: "wf t \<Longrightarrow> wf (ins r t)"
    and get_ins: "wf t \<Longrightarrow>
      get k (ins r t) = (case get k t of Some x \<Rightarrow> Some x | None \<Rightarrow> if k = key r then Some r else None)"
begin

lemma inss_keep: "wf t \<Longrightarrow> get k t = Some x \<Longrightarrow> get k (fold ins rs t) = Some x"
  by (induction rs arbitrary: t) (auto simp: wf_ins get_ins)

lemma inss_wf: "wf t \<Longrightarrow> wf (fold ins rs t)"
  by (induction rs arbitrary: t) (auto simp: wf_ins)

lemma ins_idem: "wf t \<Longrightarrow> get k (ins r' (ins r t)) = get k (ins r t)" if "key r' = key r"
  using that by (auto simp: wf_ins get_ins split: option.splits)

lemma ins_grows: "wf t \<Longrightarrow> set (rows t) \<subseteq> set (rows (ins r t))"
  by (auto simp: mem_get wf_ins get_ins)

end

lemma select_row_iff: "unique_key key t \<Longrightarrow> select_row key k t = Some r \<longleftrightarrow> r \<in> set t \<and> key r = k"
  unfolding unique_key_def select_row_def
  by (induction t) (auto simp: image_iff)

lemma select_row_None: "select_row key k t = None \<longleftrightarrow> k \<notin> key ` set t"
  unfolding select_row_def by (auto simp: find_None_iff)

lemma map_key_upsert: "map key (map (\<lambda>x. if key x = key r then r else x) t) = map key t"
  by simp

lemma unique_key_upsert: "unique_key key t \<Longrightarrow> unique_key key (upsert_row key r t)"
  unfolding unique_key_def upsert_row_def
  by (simp add: map_key_upsert del: map_map)

lemma replace_same:
  "k \<in> key ` set t \<Longrightarrow> key r = k \<Longrightarrow>
     find (\<lambda>x. key x = k) (map (\<lambda>x. if key x = k then r else x) t) = Some r"
  by (induction t) auto

lemma replace_other:
  "k \<noteq> key r \<Longrightarrow>
     find (\<lambda>x. key x = k) (map (\<lambda>x. if key x = key r then r else x) t) = find (\<lambda>x. key x = k) t"
proof (induction t)
  case (Cons a t)
  then show ?case by (cases "key a = k") simp_all
qed simp

lemma select_append:
  "select_row key k (t @ [r]) =
     (case select_row key k t of Some x \<Rightarrow> Some x | None \<Rightarrow> if k = key r then Some r else None)"
  unfolding select_row_def by (induction t) auto

lemma select_upsert:
  "select_row key k (upsert_row key r t) = (if k = key r then Some r else select_row key k t)"
proof (cases "key r \<in> key ` set t")
  case True
  then show ?thesis
    using replace_same [OF True refl] replace_other [of k key r t] by (simp add: upsert_row_def select_row_def)
next
  case False
  then have "select_row key (key r) t = None" by (simp add: select_row_None)
  with False show ?thesis by (simp add: upsert_row_def select_append split: option.splits)
qed

lemma unique_key_insert_ignore: "unique_key key t \<Longrightarrow> unique_key key (insert_ignore key r t)"
  by (auto simp: unique_key_def insert_ignore_def)

lemma select_insert_ignore:
  "select_row key k (insert_ignore key r t) =
     (case select_row key k t of Some x \<Rightarrow> Some x | None \<Rightarrow> if k = key r then Some r else None)"
proof (cases "key r \<in> key ` set t")
  case True
  then show ?thesis
    using select_row_None [of key "key r" t] by (auto simp: insert_ignore_def split: option.splits)
next
  case False
  then show ?thesis by (simp add: insert_ignore_def select_append)
qed

lemma unique_key_update: "(\<And>r. key (f r) = key r) \<Longrightarrow> unique_key key t \<Longrightarrow> unique_key key (update_where P f t)"
proof -
  assume "\<And>r. key (f r) = key r"
  then have "map key (update_where P f t) = map key t" by (induction t) (auto simp: update_where_def)
  then show "unique_key key t \<Longrightarrow> unique_key key (update_where P f t)" by (simp add: unique_key_def)
qed

lemma select_update:
  "(\<And>r. key (f r) = key r) \<Longrightarrow>
     select_row key k (update_where P f t) =
       map_option (\<lambda>r. if P r then f r else r) (select_row key k t)"
  by (induction t) (auto simp: update_where_def select_row_def)

lemma unique_key_delete: "unique_key key t \<Longrightarrow> unique_key key (delete_where P t)"
  unfolding unique_key_def delete_where_def by (induction t) auto

lemma keyed_rows: "keyed_table key (select_row key) (\<lambda>t. t) (unique_key key)"
  by (unfold_locales) (rule select_row_iff)

interpretation host_records: upsert_table record_key "select_row record_key" "\<lambda>t. t" "unique_key record_key"
  "upsert_row record_key"
  by unfold_locales (simp_all add: select_row_iff unique_key_upsert select_upsert)

interpretation queue: upsert_table queue_key "select_row queue_key" "\<lambda>t. t" "unique_key queue_key"
  "upsert_row queue_key"
  by unfold_locales (simp_all add: select_row_iff unique_key_upsert select_upsert)

interpretation revoked_certs: upsert_table cr_hostname "select_row cr_hostname" "\<lambda>t. t" "unique_key cr_hostname"
  "upsert_row cr_hostname"
  by unfold_locales (simp_all add: select_row_iff unique_key_upsert select_upsert)

interpretation rollout_rows: first_wins_table rrt_rollout_id "select_row rrt_rollout_id" "\<lambda>t. t"
  "unique_key rrt_rollout_id" "insert_ignore rrt_rollout_id"
  by unfold_locales (simp_all add: select_row_iff unique_key_insert_ignore select_insert_ignore)

interpretation quarantine_rows: first_wins_table quarantine_key "select_row quarantine_key" "\<lambda>t. t"
  "unique_key quarantine_key" "insert_ignore quarantine_key"
  by unfold_locales (simp_all add: select_row_iff unique_key_insert_ignore select_insert_ignore)


section \<open>Host records\<close>

lemma state_roundtrip [simp]: "state_from_db (state_to_db st) = Inr st"
  by (cases st) (simp_all add: state_from_db_def)

lemma policy_roundtrip [simp]: "policy_from_db (policy_to_db p) = Inr p"
  by (cases p) (simp_all add: policy_from_db_def)

lemma row_roundtrip [simp]: "row_to_state (state_to_row s) = Inr s"
  by (cases "hrs_policy_applied s") (simp_all add: row_to_state_def state_to_row_def)

lemma record_key_row [simp]: "record_key (state_to_row s) = host_key s"
  by (simp add: record_key_def state_to_row_def host_key_def)

lemma col_row [simp]:
  "col_rollout_id (state_to_row s) = hrs_rollout_id s"
  "col_hostname (state_to_row s) = hrs_hostname s"
  "col_state (state_to_row s) = state_to_db (hrs_state s)"
  by (simp_all add: state_to_row_def)

lemma decode_stored [simp]: "decode_rows (map state_to_row ss) = Inr ss"
  by (induction ss) auto

lemma active_state_text:
  "state_to_db st \<in> {''Pending'', ''Activating'', ''Deferred'', ''Soaking'', ''Failed''} \<longleftrightarrow> st \<in> active_states"
  by (cases st) (simp_all add: active_states_def)

lemma upsert_stored: "upsert s (map state_to_row ss) = map state_to_row (upsert_row host_key s ss)"
  by (auto simp: upsert_def upsert_row_def image_image)

lemma select_stored:
  "select_row record_key k (map state_to_row ss) = map_option state_to_row (select_row host_key k ss)"
  by (induction ss) (auto simp: select_row_def)

lemma load_stored:
  "load rid h (map state_to_row ss) = Inr (select_row host_key (rid, h) ss)"
  by (auto simp: load_def select_stored split: option.splits)

lemma all_for_rollout_stored:
  "all_for_rollout rid (map state_to_row ss) = Inr (filter (\<lambda>s. hrs_rollout_id s = rid) ss)"
  by (simp add: all_for_rollout_def filter_map o_def)

lemma active_for_host_stored:
  "active_for_host h (map state_to_row ss) =
     Inr (filter (\<lambda>s. hrs_hostname s = h \<and> hrs_state s \<in> active_states) ss)"
  unfolding active_for_host_def filter_map o_def col_row active_state_text by simp

text \<open>
  The database keeps a host record exactly: after an upsert every field of the record, its
  state, the policy that was applied, its probes and the 64-bit sequence number, is read back, and
  the record of every other (rollout, host) pair is untouched.
\<close>

lemma host_record_db_roundtrip:
  "load rid h (upsert s t) = (if (rid, h) = host_key s then Inr (Some s) else load rid h t)"
  by (simp add: load_def upsert_def select_upsert)

section \<open>The dispatch queue\<close>

lemma insert_by_set [simp]: "set (insert_by le x xs) = insert x (set xs)"
  by (induction xs) auto

lemma sort_by_set [simp]: "set (sort_by le xs) = set xs"
  unfolding sort_by_def by (induction xs) auto

lemma insert_by_sorted:
  assumes "transp le" and "\<forall>a b. le a b \<or> le b a" and "sorted_wrt le xs"
  shows "sorted_wrt le (insert_by le x xs)"
  using assms(3)
proof (induction xs)
  case (Cons y ys)
  show ?case
  proof (cases "le x y")
    case True
    with Cons.prems have "\<forall>z \<in> set (y # ys). le x z" by (auto intro: transpD [OF assms(1), of x y])
    with True Cons.prems show ?thesis by simp
  next
    case False
    then have "le y x" using assms(2) by blast
    with False Cons show ?thesis by simp
  qed
qed simp

lemma sort_by_sorted:
  assumes "transp le" and "\<forall>a b. le a b \<or> le b a"
  shows "sorted_wrt le (sort_by le xs)"
  unfolding sort_by_def by (induction xs) (simp_all add: insert_by_sorted [OF assms])

lemma oldest_None [simp]: "oldest t = None \<longleftrightarrow> t = []"
proof -
  have "sort_by (\<lambda>a b. qd_enqueued_at a \<le> qd_enqueued_at b) t = [] \<longleftrightarrow> t = []"
    by (metis set_empty sort_by_set)
  then show ?thesis by (auto simp: oldest_def split: list.splits)
qed

lemma oldest_Some:
  assumes "oldest t = Some q"
  shows "q \<in> set t \<and> (\<forall>x \<in> set t. qd_enqueued_at q \<le> qd_enqueued_at x)"
proof -
  let ?le = "\<lambda>a b. qd_enqueued_at a \<le> qd_enqueued_at b"
  obtain qs where qs: "sort_by ?le t = q # qs" using assms by (auto simp: oldest_def split: list.splits)
  have "sorted_wrt ?le (q # qs)" unfolding qs [symmetric] by (rule sort_by_sorted) (auto simp: transp_def)
  moreover have "set (q # qs) = set t" unfolding qs [symmetric] by simp
  ultimately show ?thesis by auto
qed

lemma take_none: "filter (\<lambda>q. qd_hostname q = h) t = [] \<Longrightarrow> take_for_host h t = (None, t)"
  by (simp add: take_for_host_def oldest_None [THEN iffD2])

lemma take_none_iff: "fst (take_for_host h t) = None \<longleftrightarrow> filter (\<lambda>q. qd_hostname q = h) t = []"
  by (simp add: take_for_host_def Let_def)

lemma unique_key_inj: "unique_key key t \<Longrightarrow> x \<in> set t \<Longrightarrow> y \<in> set t \<Longrightarrow> key x = key y \<Longrightarrow> x = y"
  by (auto simp: unique_key_def distinct_map inj_on_def)

lemma delete_unique:
  assumes "unique_key key t" and "q \<in> set t"
  shows "mset t = add_mset q (mset (delete_where (\<lambda>x. key x = key q) t))"
proof -
  have "delete_where (\<lambda>x. key x = key q) t = filter (\<lambda>x. x \<noteq> q) t"
    unfolding delete_where_def by (rule filter_cong) (use assms unique_key_inj [of key t _ q] in auto)
  also have "\<dots> = remove1 q t"
    using assms by (simp add: unique_key_def distinct_map distinct_remove1_removeAll removeAll_filter_not_eq eq_commute)
  finally show ?thesis using assms(2) by simp
qed

lemma delete_unique_filter:
  assumes "unique_key key t" and "q \<in> set t"
  shows "P q \<Longrightarrow> mset (filter P t) = add_mset q (mset (filter P (delete_where (\<lambda>x. key x = key q) t)))"
    and "\<not> P q \<Longrightarrow> filter P (delete_where (\<lambda>x. key x = key q) t) = filter P t"
proof -
  show "mset (filter P t) = add_mset q (mset (filter P (delete_where (\<lambda>x. key x = key q) t)))" if "P q"
    using arg_cong [OF delete_unique [OF assms], of "filter_mset P"] that by (simp add: mset_filter)
  show "filter P (delete_where (\<lambda>x. key x = key q) t) = filter P t" if "\<not> P q"
    unfolding delete_where_def filter_filter
    by (rule filter_cong) (use assms that unique_key_inj [of key t _ q] in auto)
qed

lemma take_some:
  assumes "unique_key queue_key t" and "take_for_host h t = (Some q, u)"
  shows "unique_key queue_key u"
    and "\<forall>x \<in> set u. qd_hostname x = h \<longrightarrow> qd_enqueued_at q \<le> qd_enqueued_at x"
    and "mset (filter (\<lambda>q. qd_hostname q = h) t) = add_mset q (mset (filter (\<lambda>q. qd_hostname q = h) u))"
    and "filter (\<lambda>q. qd_hostname q \<noteq> h) u = filter (\<lambda>q. qd_hostname q \<noteq> h) t"
proof -
  have q: "q \<in> set t" "qd_hostname q = h" "u = delete_where (\<lambda>x. queue_key x = queue_key q) t"
    and old: "\<forall>x \<in> set t. qd_hostname x = h \<longrightarrow> qd_enqueued_at q \<le> qd_enqueued_at x"
    using assms oldest_Some [of "filter (\<lambda>q. qd_hostname q = h) t" q]
    by (auto simp: take_for_host_def Let_def queue_key_def)
  then show "unique_key queue_key u" using assms(1) by (simp add: unique_key_delete)
  show "\<forall>x \<in> set u. qd_hostname x = h \<longrightarrow> qd_enqueued_at q \<le> qd_enqueued_at x"
    using old q(3) by (simp add: delete_where_def)
  show "mset (filter (\<lambda>q. qd_hostname q = h) t) = add_mset q (mset (filter (\<lambda>q. qd_hostname q = h) u))"
    unfolding q(3) by (rule delete_unique_filter [OF assms(1) q(1)]) (fact q(2))
  show "filter (\<lambda>q. qd_hostname q \<noteq> h) u = filter (\<lambda>q. qd_hostname q \<noteq> h) t"
    unfolding q(3) by (rule delete_unique_filter [OF assms(1) q(1)]) (simp add: q(2))
qed

lemma drain_exact:
  assumes "unique_key queue_key t" and "length (filter (\<lambda>q. qd_hostname q = h) t) \<le> n"
    and "drain h n t = (qs, t')"
  shows "mset qs = mset (filter (\<lambda>q. qd_hostname q = h) t) \<and> sorted (map qd_enqueued_at qs)
    \<and> t' = filter (\<lambda>q. qd_hostname q \<noteq> h) t"
  using assms
proof (induction n arbitrary: t qs t')
  case 0
  then show ?case by (auto simp: filter_empty_conv filter_id_conv)
next
  case (Suc n)
  let ?P = "\<lambda>q. qd_hostname q = h"
  show ?case
  proof (cases "fst (take_for_host h t)")
    case None
    then have "filter ?P t = []" by (simp add: take_none_iff)
    with Suc.prems(3) show ?thesis
      by (auto simp: take_none filter_empty_conv filter_id_conv)
  next
    case (Some q)
    then obtain u where u: "take_for_host h t = (Some q, u)" by (cases "take_for_host h t") auto
    obtain rs where rs: "drain h n u = (rs, t')" "qs = q # rs"
      using Suc.prems(3) u by (auto split: prod.splits)
    note q = take_some [OF Suc.prems(1) u]
    have "length (filter ?P t) = Suc (length (filter ?P u))" using arg_cong [OF q(3), of size]
      by (simp only: size_mset size_add_mset)
    then have IH: "mset rs = mset (filter ?P u)" "sorted (map qd_enqueued_at rs)"
      "t' = filter (\<lambda>q. \<not> ?P q) u"
      using Suc.IH [OF q(1) _ rs(1)] Suc.prems(2) by simp_all
    have "set rs = set (filter ?P u)" using IH(1) by (rule mset_eq_setD)
    then show ?thesis using IH q rs(2) by auto
  qed
qed

text \<open>
  Long polls hand out what was queued for a host exactly once and oldest first: enough polls
  deliver every queued dispatch of the host, in the order of their enqueue times, and leave exactly
  the dispatches of the other hosts.
\<close>

lemma dispatch_delivered_once:
  assumes "unique_key queue_key t" and "length (filter (\<lambda>q. qd_hostname q = h) t) \<le> n"
  shows "\<exists>qs. drain h n t = (qs, filter (\<lambda>q. qd_hostname q \<noteq> h) t)
    \<and> mset qs = mset (filter (\<lambda>q. qd_hostname q = h) t) \<and> sorted (map qd_enqueued_at qs)"
  using drain_exact [OF assms] by (metis surj_pair)

section \<open>Quarantined closures and probe failures\<close>

lemma active_by_channel_acc:
  "(case hget (foldl (\<lambda>out q. hput (qr_channel q)
       (insert (qr_closure_hash q) (case hget out (qr_channel q) of Some s \<Rightarrow> s | None \<Rightarrow> {})) out) m t) ch of
      Some s \<Rightarrow> s | None \<Rightarrow> {}) =
   (case hget m ch of Some s \<Rightarrow> s | None \<Rightarrow> {}) \<union> {qr_closure_hash q |q. q \<in> set t \<and> qr_channel q = ch}"
  by (induction t arbitrary: m) (auto split: option.splits if_splits)

lemma active_by_channel_set:
  "(case hget (active_by_channel t) ch of Some s \<Rightarrow> s | None \<Rightarrow> {}) =
     {qr_closure_hash q |q. q \<in> set t \<and> qr_channel q = ch}"
  using active_by_channel_acc [of "[]" t ch] by (simp add: active_by_channel_def)

lemma quarantine_insert_rows:
  "(\<exists>q \<in> set (quarantine_insert ch c at seq t). quarantine_key q = k) \<longleftrightarrow>
     k = (ch, c) \<or> (\<exists>q \<in> set t. quarantine_key q = k)"
  by (auto simp: quarantine_insert_def insert_ignore_def quarantine_key_def image_iff)

text \<open>
  The quarantine table and the gate fit together: the gate over the view of the table blocks a
  closure exactly when a row for the channel and closure was inserted, inserting is append-only (a
  second insertion changes nothing) and never lifts another closure's block.
\<close>

lemma quarantine_view_exact:
  "quarantine_check (active_by_channel t) ch c =
     (if \<exists>q \<in> set t. quarantine_key q = (ch, c) then Some (GB_Quarantined ch c) else None)
   \<and> quarantine_check (active_by_channel (quarantine_insert ch' c' at seq t)) ch c =
     (if (ch, c) = (ch', c') then Some (GB_Quarantined ch c) else quarantine_check (active_by_channel t) ch c)
   \<and> quarantine_insert ch' c' at2 seq2 (quarantine_insert ch' c' at seq t) = quarantine_insert ch' c' at seq t"
proof (intro conjI)
  have view: "quarantine_check (active_by_channel u) ch c =
      (if \<exists>q \<in> set u. quarantine_key q = (ch, c) then Some (GB_Quarantined ch c) else None)" for u
    using active_by_channel_set [of u ch]
    by (auto simp: quarantine_check_def quarantine_key_def split: option.splits)
  then show "quarantine_check (active_by_channel t) ch c =
     (if \<exists>q \<in> set t. quarantine_key q = (ch, c) then Some (GB_Quarantined ch c) else None)" .
  show "quarantine_check (active_by_channel (quarantine_insert ch' c' at seq t)) ch c =
     (if (ch, c) = (ch', c') then Some (GB_Quarantined ch c) else quarantine_check (active_by_channel t) ch c)"
    unfolding view quarantine_insert_rows by auto
qed (auto simp: quarantine_insert_def insert_ignore_def quarantine_key_def)

end
