(* ===== verification/Event_Log.thy ===== *)
theory Event_Log
  imports Planner
begin

text \<open>
  The event log of the control plane: the JSON payloads the applier builds
  (\<open>nixfleet-control-plane/src/runtime/applier.rs\<close>) and the append-only table that stores them
  (\<open>db/event_log.rs\<close>). A JSON value is a tree; the text of a timestamp (\<open>to_rfc3339\<close>) is a leaf of
  its own that holds the instant.
\<close>

section \<open>JSON values\<close>

datatype json =
    JNull
  | JStr string
  | JInt int
  | JTime instant
  | JArr "json list"
  | JObj "(string \<times> json) list"

definition json_opt_str :: "string option \<Rightarrow> json" where
  "json_opt_str v = (case v of None \<Rightarrow> JNull | Some s \<Rightarrow> JStr s)"

definition json_rid :: "RolloutId \<Rightarrow> json" where
  "json_rid rid = JStr (as_str rid)"

definition json_u64 :: "u64 \<Rightarrow> json" where
  "json_u64 n = JInt (uint n)"

definition json_u32 :: "u32 \<Rightarrow> json" where
  "json_u32 n = JInt (uint n)"

definition json_i32 :: "i32 \<Rightarrow> json" where
  "json_i32 n = JInt (sint n)"

section \<open>applier.rs: payloads\<close>

fun host_state_str :: "HostState \<Rightarrow> string" where
  "host_state_str HS_Pending = ''Pending''"
| "host_state_str HS_Activating = ''Activating''"
| "host_state_str HS_Deferred = ''Deferred''"
| "host_state_str HS_Soaking = ''Soaking''"
| "host_state_str HS_Converged = ''Converged''"
| "host_state_str HS_Failed = ''Failed''"
| "host_state_str HS_Reverted = ''Reverted''"

fun probe_status_str :: "ProbeStatus \<Rightarrow> string" where
  "probe_status_str Pass = ''pass''"
| "probe_status_str Fail = ''fail''"

fun probe_mode_str :: "ProbeMode \<Rightarrow> string" where
  "probe_mode_str Enforce = ''enforce''"
| "probe_mode_str Observe = ''observe''"
| "probe_mode_str Disabled = ''disabled''"

primrec effect_kind :: "Effect \<Rightarrow> string" where
  "effect_kind (LocalFireSwitch _ _) = ''LocalFireSwitch''"
| "effect_kind (LocalFireRollbackTo _ _) = ''LocalFireRollbackTo''"
| "effect_kind (LocalResetProbeCache _) = ''LocalResetProbeCache''"
| "effect_kind (LocalEmitEvent _ _ _) = ''LocalEmitEvent''"
| "effect_kind (RemoteQueueDispatch _ _ _ _) = ''RemoteQueueDispatch''"
| "effect_kind (RemoteInsertQuarantine _ _) = ''RemoteInsertQuarantine''"
| "effect_kind (RemoteOpenRolloutRecord _ _ _) = ''RemoteOpenRolloutRecord''"
| "effect_kind (RemoteAppendEventLog _ _ _) = ''RemoteAppendEventLog''"
| "effect_kind (RecordTransition _ _ _ _ _) = ''RecordTransition''"
| "effect_kind (EmitMetric _ _ _) = ''EmitMetric''"
| "effect_kind (EmitLog _ _ _ _) = ''EmitLog''"

primrec rollout_event_to_json :: "RolloutEvent \<Rightarrow> json" where
  "rollout_event_to_json (RolloutOpened rollout_id channel target_ref at) =
     JObj [(''kind'', JStr ''RolloutOpened''), (''rolloutId'', json_rid rollout_id),
           (''channel'', JStr channel), (''targetRef'', JStr target_ref), (''at'', JTime at)]"
| "rollout_event_to_json (HostJoined rollout_id host_id wave at) =
     JObj [(''kind'', JStr ''HostJoined''), (''rolloutId'', json_rid rollout_id),
           (''hostId'', JStr host_id), (''wave'', json_u32 wave), (''at'', JTime at)]"
| "rollout_event_to_json (HostStateChanged rollout_id host_id from to at) =
     JObj [(''kind'', JStr ''HostStateChanged''), (''rolloutId'', json_rid rollout_id),
           (''hostId'', JStr host_id), (''from'', JStr (host_state_str from)),
           (''to'', JStr (host_state_str to)), (''at'', JTime at)]"
| "rollout_event_to_json (WaveAdvanced rollout_id from_wave to_wave at) =
     JObj [(''kind'', JStr ''WaveAdvanced''), (''rolloutId'', json_rid rollout_id),
           (''fromWave'', json_u32 from_wave), (''toWave'', json_u32 to_wave), (''at'', JTime at)]"
| "rollout_event_to_json (RolloutTerminal rollout_id at) =
     JObj [(''kind'', JStr ''RolloutTerminal''), (''rolloutId'', json_rid rollout_id), (''at'', JTime at)]"
| "rollout_event_to_json (SuccessorOpened superseded_rollout_id successor_rollout_id at) =
     JObj [(''kind'', JStr ''SuccessorOpened''),
           (''supersededRolloutId'', json_rid superseded_rollout_id),
           (''successorRolloutId'', json_rid successor_rollout_id), (''at'', JTime at)]"
| "rollout_event_to_json (RetentionExpired rollout_id at) =
     JObj [(''kind'', JStr ''RetentionExpired''), (''rolloutId'', json_rid rollout_id), (''at'', JTime at)]"
| "rollout_event_to_json (OperatorClearance rollout_id op reason at) =
     JObj [(''kind'', JStr ''OperatorClearance''), (''rolloutId'', json_rid rollout_id),
           (''operator'', JStr op), (''reason'', JStr reason), (''at'', JTime at)]"

definition topology_entry_to_json :: "ProbeTopologyEntry \<Rightarrow> json" where
  "topology_entry_to_json e =
     JObj [(''probeName'', JStr (pte_probe_name e)), (''kind'', JStr (pte_kind e)),
           (''mode'', JStr (probe_mode_str (pte_mode e)))]"

definition sub_result_to_json :: "ProbeSubResult \<Rightarrow> json" where
  "sub_result_to_json sr =
     JObj [(''controlId'', JStr (psr_control_id sr)),
           (''status'', JStr (probe_status_str (psr_status sr))),
           (''framework'', JStr (psr_framework sr)), (''article'', json_opt_str (psr_article sr)),
           (''effectiveMode'', JStr (probe_mode_str (psr_effective_mode sr))),
           (''overrideReason'', json_opt_str (psr_override_reason sr))]"

primrec outbound_event_to_json :: "OutboundAgentEvent \<Rightarrow> json" where
  "outbound_event_to_json (O_DispatchAck current_closure_at_dispatch received_at seq) =
     JObj [(''kind'', JStr ''DispatchAck''),
           (''currentClosureAtDispatch'', JStr current_closure_at_dispatch),
           (''receivedAt'', JTime received_at), (''seq'', json_u64 seq)]"
| "outbound_event_to_json (O_ActivationStarted started_at switch_method seq) =
     JObj [(''kind'', JStr ''ActivationStarted''), (''startedAt'', JTime started_at),
           (''switchMethod'', JStr switch_method), (''seq'', json_u64 seq)]"
| "outbound_event_to_json (O_ActivationCompleted observed_current_closure exit_code completed_at seq) =
     JObj [(''kind'', JStr ''ActivationCompleted''),
           (''observedCurrentClosure'', JStr observed_current_closure),
           (''exitCode'', json_i32 exit_code), (''completedAt'', JTime completed_at),
           (''seq'', json_u64 seq)]"
| "outbound_event_to_json (O_ActivationFailed exit_code stderr_tail failed_at seq) =
     JObj [(''kind'', JStr ''ActivationFailed''), (''exitCode'', json_i32 exit_code),
           (''stderrTail'', JStr stderr_tail), (''failedAt'', JTime failed_at), (''seq'', json_u64 seq)]"
| "outbound_event_to_json (O_ActivationDeferred component deferred_at seq) =
     JObj [(''kind'', JStr ''ActivationDeferred''), (''component'', JStr component),
           (''deferredAt'', JTime deferred_at), (''seq'', json_u64 seq)]"
| "outbound_event_to_json (O_ProbeTopologyDeclared probes declared_at seq) =
     JObj [(''kind'', JStr ''ProbeTopologyDeclared''),
           (''probes'', JArr (map topology_entry_to_json probes)),
           (''declaredAt'', JTime declared_at), (''seq'', json_u64 seq)]"
| "outbound_event_to_json (O_ProbeObservedFirst probe_name mode observed_at seq) =
     JObj [(''kind'', JStr ''ProbeObservedFirst''), (''probeName'', JStr probe_name),
           (''mode'', JStr (probe_mode_str mode)), (''observedAt'', JTime observed_at),
           (''seq'', json_u64 seq)]"
| "outbound_event_to_json (O_ProbeResult probe_name mode status observed_at failure_reason sub_results seq) =
     JObj [(''kind'', JStr ''ProbeResult''), (''probeName'', JStr probe_name),
           (''mode'', JStr (probe_mode_str mode)), (''status'', JStr (probe_status_str status)),
           (''observedAt'', JTime observed_at), (''failureReason'', json_opt_str failure_reason),
           (''subResults'', (case sub_results of None \<Rightarrow> JNull
              | Some v \<Rightarrow> JArr (map sub_result_to_json v))),
           (''seq'', json_u64 seq)]"
| "outbound_event_to_json (O_ProbeFailureFirst probe_name mode first_failed_at seq) =
     JObj [(''kind'', JStr ''ProbeFailureFirst''), (''probeName'', JStr probe_name),
           (''mode'', JStr (probe_mode_str mode)), (''firstFailedAt'', JTime first_failed_at),
           (''seq'', json_u64 seq)]"
| "outbound_event_to_json (O_Failed failed_at sustained_duration_secs failing_probes policy_applied seq) =
     JObj [(''kind'', JStr ''Failed''), (''failedAt'', JTime failed_at),
           (''sustainedDurationSecs'', json_u64 sustained_duration_secs),
           (''failingProbes'', JArr (map JStr failing_probes)),
           (''policyApplied'', JStr (OnHealthFailure_display policy_applied)), (''seq'', json_u64 seq)]"
| "outbound_event_to_json (O_RollbackComplete reverted_to_closure exit_code completed_at seq) =
     JObj [(''kind'', JStr ''RollbackComplete''), (''revertedToClosure'', JStr reverted_to_closure),
           (''exitCode'', json_i32 exit_code), (''completedAt'', JTime completed_at),
           (''seq'', json_u64 seq)]"
| "outbound_event_to_json (O_Converged converged_at current_closure seq) =
     JObj [(''kind'', JStr ''Converged''), (''convergedAt'', JTime converged_at),
           (''currentClosure'', JStr current_closure), (''seq'', json_u64 seq)]"

section \<open>db/event\_log.rs\<close>

datatype EventLogKind =
    K_AgentEvent | K_PlanAction | K_Effect | K_GateDecision | K_VerifyOutcome | K_ManifestPoll
  | K_RolloutEvent

fun EventLogKind_as_db_str :: "EventLogKind \<Rightarrow> string" where
  "EventLogKind_as_db_str K_AgentEvent = ''agent_event''"
| "EventLogKind_as_db_str K_PlanAction = ''plan_action''"
| "EventLogKind_as_db_str K_Effect = ''effect''"
| "EventLogKind_as_db_str K_GateDecision = ''gate_decision''"
| "EventLogKind_as_db_str K_VerifyOutcome = ''verify_outcome''"
| "EventLogKind_as_db_str K_ManifestPoll = ''manifest_poll''"
| "EventLogKind_as_db_str K_RolloutEvent = ''rollout_event''"

record EventLogEntry =
  el_kind :: EventLogKind
  el_ts :: instant
  el_host_id :: "string option"
  el_rollout_id :: "string option"
  el_payload :: json

record EventLogRow =
  er_seq :: int
  er_ts :: instant
  er_kind :: string
  er_host_id :: "string option"
  er_rollout_id :: "string option"
  er_payload :: json

text \<open>\<open>MAX(seq)\<close>, zero on an empty table.\<close>

definition last_seq :: "EventLogRow list \<Rightarrow> int" where
  "last_seq t = foldr (\<lambda>r m. max (er_seq r) m) t 0"

text \<open>
  \<open>AUTOINCREMENT\<close>: one above the largest sequence number ever given. Nothing deletes from the
  table, so that is the largest one in it. The payload is a JSON value already.
\<close>

definition append_entry :: "EventLogEntry \<Rightarrow> EventLogRow list \<Rightarrow> EventLogRow list \<times> int" where
  "append_entry e t =
     (let seq = last_seq t + 1
      in (t @ [\<lparr>er_seq = seq, er_ts = el_ts e, er_kind = EventLogKind_as_db_str (el_kind e),
                er_host_id = el_host_id e, er_rollout_id = el_rollout_id e, er_payload = el_payload e\<rparr>],
          seq))"

text \<open>\<open>ORDER BY seq ASC LIMIT ?2\<close>; a negative limit is no limit.\<close>

definition limited :: "int \<Rightarrow> EventLogRow list \<Rightarrow> EventLogRow list" where
  "limited limit rows =
     (let sorted = sort_key er_seq rows in if limit < 0 then sorted else take (nat limit) sorted)"

definition query_by_host :: "string \<Rightarrow> int \<Rightarrow> EventLogRow list \<Rightarrow> EventLogRow list" where
  "query_by_host host_id limit t = limited limit (filter (\<lambda>r. er_host_id r = Some host_id) t)"

definition query_by_rollout :: "string \<Rightarrow> int \<Rightarrow> EventLogRow list \<Rightarrow> EventLogRow list" where
  "query_by_rollout rollout_id limit t = limited limit (filter (\<lambda>r. er_rollout_id r = Some rollout_id) t)"

definition query_by_kind :: "EventLogKind \<Rightarrow> int \<Rightarrow> EventLogRow list \<Rightarrow> EventLogRow list" where
  "query_by_kind kind limit t = limited limit (filter (\<lambda>r. er_kind r = EventLogKind_as_db_str kind) t)"

text \<open>\<open>event_log_writer.rs\<close>: the writer task appends what it receives, in the order it was sent.\<close>

definition write_log :: "EventLogEntry list \<Rightarrow> EventLogRow list \<Rightarrow> EventLogRow list" where
  "write_log entries t = fold (\<lambda>e t. fst (append_entry e t)) entries t"

section \<open>The payloads lose nothing\<close>

lemma host_state_str_inj [simp]: "host_state_str a = host_state_str b \<longleftrightarrow> a = b"
  by (cases a; cases b) simp_all

lemma probe_status_str_inj [simp]: "probe_status_str a = probe_status_str b \<longleftrightarrow> a = b"
  by (cases a; cases b) simp_all

lemma probe_mode_str_inj [simp]: "probe_mode_str a = probe_mode_str b \<longleftrightarrow> a = b"
  by (cases a; cases b) simp_all

lemma policy_display_inj [simp]: "OnHealthFailure_display a = OnHealthFailure_display b \<longleftrightarrow> a = b"
  by (cases a; cases b) simp_all

lemma json_leaf_inj [simp]:
  "json_opt_str o1 = json_opt_str o2 \<longleftrightarrow> o1 = o2"
  "json_rid r1 = json_rid r2 \<longleftrightarrow> r1 = r2"
  "json_u64 n1 = json_u64 n2 \<longleftrightarrow> n1 = n2"
  "json_u32 m1 = json_u32 m2 \<longleftrightarrow> m1 = m2"
  "json_i32 k1 = json_i32 k2 \<longleftrightarrow> k1 = k2"
  by (auto simp: json_opt_str_def json_rid_def json_u64_def json_u32_def json_i32_def
      RolloutId.expand split: option.splits dest: unsigned_word_eqI signed_word_eqI)

lemma topology_json_inj [simp]: "topology_entry_to_json a = topology_entry_to_json b \<longleftrightarrow> a = b"
  by (auto simp: topology_entry_to_json_def)

lemma sub_result_json_inj [simp]: "sub_result_to_json a = sub_result_to_json b \<longleftrightarrow> a = b"
  by (auto simp: sub_result_to_json_def)

lemma map_inj_eq: "(\<And>a b. f a = f b \<longleftrightarrow> a = b) \<Longrightarrow> map f xs = map f ys \<longleftrightarrow> xs = ys"
  by (simp add: inj_map_eq_map inj_def)

lemmas json_map_inj [simp] =
  map_inj_eq [of topology_entry_to_json, OF topology_json_inj]
  map_inj_eq [of sub_result_to_json, OF sub_result_json_inj]
  map_inj_eq [of JStr, OF json.inject(1)]

lemma outbound_json_inj: "outbound_event_to_json a = outbound_event_to_json b \<Longrightarrow> a = b"
  by (cases a; cases b) (simp_all split: option.splits)

lemma rollout_event_json_inj: "rollout_event_to_json a = rollout_event_to_json b \<Longrightarrow> a = b"
  by (cases a; cases b) simp_all

section \<open>The table keeps the order\<close>

lemma last_seq_ge: "r \<in> set t \<Longrightarrow> er_seq r \<le> last_seq t"
  unfolding last_seq_def by (induction t) auto

lemma last_seq_append [simp]: "last_seq (t @ [r]) = max (last_seq t) (er_seq r)" if "0 \<le> er_seq r"
  using that unfolding last_seq_def by (induction t) auto

lemma last_seq_nonneg: "0 \<le> last_seq t"
  unfolding last_seq_def by (induction t) auto

lemma append_entry_sorted:
  "sorted_wrt (<) (map er_seq t) \<Longrightarrow> sorted_wrt (<) (map er_seq (fst (append_entry e t)))"
  by (auto simp: append_entry_def Let_def sorted_wrt_append dest: last_seq_ge)

lemma write_log_sorted:
  "sorted_wrt (<) (map er_seq t) \<Longrightarrow> sorted_wrt (<) (map er_seq (write_log es t))"
  unfolding write_log_def by (induction es arbitrary: t) (auto intro: append_entry_sorted)

lemma write_log_rows:
  "\<exists>rows. write_log es t = t @ rows
     \<and> map (\<lambda>r. (er_host_id r, er_rollout_id r, er_kind r, er_payload r)) rows
       = map (\<lambda>e. (el_host_id e, el_rollout_id e, EventLogKind_as_db_str (el_kind e), el_payload e)) es"
proof (induction es arbitrary: t)
  case (Cons e es)
  obtain r where r: "fst (append_entry e t) = t @ [r]"
    "(er_host_id r, er_rollout_id r, er_kind r, er_payload r)
     = (el_host_id e, el_rollout_id e, EventLogKind_as_db_str (el_kind e), el_payload e)"
    by (auto simp: append_entry_def Let_def)
  obtain rows where rows: "write_log es (t @ [r]) = (t @ [r]) @ rows"
    "map (\<lambda>r. (er_host_id r, er_rollout_id r, er_kind r, er_payload r)) rows
     = map (\<lambda>e. (el_host_id e, el_rollout_id e, EventLogKind_as_db_str (el_kind e), el_payload e)) es"
    using Cons.IH [of "t @ [r]"] by blast
  have "write_log (e # es) t = t @ r # rows" using r rows(1) by (simp add: write_log_def)
  then show ?case using r(2) rows(2) by (intro exI [of _ "r # rows"]) simp
qed (simp add: write_log_def)

lemma filter_payloads:
  "map (\<lambda>r. (er_host_id r, er_rollout_id r, er_kind r, er_payload r)) rows
     = map (\<lambda>e. (el_host_id e, el_rollout_id e, EventLogKind_as_db_str (el_kind e), el_payload e)) es \<Longrightarrow>
   map er_payload (filter (\<lambda>r. er_rollout_id r = x) rows) = map el_payload (filter (\<lambda>e. el_rollout_id e = x) es)"
  by (induction rows arbitrary: es) (auto simp: Cons_eq_map_conv)

lemma query_sorted:
  "sorted_wrt (<) (map er_seq t) \<Longrightarrow> limited (- 1) (filter P t) = filter P t"
proof -
  assume "sorted_wrt (<) (map er_seq t)"
  then have "sorted_wrt (<) (map er_seq (filter P t))" by (induction t) auto
  then have "sorted (map er_seq (filter P t))" by (simp add: strict_sorted_iff)
  then show "limited (- 1) (filter P t) = filter P t" by (simp add: limited_def sort_key_id_if_sorted)
qed

text \<open>
  The log can be replayed: a rollout's query returns the payloads of exactly its entries in the
  order they were sent, sequence numbers only grow, and the payload of an agent event or of a
  rollout event determines the event (no field is lost, no two events look the same).
\<close>

lemma event_log_faithful:
  "map er_payload (query_by_rollout rid (- 1) (write_log es []))
     = map el_payload (filter (\<lambda>e. el_rollout_id e = Some rid) es)
   \<and> sorted_wrt (<) (map er_seq (write_log es []))
   \<and> inj outbound_event_to_json \<and> inj rollout_event_to_json"
proof (intro conjI)
  obtain rows where rows: "write_log es [] = rows"
    "map (\<lambda>r. (er_host_id r, er_rollout_id r, er_kind r, er_payload r)) rows
     = map (\<lambda>e. (el_host_id e, el_rollout_id e, EventLogKind_as_db_str (el_kind e), el_payload e)) es"
    using write_log_rows [of es "[]"] by auto
  show sorted: "sorted_wrt (<) (map er_seq (write_log es []))" by (rule write_log_sorted) simp
  show "map er_payload (query_by_rollout rid (- 1) (write_log es []))
     = map el_payload (filter (\<lambda>e. el_rollout_id e = Some rid) es)"
    unfolding query_by_rollout_def
    using query_sorted [OF sorted, of "\<lambda>r. er_rollout_id r = Some rid"] filter_payloads [OF rows(2)] rows(1)
    by simp
qed (auto intro!: injI dest: outbound_json_inj rollout_event_json_inj)

end
