(* ===== verification/CP_Applier.thy ===== *)
theory CP_Applier
  imports CP_Db Event_Log
begin

text \<open>
  The applier of the control plane (\<open>nixfleet-control-plane/src/runtime/applier.rs\<close>): it executes the
  actions of the planner and the effects of the two reducers against the database and the event
  log. The state is the tables and the entries handed to the log writer; the clock is read once
  per call, and a database is attached (without one every handler returns at once).
\<close>

section \<open>The state\<close>

record Db =
  db_rollouts :: "RolloutRowTuple list"
  db_records :: "HostRecordRow list"
  db_queue :: "QueuedDispatch list"
  db_quarantines :: "QuarantineRow list"
  db_probe_failures :: "ProbeFailureInsert list"

record cp_state =
  cp_db :: Db
  cp_log :: "EventLogEntry list"

definition set_rollouts :: "(RolloutRowTuple list \<Rightarrow> RolloutRowTuple list) \<Rightarrow> cp_state \<Rightarrow> cp_state" where
  "set_rollouts f w = w\<lparr>cp_db := (cp_db w)\<lparr>db_rollouts := f (db_rollouts (cp_db w))\<rparr>\<rparr>"

definition set_records :: "(HostRecordRow list \<Rightarrow> HostRecordRow list) \<Rightarrow> cp_state \<Rightarrow> cp_state" where
  "set_records f w = w\<lparr>cp_db := (cp_db w)\<lparr>db_records := f (db_records (cp_db w))\<rparr>\<rparr>"

definition set_queue :: "(QueuedDispatch list \<Rightarrow> QueuedDispatch list) \<Rightarrow> cp_state \<Rightarrow> cp_state" where
  "set_queue f w = w\<lparr>cp_db := (cp_db w)\<lparr>db_queue := f (db_queue (cp_db w))\<rparr>\<rparr>"

definition set_quarantines :: "(QuarantineRow list \<Rightarrow> QuarantineRow list) \<Rightarrow> cp_state \<Rightarrow> cp_state" where
  "set_quarantines f w = w\<lparr>cp_db := (cp_db w)\<lparr>db_quarantines := f (db_quarantines (cp_db w))\<rparr>\<rparr>"

definition set_probe_failures ::
  "(ProbeFailureInsert list \<Rightarrow> ProbeFailureInsert list) \<Rightarrow> cp_state \<Rightarrow> cp_state" where
  "set_probe_failures f w = w\<lparr>cp_db := (cp_db w)\<lparr>db_probe_failures := f (db_probe_failures (cp_db w))\<rparr>\<rparr>"

definition append_event_log ::
  "instant \<Rightarrow> string option \<Rightarrow> string option \<Rightarrow> EventLogKind \<Rightarrow> json \<Rightarrow> cp_state \<Rightarrow> cp_state" where
  "append_event_log ts host_id rollout_id kind payload w =
     w\<lparr>cp_log := cp_log w @ [\<lparr>el_kind = kind, el_ts = ts, el_host_id = host_id,
                              el_rollout_id = rollout_id, el_payload = payload\<rparr>]\<rparr>"

definition append_rollout_event :: "instant \<Rightarrow> RolloutId \<Rightarrow> RolloutEvent \<Rightarrow> cp_state \<Rightarrow> cp_state" where
  "append_rollout_event now rollout_id e =
     append_event_log now None (Some (as_str rollout_id)) K_RolloutEvent (rollout_event_to_json e)"

section \<open>The rollout reducer at work\<close>

primrec rollout_event_rollout_id :: "RolloutEvent \<Rightarrow> RolloutId" where
  "rollout_event_rollout_id (RolloutOpened rollout_id _ _ _) = rollout_id"
| "rollout_event_rollout_id (HostJoined rollout_id _ _ _) = rollout_id"
| "rollout_event_rollout_id (HostStateChanged rollout_id _ _ _ _) = rollout_id"
| "rollout_event_rollout_id (WaveAdvanced rollout_id _ _ _) = rollout_id"
| "rollout_event_rollout_id (RolloutTerminal rollout_id _) = rollout_id"
| "rollout_event_rollout_id (SuccessorOpened superseded_rollout_id _ _) = superseded_rollout_id"
| "rollout_event_rollout_id (RetentionExpired rollout_id _) = rollout_id"
| "rollout_event_rollout_id (OperatorClearance rollout_id _ _ _) = rollout_id"

fun apply_rollout_effect :: "instant \<Rightarrow> RolloutEffect \<Rightarrow> cp_state \<Rightarrow> cp_state" where
  "apply_rollout_effect now (RecordRolloutTransition rollout_id from to at) w =
     append_event_log now None (Some (as_str rollout_id)) K_Effect
       (JObj [(''effect'', JStr ''RecordRolloutTransition''), (''rolloutId'', json_rid rollout_id),
              (''from'', JStr (as_db_str from)), (''to'', JStr (as_db_str to)), (''at'', JTime at)])
       (set_rollouts (record_rollout_transition rollout_id to at None) w)"
| "apply_rollout_effect now (UpdateCurrentWave rollout_id wave) w =
     set_rollouts (set_current_wave rollout_id wave None) w"
| "apply_rollout_effect now (InsertQuarantineFromRollout channel closure_hash) w =
     set_quarantines (quarantine_insert channel closure_hash now None) w"
| "apply_rollout_effect now (SchedulePruning rollout_id delay_seconds) w = w"

definition record_of_row :: "RolloutRow \<Rightarrow> RolloutRecord" where
  "record_of_row row =
     \<lparr>rr_rollout_id = row_rollout_id row, rr_channel = row_channel row,
      rr_target_ref = row_target_ref row, rr_state = row_state row,
      rr_current_wave = row_current_wave row,
      rr_opened_event_log_seq = row_opened_event_log_seq row,
      rr_last_transition_event_log_seq = row_last_transition_event_log_seq row,
      rr_opened_at = row_opened_at row, rr_terminal_at = row_terminal_at row,
      rr_superseded_at = row_superseded_at row\<rparr>"

definition process_rollout_event :: "instant \<Rightarrow> RolloutEvent \<Rightarrow> cp_state \<Rightarrow> cp_state" where
  "process_rollout_event now e w =
     (let rollout_id = rollout_event_rollout_id e
      in case rollouts_state rollout_id (db_rollouts (cp_db w)) of
           Inl _ \<Rightarrow> w
         | Inr None \<Rightarrow> w
         | Inr (Some row) \<Rightarrow>
           let w = append_event_log now None (Some (as_str rollout_id)) K_RolloutEvent
                     (rollout_event_to_json e) w
           in case rollout_step (record_of_row row) e now of
                Inr (_, effects) \<Rightarrow> fold (apply_rollout_effect now) effects w
              | Inl _ \<Rightarrow> w)"

section \<open>Plan actions\<close>

definition DEFAULT_SOAK_MINUTES :: u32 where
  "DEFAULT_SOAK_MINUTES = 60"

definition resolve_policy :: "SignedManifestSet \<Rightarrow> string \<Rightarrow> RolloutPolicy option" where
  "resolve_policy ms channel =
     (case hget (fl_channels (sm_fleet_inner ms)) channel of
        None \<Rightarrow> None
      | Some c \<Rightarrow> hget (fl_rollout_policies (sm_fleet_inner ms)) (ch_rollout_policy c))"

definition soak_minutes_for :: "SignedManifestSet \<Rightarrow> string \<Rightarrow> HostWave \<Rightarrow> u32" where
  "soak_minutes_for ms channel hw =
     (case resolve_policy ms channel of
        None \<Rightarrow> DEFAULT_SOAK_MINUTES
      | Some p \<Rightarrow>
        case nth_opt (pol_waves p) (unat (hw_wave_index hw)) of
          None \<Rightarrow> DEFAULT_SOAK_MINUTES
        | Some wv \<Rightarrow> pw_soak_minutes wv)"

definition pending_record ::
  "SignedManifestSet \<Rightarrow> instant \<Rightarrow> RolloutId \<Rightarrow> string \<Rightarrow> HostWave \<Rightarrow> HostRolloutState" where
  "pending_record ms now rollout_id channel hw =
     new_pending rollout_id (hw_hostname hw) channel (hw_target_closure hw) now
       (compute_soak_due_at now (soak_minutes_for ms channel hw))"

definition open_host ::
  "SignedManifestSet \<Rightarrow> instant \<Rightarrow> RolloutId \<Rightarrow> string \<Rightarrow> HostWave \<Rightarrow> cp_state \<Rightarrow> cp_state" where
  "open_host ms now rollout_id channel hw w =
     process_rollout_event now (HostJoined rollout_id (hw_hostname hw) (hw_wave_index hw) now)
       (set_records (upsert (pending_record ms now rollout_id channel hw)) w)"

definition in_flight_predecessors :: "RolloutId \<Rightarrow> string \<Rightarrow> cp_state \<Rightarrow> RolloutId list" where
  "in_flight_predecessors rollout_id channel w =
     map ar_rollout_id (filter (\<lambda>r. ar_channel r = channel \<and> ar_rollout_id r \<noteq> rollout_id)
       (list_active (db_rollouts (cp_db w))))"

definition open_rollout ::
  "SignedManifestSet \<Rightarrow> instant \<Rightarrow> RolloutId \<Rightarrow> string \<Rightarrow> string \<Rightarrow> cp_state \<Rightarrow> cp_state" where
  "open_rollout ms now rollout_id channel target_ref w =
     (let predecessors = in_flight_predecessors rollout_id channel w;
          w = set_rollouts (record_rollout_opened rollout_id channel target_ref now None) w;
          w = append_rollout_event now rollout_id (RolloutOpened rollout_id channel target_ref now) w;
          w = fold (\<lambda>predecessor.
                process_rollout_event now (SuccessorOpened predecessor rollout_id now)) predecessors w
      in case hget (sm_rollouts ms) channel of
           None \<Rightarrow> w
         | Some vm \<Rightarrow>
           let manifest = v_inner vm
           in append_event_log now None (Some (as_str rollout_id)) K_PlanAction
                (JObj [(''action'', JStr ''OpenRollout''), (''rollout_id'', json_rid rollout_id),
                       (''channel'', JStr channel), (''target_ref'', JStr target_ref),
                       (''hosts'', JArr (map (JStr \<circ> hw_hostname) (rm_host_set manifest)))])
                (fold (open_host ms now rollout_id channel) (rm_host_set manifest) w))"

definition queue_dispatch ::
  "instant \<Rightarrow> string \<Rightarrow> RolloutId \<Rightarrow> ClosureHash \<Rightarrow> instant \<Rightarrow> cp_state \<Rightarrow> cp_state" where
  "queue_dispatch now host rollout target_closure soak_due_at w =
     append_event_log now (Some host) (Some (as_str rollout)) K_PlanAction
       (JObj [(''action'', JStr ''QueueDispatch''), (''host'', JStr host), (''rollout'', json_rid rollout),
              (''target_closure'', JStr target_closure), (''soak_due_at'', JTime soak_due_at)])
       (set_queue (queue_upsert
          \<lparr>qd_hostname = host, qd_rollout_id = rollout, qd_target_closure = target_closure,
           qd_soak_due_at = soak_due_at, qd_enqueued_at = now\<rparr>) w)"

definition record_halt_lifted :: "instant \<Rightarrow> string \<Rightarrow> cp_state \<Rightarrow> cp_state" where
  "record_halt_lifted now channel =
     append_event_log now None None K_PlanAction
       (JObj [(''action'', JStr ''RecordHaltLifted''), (''channel'', JStr channel)])"

definition defer_dispatch ::
  "instant \<Rightarrow> string \<Rightarrow> RolloutId \<Rightarrow> string \<Rightarrow> string \<Rightarrow> cp_state \<Rightarrow> cp_state" where
  "defer_dispatch now host rollout gate reason =
     append_event_log now (Some host) (Some (as_str rollout)) K_GateDecision
       (JObj [(''gate'', JStr gate), (''reason'', JStr reason), (''host'', JStr host),
              (''rollout'', json_rid rollout)])"

fun apply_plan_action :: "SignedManifestSet \<Rightarrow> instant \<Rightarrow> PlanAction \<Rightarrow> cp_state \<Rightarrow> cp_state" where
  "apply_plan_action ms now (OpenRollout rollout_id channel target_ref) w =
     open_rollout ms now rollout_id channel target_ref w"
| "apply_plan_action ms now (QueueDispatch host rollout target_closure soak_due_at) w =
     queue_dispatch now host rollout target_closure soak_due_at w"
| "apply_plan_action ms now (RecordHaltLifted channel) w = record_halt_lifted now channel w"
| "apply_plan_action ms now (DeferDispatch host rollout gate reason) w =
     defer_dispatch now host rollout gate reason w"

section \<open>Effects of the host reducer\<close>

definition open_one_rollout_record ::
  "SignedManifestSet \<Rightarrow> instant \<Rightarrow> RolloutId \<Rightarrow> string \<Rightarrow> string \<Rightarrow> cp_state \<Rightarrow> cp_state" where
  "open_one_rollout_record ms now rollout_id channel host w =
     (case hget (sm_rollouts ms) channel of
        None \<Rightarrow> w
      | Some vm \<Rightarrow>
        case find (\<lambda>h. hw_hostname h = host) (rm_host_set (v_inner vm)) of
          None \<Rightarrow> w
        | Some hw \<Rightarrow>
          append_event_log now (Some host) (Some (as_str rollout_id)) K_Effect
            (JObj [(''effect'', JStr ''RemoteOpenRolloutRecord''), (''rollout_id'', json_rid rollout_id),
                   (''channel'', JStr channel), (''host'', JStr host)])
            (set_records (upsert (new_pending rollout_id host channel (hw_target_closure hw) now
               (compute_soak_due_at now (soak_minutes_for ms channel hw)))) w))"

text \<open>The rows a probe result adds: one per failing enforced control, or one for the probe.\<close>

definition failure_rows :: "RolloutId \<Rightarrow> string \<Rightarrow> OutboundAgentEvent \<Rightarrow> ProbeFailureInsert list" where
  "failure_rows rollout_id host payload =
     (case payload of
        O_ProbeResult probe_name mode status observed_at failure_reason sub_results seq \<Rightarrow>
          (case sub_results of
             Some (sr # srs) \<Rightarrow>
               map (\<lambda>sr. \<lparr>pf_rollout_id = rollout_id, pf_host_id = host, pf_probe_name = probe_name,
                          pf_control_id = Some (psr_control_id sr),
                          pf_framework = Some (psr_framework sr), pf_observed_at = observed_at\<rparr>)
                 (filter (\<lambda>sr. psr_status sr = Fail \<and> psr_effective_mode sr = Enforce) (sr # srs))
           | _ \<Rightarrow>
               if mode = Enforce \<and> status = Fail
               then [\<lparr>pf_rollout_id = rollout_id, pf_host_id = host, pf_probe_name = probe_name,
                      pf_control_id = None, pf_framework = None, pf_observed_at = observed_at\<rparr>]
               else [])
      | _ \<Rightarrow> [])"

text \<open>Metrics and log lines leave no trace in the state; an agent-only effect is dropped.\<close>

fun apply_effect :: "SignedManifestSet \<Rightarrow> instant \<Rightarrow> Effect \<Rightarrow> cp_state \<Rightarrow> cp_state" where
  "apply_effect ms now (RemoteQueueDispatch host rollout_id target_closure soak_due_at) w =
     queue_dispatch now host rollout_id target_closure soak_due_at w"
| "apply_effect ms now (RemoteInsertQuarantine channel closure) w =
     append_event_log now None None K_Effect
       (JObj [(''effect'', JStr ''RemoteInsertQuarantine''), (''channel'', JStr channel),
              (''closure'', JStr closure)])
       (set_quarantines (quarantine_insert channel closure now None) w)"
| "apply_effect ms now (RemoteOpenRolloutRecord rollout_id channel host) w =
     open_one_rollout_record ms now rollout_id channel host w"
| "apply_effect ms now (RemoteAppendEventLog host rollout_id payload) w =
     set_probe_failures (insert_many (failure_rows rollout_id host payload))
       (append_event_log now (Some host) (Some (as_str rollout_id)) K_AgentEvent
          (outbound_event_to_json payload) w)"
| "apply_effect ms now (RecordTransition host rollout_id from to at) w =
     append_event_log now (Some host) (Some (as_str rollout_id)) K_Effect
       (JObj [(''effect'', JStr ''RecordTransition''), (''host'', JStr host),
              (''rollout_id'', json_rid rollout_id), (''from'', JStr (host_state_str from)),
              (''to'', JStr (host_state_str to)), (''at'', JTime at)]) w"
| "apply_effect ms now (EmitMetric _ _ _) w = w"
| "apply_effect ms now (EmitLog _ _ _ _) w = w"
| "apply_effect ms now (LocalFireSwitch _ _) w = w"
| "apply_effect ms now (LocalFireRollbackTo _ _) w = w"
| "apply_effect ms now (LocalResetProbeCache _) w = w"
| "apply_effect ms now (LocalEmitEvent _ _ _) w = w"

section \<open>What the rollouts table stores\<close>

text \<open>The row of a record, and what the effects of one step do to the record of their rollout.\<close>

definition tuple_of_record :: "RolloutRecord \<Rightarrow> RolloutRowTuple" where
  "tuple_of_record r =
     \<lparr>rrt_rollout_id = rr_rollout_id r, rrt_channel = rr_channel r, rrt_target_ref = rr_target_ref r,
      rrt_state = as_db_str (rr_state r), rrt_current_wave = ucast (rr_current_wave r),
      rrt_opened_event_log_seq = rr_opened_event_log_seq r,
      rrt_last_transition_event_log_seq = rr_last_transition_event_log_seq r,
      rrt_opened_at = rr_opened_at r, rrt_terminal_at = rr_terminal_at r,
      rrt_superseded_at = rr_superseded_at r\<rparr>"

definition opened_record :: "RolloutId \<Rightarrow> string \<Rightarrow> string \<Rightarrow> instant \<Rightarrow> RolloutRecord" where
  "opened_record rid channel target_ref now =
     \<lparr>rr_rollout_id = rid, rr_channel = channel, rr_target_ref = target_ref, rr_state = RS_Opening,
      rr_current_wave = 0, rr_opened_event_log_seq = None, rr_last_transition_event_log_seq = None,
      rr_opened_at = now, rr_terminal_at = None, rr_superseded_at = None\<rparr>"

fun effect_on_record :: "RolloutEffect \<Rightarrow> RolloutRecord \<Rightarrow> RolloutRecord" where
  "effect_on_record (RecordRolloutTransition _ _ to at) r =
     (if rr_state r = to then r
      else let r = r\<lparr>rr_state := to, rr_last_transition_event_log_seq := None\<rparr>
           in if to = RS_Terminal then r\<lparr>rr_terminal_at := Some at\<rparr>
              else if to = RS_Superseded then r\<lparr>rr_superseded_at := Some at\<rparr> else r)"
| "effect_on_record (UpdateCurrentWave _ wave) r =
     (if rr_current_wave r < wave then r\<lparr>rr_current_wave := wave\<rparr> else r)"
| "effect_on_record _ r = r"

definition without_seq :: "RolloutRecord \<Rightarrow> RolloutRecord" where
  "without_seq r = r\<lparr>rr_last_transition_event_log_seq := None\<rparr>"

definition effect_for :: "RolloutId \<Rightarrow> RolloutEffect \<Rightarrow> bool" where
  "effect_for rid f = (case f of RecordRolloutTransition r _ _ _ \<Rightarrow> r = rid | UpdateCurrentWave r _ \<Rightarrow> r = rid | _ \<Rightarrow> False)"

text \<open>The table after an event, on the records: the record of the event's rollout steps.\<close>

definition settle_rollout :: "instant \<Rightarrow> RolloutEvent \<Rightarrow> RolloutRecord \<Rightarrow> RolloutRecord" where
  "settle_rollout now e r =
     (if rr_rollout_id r \<noteq> rollout_event_rollout_id e then r
      else case rollout_step r e now of Inl _ \<Rightarrow> r | Inr (_, fx) \<Rightarrow> fold effect_on_record fx r)"

definition is_active :: "RolloutRecord \<Rightarrow> bool" where
  "is_active r \<longleftrightarrow> rr_state r \<noteq> RS_Superseded \<and> rr_state r \<noteq> RS_Pruned"

definition apart_from_rollouts :: "cp_state \<Rightarrow> HostRecordRow list \<times> QueuedDispatch list \<times> QuarantineRow list
    \<times> ProbeFailureInsert list" where
  "apart_from_rollouts w =
     (db_records (cp_db w), db_queue (cp_db w), db_quarantines (cp_db w), db_probe_failures (cp_db w))"

text \<open>A control plane that stores the given rollouts and host records.\<close>

definition sample_cp :: "RolloutRecord list \<Rightarrow> HostRolloutState list \<Rightarrow> cp_state" where
  "sample_cp rs ss =
     \<lparr>cp_db = \<lparr>db_rollouts = map tuple_of_record rs, db_records = map state_to_row ss, db_queue = [],
               db_quarantines = [], db_probe_failures = []\<rparr>, cp_log = []\<rparr>"

lemma as_db_str_inj [simp]: "as_db_str a = as_db_str b \<longleftrightarrow> a = b"
  by (cases a; cases b) simp_all

lemma from_as_db_str [simp]: "from_db_str (as_db_str st) = Some st"
  by (cases st) (simp_all add: from_db_str_def)

lemma u32_through_i64 [simp]: "ucast (ucast (x :: u32) :: i64) = x"
  by (simp add: ucast_down_ucast_id is_down_def)

lemma sint_of_u32: "sint (ucast (x :: u32) :: i64) = uint x"
proof -
  have "uint x < 2 ^ 63" using unsigned_less [of x, where 'a = int] by simp
  moreover have "- (2 ^ 63) \<le> uint x" by (rule order_trans [of _ 0]) simp_all
  ultimately have "signed_take_bit 63 (uint x) = uint x" by (intro signed_take_bit_int_eq_self)
  then show ?thesis by (simp add: sint_uint uint_up_ucast is_up_def target_size source_size word_size)
qed

lemma u32_through_i64_less [simp]:
  "sint (ucast (x :: u32) :: i64) < sint (ucast (y :: u32) :: i64) \<longleftrightarrow> x < y"
  by (simp add: sint_of_u32 word_less_def)

lemma tuple_cols [simp]:
  "rrt_rollout_id (tuple_of_record r) = rr_rollout_id r"
  "rrt_state (tuple_of_record r) = as_db_str (rr_state r)"
  "rrt_current_wave (tuple_of_record r) = ucast (rr_current_wave r)"
  "rrt_channel (tuple_of_record r) = rr_channel r"
  by (simp_all add: tuple_of_record_def)

lemma tuple_decodes: "\<exists>row. tuple_to_row (tuple_of_record r) = Inr row \<and> record_of_row row = r"
  by (simp add: tuple_to_row_def record_of_row_def) (simp add: tuple_of_record_def)

lemma select_tuple:
  "select_row rrt_rollout_id rid (map tuple_of_record rs) = map_option tuple_of_record (select_row rr_rollout_id rid rs)"
  by (induction rs) (auto simp: select_row_def)

lemma state_stored:
  "(case select_row rr_rollout_id rid rs of
      None \<Rightarrow> rollouts_state rid (map tuple_of_record rs) = Inr None
    | Some r \<Rightarrow> \<exists>row. rollouts_state rid (map tuple_of_record rs) = Inr (Some row) \<and> record_of_row row = r)"
proof (cases "select_row rr_rollout_id rid rs")
  case (Some r)
  then show ?thesis using tuple_decodes [of r] by (auto simp: rollouts_state_def select_tuple)
qed (simp add: rollouts_state_def select_tuple)

lemma map_update_where:
  "(\<And>r. P' (f r) = P r) \<Longrightarrow> (\<And>r. P r \<Longrightarrow> g' (f r) = f (g r)) \<Longrightarrow>
     update_where P' g' (map f rs) = map f (map (\<lambda>r. if P r then g r else r) rs)"
  by (induction rs) (auto simp: update_where_def)

lemma transition_stored:
  "record_rollout_transition rid to at None (map tuple_of_record rs) =
     map tuple_of_record (map (\<lambda>r. if rr_rollout_id r = rid
       then effect_on_record (RecordRolloutTransition rid from to at) r else r) rs)"
  unfolding record_rollout_transition_def update_where_def
  by (cases to) (auto simp: transition_columns_def tuple_of_record_def simp del: as_db_str.simps)

lemma wave_stored:
  "set_current_wave rid wave None (map tuple_of_record rs) =
     map tuple_of_record (map (\<lambda>r. if rr_rollout_id r = rid then effect_on_record (UpdateCurrentWave rid wave) r else r) rs)"
  unfolding set_current_wave_def update_where_def
  by (auto simp: tuple_of_record_def u32_through_i64_less)

lemma opened_stored:
  "record_rollout_opened rid channel target_ref now None (map tuple_of_record rs) =
     map tuple_of_record (insert_ignore rr_rollout_id (opened_record rid channel target_ref now) rs)"
  by (auto simp: record_rollout_opened_def insert_ignore_def opened_record_def tuple_of_record_def image_image)

section \<open>An event steps the record of its rollout\<close>

lemma effect_id [simp]:
  "rr_rollout_id (effect_on_record f r) = rr_rollout_id r"
  "rr_channel (effect_on_record f r) = rr_channel r"
  by (cases f; simp add: Let_def)+

lemma step_effects_for:
  "rollout_step r e now = Inr (r', fx) \<Longrightarrow> f \<in> set fx \<Longrightarrow> effect_for (rr_rollout_id r) f"
  by (elim rollout_step_accepted rollout_elims)
    (auto simp: Let_def effect_for_def transition_effect_def split: rollout_splits)

lemma step_effects_record:
  "rollout_step r e now = Inr (r', fx) \<Longrightarrow>
     without_seq (fold effect_on_record fx r) = without_seq r'"
  by (elim rollout_step_accepted rollout_elims)
    (auto simp: Let_def without_seq_def transition_effect_def split: rollout_splits)

lemma append_db [simp]: "cp_db (append_event_log ts h rid k p w) = cp_db w"
  by (simp add: append_event_log_def)

lemma set_rollouts_db [simp]: "db_rollouts (cp_db (set_rollouts f w)) = f (db_rollouts (cp_db w))"
  by (simp add: set_rollouts_def)

lemma apart_rollouts [simp]:
  "apart_from_rollouts (set_rollouts f w) = apart_from_rollouts w"
  "apart_from_rollouts (append_event_log ts h rid k p w) = apart_from_rollouts w"
  by (simp_all add: apart_from_rollouts_def set_rollouts_def append_event_log_def)

lemma apply_rollout_effect_stored:
  assumes "effect_for rid f" and "db_rollouts (cp_db w) = map tuple_of_record rs"
  shows "db_rollouts (cp_db (apply_rollout_effect now f w)) =
      map tuple_of_record (map (\<lambda>r. if rr_rollout_id r = rid then effect_on_record f r else r) rs)"
    and "apart_from_rollouts (apply_rollout_effect now f w) = apart_from_rollouts w"
proof -
  have "db_rollouts (cp_db (apply_rollout_effect now f w)) =
      map tuple_of_record (map (\<lambda>r. if rr_rollout_id r = rid then effect_on_record f r else r) rs)
    \<and> apart_from_rollouts (apply_rollout_effect now f w) = apart_from_rollouts w"
  proof (cases f)
    case (RecordRolloutTransition a b c d)
    then have "a = rid" using assms(1) by (simp add: effect_for_def)
    then have f: "f = RecordRolloutTransition rid b c d" using RecordRolloutTransition by simp
    show ?thesis unfolding f
      using assms(2) transition_stored [of rid c d rs b] by (simp del: map_map effect_on_record.simps)
  next
    case (UpdateCurrentWave a b)
    then have "a = rid" using assms(1) by (simp add: effect_for_def)
    then have f: "f = UpdateCurrentWave rid b" using UpdateCurrentWave by simp
    show ?thesis unfolding f
      using assms(2) wave_stored [of rid b rs] by (simp del: map_map effect_on_record.simps)
  qed (use assms in \<open>simp_all add: effect_for_def\<close>)
  then show "db_rollouts (cp_db (apply_rollout_effect now f w)) =
      map tuple_of_record (map (\<lambda>r. if rr_rollout_id r = rid then effect_on_record f r else r) rs)"
    and "apart_from_rollouts (apply_rollout_effect now f w) = apart_from_rollouts w" by simp_all
qed

lemma apply_rollout_effects_stored:
  assumes "\<forall>f \<in> set fx. effect_for rid f" and "db_rollouts (cp_db w) = map tuple_of_record rs"
  shows "db_rollouts (cp_db (fold (apply_rollout_effect now) fx w)) =
      map tuple_of_record (map (\<lambda>r. if rr_rollout_id r = rid then fold effect_on_record fx r else r) rs)
    \<and> apart_from_rollouts (fold (apply_rollout_effect now) fx w) = apart_from_rollouts w"
  using assms
proof (induction fx arbitrary: w rs)
  case (Cons f fx)
  let ?rs = "map (\<lambda>r. if rr_rollout_id r = rid then effect_on_record f r else r) rs"
  let ?w = "apply_rollout_effect now f w"
  have f: "effect_for rid f" and fx: "\<forall>f \<in> set fx. effect_for rid f" using Cons.prems(1) by simp_all
  note one = apply_rollout_effect_stored [OF f Cons.prems(2), of now]
  have "map (\<lambda>r. if rr_rollout_id r = rid then fold effect_on_record fx r else r) ?rs =
      map (\<lambda>r. if rr_rollout_id r = rid then fold effect_on_record (f # fx) r else r) rs" by simp
  then show ?case using Cons.IH [OF fx one(1)] one(2) by simp
qed simp

lemma select_absent: "select_row key k t = None \<Longrightarrow> r \<in> set t \<Longrightarrow> key r \<noteq> k"
  by (auto simp: select_row_None)

lemma process_stored:
  assumes "db_rollouts (cp_db w) = map tuple_of_record rs" and "unique_key rr_rollout_id rs"
  shows "db_rollouts (cp_db (process_rollout_event now e w)) = map tuple_of_record (map (settle_rollout now e) rs)"
    and "apart_from_rollouts (process_rollout_event now e w) = apart_from_rollouts w"
proof -
  let ?rid = "rollout_event_rollout_id e"
  note st = state_stored [of ?rid rs]
  have "db_rollouts (cp_db (process_rollout_event now e w)) = map tuple_of_record (map (settle_rollout now e) rs)
    \<and> apart_from_rollouts (process_rollout_event now e w) = apart_from_rollouts w"
  proof (cases "select_row rr_rollout_id ?rid rs")
    case None
    then have "map (settle_rollout now e) rs = rs"
      by (auto simp: settle_rollout_def dest: select_absent intro!: map_idI)
    with None st show ?thesis by (simp add: process_rollout_event_def assms)
  next
    case (Some r)
    then obtain row where row: "rollouts_state ?rid (map tuple_of_record rs) = Inr (Some row)"
      "record_of_row row = r" using st by auto
    have r: "r \<in> set rs" "rr_rollout_id r = ?rid"
      using Some select_row_iff [OF assms(2)] by auto
    have only: "x = r" if "x \<in> set rs" "rr_rollout_id x = ?rid" for x
      using unique_key_inj [OF assms(2) that(1) r(1)] that r by simp
    show ?thesis
    proof (cases "rollout_step r e now")
      case (Inl er)
      then have "settle_rollout now e x = x" if "x \<in> set rs" for x
        using only [OF that] by (cases "x = r") (auto simp: settle_rollout_def)
      then have "map (settle_rollout now e) rs = rs" by (intro map_idI)
      with Inl show ?thesis by (simp add: process_rollout_event_def assms row)
    next
      case (Inr res)
      then obtain r' fx where fx: "rollout_step r e now = Inr (r', fx)" by (cases res) auto
      then have own: "\<forall>f \<in> set fx. effect_for ?rid f" using step_effects_for r(2) by metis
      have "map (settle_rollout now e) rs =
          map (\<lambda>x. if rr_rollout_id x = ?rid then fold effect_on_record fx x else x) rs"
        using fx only by (intro map_cong) (auto simp: settle_rollout_def)
      then show ?thesis
        using apply_rollout_effects_stored [OF own, of "append_event_log now None (Some (as_str ?rid))
          K_RolloutEvent (rollout_event_to_json e) w" rs now]
        by (simp add: process_rollout_event_def assms row fx)
    qed
  qed
  then show "db_rollouts (cp_db (process_rollout_event now e w)) = map tuple_of_record (map (settle_rollout now e) rs)"
    and "apart_from_rollouts (process_rollout_event now e w) = apart_from_rollouts w" by simp_all
qed

lemma rollout_inv_without_seq [simp]: "rollout_inv (without_seq r) = rollout_inv r"
  by (simp add: rollout_inv_def without_seq_def)

lemma settle_refines:
  "rr_rollout_id r = rollout_event_rollout_id e \<Longrightarrow>
     without_seq (settle_rollout now e r) = without_seq (settle rollout_machine_step r (e, now))"
  by (auto simp: settle_rollout_def settle_def rollout_machine_step_def step_effects_record split: sum.splits)

lemma settle_state:
  "rr_rollout_id r = rollout_event_rollout_id e \<Longrightarrow>
     rr_state (settle_rollout now e r) = rr_state (settle rollout_machine_step r (e, now))"
  using settle_refines [of r e now] by (simp add: without_seq_def) (metis RolloutRecord.ext_inject RolloutRecord.surjective RolloutRecord.update_convs(7))

lemma fold_effect_id:
  "rr_rollout_id (fold effect_on_record fx r) = rr_rollout_id r"
  "rr_channel (fold effect_on_record fx r) = rr_channel r"
  by (induction fx arbitrary: r) simp_all

lemma settle_id [simp]:
  "rr_rollout_id (settle_rollout now e r) = rr_rollout_id r"
  "rr_channel (settle_rollout now e r) = rr_channel r"
  by (auto simp: settle_rollout_def fold_effect_id split: sum.splits)

lemma settle_rollout_inv: "rollout_inv r \<Longrightarrow> rollout_inv (settle_rollout now e r)"
proof (cases "rr_rollout_id r = rollout_event_rollout_id e")
  case True
  then show "rollout_inv r \<Longrightarrow> ?thesis"
    using settle_refines [OF True, of now] rollout_machine.settle_inv [of r "(e, now)"]
    by (metis rollout_inv_without_seq)
qed (simp add: settle_rollout_def)

lemma step_never_reactivates:
  "rollout_step r e now = Inr (r', fx) \<Longrightarrow> is_active r' \<Longrightarrow> is_active r"
  using rollout_step_edge [of r e now r' fx] by (auto simp: is_active_def elim!: rollout_edge.cases)

lemma step_into_terminal:
  "rollout_step r e now = Inr (r', fx) \<Longrightarrow> rr_state r' = RS_Terminal \<Longrightarrow> rr_state r \<noteq> RS_Terminal \<Longrightarrow>
     \<exists>rid at. e = RolloutTerminal rid at"
  by (elim rollout_step_accepted rollout_elims) (auto simp: Let_def split: rollout_splits)

lemma step_successor:
  "rr_state r \<notin> {RS_Superseded, RS_Pruned} \<Longrightarrow>
     \<exists>r' fx. rollout_step r (SuccessorOpened p n at) now = Inr (r', fx) \<and> rr_state r' = RS_Superseded"
  by (cases "rr_state r") (simp_all add: rollout_step_def rollout_dispatch_def Let_def)

lemma settle_active: "is_active (settle_rollout now e r) \<Longrightarrow> is_active r"
proof (cases "rr_rollout_id r = rollout_event_rollout_id e")
  case True
  then show "is_active (settle_rollout now e r) \<Longrightarrow> ?thesis"
    using settle_state [OF True, of now] step_never_reactivates [of r e now]
    by (auto simp: is_active_def settle_def rollout_machine_step_def split: sum.splits)
qed (simp add: settle_rollout_def)

lemma settle_into_terminal:
  "rr_state (settle_rollout now e r) = RS_Terminal \<Longrightarrow> rr_state r \<noteq> RS_Terminal \<Longrightarrow>
     \<exists>at. e = RolloutTerminal (rr_rollout_id r) at"
proof (cases "rr_rollout_id r = rollout_event_rollout_id e")
  case True
  then show "rr_state (settle_rollout now e r) = RS_Terminal \<Longrightarrow> rr_state r \<noteq> RS_Terminal \<Longrightarrow> ?thesis"
    using settle_state [OF True, of now] step_into_terminal [of r e now]
    by (fastforce simp: settle_def rollout_machine_step_def split: sum.splits)
qed (simp add: settle_rollout_def)

lemma settle_successor:
  "rr_rollout_id r = p \<Longrightarrow> \<not> is_active (settle_rollout now (SuccessorOpened p n at) r)"
  using settle_state [of r "SuccessorOpened p n at" now] step_successor [of r p n at now]
    settle_active [of now "SuccessorOpened p n at" r]
  by (fastforce simp: is_active_def settle_def rollout_machine_step_def)

text \<open>
  C17. The rollouts table refines the rollout reducer: processing an event replaces the record of the
  event's rollout by the one the pure reducer steps to (a refused event keeps it), for every state
  and event, timestamps and wave cursor included; no other rollout and no other table changes. Only
  the link to the log entry, which is always null, is left out of the comparison.
\<close>

theorem rollout_table_refines_reducer:
  assumes "db_rollouts (cp_db w) = map tuple_of_record rs" and "unique_key rr_rollout_id rs"
  shows "\<exists>rs'. db_rollouts (cp_db (process_rollout_event now e w)) = map tuple_of_record rs'
    \<and> map without_seq rs' = map (\<lambda>r. without_seq
        (if rr_rollout_id r = rollout_event_rollout_id e then settle rollout_machine_step r (e, now) else r)) rs
    \<and> apart_from_rollouts (process_rollout_event now e w) = apart_from_rollouts w"
proof (intro exI conjI)
  show "map without_seq (map (settle_rollout now e) rs) = map (\<lambda>r. without_seq
        (if rr_rollout_id r = rollout_event_rollout_id e then settle rollout_machine_step r (e, now) else r)) rs"
    using settle_refines by (auto simp: settle_rollout_def)
qed (rule process_stored [OF assms])+

theorem rollout_table_refines_reducer_witness:
  "\<exists>rs'. db_rollouts (cp_db (process_rollout_event 7 (HostJoined (rr_rollout_id sample_record) ''h1'' 0 7)
        (sample_cp [sample_record] []))) = map tuple_of_record rs'
    \<and> map without_seq rs' = map (\<lambda>r. without_seq
        (if rr_rollout_id r = rollout_event_rollout_id (HostJoined (rr_rollout_id sample_record) ''h1'' 0 7)
         then settle rollout_machine_step r (HostJoined (rr_rollout_id sample_record) ''h1'' 0 7, 7) else r))
        [sample_record]
    \<and> apart_from_rollouts (process_rollout_event 7 (HostJoined (rr_rollout_id sample_record) ''h1'' 0 7)
        (sample_cp [sample_record] [])) = apart_from_rollouts (sample_cp [sample_record] [])"
  by (rule rollout_table_refines_reducer) (simp_all add: sample_cp_def unique_key_def)

end
