(* ===== verification/CP_Runtime.thy ===== *)
theory CP_Runtime
  imports CP_Applier
begin

text \<open>
  The reducer task of the control plane (\<open>nixfleet-control-plane/src/runtime/reducer.rs\<close>), the only
  writer of the mirror: it loads a host record, steps it, stores it, runs the effects, feeds the
  rollout reducer, recovers lost acknowledgements from heartbeats, and runs the planner. One
  \<open>handle_input\<close> is one turn of its loop; the clock is read once per turn.
\<close>

section \<open>State and inputs\<close>

record ReducerState =
  rs_manifests :: "SignedManifestSet option"
  rs_quarantines :: QuarantineSet
  rs_last_heartbeat_at :: "(string, instant) hmap"

record HeartbeatReply =
  reply_replay_from :: "u64 option"
  reply_bootstrap_rollouts :: "HostRolloutSnapshot list"

datatype ReducerInput =
    HostEvent string RolloutId Event
  | ManifestSetUpdated SignedManifestSet
  | HeartbeatReceived string "RolloutId option" "ClosureHash option" instant
  | PlanTick

section \<open>One host event\<close>

text \<open>The aggregate signal: the rollout has records and all of them are converged.\<close>

definition all_converged :: "RolloutId \<Rightarrow> cp_state \<Rightarrow> bool" where
  "all_converged rollout_id w \<longleftrightarrow>
     (case all_for_rollout rollout_id (db_records (cp_db w)) of
        Inl _ \<Rightarrow> False
      | Inr rows \<Rightarrow> rows \<noteq> [] \<and> list_all (\<lambda>r. hrs_state r = HS_Converged) rows)"

definition feed_rollout ::
  "instant \<Rightarrow> RolloutId \<Rightarrow> string \<Rightarrow> HostState \<Rightarrow> HostState \<Rightarrow> cp_state \<Rightarrow> cp_state" where
  "feed_rollout now rollout_id host prior_host_state next_host_state w =
     (if prior_host_state = next_host_state then w
      else
        let w = process_rollout_event now
                  (HostStateChanged rollout_id host prior_host_state next_host_state now) w
        in if next_host_state = HS_Converged \<and> all_converged rollout_id w
           then process_rollout_event now (RolloutTerminal rollout_id now) w
           else w)"

definition handle_host_event ::
  "instant \<Rightarrow> ReducerState \<Rightarrow> string \<Rightarrow> RolloutId \<Rightarrow> Event \<Rightarrow> cp_state \<Rightarrow> cp_state" where
  "handle_host_event now rs host rollout_id e w =
     (case load rollout_id host (db_records (cp_db w)) of
        Inl _ \<Rightarrow> w
      | Inr None \<Rightarrow> w
      | Inr (Some prior) \<Rightarrow>
        if event_seq e \<le> hrs_last_event_seq prior then w
        else case rs_manifests rs of
          None \<Rightarrow> w
        | Some manifests \<Rightarrow>
          case resolve_policy manifests (hrs_channel prior) of
            None \<Rightarrow> w
          | Some policy \<Rightarrow>
            case step prior e now policy of
              Inl _ \<Rightarrow> w
            | Inr (next_state, effects) \<Rightarrow>
              let next_state = next_state\<lparr>hrs_last_event_seq := event_seq e\<rparr>;
                  w = set_records (upsert next_state) w;
                  w = fold (apply_effect manifests now) effects w
              in feed_rollout now rollout_id host (hrs_state prior) (hrs_state next_state) w)"

section \<open>The planner's view of the database\<close>

fun collect_channels ::
  "Db \<Rightarrow> (string \<times> RolloutManifest Verified) list \<Rightarrow>
   (RolloutId \<times> string, HostRolloutState) hmap \<times> (RolloutId, RolloutSummary) hmap \<Rightarrow>
   db_error + (RolloutId \<times> string, HostRolloutState) hmap \<times> (RolloutId, RolloutSummary) hmap" where
  "collect_channels db [] acc = Inr acc"
| "collect_channels db ((channel, vm) # rest) (host_states, rollouts) =
     (let manifest = v_inner vm;
          rollout_id = RolloutId_new channel (rm_channel_ref manifest)
      in case all_for_rollout rollout_id (db_records db) of
           Inl err \<Rightarrow> Inl err
         | Inr rows \<Rightarrow>
           let host_states = foldl (\<lambda>m row. hput (rollout_id, hrs_hostname row) row m) host_states rows;
               rollouts =
                 (case rollouts_state rollout_id (db_rollouts db) of
                    Inr (Some row) \<Rightarrow>
                      hput rollout_id
                        \<lparr>sum_rollout_id = rollout_id, sum_channel = channel,
                         sum_target_ref = rm_channel_ref manifest, sum_opened_at = row_opened_at row,
                         sum_terminal_at = row_terminal_at row, sum_current_wave = row_current_wave row,
                         sum_budgets = rm_disruption_budgets manifest\<rparr> rollouts
                  | _ \<Rightarrow> rollouts)
           in collect_channels db rest (host_states, rollouts))"

definition build_fleet_state :: "Db \<Rightarrow> SignedManifestSet \<Rightarrow> db_error + FleetState" where
  "build_fleet_state db ms =
     (case collect_channels db (sm_rollouts ms) ([], []) of
        Inl err \<Rightarrow> Inl err
      | Inr (host_states, rollouts) \<Rightarrow>
        Inr \<lparr>fs_host_states = host_states, fs_rollouts = rollouts,
             fs_outstanding_failing_enforce_probes =
               outstanding_failing_enforce_probes_by_rollout (db_probe_failures db)\<rparr>)"

definition wave_done :: "FleetState \<Rightarrow> RolloutId \<Rightarrow> Wave \<Rightarrow> bool" where
  "wave_done fs rollout_id wave \<longleftrightarrow>
     list_all (\<lambda>host. case hget (fs_host_states fs) (rollout_id, host) of
       Some s \<Rightarrow> hrs_state s = HS_Converged \<or> hrs_state s = HS_Deferred
     | None \<Rightarrow> False) (wave_hosts wave)"

definition wave_bump :: "SignedManifestSet \<Rightarrow> FleetState \<Rightarrow> RolloutId \<times> RolloutSummary \<Rightarrow> (RolloutId \<times> u32) list" where
  "wave_bump ms fs entry =
     (case entry of (rollout_id, summary) \<Rightarrow>
        if sum_terminal_at summary \<noteq> None then []
        else case hget (fl_waves (sm_fleet_inner ms)) (sum_channel summary) of
          None \<Rightarrow> []
        | Some channel_waves \<Rightarrow>
          let current = unat (sum_current_wave summary)
          in if current + 1 \<ge> length channel_waves then []
             else case nth_opt channel_waves current of
               None \<Rightarrow> []
             | Some wave \<Rightarrow>
               if wave_hosts wave = [] then []
               else if wave_done fs rollout_id wave then [(rollout_id, sum_current_wave summary + 1)]
               else [])"

definition apply_bump :: "RolloutId \<times> u32 \<Rightarrow> FleetState \<times> cp_state \<Rightarrow> FleetState \<times> cp_state" where
  "apply_bump bump st =
     (case (bump, st) of ((rollout_id, next_wave), (fs, w)) \<Rightarrow>
        ((case hget (fs_rollouts fs) rollout_id of
            None \<Rightarrow> fs
          | Some s \<Rightarrow> fs\<lparr>fs_rollouts := hput rollout_id (s\<lparr>sum_current_wave := next_wave\<rparr>) (fs_rollouts fs)\<rparr>),
         set_rollouts (set_current_wave rollout_id next_wave None) w))"

definition advance_current_waves ::
  "SignedManifestSet \<Rightarrow> FleetState \<Rightarrow> cp_state \<Rightarrow> FleetState \<times> cp_state" where
  "advance_current_waves ms fs w =
     (let bumps = concat (map (wave_bump ms fs) (fs_rollouts fs)) in fold apply_bump bumps (fs, w))"

definition run_plan :: "instant \<Rightarrow> ReducerState \<Rightarrow> cp_state \<Rightarrow> cp_state" where
  "run_plan now rs w =
     (case rs_manifests rs of
        None \<Rightarrow> w
      | Some manifests \<Rightarrow>
        case build_fleet_state (cp_db w) manifests of
          Inl _ \<Rightarrow> w
        | Inr fs \<Rightarrow>
          case advance_current_waves manifests fs w of (fs, w) \<Rightarrow>
            fold (apply_plan_action manifests now) (plan_next manifests fs (rs_quarantines rs) now) w)"

section \<open>Heartbeats\<close>

definition evaluate_synth_gates ::
  "Db \<Rightarrow> SignedManifestSet \<Rightarrow> QuarantineSet \<Rightarrow> HostRolloutState \<Rightarrow> GateBlock option" where
  "evaluate_synth_gates db ms quarantines record =
     (case build_fleet_state db ms of
        Inl _ \<Rightarrow> None
      | Inr fs \<Rightarrow>
        evaluate_for_dispatch fs ms quarantines (hrs_rollout_id record) (hrs_hostname record)
          (hrs_target_closure record) (hrs_channel record) [])"

definition synthesize_pending_to_converged ::
  "instant \<Rightarrow> ReducerState \<Rightarrow> HostRolloutState \<Rightarrow> ClosureHash \<Rightarrow> instant \<Rightarrow> cp_state \<Rightarrow> cp_state" where
  "synthesize_pending_to_converged now rs record agent_current at w =
     (let host = hrs_hostname record;
          rollout_id = hrs_rollout_id record;
          w = handle_host_event now rs host rollout_id
                (RemoteDispatchAck [] at (hrs_last_event_seq record + 1)) w;
          w = handle_host_event now rs host rollout_id
                (RemoteActivationCompleted agent_current 0 at (hrs_last_event_seq record + 2)) w
      in case load rollout_id host (db_records (cp_db w)) of
           Inr (Some post_activation) \<Rightarrow>
             let synth_converged_at =
                   (case hrs_soak_due_at post_activation of
                      Some soak_due \<Rightarrow> if soak_due > at then soak_due else at
                    | None \<Rightarrow> at)
             in handle_host_event now rs host rollout_id
                  (RemoteConverged synth_converged_at agent_current (hrs_last_event_seq record + 3)) w
         | _ \<Rightarrow> w)"

definition synthesize_for ::
  "instant \<Rightarrow> ReducerState \<Rightarrow> string \<Rightarrow> ClosureHash \<Rightarrow> instant \<Rightarrow> HostRolloutState \<Rightarrow> cp_state \<Rightarrow> cp_state" where
  "synthesize_for now rs host agent_current at record w =
     (if hrs_state record \<in> {HS_Activating, HS_Deferred} \<and> hrs_target_closure record = agent_current
      then handle_host_event now rs host (hrs_rollout_id record)
             (RemoteActivationCompleted agent_current 0 at (hrs_last_event_seq record + 1)) w
      else if hrs_state record = HS_Pending \<and> hrs_target_closure record = agent_current
      then (case (case rs_manifests rs of
                    Some manifests \<Rightarrow> evaluate_synth_gates (cp_db w) manifests (rs_quarantines rs) record
                  | None \<Rightarrow> None) of
              Some _ \<Rightarrow> w
            | None \<Rightarrow> synthesize_pending_to_converged now rs record agent_current at w)
      else if hrs_state record = HS_Failed \<and> hrs_current_closure_at_dispatch record = Some agent_current
      then handle_host_event now rs host (hrs_rollout_id record)
             (RemoteRollbackComplete agent_current 0 at (hrs_last_event_seq record + 1)) w
      else w)"

definition maybe_synthesize_recovery_completion ::
  "instant \<Rightarrow> ReducerState \<Rightarrow> string \<Rightarrow> ClosureHash \<Rightarrow> instant \<Rightarrow> cp_state \<Rightarrow> cp_state" where
  "maybe_synthesize_recovery_completion now rs host agent_current at w =
     (case active_for_host host (db_records (cp_db w)) of
        Inl _ \<Rightarrow> w
      | Inr records \<Rightarrow> fold (synthesize_for now rs host agent_current at) records w)"

definition compute_replay_from ::
  "string \<Rightarrow> RolloutId option \<Rightarrow> ClosureHash option \<Rightarrow> cp_state \<Rightarrow> u64 option" where
  "compute_replay_from host rollout_id current_closure w =
     (case (rollout_id, current_closure) of
        (Some rid, Some agent_closure) \<Rightarrow>
          (case load rid host (db_records (cp_db w)) of
             Inr (Some record) \<Rightarrow>
               if hrs_current_closure record = Some agent_closure then None
               else Some (hrs_last_event_seq record)
           | _ \<Rightarrow> None)
      | _ \<Rightarrow> None)"

fun wire_state_of :: "HostState \<Rightarrow> WireState" where
  "wire_state_of HS_Pending = WS_Pending"
| "wire_state_of HS_Activating = WS_Activating"
| "wire_state_of HS_Deferred = WS_Deferred"
| "wire_state_of HS_Soaking = WS_Soaking"
| "wire_state_of HS_Converged = WS_Converged"
| "wire_state_of HS_Failed = WS_Failed"
| "wire_state_of HS_Reverted = WS_Reverted"

definition host_rollout_state_to_snapshot :: "HostRolloutState \<Rightarrow> HostRolloutSnapshot" where
  "host_rollout_state_to_snapshot record =
     \<lparr>snap_rollout_id = hrs_rollout_id record, snap_hostname = hrs_hostname record,
      snap_channel = hrs_channel record, snap_state = wire_state_of (hrs_state record),
      snap_target_closure = hrs_target_closure record,
      snap_current_closure_at_dispatch = hrs_current_closure_at_dispatch record,
      snap_current_closure = hrs_current_closure record,
      snap_dispatched_at = hrs_dispatched_at record,
      snap_dispatch_acked_at = hrs_dispatch_acked_at record,
      snap_activation_started_at = hrs_activation_started_at record,
      snap_activation_completed_at = hrs_activation_completed_at record,
      snap_soak_due_at = hrs_soak_due_at record, snap_last_event_seq = hrs_last_event_seq record\<rparr>"

definition build_bootstrap_for_host :: "string \<Rightarrow> cp_state \<Rightarrow> HostRolloutSnapshot list" where
  "build_bootstrap_for_host host w =
     (case active_for_host host (db_records (cp_db w)) of
        Inl _ \<Rightarrow> []
      | Inr records \<Rightarrow> map host_rollout_state_to_snapshot records)"

definition handle_heartbeat ::
  "instant \<Rightarrow> ReducerState \<Rightarrow> string \<Rightarrow> RolloutId option \<Rightarrow> ClosureHash option \<Rightarrow> instant \<Rightarrow> cp_state \<Rightarrow>
   ReducerState \<times> cp_state \<times> HeartbeatReply" where
  "handle_heartbeat now rs host rollout_id current_closure at w =
     (let rs = rs\<lparr>rs_last_heartbeat_at := hput host at (rs_last_heartbeat_at rs)\<rparr>;
          w = (case current_closure of
                 Some agent_current \<Rightarrow> maybe_synthesize_recovery_completion now rs host agent_current at w
               | None \<Rightarrow> w)
      in (rs, w,
          \<lparr>reply_replay_from = compute_replay_from host rollout_id current_closure w,
           reply_bootstrap_rollouts =
             (if rollout_id = None then build_bootstrap_for_host host w else [])\<rparr>))"

section \<open>One turn of the loop\<close>

fun handle_input :: "instant \<Rightarrow> ReducerInput \<Rightarrow> ReducerState \<times> cp_state \<Rightarrow> ReducerState \<times> cp_state" where
  "handle_input now (HostEvent host rollout_id e) (rs, w) =
     (rs, handle_host_event now rs host rollout_id e w)"
| "handle_input now (ManifestSetUpdated ms) (rs, w) =
     (let rs = rs\<lparr>rs_manifests := Some ms\<rparr> in (rs, run_plan now rs w))"
| "handle_input now (HeartbeatReceived host rollout_id current_closure at) (rs, w) =
     (case handle_heartbeat now rs host rollout_id current_closure at w of (rs, w, _) \<Rightarrow> (rs, w))"
| "handle_input now PlanTick (rs, w) = (rs, run_plan now rs w)"

definition run_reducer :: "(instant \<times> ReducerInput) list \<Rightarrow> ReducerState \<times> cp_state \<Rightarrow> ReducerState \<times> cp_state" where
  "run_reducer inputs st = fold (\<lambda>(now, i). handle_input now i) inputs st"

definition initial_reducer :: ReducerState where
  "initial_reducer = \<lparr>rs_manifests = None, rs_quarantines = [], rs_last_heartbeat_at = []\<rparr>"

definition empty_cp :: cp_state where
  "empty_cp =
     \<lparr>cp_db = \<lparr>db_rollouts = [], db_records = [], db_queue = [], db_quarantines = [], db_probe_failures = []\<rparr>,
      cp_log = []\<rparr>"

text \<open>Everything that writes the tables, one atomic turn at a time: the reducer, the prune timer and the
  agents' long polls, in any order.\<close>

datatype cp_action =
    Turn instant ReducerInput
  | PruneTimer instant int
  | LongPoll string

fun cp_act :: "cp_action \<Rightarrow> ReducerState \<times> cp_state \<Rightarrow> ReducerState \<times> cp_state" where
  "cp_act (Turn now i) st = handle_input now i st"
| "cp_act (PruneTimer now max_age_hours) (rs, w) =
     (rs, case fst (prune_finished_rollouts now max_age_hours
                (db_rollouts (cp_db w), db_records (cp_db w))) of
            (rollouts, records) \<Rightarrow> set_records (\<lambda>_. records) (set_rollouts (\<lambda>_. rollouts) w))"
| "cp_act (LongPoll host) (rs, w) = (rs, set_queue (\<lambda>t. snd (take_for_host host t)) w)"

definition cp_run :: "cp_action list \<Rightarrow> ReducerState \<times> cp_state" where
  "cp_run acts = fold cp_act acts (initial_reducer, empty_cp)"

section \<open>The invariant of the control plane\<close>

definition stored :: "cp_state \<Rightarrow> RolloutRecord list \<Rightarrow> HostRolloutState list \<Rightarrow> bool" where
  "stored w rs ss \<longleftrightarrow>
     db_rollouts (cp_db w) = map tuple_of_record rs \<and> db_records (cp_db w) = map state_to_row ss
     \<and> unique_key rr_rollout_id rs \<and> unique_key host_key ss"

definition active_ids :: "RolloutRecord list \<Rightarrow> (RolloutId \<times> string) set" where
  "active_ids rs = {(rr_rollout_id r, rr_channel r) |r. r \<in> set rs \<and> is_active r}"

definition one_active :: "(RolloutId \<times> string) set \<Rightarrow> bool" where
  "one_active A \<longleftrightarrow> (\<forall>i j c. (i, c) \<in> A \<longrightarrow> (j, c) \<in> A \<longrightarrow> i = j)"

definition converged_rollout :: "RolloutId \<Rightarrow> HostRolloutState list \<Rightarrow> bool" where
  "converged_rollout rid ss \<longleftrightarrow>
     (\<exists>s \<in> set ss. hrs_rollout_id s = rid) \<and> (\<forall>s \<in> set ss. hrs_rollout_id s = rid \<longrightarrow> hrs_state s = HS_Converged)"

definition terminal_ok :: "RolloutRecord list \<Rightarrow> HostRolloutState list \<Rightarrow> bool" where
  "terminal_ok rs ss \<longleftrightarrow> (\<forall>r \<in> set rs. rr_state r = RS_Terminal \<longrightarrow> converged_rollout (rr_rollout_id r) ss)"

definition records_ok :: "RolloutRecord list \<Rightarrow> HostRolloutState list \<Rightarrow> bool" where
  "records_ok rs ss \<longleftrightarrow>
     (\<forall>s \<in> set ss. host_inv s) \<and> (\<forall>r \<in> set rs. rollout_inv r) \<and> one_active (active_ids rs) \<and> terminal_ok rs ss"

definition cp_inv :: "cp_state \<Rightarrow> bool" where
  "cp_inv w \<longleftrightarrow> (\<exists>rs ss. stored w rs ss \<and> records_ok rs ss)"

text \<open>No row of the rollout is terminal: what a turn that opens it or steps its hosts relies on.\<close>

definition unfinished :: "RolloutId \<Rightarrow> RolloutRecord list \<Rightarrow> bool" where
  "unfinished rid rs \<longleftrightarrow> (\<forall>r \<in> set rs. rr_rollout_id r = rid \<longrightarrow> rr_state r \<noteq> RS_Terminal)"

text \<open>What any event but a terminal one does to the table.\<close>

definition later :: "RolloutRecord list \<Rightarrow> RolloutRecord list \<Rightarrow> bool" where
  "later rs rs' \<longleftrightarrow>
     (\<forall>x. unfinished x rs \<longrightarrow> unfinished x rs')
     \<and> ((\<forall>r \<in> set rs. rollout_inv r) \<longrightarrow> (\<forall>r \<in> set rs'. rollout_inv r))
     \<and> (\<forall>ss. terminal_ok rs ss \<longrightarrow> terminal_ok rs' ss)
     \<and> active_ids rs' \<subseteq> active_ids rs"

interpretation mirror_records: upsert_table host_key "select_row host_key" "\<lambda>t. t" "unique_key host_key"
  "upsert_row host_key"
  by unfold_locales (simp_all add: select_row_iff unique_key_upsert select_upsert)

section \<open>Rollout events keep it\<close>

lemma one_active_subset: "one_active A \<Longrightarrow> B \<subseteq> A \<Longrightarrow> one_active B"
  unfolding one_active_def by blast

lemma active_ids_settle: "active_ids (map (settle_rollout now e) rs) \<subseteq> active_ids rs"
  by (auto simp: active_ids_def dest: settle_active)

lemma active_ids_successor:
  "active_ids (map (settle_rollout now (SuccessorOpened p n at)) rs) \<subseteq> active_ids rs - {p} \<times> UNIV"
proof
  fix x
  assume "x \<in> active_ids (map (settle_rollout now (SuccessorOpened p n at)) rs)"
  then obtain r where r: "r \<in> set rs" "is_active (settle_rollout now (SuccessorOpened p n at) r)"
    "x = (rr_rollout_id r, rr_channel r)" by (auto simp: active_ids_def)
  then have "rr_rollout_id r \<noteq> p" "is_active r"
    using settle_successor [of r p now n at] settle_active by blast+
  with r show "x \<in> active_ids rs - {p} \<times> UNIV" by (auto simp: active_ids_def)
qed

lemma unique_key_map: "(\<And>r. key (f r) = key r) \<Longrightarrow> unique_key key (map f rs) = unique_key key rs"
  by (simp add: unique_key_def o_def)

lemma stored_process:
  "stored w rs ss \<Longrightarrow> stored (process_rollout_event now e w) (map (settle_rollout now e) rs) ss"
  using process_stored [of w rs now e]
  by (auto simp: stored_def apart_from_rollouts_def unique_key_map)

lemma unfinished_settle:
  "unfinished rid rs \<Longrightarrow> (\<And>at. e \<noteq> RolloutTerminal rid at) \<Longrightarrow> unfinished rid (map (settle_rollout now e) rs)"
  using settle_into_terminal by (fastforce simp: unfinished_def)

lemma records_ok_settle:
  assumes "records_ok rs ss" and "\<And>rid at. e = RolloutTerminal rid at \<Longrightarrow> converged_rollout rid ss"
  shows "records_ok (map (settle_rollout now e) rs) ss"
proof -
  have "terminal_ok (map (settle_rollout now e) rs) ss"
  proof (unfold terminal_ok_def, intro ballI impI)
    fix q
    assume "q \<in> set (map (settle_rollout now e) rs)" and q: "rr_state q = RS_Terminal"
    then obtain r where r: "r \<in> set rs" "q = settle_rollout now e r" by auto
    show "converged_rollout (rr_rollout_id q) ss"
    proof (cases "rr_state r = RS_Terminal")
      case True
      then show ?thesis using assms(1) r by (simp add: records_ok_def terminal_ok_def)
    next
      case False
      then show ?thesis using settle_into_terminal [of now e r] assms(2) r q by auto
    qed
  qed
  then show ?thesis
    using assms(1) one_active_subset [OF _ active_ids_settle] by (auto simp: records_ok_def settle_rollout_inv)
qed

section \<open>Opening a rollout keeps it\<close>

lemma set_upsert: "unique_key host_key ss \<Longrightarrow>
    set (upsert_row host_key s ss) = insert s {x \<in> set ss. host_key x \<noteq> host_key s}"
  by (rule mirror_records.put_rows)

lemma stored_upsert:
  "stored w rs ss \<Longrightarrow> stored (set_records (upsert s) w) rs (upsert_row host_key s ss)"
  by (simp add: stored_def set_records_def upsert_stored unique_key_upsert)

lemma records_ok_upsert:
  assumes "records_ok rs ss" and "unique_key host_key ss" and "host_inv s" and "unfinished (hrs_rollout_id s) rs"
  shows "records_ok rs (upsert_row host_key s ss)"
proof -
  have "converged_rollout (rr_rollout_id r) (upsert_row host_key s ss)"
    if "r \<in> set rs" "rr_state r = RS_Terminal" for r
  proof -
    have "rr_rollout_id r \<noteq> hrs_rollout_id s" using assms(4) that by (auto simp: unfinished_def)
    moreover have "converged_rollout (rr_rollout_id r) ss"
      using assms(1) that by (simp add: records_ok_def terminal_ok_def)
    ultimately show ?thesis
      by (auto simp: converged_rollout_def set_upsert [OF assms(2)] host_key_def)
  qed
  then show ?thesis
    using assms by (auto simp: records_ok_def terminal_ok_def set_upsert)
qed

lemma later_refl [simp]: "later rs rs"
  by (simp add: later_def)

lemma later_trans: "later a b \<Longrightarrow> later b c \<Longrightarrow> later a c"
  unfolding later_def by blast

lemma later_settle:
  assumes "\<And>rid at. e \<noteq> RolloutTerminal rid at"
  shows "later rs (map (settle_rollout now e) rs)"
proof -
  have "rr_state r = RS_Terminal" if "rr_state (settle_rollout now e r) = RS_Terminal" for r
    using settle_into_terminal [OF that] assms by auto
  then show ?thesis
    using active_ids_settle [of now e rs]
    by (auto simp: later_def unfinished_def terminal_ok_def settle_rollout_inv)
qed

lemma later_records_ok:
  "later rs rs' \<Longrightarrow> records_ok rs ss \<Longrightarrow> records_ok rs' ss"
  using one_active_subset by (auto simp: later_def records_ok_def)

lemma stored_append [simp]: "stored (append_event_log ts h rid k p w) rs ss = stored w rs ss"
  by (simp add: stored_def)

lemma stored_opened:
  "stored w rs ss \<Longrightarrow>
     stored (set_rollouts (record_rollout_opened rid ch ref now None) w)
       (insert_ignore rr_rollout_id (opened_record rid ch ref now) rs) ss"
  by (simp add: stored_def opened_stored unique_key_insert_ignore) (simp add: set_rollouts_def)

lemma list_active_stored:
  "(\<lambda>a. (ar_rollout_id a, ar_channel a)) ` set (list_active (map tuple_of_record rs)) = active_ids rs"
proof -
  have "(as_db_str st \<notin> {''Superseded'', ''Pruned''}) = (st \<noteq> RS_Superseded \<and> st \<noteq> RS_Pruned)" for st
    by (cases st) simp_all
  then show ?thesis
    by (auto simp: list_active_def list_filtered_def active_ids_def is_active_def image_iff filter_map o_def)
qed

lemma predecessors_stored:
  "stored w rs ss \<Longrightarrow> set (in_flight_predecessors rid ch w) = {i. (i, ch) \<in> active_ids rs \<and> i \<noteq> rid}"
  unfolding list_active_stored [symmetric] by (auto simp: stored_def in_flight_predecessors_def)

lemma successors_opened:
  "stored w rs ss \<Longrightarrow>
     \<exists>rs'. stored (fold (\<lambda>p. process_rollout_event now (SuccessorOpened p rid now)) ps w) rs' ss
       \<and> later rs rs' \<and> active_ids rs' \<subseteq> active_ids rs - set ps \<times> UNIV"
proof (induction ps arbitrary: w rs)
  case (Cons p ps)
  let ?e = "SuccessorOpened p rid now"
  note one = stored_process [OF Cons.prems, of now ?e]
  obtain rs' where "stored (fold (\<lambda>p. process_rollout_event now (SuccessorOpened p rid now)) ps
      (process_rollout_event now ?e w)) rs' ss"
    "later (map (settle_rollout now ?e) rs) rs'"
    "active_ids rs' \<subseteq> active_ids (map (settle_rollout now ?e) rs) - set ps \<times> UNIV"
    using Cons.IH [OF one] by blast
  moreover have "later rs (map (settle_rollout now ?e) rs)" by (rule later_settle) simp
  ultimately show ?case
    using active_ids_successor [of now p rid now rs] by (auto intro: later_trans)
qed auto

lemma open_host_keeps:
  assumes "stored w rs ss" "records_ok rs ss" "unfinished rid rs"
  shows "\<exists>rs' ss'. stored (open_host ms now rid ch hw w) rs' ss' \<and> records_ok rs' ss' \<and> later rs rs'"
proof -
  let ?s = "pending_record ms now rid ch hw"
  let ?e = "HostJoined rid (hw_hostname hw) (hw_wave_index hw) now"
  have "host_inv ?s" "hrs_rollout_id ?s = rid"
    by (simp_all add: pending_record_def new_pending_inv) (simp add: new_pending_def)
  then have ok: "records_ok rs (upsert_row host_key ?s ss)"
    using assms by (intro records_ok_upsert) (simp_all add: stored_def)
  have later: "later rs (map (settle_rollout now ?e) rs)" by (rule later_settle) simp
  have "stored (open_host ms now rid ch hw w) (map (settle_rollout now ?e) rs) (upsert_row host_key ?s ss)"
    unfolding open_host_def by (intro stored_process stored_upsert assms)
  then show ?thesis using later_records_ok [OF later ok] later by blast
qed

lemma open_hosts_keep:
  "stored w rs ss \<Longrightarrow> records_ok rs ss \<Longrightarrow> unfinished rid rs \<Longrightarrow>
     \<exists>rs' ss'. stored (fold (open_host ms now rid ch) hws w) rs' ss' \<and> records_ok rs' ss' \<and> later rs rs'"
proof (induction hws arbitrary: w rs ss)
  case Nil
  then show ?case by (intro exI [of _ rs] exI [of _ ss]) simp
next
  case (Cons hw hws)
  obtain rs1 ss1 where one: "stored (open_host ms now rid ch hw w) rs1 ss1" "records_ok rs1 ss1" "later rs rs1"
    using open_host_keeps [OF Cons.prems] by blast
  then have "unfinished rid rs1" using Cons.prems(3) by (simp add: later_def)
  with Cons.IH [OF one(1,2)] one(3) show ?case by (auto intro: later_trans)
qed

lemma supersession_one_active:
  assumes "one_active A" and "B \<subseteq> insert (rid, ch) A - {i. (i, ch) \<in> A \<and> i \<noteq> rid} \<times> UNIV"
  shows "one_active B"
  unfolding one_active_def
proof (intro allI impI)
  fix i j c
  assume "(i, c) \<in> B" "(j, c) \<in> B"
  then show "i = j" using assms unfolding one_active_def by (cases "c = ch") blast+
qed

lemma opened_row:
  assumes "records_ok rs ss" and "rs1 = insert_ignore rr_rollout_id (opened_record rid ch ref now) rs"
  shows "active_ids rs1 \<subseteq> insert (rid, ch) (active_ids rs)"
    and "\<forall>r \<in> set rs1. rollout_inv r" and "terminal_ok rs1 ss"
    and "unfinished x rs \<Longrightarrow> unfinished x rs1"
  using assms
  by (auto simp: insert_ignore_def active_ids_def opened_record_def records_ok_def rollout_inv_def
      terminal_ok_def unfinished_def split: if_splits)

lemma open_rollout_keeps:
  assumes st: "stored w rs ss" and ok: "records_ok rs ss" and new: "unfinished rid rs"
  shows "\<exists>rs' ss'. stored (open_rollout ms now rid ch ref w) rs' ss' \<and> records_ok rs' ss'
    \<and> (\<forall>x. unfinished x rs \<longrightarrow> unfinished x rs')"
proof -
  define rs1 where "rs1 = insert_ignore rr_rollout_id (opened_record rid ch ref now) rs"
  define ps where "ps = in_flight_predecessors rid ch w"
  define w1 where "w1 = append_rollout_event now rid (RolloutOpened rid ch ref now)
    (set_rollouts (record_rollout_opened rid ch ref now None) w)"
  define w2 where "w2 = fold (\<lambda>p. process_rollout_event now (SuccessorOpened p rid now)) ps w1"
  have "stored w1 rs1 ss" using stored_opened [OF st] by (simp add: w1_def rs1_def append_rollout_event_def)
  then obtain rs2 where rs2: "stored w2 rs2 ss" "later rs1 rs2"
    "active_ids rs2 \<subseteq> active_ids rs1 - set ps \<times> UNIV"
    unfolding w2_def using successors_opened by blast
  note row = opened_row [OF ok rs1_def]
  have un: "unfinished x rs2" if "unfinished x rs" for x using row(4) [OF that] rs2(2) by (simp add: later_def)
  have "one_active (active_ids rs2)"
  proof (rule supersession_one_active)
    show "one_active (active_ids rs)" using ok by (simp add: records_ok_def)
    show "active_ids rs2 \<subseteq> insert (rid, ch) (active_ids rs) - {i. (i, ch) \<in> active_ids rs \<and> i \<noteq> rid} \<times> UNIV"
      using rs2(3) row(1) predecessors_stored [OF st, of rid ch] by (auto simp: ps_def)
  qed
  then have ok2: "records_ok rs2 ss" using rs2(2) row(2,3) ok by (simp add: records_ok_def later_def)
  have eq: "open_rollout ms now rid ch ref w =
      (case hget (sm_rollouts ms) ch of None \<Rightarrow> w2
       | Some vm \<Rightarrow> append_event_log now None (Some (as_str rid)) K_PlanAction
           (JObj [(''action'', JStr ''OpenRollout''), (''rollout_id'', json_rid rid),
             (''channel'', JStr ch), (''target_ref'', JStr ref),
             (''hosts'', JArr (map (JStr \<circ> hw_hostname) (rm_host_set (v_inner vm))))])
           (fold (open_host ms now rid ch) (rm_host_set (v_inner vm)) w2))"
    unfolding open_rollout_def Let_def w2_def w1_def ps_def ..
  show ?thesis
  proof (cases "hget (sm_rollouts ms) ch")
    case None
    then show ?thesis using eq rs2(1) ok2 un by auto
  next
    case (Some vm)
    obtain rs3 ss3 where "stored (fold (open_host ms now rid ch) (rm_host_set (v_inner vm)) w2) rs3 ss3"
      "records_ok rs3 ss3" "later rs2 rs3" using open_hosts_keep [OF rs2(1) ok2 un [OF new]] by blast
    moreover have "\<forall>x. unfinished x rs \<longrightarrow> unfinished x rs3"
      using \<open>later rs2 rs3\<close> un unfolding later_def by blast
    ultimately show ?thesis unfolding eq Some by (intro exI [of _ rs3] exI [of _ ss3]) simp
  qed
qed

section \<open>Host events keep it\<close>

lemma step_opens_no_record:
  assumes "step s e now policy = Inr (s', fx)" and "f \<in> set fx"
  shows "\<not> (\<exists>a b c. f = RemoteOpenRolloutRecord a b c)"
  using assms
  by (elim step_accepted handle_elims)
    (auto simp: Let_def rollback_effect_def split: if_splits sum.splits option.splits OnHealthFailure.splits
      elim!: activating_fail.elims soaking_probe.elims soaking_failed.elims soaking_converged.elims)

lemma stored_other_tables [simp]:
  "stored (set_queue f w) rs ss = stored w rs ss"
  "stored (set_quarantines g w) rs ss = stored w rs ss"
  "stored (set_probe_failures h w) rs ss = stored w rs ss"
  by (simp_all add: stored_def set_queue_def set_quarantines_def set_probe_failures_def)

lemma stored_effect:
  "\<not> (\<exists>a b c. f = RemoteOpenRolloutRecord a b c) \<Longrightarrow> stored (apply_effect ms now f w) rs ss = stored w rs ss"
  by (cases f) (simp_all add: queue_dispatch_def)

lemma stored_effects:
  "\<forall>f \<in> set fx. \<not> (\<exists>a b c. f = RemoteOpenRolloutRecord a b c) \<Longrightarrow>
     stored (fold (apply_effect ms now) fx w) rs ss = stored w rs ss"
  by (induction fx arbitrary: w) (simp_all add: stored_effect)

lemma all_converged_stored:
  "stored w rs ss \<Longrightarrow> all_converged rid w \<longleftrightarrow> converged_rollout rid ss"
  by (auto simp: all_converged_def stored_def all_for_rollout_stored converged_rollout_def list_all_iff
      filter_empty_conv)

lemma feed_rollout_keeps:
  assumes "stored w rs ss" "records_ok rs ss"
  shows "\<exists>rs'. stored (feed_rollout now rid h a b w) rs' ss \<and> records_ok rs' ss"
proof -
  let ?e = "HostStateChanged rid h a b now"
  let ?w = "process_rollout_event now ?e w"
  have one: "stored ?w (map (settle_rollout now ?e) rs) ss" by (rule stored_process [OF assms(1)])
  moreover have ok: "records_ok (map (settle_rollout now ?e) rs) ss"
    by (rule records_ok_settle [OF assms(2)]) simp
  moreover have "records_ok (map (settle_rollout now (RolloutTerminal rid now)) (map (settle_rollout now ?e) rs)) ss"
    if "all_converged rid ?w"
    using that all_converged_stored [OF one] by (intro records_ok_settle [OF ok]) simp
  moreover note stored_process [OF one, of now "RolloutTerminal rid now"]
  ultimately show ?thesis using assms by (auto simp: feed_rollout_def Let_def)
qed

lemma host_event_accepted:
  assumes "stored w rs ss" and "handle_host_event now st h rid e w \<noteq> w"
  obtains prior ms policy nx fx where "select_row host_key (rid, h) ss = Some prior"
    "rs_manifests st = Some ms" "resolve_policy ms (hrs_channel prior) = Some policy"
    "step prior e now policy = Inr (nx, fx)"
    "handle_host_event now st h rid e w =
       feed_rollout now rid h (hrs_state prior) (hrs_state nx)
         (fold (apply_effect ms now) fx (set_records (upsert nx) w))"
proof -
  have ld: "load rid h (db_records (cp_db w)) = Inr (select_row host_key (rid, h) ss)"
    using assms(1) by (simp add: stored_def load_stored)
  obtain prior where p: "select_row host_key (rid, h) ss = Some prior"
    using assms(2) ld by (auto simp: handle_host_event_def split: option.splits)
  have sq: "\<not> event_seq e \<le> hrs_last_event_seq prior"
    using assms(2) ld p by (auto simp: handle_host_event_def)
  obtain ms where m: "rs_manifests st = Some ms"
    using assms(2) ld p sq by (auto simp: handle_host_event_def split: option.splits)
  obtain policy where pol: "resolve_policy ms (hrs_channel prior) = Some policy"
    using assms(2) ld p sq m by (auto simp: handle_host_event_def split: option.splits)
  obtain nx fx where stp: "step prior e now policy = Inr (nx, fx)"
    using assms(2) ld p sq m pol by (auto simp: handle_host_event_def split: sum.splits)
  have "nx\<lparr>hrs_last_event_seq := event_seq e\<rparr> = nx" using step_frame(7) [OF stp] by simp
  then have "handle_host_event now st h rid e w =
       feed_rollout now rid h (hrs_state prior) (hrs_state nx)
         (fold (apply_effect ms now) fx (set_records (upsert nx) w))"
    using ld p sq m pol stp by (simp add: handle_host_event_def Let_def)
  with that p m pol stp show ?thesis by blast
qed

lemma host_event_keeps:
  assumes st: "stored w rs ss" and ok: "records_ok rs ss"
  shows "\<exists>rs' ss'. stored (handle_host_event now R h rid e w) rs' ss' \<and> records_ok rs' ss'"
proof (cases "handle_host_event now R h rid e w = w")
  case True
  then show ?thesis using assms by auto
next
  case False
  then obtain prior ms policy nx fx where p: "select_row host_key (rid, h) ss = Some prior"
    and stp: "step prior e now policy = Inr (nx, fx)"
    and eq: "handle_host_event now R h rid e w =
       feed_rollout now rid h (hrs_state prior) (hrs_state nx)
         (fold (apply_effect ms now) fx (set_records (upsert nx) w))"
    using host_event_accepted [OF st] by metis
  have prior: "prior \<in> set ss" "host_key prior = (rid, h)"
    using p st select_row_iff [of host_key ss] by (auto simp: stored_def)
  have live: "hrs_state prior \<noteq> HS_Converged" using step_terminal [of prior e now policy] stp by auto
  have nx: "host_inv nx" "hrs_rollout_id nx = rid"
    using step_host_inv [OF stp] step_frame(1) [OF stp] prior ok by (auto simp: records_ok_def host_key_def)
  have "unfinished rid rs" unfolding unfinished_def
    using ok prior live by (auto simp: records_ok_def terminal_ok_def converged_rollout_def host_key_def)
  then have "records_ok rs (upsert_row host_key nx ss)"
    using st ok nx by (intro records_ok_upsert) (simp_all add: stored_def)
  moreover have "stored (fold (apply_effect ms now) fx (set_records (upsert nx) w)) rs (upsert_row host_key nx ss)"
    using stored_upsert [OF st, of nx] step_opens_no_record [OF stp] by (simp add: stored_effects)
  ultimately show ?thesis unfolding eq using feed_rollout_keeps by blast
qed

lemma host_event_inv: "cp_inv w \<Longrightarrow> cp_inv (handle_host_event now R h rid e w)"
  unfolding cp_inv_def using host_event_keeps by blast

section \<open>Heartbeats and plans keep it\<close>

lemma synthesize_inv: "cp_inv w \<Longrightarrow> cp_inv (synthesize_for now R h c at record w)"
  by (auto simp: synthesize_for_def synthesize_pending_to_converged_def Let_def
      intro!: host_event_inv split: option.splits sum.splits)

lemma heartbeat_inv: "cp_inv w \<Longrightarrow> cp_inv (fst (snd (handle_heartbeat now R h rid c at w)))"
proof -
  have "cp_inv w \<Longrightarrow> cp_inv (fold (synthesize_for now R h c at) records w)" for R c records w
    by (induction records arbitrary: w) (auto intro: synthesize_inv)
  then show "cp_inv w \<Longrightarrow> ?thesis"
    by (auto simp: handle_heartbeat_def Let_def maybe_synthesize_recovery_completion_def
        split: option.splits sum.splits)
qed

lemma effect_wave [simp]:
  "rollout_inv (effect_on_record (UpdateCurrentWave x n) r) = rollout_inv r"
  "rr_state (effect_on_record (UpdateCurrentWave x n) r) = rr_state r"
  "is_active (effect_on_record (UpdateCurrentWave x n) r) = is_active r"
  by (auto simp: rollout_inv_def is_active_def)

lemma map_keeps:
  assumes "\<And>r. rr_rollout_id (f r) = rr_rollout_id r" "\<And>r. rr_channel (f r) = rr_channel r"
    "\<And>r. rr_state (f r) = rr_state r" "\<And>r. rollout_inv (f r) = rollout_inv r"
  shows "unfinished x (map f rs) = unfinished x rs" "records_ok (map f rs) ss = records_ok rs ss"
    "unique_key rr_rollout_id (map f rs) = unique_key rr_rollout_id rs"
proof -
  have act: "is_active (f r) = is_active r" for r by (simp add: is_active_def assms)
  have "active_ids (map f rs) = active_ids rs"
  proof
    show "active_ids (map f rs) \<subseteq> active_ids rs" by (auto simp: active_ids_def assms act)
    show "active_ids rs \<subseteq> active_ids (map f rs)"
      using assms act by (auto simp: active_ids_def) (metis imageI)
  qed
  then show "records_ok (map f rs) ss = records_ok rs ss"
    by (simp add: records_ok_def terminal_ok_def assms)
  show "unfinished x (map f rs) = unfinished x rs" by (simp add: unfinished_def assms)
  show "unique_key rr_rollout_id (map f rs) = unique_key rr_rollout_id rs" by (rule unique_key_map) (rule assms)
qed

lemma wave_keeps:
  assumes "stored w rs ss" "records_ok rs ss"
  shows "\<exists>rs1. stored (set_rollouts (set_current_wave rid n None) w) rs1 ss \<and> records_ok rs1 ss
    \<and> (\<forall>x. unfinished x rs \<longrightarrow> unfinished x rs1)"
proof -
  define f where "f = (\<lambda>r. if rr_rollout_id r = rid then effect_on_record (UpdateCurrentWave rid n) r else r)"
  have f: "rr_rollout_id (f r) = rr_rollout_id r" "rr_channel (f r) = rr_channel r"
    "rr_state (f r) = rr_state r" "rollout_inv (f r) = rollout_inv r" for r
    by (simp_all add: f_def del: effect_on_record.simps)
  have "stored (set_rollouts (set_current_wave rid n None) w) (map f rs) ss"
    using assms(1) wave_stored [of rid n rs, folded f_def] map_keeps(3) [of f, OF f]
    by (simp add: stored_def set_rollouts_def del: map_map)
  then show ?thesis
    using assms(2) map_keeps [of f, OF f] by (intro exI [of _ "map f rs"]) simp
qed

lemma collect_keeps:
  "collect_channels db l (hs, ro) = Inr (hs', ro') \<Longrightarrow> hget ro' rid = None \<Longrightarrow> hget ro rid = None"
proof (induction l arbitrary: hs ro)
  case (Cons x l)
  obtain ch vm where "x = (ch, vm)" by (cases x)
  with Cons show ?case by (fastforce simp: Let_def split: sum.splits option.splits if_splits)
qed simp

lemma collect_absent:
  "collect_channels db l (hs, ro) = Inr (hs', ro') \<Longrightarrow> hget ro' rid = None \<Longrightarrow> (ch, vm) \<in> set l \<Longrightarrow>
     rid = RolloutId_new ch (rm_channel_ref (v_inner vm)) \<Longrightarrow>
     rollouts_state rid (db_rollouts db) \<noteq> Inr (Some row)"
proof (induction l arbitrary: hs ro)
  case (Cons x l)
  obtain ch' vm' where x: "x = (ch', vm')" by (cases x)
  let ?rid = "RolloutId_new ch' (rm_channel_ref (v_inner vm'))"
  obtain hs1 ro1 where step: "collect_channels db l (hs1, ro1) = Inr (hs', ro')"
    "\<And>row. rollouts_state ?rid (db_rollouts db) = Inr (Some row) \<Longrightarrow> hget ro1 ?rid \<noteq> None"
    using Cons.prems(1) unfolding x by (auto simp: Let_def split: sum.splits option.splits)
  show ?case
  proof (cases "(ch, vm) = x")
    case True
    then show ?thesis using step(2) collect_keeps [OF step(1), of ?rid] Cons.prems(2,4) x by auto
  next
    case False
    then show ?thesis using Cons.IH [OF step(1)] Cons.prems by auto
  qed
qed simp

lemma absent_unfinished:
  assumes "stored w rs ss" and "\<And>row. rollouts_state rid (db_rollouts (cp_db w)) \<noteq> Inr (Some row)"
  shows "unfinished rid rs"
proof -
  have "select_row rr_rollout_id rid rs = None"
    using assms state_stored [of rid rs] by (auto simp: stored_def split: option.splits)
  then show ?thesis by (auto simp: unfinished_def select_row_None)
qed

text \<open>The actions of a plan: every rollout an action opens is unfinished when it is applied.\<close>

lemma plan_action_keeps:
  assumes "stored w rs ss" "records_ok rs ss"
    and "\<And>rid ch ref. a = OpenRollout rid ch ref \<Longrightarrow> unfinished rid rs"
  shows "\<exists>rs' ss'. stored (apply_plan_action ms now a w) rs' ss' \<and> records_ok rs' ss'
    \<and> (\<forall>x. unfinished x rs \<longrightarrow> unfinished x rs')"
proof (cases a)
  case (OpenRollout rid ch ref)
  then show ?thesis using open_rollout_keeps [OF assms(1,2) assms(3) [OF OpenRollout], of ms now ch ref] by simp
qed (use assms in \<open>auto simp: queue_dispatch_def record_halt_lifted_def defer_dispatch_def\<close>)

lemma plan_actions_keep:
  "stored w rs ss \<Longrightarrow> records_ok rs ss \<Longrightarrow>
     (\<And>rid ch ref. OpenRollout rid ch ref \<in> set acts \<Longrightarrow> unfinished rid rs) \<Longrightarrow>
     \<exists>rs' ss'. stored (fold (apply_plan_action ms now) acts w) rs' ss' \<and> records_ok rs' ss'"
proof (induction acts arbitrary: w rs ss)
  case (Cons a acts)
  obtain rs1 ss1 where one: "stored (apply_plan_action ms now a w) rs1 ss1" "records_ok rs1 ss1"
    "\<forall>x. unfinished x rs \<longrightarrow> unfinished x rs1"
    using plan_action_keeps [OF Cons.prems(1,2), of a] Cons.prems(3) by (metis list.set_intros(1))
  have "unfinished rid rs1" if "OpenRollout rid ch ref \<in> set acts" for rid ch ref
    using one(3) Cons.prems(3) that by (meson list.set_intros(2))
  then show ?case using Cons.IH [OF one(1,2)] by simp
qed auto

lemma bump_keeps_summaries:
  "hget (fs_rollouts (fst (apply_bump b st))) rid = None \<longleftrightarrow> hget (fs_rollouts (fst st)) rid = None"
  by (auto simp: apply_bump_def split: prod.splits option.splits if_splits)

lemma bumps_keep_summaries:
  "hget (fs_rollouts (fst (fold apply_bump bs st))) rid = None \<longleftrightarrow> hget (fs_rollouts (fst st)) rid = None"
  by (induction bs arbitrary: st) (simp_all add: bump_keeps_summaries)

lemma bumps_keep:
  "stored (snd st) rs ss \<Longrightarrow> records_ok rs ss \<Longrightarrow>
     \<exists>rs'. stored (snd (fold apply_bump bs st)) rs' ss \<and> records_ok rs' ss
       \<and> (\<forall>x. unfinished x rs \<longrightarrow> unfinished x rs')"
proof (induction bs arbitrary: st rs)
  case (Cons b bs)
  obtain i n fs w where b: "b = (i, n)" "st = (fs, w)" by (cases b, cases st)
  obtain rs1 where one: "stored (set_rollouts (set_current_wave i n None) w) rs1 ss" "records_ok rs1 ss"
    "\<forall>x. unfinished x rs \<longrightarrow> unfinished x rs1" using wave_keeps [of w rs ss i n] Cons.prems b by auto
  then have "stored (snd (apply_bump b st)) rs1 ss" by (simp add: apply_bump_def b)
  from Cons.IH [OF this one(2)] one(3) show ?case by auto
qed auto

lemma waves_keep:
  assumes "stored w rs ss" "records_ok rs ss" "advance_current_waves ms fs w = (fs', w')"
  shows "\<exists>rs'. stored w' rs' ss \<and> records_ok rs' ss \<and> (\<forall>x. unfinished x rs \<longrightarrow> unfinished x rs')"
    and "hget (fs_rollouts fs') rid = None \<Longrightarrow> hget (fs_rollouts fs) rid = None"
  using assms bumps_keep [of "(fs, w)" rs ss] bumps_keep_summaries [of _ "(fs, w)" rid]
  by (auto simp: advance_current_waves_def Let_def) (metis snd_conv, metis fst_conv)

lemma run_plan_inv: "cp_inv w \<Longrightarrow> cp_inv (run_plan now R w)"
proof -
  assume "cp_inv w"
  then obtain rs ss where st: "stored w rs ss" "records_ok rs ss" by (auto simp: cp_inv_def)
  show ?thesis
  proof (cases "\<exists>ms fs. rs_manifests R = Some ms \<and> build_fleet_state (cp_db w) ms = Inr fs")
    case False
    then show ?thesis using \<open>cp_inv w\<close> by (auto simp: run_plan_def split: option.splits sum.splits)
  next
    case True
    then obtain ms fs where ms: "rs_manifests R = Some ms" "build_fleet_state (cp_db w) ms = Inr fs" by blast
    obtain fs1 w1 where adv: "advance_current_waves ms fs w = (fs1, w1)" by fastforce
    obtain rs1 where rs1: "stored w1 rs1 ss" "records_ok rs1 ss" "\<forall>x. unfinished x rs \<longrightarrow> unfinished x rs1"
      using waves_keep(1) [OF st adv] by blast
    obtain hs where col: "collect_channels (cp_db w) (sm_rollouts ms) ([], []) = Inr (hs, fs_rollouts fs)"
      using ms(2) by (auto simp: build_fleet_state_def split: sum.splits)
    have "unfinished rid rs1" if opens: "OpenRollout rid ch ref \<in> set (plan_next ms fs1 (rs_quarantines R) now)" for rid ch ref
    proof -
      obtain m where m: "(ch, m) \<in> set (sm_rollouts ms)" "rid = RolloutId_new ch (rm_channel_ref (v_inner m))"
        "hget (fs_rollouts fs1) rid = None" using opens unfolding plan_next_opens by auto
      have "hget (fs_rollouts fs) rid = None" by (rule waves_keep(2) [OF st adv m(3)])
      then have "rollouts_state rid (db_rollouts (cp_db w)) \<noteq> Inr (Some row)" for row
        by (rule collect_absent [OF col _ m(1,2)])
      then show ?thesis using absent_unfinished [OF st(1)] rs1(3) by blast
    qed
    then show ?thesis
      using plan_actions_keep [OF rs1(1,2), of "plan_next ms fs1 (rs_quarantines R) now" ms now] ms adv
      by (auto simp: run_plan_def cp_inv_def)
  qed
qed

section \<open>Every run of the control plane keeps it\<close>

lemma input_inv: "cp_inv (snd st) \<Longrightarrow> cp_inv (snd (handle_input now i st))"
proof (cases st)
  case (Pair R w)
  assume "cp_inv (snd st)"
  then have w: "cp_inv w" by (simp add: Pair)
  show ?thesis
  proof (cases i)
    case (HeartbeatReceived h rid c at)
    obtain R' w' reply where "handle_heartbeat now R h rid c at w = (R', w', reply)" by (metis prod_cases3)
    then show ?thesis using heartbeat_inv [OF w, of now R h rid c at] HeartbeatReceived by (simp add: Pair)
  qed (use w in \<open>simp_all add: Pair Let_def host_event_inv run_plan_inv\<close>)
qed

lemma prunable_stored:
  "filter (\<lambda>r. \<not> prunable cutoff r) (map tuple_of_record rs) =
     map tuple_of_record (filter (\<lambda>r. \<not> prunable cutoff (tuple_of_record r)) rs)"
  by (simp add: filter_map o_def)

lemma records_ok_filter:
  assumes "records_ok rs ss"
    and "\<And>r. r \<in> set rs \<Longrightarrow> P r \<Longrightarrow> (\<forall>s \<in> set ss. hrs_rollout_id s = rr_rollout_id r \<longrightarrow> Q s)"
  shows "records_ok (filter P rs) (filter Q ss)"
proof -
  have "converged_rollout (rr_rollout_id r) (filter Q ss)" if "r \<in> set rs" "P r" "rr_state r = RS_Terminal" for r
  proof -
    have "converged_rollout (rr_rollout_id r) ss" using assms(1) that by (simp add: records_ok_def terminal_ok_def)
    then show ?thesis using assms(2) [OF that(1,2)] by (auto simp: converged_rollout_def)
  qed
  moreover have "active_ids (filter P rs) \<subseteq> active_ids rs" by (auto simp: active_ids_def)
  ultimately show ?thesis
    using assms(1) one_active_subset by (auto simp: records_ok_def terminal_ok_def)
qed

lemma unique_key_filter: "unique_key key t \<Longrightarrow> unique_key key (filter P t)"
  using unique_key_delete [of key t "\<lambda>x. \<not> P x"] by (simp add: delete_where_def)

lemma prune_inv: "cp_inv (snd st) \<Longrightarrow> cp_inv (snd (cp_act (PruneTimer now h) st))"
proof (cases st)
  case (Pair R w)
  let ?cut = "now - minutes (h * 60)"
  assume "cp_inv (snd st)"
  then obtain rs ss where st: "stored w rs ss" "records_ok rs ss" by (auto simp: cp_inv_def Pair)
  let ?P = "\<lambda>r. \<not> prunable ?cut (tuple_of_record r)"
  let ?Q = "\<lambda>s. hrs_rollout_id s \<notin> rr_rollout_id ` {r \<in> set rs. \<not> ?P r}"
  have fin: "rrt_rollout_id ` set (filter (prunable ?cut) (map tuple_of_record rs)) =
      rr_rollout_id ` {r \<in> set rs. \<not> ?P r}" by (force simp: image_iff)
  have "stored (snd (cp_act (PruneTimer now h) (R, w))) (filter ?P rs) (filter ?Q ss)"
    using st(1) unfolding stored_def cp_act.simps prune_finished_rollouts_def Let_def prod.case fst_conv snd_conv
    by (simp only: fin delete_where_def)
      (simp add: set_records_def set_rollouts_def filter_map o_def unique_key_filter)
  moreover have "records_ok (filter ?P rs) (filter ?Q ss)"
  proof (rule records_ok_filter [OF st(2)], intro ballI impI)
    fix r s
    assume r: "r \<in> set rs" "?P r" and "hrs_rollout_id s = rr_rollout_id r"
    then show "?Q s" using unique_key_inj [of rr_rollout_id rs] st(1) by (auto simp: stored_def)
  qed
  ultimately show ?thesis unfolding cp_inv_def Pair by blast
qed

lemma act_inv: "cp_inv (snd st) \<Longrightarrow> cp_inv (snd (cp_act a st))"
proof (cases a)
  case (LongPoll host)
  then show "cp_inv (snd st) \<Longrightarrow> ?thesis" by (cases st) (simp add: cp_inv_def)
qed (simp_all add: input_inv prune_inv)

lemma empty_inv: "cp_inv empty_cp"
  unfolding cp_inv_def
  by (intro exI [of _ "[]"])
    (simp add: stored_def empty_cp_def unique_key_def records_ok_def one_active_def active_ids_def terminal_ok_def)

lemma cp_run_inv: "cp_inv (snd (cp_run acts))"
proof -
  have "cp_inv (snd st) \<Longrightarrow> cp_inv (snd (fold cp_act acts st))" for st
    by (induction acts arbitrary: st) (simp_all add: act_inv del: cp_act.simps)
  then show ?thesis by (simp add: cp_run_def empty_inv)
qed

lemma cp_run_stored:
  obtains rs ss where "stored (snd (cp_run acts)) rs ss" "records_ok rs ss"
  using cp_run_inv [of acts] by (auto simp: cp_inv_def)

end
