(* ===== verification/CP_Properties.thy ===== *)
theory CP_Properties
  imports CP_Runtime
begin

text \<open>
  What the composed control plane guarantees over every run: any sequence of agent events, manifest
  updates, heartbeats and plan ticks, prune passes and long polls, from an empty database. The last
  section holds concrete runs, evaluated in the kernel, that show two behaviours the documentation
  rules out.
\<close>

section \<open>Concrete manifests and runs\<close>

definition demo_policy :: "OnHealthFailure \<Rightarrow> RolloutPolicy" where
  "demo_policy on_failure =
     \<lparr>pol_strategy = ''canary'', pol_waves = [], pol_health_gate = \<lparr>hg_systemd_failed_units = None\<rparr>,
      pol_on_health_failure = on_failure\<rparr>"

definition demo_set :: "OnHealthFailure \<Rightarrow> string \<Rightarrow> (string \<times> ClosureHash) list \<Rightarrow> RolloutBudget list \<Rightarrow> SignedManifestSet" where
  "demo_set on_failure ref hosts budgets =
     \<lparr>sm_fleet = \<lparr>v_inner = (two_host_fleet two_hosts)\<lparr>fl_rollout_policies := [(''p'', demo_policy on_failure)]\<rparr>,
                  v_signed_at = 0\<rparr>,
      sm_rollouts = [(''stable'',
        \<lparr>v_inner =
           \<lparr>rm_schema_version = 1, rm_display_name = ''stable'', rm_channel = ''stable'', rm_channel_ref = ref,
            rm_fleet_resolved_hash = [],
            rm_host_set = map (\<lambda>(h, c). \<lparr>hw_hostname = h, hw_wave_index = 0, hw_target_closure = c\<rparr>) hosts,
            rm_health_gate = \<lparr>hg_systemd_failed_units = None\<rparr>, rm_disruption_budgets = budgets,
            rm_meta = fl_meta sample_fleet\<rparr>,
         v_signed_at = 0\<rparr>)]\<rparr>"

definition demo_rid :: RolloutId where
  "demo_rid = RolloutId ''stable@r1''"

text \<open>A host acknowledges, activates and converges.\<close>

definition demo_success :: "cp_action list" where
  "demo_success =
     [Turn 0 (ManifestSetUpdated (demo_set Halt ''r1'' [(''a'', ''c1'')] [])),
      Turn 1 PlanTick,
      LongPoll ''a'',
      Turn 2 (HostEvent ''a'' demo_rid (RemoteDispatchAck ''c0'' 2 1)),
      Turn 3 (HostEvent ''a'' demo_rid (RemoteActivationCompleted ''c1'' 0 3 2)),
      Turn 4 (HostEvent ''a'' demo_rid (RemoteConverged 3600000000001 ''c1'' 3))]"

text \<open>A host fails its activation and rolls back; the next reference ships the same closure.\<close>

definition demo_quarantine :: "cp_action list" where
  "demo_quarantine =
     [Turn 0 (ManifestSetUpdated (demo_set RollbackAndHalt ''r1'' [(''a'', ''bad'')] [])),
      Turn 1 PlanTick,
      LongPoll ''a'',
      Turn 2 (HostEvent ''a'' demo_rid (RemoteDispatchAck ''c0'' 2 1)),
      Turn 3 (HostEvent ''a'' demo_rid (RemoteActivationFailed 1 [] 3 2)),
      Turn 4 (HostEvent ''a'' demo_rid (RemoteRollbackComplete ''c0'' 0 4 3)),
      Turn 5 (ManifestSetUpdated (demo_set RollbackAndHalt ''r2'' [(''a'', ''bad'')] [])),
      Turn 6 PlanTick]"

text \<open>Two hosts under a budget of one: the first fails, the second is still pending.\<close>

definition demo_halt :: "cp_action list" where
  "demo_halt =
     [Turn 0 (ManifestSetUpdated (demo_set Halt ''r1'' [(''a'', ''c1''), (''b'', ''c1'')] [sample_budget])),
      Turn 1 PlanTick,
      LongPoll ''a'',
      Turn 2 (HostEvent ''a'' demo_rid (RemoteDispatchAck ''c0'' 2 1)),
      Turn 3 (HostEvent ''a'' demo_rid (RemoteActivationFailed 1 [] 3 2))]"

definition rollout_is :: "RolloutId \<Rightarrow> RolloutState \<Rightarrow> cp_state \<Rightarrow> bool" where
  "rollout_is rid st w \<longleftrightarrow>
     (case rollouts_state rid (db_rollouts (cp_db w)) of
        Inr (Some row) \<Rightarrow> row_state row = st
      | _ \<Rightarrow> False)"

text \<open>The state right after a rollout was opened, and the record of its host.\<close>

definition demo_opened :: "ReducerState \<times> cp_state" where
  "demo_opened = cp_run [Turn 0 (ManifestSetUpdated (demo_set Halt ''r1'' [(''a'', ''c1'')] []))]"

definition demo_pending :: HostRolloutState where
  "demo_pending = new_pending demo_rid ''a'' ''stable'' ''c1'' 0 3600000000000"

text \<open>The records of the chain a heartbeat synthesises for a pending host.\<close>

definition synth_acked :: "instant \<Rightarrow> u64 \<Rightarrow> HostRolloutState \<Rightarrow> HostRolloutState" where
  "synth_acked at n s = s\<lparr>hrs_state := HS_Activating, hrs_current_closure_at_dispatch := Some [],
     hrs_dispatch_acked_at := Some at, hrs_last_event_seq := n\<rparr>"

definition synth_soaking :: "ClosureHash \<Rightarrow> instant \<Rightarrow> u64 \<Rightarrow> HostRolloutState \<Rightarrow> HostRolloutState" where
  "synth_soaking c at n s = s\<lparr>hrs_state := HS_Soaking, hrs_activation_completed_at := Some at,
     hrs_current_closure := Some c, hrs_probes := [], hrs_last_event_seq := n\<rparr>"

definition synth_instant :: "instant \<Rightarrow> HostRolloutState \<Rightarrow> instant" where
  "synth_instant at s = (case hrs_soak_due_at s of Some due \<Rightarrow> if due > at then due else at | None \<Rightarrow> at)"

definition synth_converged :: "instant \<Rightarrow> u64 \<Rightarrow> HostRolloutState \<Rightarrow> HostRolloutState" where
  "synth_converged at n s = s\<lparr>hrs_state := HS_Converged, hrs_converged_at := Some (synth_instant at s),
     hrs_current_closure := Some (hrs_target_closure s), hrs_last_event_seq := n\<rparr>"

section \<open>Every stored record is sound\<close>

text \<open>
  C1. In every run every row of the two state tables decodes and is sound: a host record is stored
  under its own key and satisfies the phase invariant of the host reducer, and a rollout record
  satisfies the invariant of the rollout reducer, whatever the agents send and in whatever order.
\<close>

theorem control_plane_records_sound:
  "(case load rid h (db_records (cp_db (snd (cp_run acts)))) of
      Inl _ \<Rightarrow> False
    | Inr None \<Rightarrow> True
    | Inr (Some s) \<Rightarrow> host_inv s \<and> host_key s = (rid, h))
   \<and> (case rollouts_state rid (db_rollouts (cp_db (snd (cp_run acts)))) of
        Inl _ \<Rightarrow> False
      | Inr None \<Rightarrow> True
      | Inr (Some row) \<Rightarrow> rollout_inv (record_of_row row) \<and> row_rollout_id row = rid)"
proof -
  obtain rs ss where st: "stored (snd (cp_run acts)) rs ss" "records_ok rs ss" by (rule cp_run_stored)
  have "case select_row host_key (rid, h) ss of None \<Rightarrow> True | Some s \<Rightarrow> host_inv s \<and> host_key s = (rid, h)"
    using st select_row_iff [of host_key ss "(rid, h)"] by (auto simp: stored_def records_ok_def split: option.splits)
  moreover have "case select_row rr_rollout_id rid rs of None \<Rightarrow> True | Some r \<Rightarrow> rollout_inv r \<and> rr_rollout_id r = rid"
    using st select_row_iff [of rr_rollout_id rs rid] by (auto simp: stored_def records_ok_def split: option.splits)
  moreover have "row_rollout_id row = rr_rollout_id (record_of_row row)" for row
    by (simp add: record_of_row_def)
  ultimately show ?thesis
    using st(1) state_stored [of rid rs] by (auto simp: stored_def load_stored split: option.splits)
qed

section \<open>Terminal and active rollouts\<close>

text \<open>
  C2. A terminal rollout is a converged one: in every run, when the rollouts table says
  \<open>Terminal\<close>, the rollout has host records and every one of them is converged.
\<close>

theorem terminal_means_converged:
  assumes "rollout_is rid RS_Terminal (snd (cp_run acts))"
  shows "all_converged rid (snd (cp_run acts))"
proof -
  obtain rs ss where st: "stored (snd (cp_run acts)) rs ss" "records_ok rs ss" by (rule cp_run_stored)
  obtain r where r: "select_row rr_rollout_id rid rs = Some r" "rr_state r = RS_Terminal"
    using assms st(1) state_stored [of rid rs]
    by (auto simp: rollout_is_def stored_def record_of_row_def split: option.splits)
  then have "r \<in> set rs" "rr_rollout_id r = rid"
    using st(1) select_row_iff [of rr_rollout_id rs rid] by (auto simp: stored_def)
  then have "converged_rollout rid ss" using st(2) r(2) by (auto simp: records_ok_def terminal_ok_def)
  then show ?thesis using all_converged_stored [OF st(1)] by simp
qed

theorem terminal_means_converged_witness:
  "rollout_is demo_rid RS_Terminal (snd (cp_run demo_success)) \<and> all_converged demo_rid (snd (cp_run demo_success))"
proof
  show run: "rollout_is demo_rid RS_Terminal (snd (cp_run demo_success))" by code_simp
  show "all_converged demo_rid (snd (cp_run demo_success))" by (rule terminal_means_converged [OF run])
qed

lemma insert_by_mset: "mset (insert_by le x xs) = add_mset x (mset xs)"
  by (induction xs) auto

lemma sort_by_mset: "mset (sort_by le xs) = mset xs"
  unfolding sort_by_def by (induction xs) (simp_all add: insert_by_mset)

lemma list_active_distinct:
  "unique_key rrt_rollout_id t \<Longrightarrow> distinct (map ar_rollout_id (list_active t))"
proof -
  assume "unique_key rrt_rollout_id t"
  then have "distinct (map rrt_rollout_id (filter P t))" for P
    using unique_key_filter [of rrt_rollout_id t P] by (simp add: unique_key_def)
  then have "distinct (map rrt_rollout_id (sort_by le (filter P t)))" for le P
    by (metis mset_eq_imp_distinct_iff mset_map sort_by_mset)
  then show ?thesis by (simp add: list_active_def list_filtered_def o_def)
qed

text \<open>
  C18. A channel has one live rollout: in every run the rollouts that are neither superseded nor
  pruned, which the gates read, have pairwise different channels. Opening a successor always
  supersedes whatever was there, also a failed or terminal rollout.
\<close>

theorem one_active_rollout_per_channel:
  "distinct (map ar_channel (list_active (db_rollouts (cp_db (snd (cp_run acts))))))"
proof -
  obtain rs ss where st: "stored (snd (cp_run acts)) rs ss" "records_ok rs ss" by (rule cp_run_stored)
  let ?L = "list_active (map tuple_of_record rs)"
  have "unique_key rrt_rollout_id (map tuple_of_record rs)" using st(1) by (simp add: stored_def unique_key_def o_def)
  then have "distinct (map ar_rollout_id ?L)" by (rule list_active_distinct)
  moreover have "inj_on ar_channel (set ?L)"
  proof (rule inj_onI)
    fix a b
    assume ab: "a \<in> set ?L" "b \<in> set ?L" "ar_channel a = ar_channel b"
    then have "(ar_rollout_id a, ar_channel a) \<in> active_ids rs" "(ar_rollout_id b, ar_channel a) \<in> active_ids rs"
      unfolding list_active_stored [symmetric] by force+
    then have "ar_rollout_id a = ar_rollout_id b" using st(2) by (auto simp: records_ok_def one_active_def)
    with ab \<open>distinct (map ar_rollout_id ?L)\<close> show "a = b" by (auto simp: distinct_map inj_on_def)
  qed
  ultimately show ?thesis using st(1) by (simp add: stored_def distinct_map)
qed

section \<open>Host events and recovery from heartbeats\<close>

lemma rollout_effect_records [simp]:
  "db_records (cp_db (apply_rollout_effect now f w)) = db_records (cp_db w)"
  by (cases f) (simp_all add: set_rollouts_def set_quarantines_def)

lemma rollout_effects_records [simp]:
  "db_records (cp_db (fold (apply_rollout_effect now) fx w)) = db_records (cp_db w)"
  by (induction fx arbitrary: w) simp_all

lemma process_records [simp]: "db_records (cp_db (process_rollout_event now e w)) = db_records (cp_db w)"
  by (simp add: process_rollout_event_def Let_def split: sum.splits option.splits prod.splits)

lemma feed_records [simp]: "db_records (cp_db (feed_rollout now rid h a b w)) = db_records (cp_db w)"
  by (simp add: feed_rollout_def Let_def)

lemma effect_records:
  "\<not> (\<exists>a b c. f = RemoteOpenRolloutRecord a b c) \<Longrightarrow>
     db_records (cp_db (apply_effect ms now f w)) = db_records (cp_db w)"
  by (cases f) (simp_all add: queue_dispatch_def set_queue_def set_quarantines_def set_probe_failures_def)

lemma effects_records:
  "\<forall>f \<in> set fx. \<not> (\<exists>a b c. f = RemoteOpenRolloutRecord a b c) \<Longrightarrow>
     db_records (cp_db (fold (apply_effect ms now) fx w)) = db_records (cp_db w)"
  by (induction fx arbitrary: w) (simp_all add: effect_records)

lemma loaded_key: "load rid h t = Inr (Some s) \<Longrightarrow> host_key s = (rid, h)"
  by (auto simp: load_def select_row_def record_key_def host_key_def row_to_state_def
      dest!: find_SomeD split: option.splits sum.splits)

text \<open>An accepted event is stored: the next load returns the stepped record.\<close>

lemma host_event_loads:
  assumes "load rid h (db_records (cp_db w)) = Inr (Some s)" and "rs_manifests R = Some ms"
    and "resolve_policy ms (hrs_channel s) = Some policy" and "step s e now policy = Inr (nx, fx)"
  shows "load rid h (db_records (cp_db (handle_host_event now R h rid e w))) = Inr (Some nx)"
proof -
  have frame: "hrs_last_event_seq nx = event_seq e" "\<not> event_seq e \<le> hrs_last_event_seq s"
    "host_key nx = host_key s" using step_frame [OF assms(4)] by (simp_all add: host_key_def)
  have "nx\<lparr>hrs_last_event_seq := event_seq e\<rparr> = nx" using frame(1) by simp
  then have "db_records (cp_db (handle_host_event now R h rid e w)) = upsert nx (db_records (cp_db w))"
    using assms frame(2) step_opens_no_record [OF assms(4)]
    by (simp add: handle_host_event_def Let_def effects_records set_records_def)
  moreover have "host_key nx = (rid, h)" using loaded_key [OF assms(1)] frame(3) by simp
  ultimately show ?thesis by (simp add: load_def upsert_def select_upsert)
qed

lemma host_event_effective:
  assumes "handle_host_event now R h rid e w \<noteq> w"
  obtains s ms policy nx fx where "load rid h (db_records (cp_db w)) = Inr (Some s)"
    "rs_manifests R = Some ms" "resolve_policy ms (hrs_channel s) = Some policy" "step s e now policy = Inr (nx, fx)"
proof -
  obtain s where s: "load rid h (db_records (cp_db w)) = Inr (Some s)" "\<not> event_seq e \<le> hrs_last_event_seq s"
    using assms by (auto simp: handle_host_event_def split: sum.splits option.splits if_splits)
  obtain ms where m: "rs_manifests R = Some ms"
    using assms s by (auto simp: handle_host_event_def split: option.splits)
  obtain policy where pol: "resolve_policy ms (hrs_channel s) = Some policy"
    using assms s m by (auto simp: handle_host_event_def split: option.splits)
  obtain nx fx where "step s e now policy = Inr (nx, fx)"
    using assms s m pol by (auto simp: handle_host_event_def split: sum.splits)
  with s m pol that show ?thesis by blast
qed

text \<open>
  Delivery to the control plane may repeat: handling the same agent event again, at any later
  instant and whatever the reducer has cached in the meantime, changes nothing once it was accepted
  (no record, no queue entry, no quarantine, no log entry is written twice).
\<close>

lemma redelivery_dropped:
  "handle_host_event now R h rid e w = w
   \<or> handle_host_event now' R' h rid e (handle_host_event now R h rid e w) = handle_host_event now R h rid e w"
proof (cases "handle_host_event now R h rid e w = w")
  case False
  then obtain s ms policy nx fx where ld: "load rid h (db_records (cp_db w)) = Inr (Some s)"
    "rs_manifests R = Some ms" "resolve_policy ms (hrs_channel s) = Some policy" "step s e now policy = Inr (nx, fx)"
    by (rule host_event_effective)
  have "load rid h (db_records (cp_db (handle_host_event now R h rid e w))) = Inr (Some nx)"
    by (rule host_event_loads [OF ld])
  moreover have "event_seq e \<le> hrs_last_event_seq nx" using step_frame(7) [OF ld(4)] by simp
  ultimately show ?thesis unfolding handle_host_event_def [of now' R'] by simp
qed simp

lemma u64_successors:
  assumes "unat (n :: u64) + 3 < 2 ^ 64"
  shows "n < n + 1" "n + 1 < n + 2" "n + 2 < n + 3"
  using assms by (simp_all add: word_less_nat_alt unat_word_ariths)

lemma synth_acked_step:
  assumes "hrs_state s = HS_Pending" "hrs_last_event_seq s < n"
  shows "\<exists>fx. step s (RemoteDispatchAck [] at n) now policy = Inr (synth_acked at n s, fx)"
  using assms by (simp add: step_def dispatch_def synth_acked_def not_le)

lemma synth_soaking_step:
  assumes "hrs_state s = HS_Activating" "hrs_last_event_seq s < n"
  shows "\<exists>fx. step s (RemoteActivationCompleted c 0 at n) now policy = Inr (synth_soaking c at n s, fx)"
  using assms by (simp add: step_def dispatch_def synth_soaking_def not_le)

lemma synth_converged_step:
  assumes "hrs_state s = HS_Soaking" "hrs_last_event_seq s < n" "hrs_probes s = []"
  shows "\<exists>fx. step s (RemoteConverged (synth_instant at s) (hrs_target_closure s) n) now policy =
    Inr (synth_converged at n s, fx)"
proof -
  have "verify_converged_invariants s (hrs_target_closure s) (synth_instant at s) = Inr ()"
    using assms(3) by (auto simp: verify_converged_Inr_iff synth_instant_def hvalues_def)
  then show ?thesis using assms by (simp add: step_def dispatch_def synth_converged_def not_le)
qed



section \<open>Two behaviours the documentation rules out\<close>

lemma quarantines_untouched: "rs_quarantines (fst (cp_act a st)) = rs_quarantines (fst st)"
proof (cases a)
  case (Turn now i)
  then show ?thesis by (cases st; cases i) (simp_all add: handle_heartbeat_def Let_def)
qed (cases st; simp)+

text \<open>
  The quarantine gate never fires at run time: the reducer's quarantine set is empty in every run,
  because nothing loads it from the table. In the concrete run a rolled-back closure is in the
  table, the gate over the table would block it, and the next plan still queues it for the host
  under the next rollout.
\<close>

lemma quarantined_closure_redispatched:
  "rs_quarantines (fst (cp_run acts)) = []
   \<and> quarantine_check (active_by_channel (db_quarantines (cp_db (snd (cp_run demo_quarantine))))) ''stable'' ''bad''
     = Some (GB_Quarantined ''stable'' ''bad'')
   \<and> map (\<lambda>q. (qd_hostname q, qd_rollout_id q, qd_target_closure q, qd_enqueued_at q))
       (db_queue (cp_db (snd (cp_run demo_quarantine)))) = [(''a'', RolloutId ''stable@r2'', ''bad'', 6)]"
proof (intro conjI)
  have "rs_quarantines (fst (fold cp_act acts st)) = rs_quarantines (fst st)" for st
    by (induction acts arbitrary: st) (simp_all add: quarantines_untouched del: cp_act.simps)
  then show "rs_quarantines (fst (cp_run acts)) = []" by (simp add: cp_run_def initial_reducer_def)
  show "quarantine_check (active_by_channel (db_quarantines (cp_db (snd (cp_run demo_quarantine))))) ''stable'' ''bad''
     = Some (GB_Quarantined ''stable'' ''bad'')" by code_simp
  show "map (\<lambda>q. (qd_hostname q, qd_rollout_id q, qd_target_closure q, qd_enqueued_at q))
       (db_queue (cp_db (snd (cp_run demo_quarantine)))) = [(''a'', RolloutId ''stable@r2'', ''bad'', 6)]"
    by code_simp
qed


end
