(* ===== verification/Wire.thy ===== *)
theory Wire
  imports Host_Invariants
begin

text \<open>
  The wire between agent and control plane: the event types of \<open>nixfleet-proto/src/agent_event.rs\<close>
  and the conversions of \<open>nixfleet-state-machine/src/wire_conversions.rs\<close>. The agent's reducer
  emits \<open>OutboundAgentEvent\<close>s, each crosses the wire as an \<open>AgentEvent\<close>, and the control plane
  feeds the \<open>Remote\<close> event it converts to into its own copy of the same reducer. The theory proves
  that no conversion loses anything and that the two copies stay in step.
\<close>

section \<open>agent\_event.rs\<close>

datatype ProbeStatusWire = W_Pass | W_Fail

datatype ProbeModeWire = W_Enforce | W_Observe | W_Disabled

datatype OnHealthFailureWire = W_Halt | W_RollbackAndHalt

record ProbeTopologyEntryWire =
  ptew_probe_name :: string
  ptew_kind :: string
  ptew_mode :: ProbeModeWire

record ProbeSubResultWire =
  psrw_control_id :: string
  psrw_status :: ProbeStatusWire
  psrw_framework :: string
  psrw_article :: "string option"
  psrw_effective_mode :: ProbeModeWire
  psrw_override_reason :: "string option"

datatype AgentEvent =
    W_DispatchAck string instant u64
  | W_ActivationStarted instant string u64
  | W_ActivationCompleted string i32 instant u64
  | W_ActivationFailed i32 string instant u64
  | W_ActivationDeferred string instant u64
  | W_ProbeTopologyDeclared "ProbeTopologyEntryWire list" instant u64
  | W_ProbeObservedFirst string ProbeModeWire instant u64
  | W_ProbeResult string ProbeModeWire ProbeStatusWire instant "string option"
      "ProbeSubResultWire list option" u64
  | W_ProbeFailureFirst string ProbeModeWire instant u64
  | W_Failed instant u64 "string list" OnHealthFailureWire u64
  | W_RollbackComplete string i32 instant u64
  | W_Converged instant string u64

record AgentEventEnvelope =
  env_hostname :: string
  env_rollout_id :: RolloutId
  env_event :: AgentEvent
  env_signature :: "string option"

primrec AgentEvent_seq :: "AgentEvent \<Rightarrow> u64" where
  "AgentEvent_seq (W_DispatchAck _ _ seq) = seq"
| "AgentEvent_seq (W_ActivationStarted _ _ seq) = seq"
| "AgentEvent_seq (W_ActivationCompleted _ _ _ seq) = seq"
| "AgentEvent_seq (W_ActivationDeferred _ _ seq) = seq"
| "AgentEvent_seq (W_ActivationFailed _ _ _ seq) = seq"
| "AgentEvent_seq (W_ProbeTopologyDeclared _ _ seq) = seq"
| "AgentEvent_seq (W_ProbeObservedFirst _ _ _ seq) = seq"
| "AgentEvent_seq (W_ProbeResult _ _ _ _ _ _ seq) = seq"
| "AgentEvent_seq (W_ProbeFailureFirst _ _ _ seq) = seq"
| "AgentEvent_seq (W_Failed _ _ _ _ seq) = seq"
| "AgentEvent_seq (W_RollbackComplete _ _ _ seq) = seq"
| "AgentEvent_seq (W_Converged _ _ seq) = seq"

fun OnHealthFailure_of_wire :: "OnHealthFailureWire \<Rightarrow> OnHealthFailure" where
  "OnHealthFailure_of_wire W_Halt = Halt"
| "OnHealthFailure_of_wire W_RollbackAndHalt = RollbackAndHalt"

fun OnHealthFailure_to_wire :: "OnHealthFailure \<Rightarrow> OnHealthFailureWire" where
  "OnHealthFailure_to_wire Halt = W_Halt"
| "OnHealthFailure_to_wire RollbackAndHalt = W_RollbackAndHalt"

section \<open>wire\_conversions.rs\<close>

fun ProbeStatus_of_wire :: "ProbeStatusWire \<Rightarrow> ProbeStatus" where
  "ProbeStatus_of_wire W_Pass = Pass"
| "ProbeStatus_of_wire W_Fail = Fail"

fun ProbeStatus_to_wire :: "ProbeStatus \<Rightarrow> ProbeStatusWire" where
  "ProbeStatus_to_wire Pass = W_Pass"
| "ProbeStatus_to_wire Fail = W_Fail"

fun ProbeMode_of_wire :: "ProbeModeWire \<Rightarrow> ProbeMode" where
  "ProbeMode_of_wire W_Enforce = Enforce"
| "ProbeMode_of_wire W_Observe = Observe"
| "ProbeMode_of_wire W_Disabled = Disabled"

fun ProbeMode_to_wire :: "ProbeMode \<Rightarrow> ProbeModeWire" where
  "ProbeMode_to_wire Enforce = W_Enforce"
| "ProbeMode_to_wire Observe = W_Observe"
| "ProbeMode_to_wire Disabled = W_Disabled"

definition ProbeTopologyEntry_of_wire :: "ProbeTopologyEntryWire \<Rightarrow> ProbeTopologyEntry" where
  "ProbeTopologyEntry_of_wire w =
     \<lparr>pte_probe_name = ptew_probe_name w, pte_kind = ptew_kind w,
      pte_mode = ProbeMode_of_wire (ptew_mode w)\<rparr>"

definition ProbeTopologyEntry_to_wire :: "ProbeTopologyEntry \<Rightarrow> ProbeTopologyEntryWire" where
  "ProbeTopologyEntry_to_wire e =
     \<lparr>ptew_probe_name = pte_probe_name e, ptew_kind = pte_kind e,
      ptew_mode = ProbeMode_to_wire (pte_mode e)\<rparr>"

definition ProbeSubResult_of_wire :: "ProbeSubResultWire \<Rightarrow> ProbeSubResult" where
  "ProbeSubResult_of_wire w =
     \<lparr>psr_control_id = psrw_control_id w, psr_status = ProbeStatus_of_wire (psrw_status w),
      psr_framework = psrw_framework w, psr_article = psrw_article w,
      psr_effective_mode = ProbeMode_of_wire (psrw_effective_mode w),
      psr_override_reason = psrw_override_reason w\<rparr>"

definition ProbeSubResult_to_wire :: "ProbeSubResult \<Rightarrow> ProbeSubResultWire" where
  "ProbeSubResult_to_wire s =
     \<lparr>psrw_control_id = psr_control_id s, psrw_status = ProbeStatus_to_wire (psr_status s),
      psrw_framework = psr_framework s, psrw_article = psr_article s,
      psrw_effective_mode = ProbeMode_to_wire (psr_effective_mode s),
      psrw_override_reason = psr_override_reason s\<rparr>"

primrec Event_of_wire :: "AgentEvent \<Rightarrow> Event" where
  "Event_of_wire (W_DispatchAck c at seq) = RemoteDispatchAck c at seq"
| "Event_of_wire (W_ActivationStarted at m seq) = RemoteActivationStarted at m seq"
| "Event_of_wire (W_ActivationCompleted c x at seq) = RemoteActivationCompleted c x at seq"
| "Event_of_wire (W_ActivationFailed x tail at seq) = RemoteActivationFailed x tail at seq"
| "Event_of_wire (W_ActivationDeferred c at seq) = RemoteActivationDeferred c at seq"
| "Event_of_wire (W_ProbeTopologyDeclared ps at seq) =
     RemoteProbeTopologyDeclared (map ProbeTopologyEntry_of_wire ps) at seq"
| "Event_of_wire (W_ProbeObservedFirst n m at seq) =
     RemoteProbeObservedFirst n (ProbeMode_of_wire m) at seq"
| "Event_of_wire (W_ProbeResult n m st at fr subs seq) =
     RemoteProbeResult n (ProbeMode_of_wire m) (ProbeStatus_of_wire st) at fr
       (map_option (map ProbeSubResult_of_wire) subs) seq"
| "Event_of_wire (W_ProbeFailureFirst n m at seq) =
     RemoteProbeFailureFirst n (ProbeMode_of_wire m) at seq"
| "Event_of_wire (W_Failed at secs ps pol seq) =
     RemoteFailed at secs ps (OnHealthFailure_of_wire pol) seq"
| "Event_of_wire (W_RollbackComplete c x at seq) = RemoteRollbackComplete c x at seq"
| "Event_of_wire (W_Converged at c seq) = RemoteConverged at c seq"

primrec OutboundAgentEvent_to_wire :: "OutboundAgentEvent \<Rightarrow> AgentEvent" where
  "OutboundAgentEvent_to_wire (O_DispatchAck c at seq) = W_DispatchAck c at seq"
| "OutboundAgentEvent_to_wire (O_ActivationStarted at m seq) = W_ActivationStarted at m seq"
| "OutboundAgentEvent_to_wire (O_ActivationCompleted c x at seq) = W_ActivationCompleted c x at seq"
| "OutboundAgentEvent_to_wire (O_ActivationFailed x tail at seq) = W_ActivationFailed x tail at seq"
| "OutboundAgentEvent_to_wire (O_ActivationDeferred c at seq) = W_ActivationDeferred c at seq"
| "OutboundAgentEvent_to_wire (O_ProbeTopologyDeclared ps at seq) =
     W_ProbeTopologyDeclared (map ProbeTopologyEntry_to_wire ps) at seq"
| "OutboundAgentEvent_to_wire (O_ProbeObservedFirst n m at seq) =
     W_ProbeObservedFirst n (ProbeMode_to_wire m) at seq"
| "OutboundAgentEvent_to_wire (O_ProbeResult n m st at fr subs seq) =
     W_ProbeResult n (ProbeMode_to_wire m) (ProbeStatus_to_wire st) at fr
       (map_option (map ProbeSubResult_to_wire) subs) seq"
| "OutboundAgentEvent_to_wire (O_ProbeFailureFirst n m at seq) =
     W_ProbeFailureFirst n (ProbeMode_to_wire m) at seq"
| "OutboundAgentEvent_to_wire (O_Failed at secs ps pol seq) =
     W_Failed at secs ps (OnHealthFailure_to_wire pol) seq"
| "OutboundAgentEvent_to_wire (O_RollbackComplete c x at seq) = W_RollbackComplete c x at seq"
| "OutboundAgentEvent_to_wire (O_Converged at c seq) = W_Converged at c seq"

section \<open>The agent's stream seen by the control plane\<close>

text \<open>The events the control plane receives of a list of agent effects, through the wire.\<close>

definition wire_images :: "Effect list \<Rightarrow> Event list" where
  "wire_images fx =
     concat (map (\<lambda>f. case f of
         LocalEmitEvent _ payload _ \<Rightarrow> [Event_of_wire (OutboundAgentEvent_to_wire payload)]
       | _ \<Rightarrow> []) fx)"

text \<open>The control plane's copy, run at its own instant with the policy it resolves.\<close>

definition mirror_step :: "instant \<Rightarrow> RolloutPolicy \<Rightarrow> HostRolloutState \<Rightarrow> Event \<Rightarrow> step_result" where
  "mirror_step now policy s e = step s e now policy"

text \<open>
  Two records agree when they differ at most in the instant of dispatch and the host name (each side
  stamps its own; the agent calls itself \<open>self\<close>) and in the iteration order of the probe map.
\<close>

definition mirrors :: "HostRolloutState \<Rightarrow> HostRolloutState \<Rightarrow> bool" where
  "mirrors s t \<longleftrightarrow>
     s\<lparr>hrs_hostname := [], hrs_probes := [], hrs_dispatched_at := 0\<rparr>
       = t\<lparr>hrs_hostname := [], hrs_probes := [], hrs_dispatched_at := 0\<rparr>
     \<and> hget (hrs_probes s) = hget (hrs_probes t) \<and> hwf (hrs_probes s) \<and> hwf (hrs_probes t)"

text \<open>The payloads an agent emits, and those the control plane's copy appends to its event log.\<close>

definition emitted_of :: "Effect list \<Rightarrow> OutboundAgentEvent list" where
  "emitted_of fx = concat (map (\<lambda>f. case f of LocalEmitEvent _ payload _ \<Rightarrow> [payload] | _ \<Rightarrow> []) fx)"

definition logged_of :: "Effect list \<Rightarrow> OutboundAgentEvent list" where
  "logged_of fx = concat (map (\<lambda>f. case f of RemoteAppendEventLog _ _ payload \<Rightarrow> [payload] | _ \<Rightarrow> []) fx)"

definition agent_event_for :: "RolloutPolicy \<Rightarrow> timed_event \<Rightarrow> bool" where
  "agent_event_for policy te =
     (case te of (e, _, p) \<Rightarrow> is_local e \<and> pol_on_health_failure p = pol_on_health_failure policy)"

definition through_wire :: "OutboundAgentEvent \<Rightarrow> Event" where
  "through_wire payload = Event_of_wire (OutboundAgentEvent_to_wire payload)"

section \<open>No conversion loses anything\<close>

lemma ProbeStatus_wire [simp]: "ProbeStatus_of_wire (ProbeStatus_to_wire x) = x"
  by (cases x) auto

lemma ProbeMode_wire [simp]: "ProbeMode_of_wire (ProbeMode_to_wire x) = x"
  by (cases x) auto

lemma OnHealthFailure_wire [simp]: "OnHealthFailure_of_wire (OnHealthFailure_to_wire x) = x"
  by (cases x) auto

lemma ProbeTopologyEntry_wire [simp]: "ProbeTopologyEntry_of_wire (ProbeTopologyEntry_to_wire x) = x"
  by (simp add: ProbeTopologyEntry_of_wire_def ProbeTopologyEntry_to_wire_def)

lemma ProbeSubResult_wire [simp]: "ProbeSubResult_of_wire (ProbeSubResult_to_wire x) = x"
  by (simp add: ProbeSubResult_of_wire_def ProbeSubResult_to_wire_def)

lemma wire_comps [simp]:
  "ProbeTopologyEntry_of_wire \<circ> ProbeTopologyEntry_to_wire = id"
  "ProbeSubResult_of_wire \<circ> ProbeSubResult_to_wire = id"
  by (simp_all add: fun_eq_iff)

lemma map_option_id [simp]: "map_option id x = x"
  by (simp add: option.map_id)

lemma event_seq_of_wire [simp]: "event_seq (Event_of_wire w) = AgentEvent_seq w"
  by (cases w) auto

lemma Event_of_wire_remote [simp]: "\<not> is_local (Event_of_wire w)"
  by (cases w) auto

section \<open>The mirror\<close>

lemma mirrors_probes:
  assumes "mirrors s t"
  shows "set (hvalues (hrs_probes s)) = set (hvalues (hrs_probes t))"
  using assms by (simp add: mirrors_def hvalues_hget)

lemma mirrors_iff:
  "mirrors s t \<longleftrightarrow>
     hrs_rollout_id t = hrs_rollout_id s
     \<and> hrs_channel t = hrs_channel s
     \<and> hrs_state t = hrs_state s
     \<and> hrs_target_closure t = hrs_target_closure s
     \<and> hrs_current_closure_at_dispatch t = hrs_current_closure_at_dispatch s
     \<and> hrs_current_closure t = hrs_current_closure s
     \<and> hrs_reverted_to t = hrs_reverted_to s
     \<and> hrs_dispatch_acked_at t = hrs_dispatch_acked_at s
     \<and> hrs_activation_started_at t = hrs_activation_started_at s
     \<and> hrs_activation_completed_at t = hrs_activation_completed_at s
     \<and> hrs_activation_failed_at t = hrs_activation_failed_at s
     \<and> hrs_probe_observed_first_at t = hrs_probe_observed_first_at s
     \<and> hrs_probe_failure_first_at t = hrs_probe_failure_first_at s
     \<and> hrs_soak_due_at t = hrs_soak_due_at s
     \<and> hrs_converged_at t = hrs_converged_at s
     \<and> hrs_failed_at t = hrs_failed_at s
     \<and> hrs_policy_applied t = hrs_policy_applied s
     \<and> hrs_reverted_at t = hrs_reverted_at s
     \<and> hrs_last_event_seq t = hrs_last_event_seq s
     \<and> hget (hrs_probes s) = hget (hrs_probes t) \<and> hwf (hrs_probes s) \<and> hwf (hrs_probes t)"
  by (cases s; cases t) (auto simp: mirrors_def)

lemma mirrors_verify:
  assumes "mirrors s t"
  shows "verify_converged_invariants t c at = verify_converged_invariants s c at"
  using mirrors_probes [OF assms] assms
  by (simp add: mirrors_iff verify_converged_invariants_def list_ex_iff)

lemma mirrors_update_probe:
  assumes "mirrors s t"
  shows "hget (update_probe (hrs_probes s) n m st at fr) = hget (update_probe (hrs_probes t) n m st at fr)"
    "hwf (update_probe (hrs_probes s) n m st at fr)" "hwf (update_probe (hrs_probes t) n m st at fr)"
  using assms by (auto simp: mirrors_iff update_probe_def Let_def fun_eq_iff hm.wf_insert)

lemma mirrors_simulate:
  assumes m: "mirrors s t" and ev: "agent_event_for policy te" and st: "host_step s te = Inr (s', fx)"
  shows "mirrors s' (run_events (mirror_step now policy) t (wire_images fx))"
proof -
  obtain e n p where te: "te = (e, n, p)" by (cases te)
  from st te have "step s e n p = Inr (s', fx)" by (simp add: host_step_def)
  then show ?thesis
    using m ev te mirrors_verify [OF m] mirrors_update_probe [OF m]
    by (elim step_accepted handle_elims)
      (auto simp: wire_images_def mirror_step_def settle_def step_def dispatch_def agent_event_for_def
        rollback_effect_def mirrors_iff not_le option.map_comp split: sum.splits option.splits OnHealthFailure.splits)
qed

lemma wire_images_eq: "wire_images fx = map (Event_of_wire \<circ> OutboundAgentEvent_to_wire) (emitted_of fx)"
  unfolding wire_images_def emitted_of_def by (induction fx) (auto split: Effect.split)

interpretation mirror: mirrored_reducer host_step "mirror_step now policy" wire_images
    "agent_event_for policy" mirrors for now policy
proof unfold_locales
  show "wire_images [] = []" by (simp add: wire_images_def)
  show "wire_images (xs @ ys) = wire_images xs @ wire_images ys" for xs ys by (simp add: wire_images_def)
qed (rule mirrors_simulate)

lemma new_pending_mirrors: "mirrors (new_pending rid h ch tc da sd) (new_pending rid h' ch tc da' sd)"
  by (simp add: mirrors_iff new_pending_def)

lemma through_wire_inject: "through_wire x = through_wire y \<longleftrightarrow> x = y"
  by (cases x; cases y) (simp_all add: through_wire_def option.map_comp)

lemma remote_step_logs:
  assumes "step t e now policy = Inr (t', fx)" "\<not> is_local e"
  shows "\<exists>payload. logged_of fx = [payload] \<and> through_wire payload = e"
  using assms
  by (elim step_accepted handle_elims)
    (auto simp: logged_of_def through_wire_def option.map_comp split: sum.splits)

lemma local_step_emits:
  assumes "step s e now policy = Inr (s', fx)" "is_local e"
  shows "\<exists>payload. emitted_of fx = [payload] \<and> AgentEvent_seq (OutboundAgentEvent_to_wire payload) = event_seq e"
  using assms
  by (elim step_accepted handle_elims)
    (auto simp: emitted_of_def rollback_effect_def split: sum.splits option.splits OnHealthFailure.splits)

lemma mirror_step_accepts:
  assumes "mirrors s t" "agent_event_for policy te" "host_step s te = Inr (s', fx)"
  shows "\<exists>t' fx'. wire_images fx = [through_wire (hd (emitted_of fx))]
    \<and> mirror_step now policy t (through_wire (hd (emitted_of fx))) = Inr (t', fx')
    \<and> logged_of fx' = emitted_of fx"
proof -
  obtain e n p where te: "te = (e, n, p)" by (cases te)
  with assms(3) have st: "step s e n p = Inr (s', fx)" by (simp add: host_step_def)
  from assms(2) te have loc: "is_local e" by (simp add: agent_event_for_def)
  obtain payload where em: "emitted_of fx = [payload]" "AgentEvent_seq (OutboundAgentEvent_to_wire payload) = event_seq e"
    using local_step_emits [OF st loc] by blast
  have img: "wire_images fx = [through_wire payload]" by (simp add: wire_images_eq em through_wire_def)
  from mirrors_simulate [OF assms, of now] img have m: "mirrors s' (settle (mirror_step now policy) t (through_wire payload))"
    by simp
  show ?thesis
  proof (cases rule: settle_cases [of "mirror_step now policy" t "through_wire payload"])
    case (refused er)
    with m assms(1) step_frame(7,8) [OF st] show ?thesis by (simp add: mirrors_iff)
  next
    case (stepped t' fx')
    then obtain q where "logged_of fx' = [q]" "through_wire q = through_wire payload"
      using remote_step_logs [of t "through_wire payload" now policy t' fx']
      by (auto simp: mirror_step_def through_wire_def)
    with stepped img em show ?thesis by (auto simp: through_wire_inject)
  qed
qed

lemma views_append [simp]:
  "logged_of (xs @ ys) = logged_of xs @ logged_of ys" "emitted_of (xs @ ys) = emitted_of xs @ emitted_of ys"
  "logged_of [] = []" "emitted_of [] = []"
  by (simp_all add: logged_of_def emitted_of_def)

lemma mirror_logs:
  "mirrors s t \<Longrightarrow> \<forall>te \<in> set es. agent_event_for policy te \<Longrightarrow>
     logged_of (run_effects (mirror_step now policy) t (wire_images (run_effects host_step s es)))
       = emitted_of (run_effects host_step s es)"
proof (induction es arbitrary: s t)
  case Nil
  then show ?case by (simp add: wire_images_def)
next
  case (Cons te es)
  show ?case
  proof (cases rule: settle_cases [of host_step s te])
    case (refused er)
    with Cons show ?thesis by simp
  next
    case (stepped s' fx)
    obtain t' fx' where a: "wire_images fx = [through_wire (hd (emitted_of fx))]"
        "mirror_step now policy t (through_wire (hd (emitted_of fx))) = Inr (t', fx')"
        "logged_of fx' = emitted_of fx"
      using mirror_step_accepts [OF Cons.prems(1) _ stepped(1), of policy now] Cons.prems(2) by auto
    have "mirrors s' t'"
      using mirrors_simulate [OF Cons.prems(1) _ stepped(1), of policy now] Cons.prems(2) a by (simp add: settle_def)
    with Cons stepped a show ?thesis by (simp add: mirror.image_append settle_def)
  qed
qed

section \<open>Properties\<close>

text \<open>
  C16. Agent and control plane stay in step: from a fresh record on each side (each stamps its own
  dispatch instant and host name), whatever events the agent's workers feed its reducer, the control plane's copy
  driven by the events the agent emits, converted through the wire, ends in the same record, up to
  those two and the iteration order of the probe map. The policy of the two sides need only
  agree on \<open>onHealthFailure\<close>.
\<close>

theorem agent_and_mirror_agree:
  assumes "\<forall>te \<in> set es. agent_event_for policy te"
  shows "mirrors (run_events host_step (new_pending rid h ch tc da sd) es)
    (run_events (mirror_step now policy) (new_pending rid h' ch tc da' sd)
       (wire_images (run_effects host_step (new_pending rid h ch tc da sd) es)))"
  by (rule mirror.run_simulates [OF new_pending_mirrors assms])

theorem agent_and_mirror_agree_witness:
  "let agent = run_events host_step sample_pending sample_soak;
       cp = run_events (mirror_step 7 sample_policy) (sample_pending\<lparr>hrs_dispatched_at := 3\<rparr>)
              (wire_images (run_effects host_step sample_pending sample_soak))
   in mirrors agent cp \<and> hrs_state cp = HS_Soaking \<and> hrs_current_closure cp = Some ''t''"
proof -
  have pend: "sample_pending\<lparr>hrs_dispatched_at := 3\<rparr>
      = new_pending (RolloutId_new ''stable'' ''r1'') ''h1'' ''stable'' ''t'' 3 5"
    by (simp add: sample_pending_def new_pending_def)
  show ?thesis
    using agent_and_mirror_agree [of sample_soak sample_policy "RolloutId_new ''stable'' ''r1''" "''h1''" "''stable''" "''t''" 0 5 7 "''h1''" 3]
      sample_soaking_eq
    unfolding pend sample_pending_def
    by (simp add: sample_soaking_def Let_def mirrors_iff agent_event_for_def sample_soak_def sample_activate_def timed_def
        sample_pending_def new_pending_def)
qed

text \<open>
  The event log of the control plane is the agent's own account: the payloads its copy appends
  are, in order and field by field, the payloads the agent emitted. No conversion loses or alters one.
\<close>

lemma event_log_is_the_agents:
  assumes "\<forall>te \<in> set es. agent_event_for policy te"
  shows "logged_of (run_effects (mirror_step now policy) (new_pending rid h' ch tc da' sd)
       (wire_images (run_effects host_step (new_pending rid h ch tc da sd) es)))
     = emitted_of (run_effects host_step (new_pending rid h ch tc da sd) es)"
  by (rule mirror_logs [OF new_pending_mirrors assms])

end
