(* ===== verification/Agent_Queue.thy ===== *)
theory Agent_Queue
  imports Wire "HOL-Library.Multiset"
begin

text \<open>
  The agent's durable outbound queue (\<open>nixfleet-agent/src/runtime/outbound_queue.rs\<close>) and the worker
  that drains it (\<open>runtime/workers/outbound.rs\<close>). A directory is a map from file names to bytes, in the
  order a listing visits its entries, which the file system does not specify. The JSON codec is a
  parameter; a disk fault or a crash during a write is an outcome the caller supplies.
\<close>

section \<open>Queued events\<close>

record QueuedEvent =
  qe_seq :: u64
  qe_hostname :: string
  qe_rollout_id :: RolloutId
  qe_event_kind :: string
  qe_created_at :: instant
  qe_payload :: AgentEvent

primrec outbound_event_kind :: "OutboundAgentEvent \<Rightarrow> string" where
  "outbound_event_kind (O_DispatchAck _ _ _) = ''DispatchAck''"
| "outbound_event_kind (O_ActivationStarted _ _ _) = ''ActivationStarted''"
| "outbound_event_kind (O_ActivationCompleted _ _ _ _) = ''ActivationCompleted''"
| "outbound_event_kind (O_ActivationDeferred _ _ _) = ''ActivationDeferred''"
| "outbound_event_kind (O_ActivationFailed _ _ _ _) = ''ActivationFailed''"
| "outbound_event_kind (O_ProbeTopologyDeclared _ _ _) = ''ProbeTopologyDeclared''"
| "outbound_event_kind (O_ProbeObservedFirst _ _ _ _) = ''ProbeObservedFirst''"
| "outbound_event_kind (O_ProbeResult _ _ _ _ _ _ _) = ''ProbeResult''"
| "outbound_event_kind (O_ProbeFailureFirst _ _ _ _) = ''ProbeFailureFirst''"
| "outbound_event_kind (O_Failed _ _ _ _ _) = ''Failed''"
| "outbound_event_kind (O_RollbackComplete _ _ _ _) = ''RollbackComplete''"
| "outbound_event_kind (O_Converged _ _ _) = ''Converged''"

primrec outbound_event_seq :: "OutboundAgentEvent \<Rightarrow> u64" where
  "outbound_event_seq (O_DispatchAck _ _ seq) = seq"
| "outbound_event_seq (O_ActivationStarted _ _ seq) = seq"
| "outbound_event_seq (O_ActivationCompleted _ _ _ seq) = seq"
| "outbound_event_seq (O_ActivationDeferred _ _ seq) = seq"
| "outbound_event_seq (O_ActivationFailed _ _ _ seq) = seq"
| "outbound_event_seq (O_ProbeTopologyDeclared _ _ seq) = seq"
| "outbound_event_seq (O_ProbeObservedFirst _ _ _ seq) = seq"
| "outbound_event_seq (O_ProbeResult _ _ _ _ _ _ seq) = seq"
| "outbound_event_seq (O_ProbeFailureFirst _ _ _ seq) = seq"
| "outbound_event_seq (O_Failed _ _ _ _ seq) = seq"
| "outbound_event_seq (O_RollbackComplete _ _ _ seq) = seq"
| "outbound_event_seq (O_Converged _ _ seq) = seq"

section \<open>File names\<close>

text \<open>
  Every character outside the safe set becomes one underscore. A string is its UTF-8 bytes, so a
  multi-byte character is its lead byte (replaced) with its continuation bytes (dropped).
\<close>

definition safe_char :: "char \<Rightarrow> bool" where
  "safe_char c \<longleftrightarrow>
     (let n = (of_char c :: nat)
      in (97 \<le> n \<and> n \<le> 122) \<or> (65 \<le> n \<and> n \<le> 90) \<or> (48 \<le> n \<and> n \<le> 57)
         \<or> c = CHR ''-'' \<or> c = CHR ''@'' \<or> c = CHR ''.'')"

definition sanitize :: "string \<Rightarrow> string" where
  "sanitize s =
     map (\<lambda>c. if safe_char c then c else CHR ''_'')
       (filter (\<lambda>c. \<not> cont_byte (word_of_nat (of_char c))) s)"

text \<open>The format \<open>{:020}\<close> of a \<open>u64\<close>: its decimal digits, padded with zeros to twenty.\<close>

definition pad20 :: "u64 \<Rightarrow> string" where
  "pad20 n = (let d = show_nat (unat n) in replicate (20 - length d) CHR ''0'' @ d)"

definition filename_for :: "QueuedEvent \<Rightarrow> string" where
  "filename_for e =
     pad20 (qe_seq e) @ ''-'' @ sanitize (qe_hostname e) @ ''-'' @ sanitize (as_str (qe_rollout_id e))
       @ ''-'' @ sanitize (qe_event_kind e) @ ''.json''"

section \<open>The directory\<close>

type_synonym directory = "(string, byte list) hmap"

record codec =
  to_vec_pretty :: "QueuedEvent \<Rightarrow> byte list"
  from_slice :: "byte list \<Rightarrow> QueuedEvent option"

text \<open>
  What the disk does to one write: everything succeeds; the temporary file is cut short (an error,
  or a crash, after some bytes); the rename does not happen.
\<close>

datatype io_outcome = IO_Done | IO_Cut "byte list" | IO_NotRenamed

definition ends_with :: "string \<Rightarrow> string \<Rightarrow> bool" where
  "ends_with s suffix \<longleftrightarrow> length suffix \<le> length s \<and> drop (length s - length suffix) s = suffix"

definition write_atomic ::
  "io_outcome \<Rightarrow> string \<Rightarrow> string \<Rightarrow> byte list \<Rightarrow> directory \<Rightarrow> (string + unit) \<times> directory" where
  "write_atomic io tmp final_path bytes dir =
     (case io of
        IO_Done \<Rightarrow> (Inr (), hput final_path bytes (hremove tmp (hput tmp bytes dir)))
      | IO_Cut part \<Rightarrow> (Inl ''write'', hput tmp part dir)
      | IO_NotRenamed \<Rightarrow> (Inl ''rename'', hput tmp bytes dir))"

definition enqueue :: "codec \<Rightarrow> io_outcome \<Rightarrow> QueuedEvent \<Rightarrow> directory \<Rightarrow> (string + string) \<times> directory" where
  "enqueue cd io e dir =
     (let final_name = filename_for e;
          tmp_name = final_name @ ''.tmp'';
          bytes = to_vec_pretty cd e
      in case write_atomic io tmp_name final_name bytes dir of
           (Inl er, dir) \<Rightarrow> (Inl er, dir)
         | (Inr _, dir) \<Rightarrow> (Inr final_name, dir))"

text \<open>A \<open>BTreeMap\<close>: its entries sorted by key; an insertion replaces the entry of the key.\<close>

fun btree_insert :: "('k :: linorder) \<Rightarrow> 'v \<Rightarrow> ('k \<times> 'v) list \<Rightarrow> ('k \<times> 'v) list" where
  "btree_insert k v [] = [(k, v)]"
| "btree_insert k v ((k', v') # m) =
     (if k < k' then (k, v) # (k', v') # m
      else if k = k' then (k, v) # m
      else (k', v') # btree_insert k v m)"

definition scan_entry :: "codec \<Rightarrow> string \<times> byte list \<Rightarrow> (u64 \<times> QueuedEvent) list \<Rightarrow> (u64 \<times> QueuedEvent) list" where
  "scan_entry cd entry by_seq =
     (case entry of (name, bytes) \<Rightarrow>
        if \<not> ends_with name ''.json'' \<or> ends_with name ''.json.tmp'' then by_seq
        else case from_slice cd bytes of
          None \<Rightarrow> by_seq
        | Some e \<Rightarrow> btree_insert (qe_seq e) e by_seq)"

definition scan_pending :: "codec \<Rightarrow> directory \<Rightarrow> QueuedEvent list" where
  "scan_pending cd dir = map snd (fold (scan_entry cd) dir [])"

definition mark_sent :: "QueuedEvent \<Rightarrow> directory \<Rightarrow> directory" where
  "mark_sent e dir = hremove (filename_for e) dir"

section \<open>The drainer\<close>

text \<open>
  One post is an envelope on the wire; \<open>answer\<close> says whether the control plane returned a success for
  it. A pass posts the scanned events in order, deletes each one that was accepted and stops at the
  first failure. The result is the envelopes accepted, in order, and the directory left.
\<close>

definition post_envelope :: "QueuedEvent \<Rightarrow> AgentEventEnvelope" where
  "post_envelope e =
     \<lparr>env_hostname = qe_hostname e, env_rollout_id = qe_rollout_id e, env_event = qe_payload e,
      env_signature = None\<rparr>"

fun drain_events ::
  "(QueuedEvent \<Rightarrow> bool) \<Rightarrow> QueuedEvent list \<Rightarrow> directory \<Rightarrow> AgentEventEnvelope list \<times> directory" where
  "drain_events answer [] dir = ([], dir)"
| "drain_events answer (e # es) dir =
     (if answer e
      then let (posted, dir) = drain_events answer es (mark_sent e dir) in (post_envelope e # posted, dir)
      else ([], dir))"

definition drain_once :: "codec \<Rightarrow> (QueuedEvent \<Rightarrow> bool) \<Rightarrow> directory \<Rightarrow> AgentEventEnvelope list \<times> directory" where
  "drain_once cd answer dir = drain_events answer (scan_pending cd dir) dir"

text \<open>Writes of the reducer task and passes of the drainer interleave; what was posted accumulates.\<close>

datatype queue_op = WriteEvent io_outcome QueuedEvent | DrainPass "QueuedEvent \<Rightarrow> bool"

fun queue_act :: "codec \<Rightarrow> queue_op \<Rightarrow> AgentEventEnvelope list \<times> directory \<Rightarrow> AgentEventEnvelope list \<times> directory" where
  "queue_act cd (WriteEvent io e) (posted, dir) = (posted, snd (enqueue cd io e dir))"
| "queue_act cd (DrainPass answer) (posted, dir) =
     (let (new, dir) = drain_once cd answer dir in (posted @ new, dir))"

definition queue_run :: "codec \<Rightarrow> queue_op list \<Rightarrow> AgentEventEnvelope list \<times> directory" where
  "queue_run cd ops = fold (queue_act cd) ops ([], [])"

text \<open>The events whose file was renamed into place, in order.\<close>

definition written :: "queue_op list \<Rightarrow> QueuedEvent list" where
  "written ops = concat (map (\<lambda>op. case op of WriteEvent IO_Done e \<Rightarrow> [e] | _ \<Rightarrow> []) ops)"

definition reads_back :: "codec \<Rightarrow> QueuedEvent \<Rightarrow> bool" where
  "reads_back cd e \<longleftrightarrow> from_slice cd (to_vec_pretty cd e) = Some e"

text \<open>The events of the entries a scan looks at, in listing order.\<close>

definition seen_entry :: "codec \<Rightarrow> string \<times> byte list \<Rightarrow> QueuedEvent list" where
  "seen_entry cd entry =
     (case entry of (name, bytes) \<Rightarrow>
        if \<not> ends_with name ''.json'' \<or> ends_with name ''.json.tmp'' then []
        else case from_slice cd bytes of None \<Rightarrow> [] | Some e \<Rightarrow> [e])"

definition visible :: "codec \<Rightarrow> directory \<Rightarrow> QueuedEvent list" where
  "visible cd dir = concat (map (seen_entry cd) dir)"

text \<open>Each visible event lies in the file of its own name, and no two share a sequence number.\<close>

definition outbox_ok :: "codec \<Rightarrow> directory \<Rightarrow> bool" where
  "outbox_ok cd dir \<longleftrightarrow>
     hwf dir \<and> (\<forall>entry \<in> set dir. \<forall>e \<in> set (seen_entry cd entry). fst entry = filename_for e)
     \<and> distinct (map qe_seq (visible cd dir))"

section \<open>File names\<close>

definition dec_value :: "string \<Rightarrow> nat" where
  "dec_value s = foldl (\<lambda>a c. 10 * a + (of_char c - 48)) 0 s"

section \<open>Specification vocabulary and samples\<close>

definition run_ok :: "codec \<Rightarrow> QueuedEvent list \<Rightarrow> AgentEventEnvelope list \<times> directory \<Rightarrow> bool" where
  "run_ok cd done st \<longleftrightarrow>
     (case st of (posted, dir) \<Rightarrow>
        outbox_ok cd dir
        \<and> (\<forall>entry \<in> set dir. (\<exists>e \<in> set done. fst entry = filename_for e) \<or> (\<exists>e. fst entry = filename_for e @ ''.tmp''))
        \<and> set (visible cd dir) \<subseteq> set done
        \<and> posted @ map post_envelope (scan_pending cd dir) = map post_envelope done)"

definition sample_event :: "RolloutId \<Rightarrow> u64 \<Rightarrow> QueuedEvent" where
  "sample_event rid seq =
     (let payload = (if seq = 1 then O_DispatchAck ''p'' 1 seq else O_ActivationCompleted ''t'' 0 2 seq)
      in \<lparr>qe_seq = seq, qe_hostname = ''h1'', qe_rollout_id = rid,
          qe_event_kind = outbound_event_kind payload, qe_created_at = uint seq,
          qe_payload = OutboundAgentEvent_to_wire payload\<rparr>)"

definition rid_a :: RolloutId where "rid_a = RolloutId_new ''stable'' ''r1''"

definition rid_b :: RolloutId where "rid_b = RolloutId_new ''stable'' ''r2''"

definition sample_codec :: codec where
  "sample_codec =
     \<lparr>to_vec_pretty = (\<lambda>e. as_bytes (as_str (qe_rollout_id e)) @ [ucast (qe_seq e)]),
      from_slice = (\<lambda>bs. find (\<lambda>e. bs = as_bytes (as_str (qe_rollout_id e)) @ [ucast (qe_seq e)])
        [sample_event rid_a 1, sample_event rid_a 2, sample_event rid_b 1, sample_event rid_b 2])\<rparr>"

text \<open>The first post fails, a write is cut short, the second pass goes through.\<close>

definition sample_ops :: "queue_op list" where
  "sample_ops =
     [WriteEvent IO_Done (sample_event rid_a 1), DrainPass (\<lambda>_. False),
      WriteEvent (IO_Cut [7]) (sample_event rid_b 1), WriteEvent IO_Done (sample_event rid_a 2), DrainPass (\<lambda>e. qe_seq e < 2)]"

lemma dec_value_append: "dec_value (s @ [c]) = 10 * dec_value s + (of_char c - 48)"
  by (simp add: dec_value_def)

lemma dec_value_show [simp]: "dec_value (show_nat n) = n"
proof (induction n rule: show_nat.induct)
  case (1 n)
  then show ?case
    by (subst show_nat.simps) (auto simp: dec_value_append, simp add: dec_value_def)
qed

lemma dec_value_zeros [simp]: "dec_value (replicate k CHR ''0'' @ s) = dec_value s"
  by (induction k) (simp_all add: dec_value_def)

lemma length_show_nat: "n < 10 ^ k \<Longrightarrow> 0 < k \<Longrightarrow> length (show_nat n) \<le> k"
proof (induction n arbitrary: k rule: show_nat.induct)
  case (1 n)
  show ?case
  proof (cases "n < 10")
    case True
    then show ?thesis using 1 by (subst show_nat.simps) simp
  next
    case False
    then obtain m where "k = Suc m" using 1(3) by (cases k) auto
    moreover from this False 1(2) have "0 < m" by (cases m) auto
    ultimately have k: "k = Suc m" "0 < m" by simp_all
    then have "n div 10 < 10 ^ m" using 1(2) by (simp add: less_mult_imp_div_less mult.commute)
    then show ?thesis using 1(1) [OF False, of m] k False by (subst show_nat.simps) simp
  qed
qed

lemma length_pad20 [simp]: "length (pad20 n) = 20"
proof -
  have "unat n < 2 ^ 64" using unsigned_less [of n, where 'a = nat] by simp
  then have "unat n < 10 ^ 20" by simp
  then show ?thesis using length_show_nat [of "unat n" 20] by (simp add: pad20_def Let_def)
qed

lemma pad20_inj [simp]: "pad20 m = pad20 n \<longleftrightarrow> m = n"
proof
  assume "pad20 m = pad20 n"
  then have "dec_value (pad20 m) = dec_value (pad20 n)" by simp
  then show "m = n" by (simp add: pad20_def Let_def word_unat_eq_iff)
qed simp

lemma filename_seq: "filename_for a = filename_for b \<Longrightarrow> qe_seq a = qe_seq b"
  by (simp add: filename_for_def)

lemma ends_with_append [simp]: "ends_with (a @ s) s"
  by (simp add: ends_with_def)

lemma filename_json [simp]: "ends_with (filename_for e) ''.json'' \<and> \<not> ends_with (filename_for e) ''.json.tmp''"
  by (simp add: filename_for_def ends_with_def drop_Cons')

lemma tmp_not_json [simp]: "\<not> ends_with (filename_for e @ ''.tmp'') ''.json''"
  by (simp add: filename_for_def ends_with_def drop_Cons')

section \<open>Scans\<close>

lemma scan_entry_seen: "scan_entry cd entry m = fold (\<lambda>e. btree_insert (qe_seq e) e) (seen_entry cd entry) m"
  by (cases entry) (auto simp: scan_entry_def seen_entry_def split: option.split)

lemma scan_visible: "scan_pending cd dir = map snd (fold (\<lambda>e. btree_insert (qe_seq e) e) (visible cd dir) [])"
proof -
  have "fold (scan_entry cd) dir m = fold (\<lambda>e. btree_insert (qe_seq e) e) (visible cd dir) m" for m
    by (induction dir arbitrary: m) (simp_all add: visible_def scan_entry_seen)
  then show ?thesis by (simp add: scan_pending_def)
qed

lemma btree_insert_new:
  "k \<notin> fst ` set m \<Longrightarrow> sorted (map fst m) \<Longrightarrow> btree_insert k v m = insort_key fst (k, v) m"
  by (induction m rule: btree_insert.induct) auto

lemma insort_key_pair:
  "insort_key fst (f x, x) (map (\<lambda>e. (f e, e)) es) = map (\<lambda>e. (f e, e)) (insort_key f x es)"
  by (induction es) auto

lemma sort_key_stays: "distinct (map f xs) \<Longrightarrow> mset xs = mset ys \<Longrightarrow> sort_key f xs = sort_key f ys"
  by (rule sort_key_inj_key_eq) (auto simp: distinct_map)

lemma sort_key_snoc:
  fixes f :: "'a \<Rightarrow> 'k :: linorder"
  assumes "distinct (map f xs)" "\<forall>x \<in> set xs. f x < f e"
  shows "sort_key f (xs @ [e]) = sort_key f xs @ [e]"
proof (rule sort_key_inj_key_eq)
  have "distinct (map f (xs @ [e]))" using assms by auto
  then show "inj_on f (set (xs @ [e]))" by (simp only: distinct_map)
  show "sorted (map f (sort_key f xs @ [e]))" using assms(2) by (auto simp: sorted_append intro: less_imp_le)
qed simp

lemma fold_btree_sort:
  "distinct (map qe_seq (acc @ es)) \<Longrightarrow>
     fold (\<lambda>e. btree_insert (qe_seq e) e) es (map (\<lambda>e. (qe_seq e, e)) (sort_key qe_seq acc))
       = map (\<lambda>e. (qe_seq e, e)) (sort_key qe_seq (acc @ es))"
proof (induction es arbitrary: acc)
  case (Cons e es)
  let ?m = "map (\<lambda>e. (qe_seq e, e)) (sort_key qe_seq acc)"
  have fst_m: "map fst ?m = map qe_seq (sort_key qe_seq acc)" by (simp add: o_def)
  have "sorted (map fst ?m)" unfolding fst_m by simp
  then have "btree_insert (qe_seq e) e ?m = insort_key fst (qe_seq e, e) ?m"
    using Cons.prems by (intro btree_insert_new) (auto simp: image_image)
  also have "\<dots> = map (\<lambda>e. (qe_seq e, e)) (sort_key qe_seq (acc @ [e]))"
  proof -
    have "sort_key qe_seq (acc @ [e]) = sort_key qe_seq (e # acc)"
      using Cons.prems by (intro sort_key_stays) simp_all
    then show ?thesis by (simp add: insort_key_pair)
  qed
  finally show ?case using Cons.IH [of "acc @ [e]"] Cons.prems by simp
qed simp

lemma scan_sorts: "distinct (map qe_seq (visible cd dir)) \<Longrightarrow> scan_pending cd dir = sort_key qe_seq (visible cd dir)"
  using fold_btree_sort [of "[]" "visible cd dir"] by (simp add: scan_visible o_def)

section \<open>Writes and deletions\<close>

lemma hidden_hput: "seen_entry cd (name, b) = [] \<Longrightarrow> \<forall>b'. (name, b') \<in> set dir \<longrightarrow> seen_entry cd (name, b') = [] \<Longrightarrow>
    visible cd (hput name b dir) = visible cd dir"
  unfolding hput_def by (induction dir) (auto simp: visible_def)

lemma hidden_hremove: "\<forall>b'. (name, b') \<in> set dir \<longrightarrow> seen_entry cd (name, b') = [] \<Longrightarrow>
    visible cd (hremove name dir) = visible cd dir"
  by (induction dir) (auto simp: visible_def hremove_def)

lemma tmp_hidden [simp]: "seen_entry cd (filename_for e @ ''.tmp'', b) = []"
  by (simp add: seen_entry_def)

lemma name_seen: "seen_entry cd (filename_for e, b) = (case from_slice cd b of None \<Rightarrow> [] | Some e \<Rightarrow> [e])"
  by (simp add: seen_entry_def)

lemma hput_absent: "name \<notin> fst ` set dir \<Longrightarrow> hput name b dir = dir @ [(name, b)]"
  unfolding hput_def by (induction dir) auto

lemma visible_mark_sent:
  assumes "outbox_ok cd dir" "e \<in> set (visible cd dir)"
  shows "visible cd (mark_sent e dir) = filter (\<lambda>x. x \<noteq> e) (visible cd dir)"
proof -
  have *: "seen_entry cd entry = filter (\<lambda>x. x \<noteq> e) (seen_entry cd entry) \<longleftrightarrow> fst entry \<noteq> filename_for e \<or> seen_entry cd entry = []"
    if entry: "entry \<in> set dir" for entry
  proof (cases "seen_entry cd entry")
    case (Cons y ys)
    then have ys: "ys = []" by (cases entry) (auto simp: seen_entry_def split: option.splits if_splits)
    have name: "fst entry = filename_for y" using assms(1) entry Cons by (force simp: outbox_ok_def)
    have "y = e" if "filename_for y = filename_for e"
    proof -
      have "y \<in> set (visible cd dir)" using entry Cons by (force simp: visible_def)
      then show "y = e" using assms filename_seq [OF that] by (auto simp: outbox_ok_def distinct_map inj_on_def)
    qed
    then show ?thesis using Cons ys name by auto
  qed simp
  have "visible cd (filter (\<lambda>en. fst en \<noteq> filename_for e) d) = filter (\<lambda>x. x \<noteq> e) (visible cd d)"
    if "set d \<subseteq> set dir" for d
    using that
  proof (induction d)
    case (Cons en d)
    have "length (seen_entry cd en) \<le> 1" by (cases en) (auto simp: seen_entry_def split: option.splits)
    then have "filter (\<lambda>x. x \<noteq> e) (seen_entry cd en) = (if fst en \<noteq> filename_for e then seen_entry cd en else [])"
      using * [of en] Cons.prems by (cases "seen_entry cd en") auto
    then show ?case using Cons by (auto simp: visible_def)
  qed (simp add: visible_def)
  then show ?thesis by (simp add: mark_sent_def hremove_def)
qed

lemma outbox_ok_mark_sent:
  assumes "outbox_ok cd dir" "e \<in> set (visible cd dir)"
  shows "outbox_ok cd (mark_sent e dir)"
proof -
  have "distinct (map qe_seq (visible cd (mark_sent e dir)))"
    using assms visible_mark_sent [OF assms] by (auto simp: outbox_ok_def distinct_map inj_on_def)
  then show ?thesis using assms(1) by (auto simp: outbox_ok_def mark_sent_def hm.wf_remove) (auto simp: hremove_def)
qed

lemma scan_mark_sent:
  assumes "outbox_ok cd dir" "scan_pending cd dir = e # es"
  shows "outbox_ok cd (mark_sent e dir)" "scan_pending cd (mark_sent e dir) = es"
proof -
  have d: "distinct (map qe_seq (visible cd dir))" using assms(1) by (simp add: outbox_ok_def)
  then have sc: "sort_key qe_seq (visible cd dir) = e # es" using assms(2) by (simp add: scan_sorts)
  then have e: "e \<in> set (visible cd dir)" by (metis list.set_intros(1) set_sort)
  show ok: "outbox_ok cd (mark_sent e dir)" by (rule outbox_ok_mark_sent [OF assms(1) e])
  have "e \<notin> set es" using d sc by (metis distinct.simps(2) distinct_map distinct_sort)
  then have "filter (\<lambda>x. x \<noteq> e) (e # es) = es" by (auto simp: filter_id_conv)
  then have "sort_key qe_seq (filter (\<lambda>x. x \<noteq> e) (visible cd dir)) = es"
    by (simp flip: sc add: filter_sort)
  then show "scan_pending cd (mark_sent e dir) = es"
    using ok visible_mark_sent [OF assms(1) e] by (simp add: scan_sorts outbox_ok_def)
qed

lemma drain_events_scanned:
  "outbox_ok cd dir \<Longrightarrow> scan_pending cd dir = es \<Longrightarrow> drain_events answer es dir = (posted, dir') \<Longrightarrow>
     posted = map post_envelope (takeWhile answer es) \<and> outbox_ok cd dir' \<and> scan_pending cd dir' = dropWhile answer es"
proof (induction es arbitrary: dir posted)
  case (Cons e es)
  show ?case
  proof (cases "answer e")
    case True
    obtain p d where "drain_events answer es (mark_sent e dir) = (p, d)" by fastforce
    with Cons.IH [OF scan_mark_sent [OF Cons.prems(1,2)], of p] Cons.prems(3) True show ?thesis by simp
  qed (use Cons.prems in simp)
qed simp

lemma enqueue_fault: "io \<noteq> IO_Done \<Longrightarrow> visible cd (snd (enqueue cd io e dir)) = visible cd dir"
  by (cases io) (auto simp: enqueue_def write_atomic_def Let_def hidden_hput)

lemma enqueue_done:
  assumes "filename_for e \<notin> fst ` set dir" "reads_back cd e"
  shows "visible cd (snd (enqueue cd IO_Done e dir)) = visible cd dir @ [e]"
proof -
  let ?d = "hremove (filename_for e @ ''.tmp'') (hput (filename_for e @ ''.tmp'') (to_vec_pretty cd e) dir)"
  have "fst ` set ?d \<subseteq> fst ` set dir"
    by (force simp: hremove_def dest: hput_in_set)
  then have "hput (filename_for e) (to_vec_pretty cd e) ?d = ?d @ [(filename_for e, to_vec_pretty cd e)]"
    using assms(1) by (intro hput_absent) auto
  moreover have "visible cd ?d = visible cd dir" by (simp add: hidden_hremove hidden_hput)
  ultimately show ?thesis
    using assms(2) by (simp add: enqueue_def write_atomic_def Let_def reads_back_def name_seen visible_def)
qed

section \<open>Runs\<close>

lemma enqueue_names:
  "entry \<in> set (snd (enqueue cd io e dir)) \<Longrightarrow>
     entry \<in> set dir \<or> (io = IO_Done \<and> fst entry = filename_for e) \<or> fst entry = filename_for e @ ''.tmp''"
  by (cases entry)
    (auto simp: enqueue_def write_atomic_def Let_def hremove_def split: io_outcome.splits dest!: hput_in_set)

lemma hwf_enqueue: "hwf dir \<Longrightarrow> hwf (snd (enqueue cd io e dir))"
  by (auto simp: enqueue_def write_atomic_def Let_def hm.wf_insert hm.wf_remove split: io_outcome.split)

lemma run_ok_fault:
  assumes "run_ok cd done (posted, dir)" "io \<noteq> IO_Done"
  shows "run_ok cd done (posted, snd (enqueue cd io e dir))"
proof -
  let ?d = "snd (enqueue cd io e dir)"
  have v: "visible cd ?d = visible cd dir" by (rule enqueue_fault [OF assms(2)])
  have n: "entry \<in> set dir \<or> fst entry = filename_for e @ ''.tmp''" if "entry \<in> set ?d" for entry
    using enqueue_names [OF that] assms(2) by blast
  have ok: "outbox_ok cd dir" using assms(1) by (simp add: run_ok_def)
  have "fst en = filename_for x" if en: "en \<in> set ?d" and x: "x \<in> set (seen_entry cd en)" for en x
    using n [OF en] ok x by (cases en) (auto simp: outbox_ok_def)
  then have "outbox_ok cd ?d" using ok v hwf_enqueue [of dir cd io e] by (auto simp: outbox_ok_def)
  moreover have "scan_pending cd ?d = scan_pending cd dir" by (simp add: scan_visible v)
  ultimately show ?thesis using assms(1) v n unfolding run_ok_def by simp blast
qed

lemma run_ok_done:
  assumes "run_ok cd done (posted, dir)" "reads_back cd e" "\<forall>x \<in> set done. qe_seq x < qe_seq e"
  shows "run_ok cd (done @ [e]) (posted, snd (enqueue cd IO_Done e dir))"
proof -
  let ?d = "snd (enqueue cd IO_Done e dir)"
  have names: "\<forall>entry \<in> set dir. (\<exists>x \<in> set done. fst entry = filename_for x) \<or> (\<exists>x. fst entry = filename_for x @ ''.tmp'')"
    using assms(1) by (simp add: run_ok_def)
  have fresh: "filename_for e \<notin> fst ` set dir"
  proof
    assume "filename_for e \<in> fst ` set dir"
    with names consider x where "x \<in> set done" "filename_for e = filename_for x" | x where "filename_for e = filename_for x @ ''.tmp''"
      by force
    then show False using assms(3) by cases (metis filename_seq less_irrefl, metis filename_json tmp_not_json)
  qed
  have v: "visible cd ?d = visible cd dir @ [e]" by (rule enqueue_done [OF fresh assms(2)])
  have old: "set (visible cd dir) \<subseteq> set done" "outbox_ok cd dir" using assms(1) by (simp_all add: run_ok_def)
  have entry: "entry \<in> set dir \<or> fst entry = filename_for e \<or> fst entry = filename_for e @ ''.tmp''"
    if "entry \<in> set ?d" for entry using enqueue_names [OF that] by blast
  have bytes: "(filename_for e, b) \<in> set ?d \<Longrightarrow> b = to_vec_pretty cd e" for b
    using fresh by (auto simp: enqueue_def write_atomic_def Let_def hremove_def image_iff dest!: hput_in_set) force
  have "outbox_ok cd ?d"
  proof -
    have "distinct (map qe_seq (visible cd ?d))" using old assms(3) v by (auto simp: outbox_ok_def)
    moreover have "fst en = filename_for x" if en: "en \<in> set ?d" and x: "x \<in> set (seen_entry cd en)" for en x
    proof (rule disjE [OF entry [OF en]])
      assume "en \<in> set dir"
      then show ?thesis using old(2) x by (simp add: outbox_ok_def)
    next
      assume "fst en = filename_for e \<or> fst en = filename_for e @ ''.tmp''"
      then show ?thesis using bytes en x assms(2) by (cases en) (auto simp: name_seen reads_back_def)
    qed
    ultimately show ?thesis using hwf_enqueue [of dir cd IO_Done e] old(2) by (auto simp: outbox_ok_def)
  qed
  moreover have "scan_pending cd ?d = scan_pending cd dir @ [e]"
  proof -
    have "sort_key qe_seq (visible cd dir @ [e]) = sort_key qe_seq (visible cd dir) @ [e]"
      using old assms(3) by (intro sort_key_snoc) (auto simp: outbox_ok_def)
    then show ?thesis using old(2) \<open>outbox_ok cd ?d\<close> v by (simp add: scan_sorts outbox_ok_def)
  qed
  ultimately show ?thesis using assms(1) entry v unfolding run_ok_def by simp blast
qed

lemma drain_subset: "set (snd (drain_events answer es dir)) \<subseteq> set dir"
proof (induction es arbitrary: dir)
  case (Cons e es)
  have "set (mark_sent e dir) \<subseteq> set dir" by (auto simp: mark_sent_def hremove_def)
  with Cons.IH [of "mark_sent e dir"] show ?case by (auto simp: Let_def split: prod.splits)
qed simp

lemma run_ok_pass:
  assumes "run_ok cd done (posted, dir)"
  shows "run_ok cd done (queue_act cd (DrainPass answer) (posted, dir))"
proof -
  obtain new d where d: "drain_once cd answer dir = (new, d)" by fastforce
  have "outbox_ok cd dir" using assms by (simp add: run_ok_def)
  from drain_events_scanned [OF this refl, of answer new d] d
  have r: "new = map post_envelope (takeWhile answer (scan_pending cd dir))" "outbox_ok cd d"
      "scan_pending cd d = dropWhile answer (scan_pending cd dir)"
    by (simp_all add: drain_once_def)
  have sub: "set d \<subseteq> set dir"
    using drain_subset [of answer "scan_pending cd dir" dir] d by (simp add: drain_once_def)
  then have "set (visible cd d) \<subseteq> set (visible cd dir)" by (auto simp: visible_def)
  moreover have "new @ map post_envelope (scan_pending cd d) = map post_envelope (scan_pending cd dir)"
    by (simp add: r flip: map_append)
  ultimately show ?thesis using assms r sub d by (auto simp: run_ok_def)
qed

lemma written_append [simp]: "written (ops @ [op]) = written ops @ (case op of WriteEvent IO_Done e \<Rightarrow> [e] | _ \<Rightarrow> [])"
  by (simp add: written_def)

lemma run_ok_run:
  "\<forall>e \<in> set (written ops). reads_back cd e \<Longrightarrow> sorted_wrt (\<lambda>a b. qe_seq a < qe_seq b) (written ops) \<Longrightarrow>
     run_ok cd (written ops) (queue_run cd ops)"
proof (induction ops rule: rev_induct)
  case Nil
  then show ?case
    by (simp add: queue_run_def run_ok_def written_def outbox_ok_def visible_def scan_visible)
next
  case (snoc op ops)
  obtain posted dir where r: "queue_run cd ops = (posted, dir)" by fastforce
  with snoc have ok: "run_ok cd (written ops) (posted, dir)" by (auto simp: sorted_wrt_append)
  show ?case
  proof (cases op)
    case (WriteEvent io e)
    with r snoc.prems ok run_ok_fault [OF ok, of io e] run_ok_done [OF ok, of e] show ?thesis
      by (cases io) (auto simp: queue_run_def sorted_wrt_append)
  next
    case (DrainPass answer)
    with r run_ok_pass [OF ok, of answer] show ?thesis by (simp add: queue_run_def)
  qed
qed

section \<open>Properties\<close>



text \<open>
  Two rollouts with events in the queue are not delivered in order: a scan keys the pending
  events by sequence number alone, so of two rollouts' events with the same number it sees only the
  one listed last. Here the acknowledgement of the second rollout is hidden behind the first
  rollout's and its completion is posted, and deleted, first; the control plane refuses the
  completion of a pending host, and its copy stays \<open>Activating\<close> although every event was delivered.
\<close>

lemma same_seq_overtaken:
  "let ops = [WriteEvent IO_Done (sample_event rid_b 1), WriteEvent IO_Done (sample_event rid_a 1),
              WriteEvent IO_Done (sample_event rid_a 2), WriteEvent IO_Done (sample_event rid_b 2),
              DrainPass (\<lambda>_. True), DrainPass (\<lambda>_. True)];
       posted = fst (queue_run sample_codec ops);
       of_b = map (Event_of_wire \<circ> env_event) (filter (\<lambda>v. env_rollout_id v = rid_b) posted);
       cp = run_events (mirror_step 9 sample_policy) (new_pending rid_b ''h1'' ''stable'' ''t'' 0 5)
   in map (\<lambda>v. (env_rollout_id v, AgentEvent_seq (env_event v))) posted
        = [(rid_a, 1), (rid_b, 2), (rid_b, 1), (rid_a, 2)]
      \<and> scan_pending sample_codec (snd (queue_run sample_codec ops)) = []
      \<and> hrs_state (cp of_b) = HS_Activating \<and> hrs_state (cp (rev of_b)) = HS_Soaking"
  by code_simp

end
