(* ===== verification/Agent_Runtime.thy ===== *)
theory Agent_Runtime
  imports Planner Agent_Queue
begin

text \<open>
  The agent's reducer task (\<open>nixfleet-agent/src/runtime/reducer.rs\<close>) and its applier
  (\<open>runtime/applier.rs\<close>): the in-memory records of the host's rollouts, the cached manifests, the
  intents and probe resets sent to the workers, and the outbound queue. One \<open>agent_input\<close> is one turn of
  the task; the readings of the clock within a turn are taken as one instant. The queue directory is
  shared with the drainer: the state keeps the operations performed on it, and \<open>queue_run\<close> gives the
  directory and the posts they lead to.
\<close>

section \<open>State\<close>

record ActivationIntent =
  ai_rollout_id :: RolloutId
  ai_target_closure :: ClosureHash
  ai_rollback :: bool

datatype AgentInput =
    AgentHostEvent RolloutId Event
  | AgentAdvanceTick
  | AgentManifestSetUpdated SignedManifestSet
  | AgentBootstrapHost HostRolloutSnapshot

text \<open>The configuration, and what is outside: the disk's answer to each write.\<close>

record agent_env =
  ae_machine_id :: string
  ae_disk :: "QueuedEvent \<Rightarrow> io_outcome"

record agent_state =
  ag_host_states :: "(RolloutId, HostRolloutState) hmap"
  ag_manifests :: "SignedManifestSet option"
  ag_intents :: "ActivationIntent list"
  ag_probe_resets :: "RolloutId list"
  ag_queue_ops :: "queue_op list"

section \<open>The applier\<close>

definition send_intent :: "ActivationIntent \<Rightarrow> agent_state \<Rightarrow> agent_state" where
  "send_intent i a = a\<lparr>ag_intents := ag_intents a @ [i]\<rparr>"

definition queued_event :: "agent_env \<Rightarrow> instant \<Rightarrow> RolloutId \<Rightarrow> OutboundAgentEvent \<Rightarrow> QueuedEvent" where
  "queued_event env now rollout_id payload =
     \<lparr>qe_seq = outbound_event_seq payload, qe_hostname = ae_machine_id env, qe_rollout_id = rollout_id,
      qe_event_kind = outbound_event_kind payload, qe_created_at = now,
      qe_payload = OutboundAgentEvent_to_wire payload\<rparr>"

text \<open>Log lines, metrics and the control plane's effects (logged and dropped) leave the state alone.\<close>

fun agent_apply_effect :: "agent_env \<Rightarrow> instant \<Rightarrow> Effect \<Rightarrow> agent_state \<Rightarrow> agent_state" where
  "agent_apply_effect env now (LocalFireSwitch rollout_id target) a =
     send_intent \<lparr>ai_rollout_id = rollout_id, ai_target_closure = target, ai_rollback = False\<rparr> a"
| "agent_apply_effect env now (LocalFireRollbackTo rollout_id closure) a =
     send_intent \<lparr>ai_rollout_id = rollout_id, ai_target_closure = closure, ai_rollback = True\<rparr> a"
| "agent_apply_effect env now (LocalResetProbeCache rollout_id) a =
     a\<lparr>ag_probe_resets := ag_probe_resets a @ [rollout_id]\<rparr>"
| "agent_apply_effect env now (LocalEmitEvent rollout_id payload durable) a =
     (let e = queued_event env now rollout_id payload
      in a\<lparr>ag_queue_ops := ag_queue_ops a @ [WriteEvent (ae_disk env e) e]\<rparr>)"
| "agent_apply_effect env now _ a = a"

section \<open>The reducer's helpers\<close>

definition SUSTAINED_FAILURE_THRESHOLD_SECS :: int where
  "SUSTAINED_FAILURE_THRESHOLD_SECS = 120"

text \<open>\<open>Duration::num_seconds\<close>: whole seconds, rounded towards zero.\<close>

definition num_seconds :: "duration \<Rightarrow> int" where
  "num_seconds d = (if d < 0 then - (- d div 1000000000) else d div 1000000000)"

definition bootstrap_pending_state :: "RolloutId \<Rightarrow> ClosureHash \<Rightarrow> instant \<Rightarrow> instant \<Rightarrow> HostRolloutState" where
  "bootstrap_pending_state rollout_id target_closure soak_due_at now =
     new_pending rollout_id ''self'' (RolloutId_channel rollout_id) target_closure now soak_due_at"

definition collect_failing_enforce_probes :: "(ProbeName, ProbeRecord) hmap \<Rightarrow> ProbeName list" where
  "collect_failing_enforce_probes probes =
     map fst (filter (\<lambda>(_, r). pr_status r = Fail \<and> pr_mode r = Enforce) probes)"

definition all_enforce_probes_pass :: "(ProbeName, ProbeRecord) hmap \<Rightarrow> bool" where
  "all_enforce_probes_pass probes \<longleftrightarrow>
     list_all (\<lambda>r. pr_status r = Pass) (filter (\<lambda>r. pr_mode r = Enforce) (hvalues probes))"

definition agent_resolve_policy :: "SignedManifestSet option \<Rightarrow> string \<Rightarrow> RolloutPolicy option" where
  "agent_resolve_policy manifests channel =
     (case manifests of
        None \<Rightarrow> None
      | Some m \<Rightarrow>
        case hget (fl_channels (sm_fleet_inner m)) channel of
          None \<Rightarrow> None
        | Some channel_entry \<Rightarrow> hget (fl_rollout_policies (sm_fleet_inner m)) (ch_rollout_policy channel_entry))"

text \<open>An event without an arm of its own keeps the number its worker gave it.\<close>

fun with_seq :: "Event \<Rightarrow> u64 \<Rightarrow> Event" where
  "with_seq (LocalActivate c t r d _) seq = LocalActivate c t r d seq"
| "with_seq (LocalActivationStarted at m _) seq = LocalActivationStarted at m seq"
| "with_seq (LocalActivationCompleted c x at _) seq = LocalActivationCompleted c x at seq"
| "with_seq (LocalActivationFailed x tail at _) seq = LocalActivationFailed x tail at seq"
| "with_seq (LocalProbeObservedFirst n m at _) seq = LocalProbeObservedFirst n m at seq"
| "with_seq (LocalProbeResult n m st at fr subs _) seq = LocalProbeResult n m st at fr subs seq"
| "with_seq (LocalProbeFailureFirst n m at _) seq = LocalProbeFailureFirst n m at seq"
| "with_seq (LocalSustainedFailureCrossed at secs ps p _) seq = LocalSustainedFailureCrossed at secs ps p seq"
| "with_seq (LocalRollbackCompleted c x at _) seq = LocalRollbackCompleted c x at seq"
| "with_seq (LocalConvergedReached at c _) seq = LocalConvergedReached at c seq"
| "with_seq (LocalProbeTopologyDeclared ps at _) seq = LocalProbeTopologyDeclared ps at seq"
| "with_seq other seq = other"

fun host_state_of_wire :: "WireState \<Rightarrow> HostState" where
  "host_state_of_wire WS_Pending = HS_Pending"
| "host_state_of_wire WS_Activating = HS_Activating"
| "host_state_of_wire WS_Deferred = HS_Deferred"
| "host_state_of_wire WS_Soaking = HS_Soaking"
| "host_state_of_wire WS_Converged = HS_Converged"
| "host_state_of_wire WS_Failed = HS_Failed"
| "host_state_of_wire WS_Reverted = HS_Reverted"

definition merge_snapshot_into_state :: "HostRolloutState option \<Rightarrow> HostRolloutSnapshot \<Rightarrow> HostRolloutState" where
  "merge_snapshot_into_state existing snap =
     \<lparr>hrs_rollout_id = snap_rollout_id snap, hrs_hostname = snap_hostname snap, hrs_channel = snap_channel snap,
      hrs_state = host_state_of_wire (snap_state snap), hrs_target_closure = snap_target_closure snap,
      hrs_current_closure_at_dispatch = snap_current_closure_at_dispatch snap,
      hrs_current_closure = snap_current_closure snap,
      hrs_reverted_to = Option.bind existing hrs_reverted_to,
      hrs_dispatched_at = snap_dispatched_at snap, hrs_dispatch_acked_at = snap_dispatch_acked_at snap,
      hrs_activation_started_at = snap_activation_started_at snap,
      hrs_activation_completed_at = snap_activation_completed_at snap,
      hrs_activation_failed_at = Option.bind existing hrs_activation_failed_at,
      hrs_probe_observed_first_at = Option.bind existing hrs_probe_observed_first_at,
      hrs_probe_failure_first_at = Option.bind existing hrs_probe_failure_first_at,
      hrs_soak_due_at = snap_soak_due_at snap,
      hrs_converged_at = Option.bind existing hrs_converged_at,
      hrs_failed_at = Option.bind existing hrs_failed_at,
      hrs_policy_applied = Option.bind existing hrs_policy_applied,
      hrs_reverted_at = Option.bind existing hrs_reverted_at,
      hrs_probes = (case existing of Some e \<Rightarrow> hrs_probes e | None \<Rightarrow> []),
      hrs_last_event_seq = snap_last_event_seq snap\<rparr>"

section \<open>The reducer task\<close>

definition apply_bootstrap_snapshot ::
  "agent_env \<Rightarrow> instant \<Rightarrow> HostRolloutSnapshot \<Rightarrow> agent_state \<Rightarrow> agent_state" where
  "apply_bootstrap_snapshot env now snap a =
     (let rollout_id = snap_rollout_id snap;
          record = merge_snapshot_into_state (hget (ag_host_states a) rollout_id) snap;
          effects = rehydration_effects record;
          a = a\<lparr>ag_host_states := hput rollout_id record (ag_host_states a)\<rparr>
      in fold (agent_apply_effect env now) effects a)"

definition run_host_event ::
  "agent_env \<Rightarrow> instant \<Rightarrow> RolloutId \<Rightarrow> Event \<Rightarrow> agent_state \<Rightarrow> agent_state" where
  "run_host_event env now rollout_id event a =
     (let prior = hget (ag_host_states a) rollout_id;
          started = (case (prior, event) of
              (Some s, _) \<Rightarrow> Some s
            | (None, LocalActivate _ target_closure _ soak_due_at _) \<Rightarrow>
                Some (bootstrap_pending_state rollout_id target_closure soak_due_at now)
            | (None, _) \<Rightarrow> None)
      in case started of
           None \<Rightarrow> a
         | Some state \<Rightarrow>
           case agent_resolve_policy (ag_manifests a) (hrs_channel state) of
             None \<Rightarrow> a
           | Some policy \<Rightarrow>
             let next_seq = hrs_last_event_seq state + 1;
                 event = with_seq event next_seq
             in case step state event now policy of
                  Inl _ \<Rightarrow> a
                | Inr (next_state, effects) \<Rightarrow>
                  fold (agent_apply_effect env now) effects
                    (a\<lparr>ag_host_states := hput rollout_id next_state (ag_host_states a)\<rparr>))"

text \<open>The two gates of a tick over one record: the events they synthesise.\<close>

definition fail_gate ::
  "instant \<Rightarrow> SignedManifestSet option \<Rightarrow> RolloutId \<times> HostRolloutState \<Rightarrow> (RolloutId \<times> Event) list" where
  "fail_gate now manifests entry =
     (case entry of (rollout_id, state) \<Rightarrow>
        if hrs_state state \<noteq> HS_Soaking then []
        else case hrs_probe_failure_first_at state of
          None \<Rightarrow> []
        | Some first_failed \<Rightarrow>
          if num_seconds (now - first_failed) < SUSTAINED_FAILURE_THRESHOLD_SECS then []
          else
            let failing_probes = collect_failing_enforce_probes (hrs_probes state)
            in if failing_probes = [] then []
               else
                 let policy_applied = (case agent_resolve_policy manifests (hrs_channel state) of
                       Some p \<Rightarrow> pol_on_health_failure p | None \<Rightarrow> Halt)
                 in [(rollout_id, LocalSustainedFailureCrossed now (word_of_int (num_seconds (now - first_failed)))
                        failing_probes policy_applied 0)])"

definition pass_gate :: "instant \<Rightarrow> RolloutId \<times> HostRolloutState \<Rightarrow> (RolloutId \<times> Event) list" where
  "pass_gate now entry =
     (case entry of (rollout_id, state) \<Rightarrow>
        if hrs_state state \<noteq> HS_Soaking then []
        else case hrs_soak_due_at state of
          None \<Rightarrow> []
        | Some soak_due_at \<Rightarrow>
          if now < soak_due_at then []
          else case hrs_current_closure state of
            None \<Rightarrow> []
          | Some current \<Rightarrow>
            if current \<noteq> hrs_target_closure state then []
            else if \<not> all_enforce_probes_pass (hrs_probes state) then []
            else [(rollout_id, LocalConvergedReached now current 0)])"

definition run_advance_tick :: "agent_env \<Rightarrow> instant \<Rightarrow> agent_state \<Rightarrow> agent_state" where
  "run_advance_tick env now a =
     (let synth = concat (map (fail_gate now (ag_manifests a)) (ag_host_states a))
                  @ concat (map (pass_gate now) (ag_host_states a))
      in fold (\<lambda>(rollout_id, event). run_host_event env now rollout_id event) synth a)"

fun agent_input :: "agent_env \<Rightarrow> instant \<Rightarrow> AgentInput \<Rightarrow> agent_state \<Rightarrow> agent_state" where
  "agent_input env now (AgentHostEvent rollout_id event) a = run_host_event env now rollout_id event a"
| "agent_input env now AgentAdvanceTick a = run_advance_tick env now a"
| "agent_input env now (AgentManifestSetUpdated ms) a = a\<lparr>ag_manifests := Some ms\<rparr>"
| "agent_input env now (AgentBootstrapHost snap) a = apply_bootstrap_snapshot env now snap a"

definition initial_agent :: agent_state where
  "initial_agent =
     \<lparr>ag_host_states = [], ag_manifests = None, ag_intents = [], ag_probe_resets = [], ag_queue_ops = []\<rparr>"

text \<open>A run: turns of the reducer task and passes of the drainer, in any order.\<close>

datatype agent_action = AgentTurn instant AgentInput | AgentDrain "QueuedEvent \<Rightarrow> bool"

fun agent_act :: "agent_env \<Rightarrow> agent_action \<Rightarrow> agent_state \<Rightarrow> agent_state" where
  "agent_act env (AgentTurn now i) a = agent_input env now i a"
| "agent_act env (AgentDrain answer) a = a\<lparr>ag_queue_ops := ag_queue_ops a @ [DrainPass answer]\<rparr>"

definition agent_run :: "agent_env \<Rightarrow> agent_action list \<Rightarrow> agent_state" where
  "agent_run env acts = fold (agent_act env) acts initial_agent"

section \<open>Specification vocabulary\<close>

text \<open>The events a run handed to the queue for a rollout, whatever the disk did with them.\<close>

definition emitted_for :: "RolloutId \<Rightarrow> queue_op list \<Rightarrow> QueuedEvent list" where
  "emitted_for rid ops =
     filter (\<lambda>e. qe_rollout_id e = rid) (concat (map (\<lambda>op. case op of WriteEvent _ e \<Rightarrow> [e] | _ \<Rightarrow> []) ops))"

text \<open>
  The inputs of the agent's own workers: local events (sent with the number 0), ticks, and manifest sets that resolve a channel
  to a policy with the control plane's \<open>onHealthFailure\<close>. A snapshot from the control plane is not one.
\<close>

definition agrees :: "RolloutPolicy \<Rightarrow> SignedManifestSet option \<Rightarrow> bool" where
  "agrees policy ms \<longleftrightarrow>
     (\<forall>ch p. agent_resolve_policy ms ch = Some p \<longrightarrow> pol_on_health_failure p = pol_on_health_failure policy)"

fun worker_input :: "RolloutPolicy \<Rightarrow> AgentInput \<Rightarrow> bool" where
  "worker_input policy (AgentHostEvent _ e) \<longleftrightarrow> is_local e \<and> event_seq e = 0"
| "worker_input policy AgentAdvanceTick = True"
| "worker_input policy (AgentManifestSetUpdated ms) = agrees policy (Some ms)"
| "worker_input policy (AgentBootstrapHost _) = False"

fun worker_action :: "RolloutPolicy \<Rightarrow> agent_action \<Rightarrow> bool" where
  "worker_action policy (AgentTurn _ i) = worker_input policy i"
| "worker_action policy (AgentDrain _) = True"

text \<open>
  The history of a record: the events its reducer was given since it was bootstrapped, and that their
  emissions are what went to the queue.
\<close>

definition has_history :: "RolloutPolicy \<Rightarrow> RolloutId \<Rightarrow> HostRolloutState \<Rightarrow> queue_op list \<Rightarrow> bool" where
  "has_history policy rid s ops \<longleftrightarrow>
     (\<exists>tc da sd es.
        (\<forall>te \<in> set es. agent_event_for policy te)
        \<and> s = run_events host_step (new_pending rid ''self'' (RolloutId_channel rid) tc da sd) es
        \<and> map qe_payload (emitted_for rid ops)
          = map OutboundAgentEvent_to_wire
              (emitted_of (run_effects host_step (new_pending rid ''self'' (RolloutId_channel rid) tc da sd) es)))"

definition rollout_history :: "RolloutPolicy \<Rightarrow> HostRolloutState option \<Rightarrow> queue_op list \<Rightarrow> RolloutId \<Rightarrow> bool" where
  "rollout_history policy record ops rid \<longleftrightarrow>
     (case record of
        None \<Rightarrow> emitted_for rid ops = []
      | Some s \<Rightarrow> has_history policy rid s ops
          \<and> map (unat \<circ> qe_seq) (emitted_for rid ops) = [1..<Suc (unat (hrs_last_event_seq s))])"

definition history_ok :: "RolloutPolicy \<Rightarrow> agent_state \<Rightarrow> bool" where
  "history_ok policy a \<longleftrightarrow>
     agrees policy (ag_manifests a) \<and> hwf (ag_host_states a)
     \<and> (\<forall>rid. rollout_history policy (hget (ag_host_states a) rid) (ag_queue_ops a) rid)"

section \<open>Specification vocabulary and samples\<close>

definition emissions_of :: "Effect list \<Rightarrow> (RolloutId \<times> OutboundAgentEvent) list" where
  "emissions_of fx = concat (map (\<lambda>f. case f of LocalEmitEvent rid payload _ \<Rightarrow> [(rid, payload)] | _ \<Rightarrow> []) fx)"

section \<open>Effects\<close>

lemma emitted_for_append [simp]:
  "emitted_for rid (ops @ ops') = emitted_for rid ops @ emitted_for rid ops'"
  "emitted_for rid [] = []"
  "emitted_for rid [DrainPass answer] = []"
  "emitted_for rid [WriteEvent io e] = (if qe_rollout_id e = rid then [e] else [])"
  by (simp_all add: emitted_for_def)

lemma apply_effects:
  "ag_host_states (fold (agent_apply_effect env now) fx a) = ag_host_states a
   \<and> ag_manifests (fold (agent_apply_effect env now) fx a) = ag_manifests a
   \<and> ag_queue_ops (fold (agent_apply_effect env now) fx a)
       = ag_queue_ops a @ map (\<lambda>(rid, payload). let e = queued_event env now rid payload
           in WriteEvent (ae_disk env e) e) (emissions_of fx)"
proof (induction fx arbitrary: a)
  case (Cons f fx)
  have "ag_host_states (agent_apply_effect env now f a) = ag_host_states a"
    "ag_manifests (agent_apply_effect env now f a) = ag_manifests a"
    "ag_queue_ops (agent_apply_effect env now f a) = ag_queue_ops a @ map (\<lambda>(rid, payload).
        let e = queued_event env now rid payload in WriteEvent (ae_disk env e) e) (emissions_of [f])"
    by (cases f; simp add: send_intent_def emissions_of_def Let_def)+
  with Cons show ?case by (simp add: emissions_of_def)
qed (simp add: emissions_of_def)

lemma local_emission:
  assumes "step s e now policy = Inr (s', fx)" "is_local e"
  shows "\<exists>payload. emissions_of fx = [(hrs_rollout_id s, payload)] \<and> emitted_of fx = [payload]
    \<and> outbound_event_seq payload = event_seq e"
  using assms
  by (elim step_accepted handle_elims)
    (auto simp: emissions_of_def emitted_of_def rollback_effect_def split: sum.splits option.splits OnHealthFailure.splits)

lemma with_seq_local [simp]: "is_local (with_seq e n) = is_local e"
  by (cases e) auto

lemma run_effects_append:
  "run_effects stp s (xs @ ys) = run_effects stp s xs @ run_effects stp (run_events stp s xs) ys"
  by (induction xs arbitrary: s) auto

section \<open>One event\<close>

lemma run_host_event_cases:
  obtains (dropped) "run_host_event env now rid e a = a"
  | (stepped) s policy s' fx where
      "hget (ag_host_states a) rid = Some s
       \<or> (hget (ag_host_states a) rid = None \<and> (\<exists>tc sd. s = bootstrap_pending_state rid tc sd now))"
      "agent_resolve_policy (ag_manifests a) (hrs_channel s) = Some policy"
      "step s (with_seq e (hrs_last_event_seq s + 1)) now policy = Inr (s', fx)"
      "run_host_event env now rid e a
       = fold (agent_apply_effect env now) fx (a\<lparr>ag_host_states := hput rid s' (ag_host_states a)\<rparr>)"
proof -
  define started where "started = (case (hget (ag_host_states a) rid, e) of
      (Some s, _) \<Rightarrow> Some s
    | (None, LocalActivate _ tc _ sd _) \<Rightarrow> Some (bootstrap_pending_state rid tc sd now)
    | (None, _) \<Rightarrow> None)"
  show thesis
  proof (cases started)
    case None
    then show thesis by (intro dropped) (simp add: run_host_event_def started_def)
  next
    case (Some s)
    have s: "hget (ag_host_states a) rid = Some s
       \<or> (hget (ag_host_states a) rid = None \<and> (\<exists>tc sd. s = bootstrap_pending_state rid tc sd now))"
      using Some by (auto simp: started_def split: option.splits Event.splits)
    have run: "run_host_event env now rid e a =
        (case agent_resolve_policy (ag_manifests a) (hrs_channel s) of
           None \<Rightarrow> a
         | Some policy \<Rightarrow>
           case step s (with_seq e (hrs_last_event_seq s + 1)) now policy of
             Inl _ \<Rightarrow> a
           | Inr (s', fx) \<Rightarrow>
             fold (agent_apply_effect env now) fx (a\<lparr>ag_host_states := hput rid s' (ag_host_states a)\<rparr>))"
      using Some unfolding run_host_event_def Let_def by (simp add: started_def)
    then show thesis
      using dropped stepped [OF s] by (auto split: option.splits sum.splits)
  qed
qed

lemma run_host_event_other [simp]:
  "r \<noteq> rid \<Longrightarrow> hget (ag_host_states (run_host_event env now rid e a)) r = hget (ag_host_states a) r"
  by (rule run_host_event_cases [of env now rid e a]) (simp_all add: apply_effects)

lemma run_host_event_manifests [simp]: "ag_manifests (run_host_event env now rid e a) = ag_manifests a"
  by (rule run_host_event_cases [of env now rid e a]) (simp_all add: apply_effects)

section \<open>The history of a record\<close>

lemma has_history_id: "has_history policy rid s ops \<Longrightarrow> hrs_rollout_id s = rid \<and> hrs_channel s = RolloutId_channel rid"
  using host_machine.run_ord [OF new_pending_inv]
  by (fastforce simp: has_history_def host_le_def new_pending_def)

lemma has_history_fresh:
  "emitted_for rid ops = [] \<Longrightarrow> has_history policy rid (bootstrap_pending_state rid tc sd now) ops"
  unfolding has_history_def bootstrap_pending_state_def
  by (intro exI [of _ tc] exI [of _ now] exI [of _ sd] exI [of _ "[]"]) simp

lemma fresh_seq [simp]: "hrs_last_event_seq (bootstrap_pending_state rid tc sd now) = 0"
  by (simp add: bootstrap_pending_state_def new_pending_def)

lemma has_history_step:
  assumes "has_history policy rid s ops" "is_local e" "step s e now p = Inr (s', fx)"
    "pol_on_health_failure p = pol_on_health_failure policy"
    "map qe_payload (emitted_for rid ops') = map qe_payload (emitted_for rid ops) @ map OutboundAgentEvent_to_wire (emitted_of fx)"
  shows "has_history policy rid s' ops'"
proof -
  from assms(1) obtain tc da sd es where h: "\<forall>te \<in> set es. agent_event_for policy te"
      "s = run_events host_step (new_pending rid ''self'' (RolloutId_channel rid) tc da sd) es"
      "map qe_payload (emitted_for rid ops) = map OutboundAgentEvent_to_wire
         (emitted_of (run_effects host_step (new_pending rid ''self'' (RolloutId_channel rid) tc da sd) es))"
    by (auto simp: has_history_def)
  have "host_step s (e, now, p) = Inr (s', fx)" using assms(3) by (simp add: host_step_def)
  then show ?thesis
    using h assms(2,4,5) unfolding has_history_def
    by (intro exI [of _ tc] exI [of _ da] exI [of _ sd] exI [of _ "es @ [(e, now, p)]"])
      (simp add: run_events_append run_effects_append settle_def agent_event_for_def)
qed

lemma rollout_history_cong:
  "emitted_for rid ops' = emitted_for rid ops \<Longrightarrow> rollout_history policy rec ops' rid = rollout_history policy rec ops rid"
  by (cases rec) (simp_all add: rollout_history_def has_history_def)

lemma with_seq_seq: "is_local e \<Longrightarrow> event_seq e = 0 \<Longrightarrow> event_seq (with_seq e n) = n \<or> event_seq (with_seq e n) = 0"
  by (cases e) auto

lemma unat_next: "(x :: u64) < x + 1 \<Longrightarrow> unat (x + 1) = Suc (unat x)"
  by (auto simp: word_less_nat_alt unat_word_ariths mod_Suc split: if_splits)

lemma run_host_event_history:
  assumes "history_ok policy a" "is_local e" "event_seq e = 0"
  shows "history_ok policy (run_host_event env now rid e a)"
proof (cases rule: run_host_event_cases [of env now rid e a])
  case dropped
  then show ?thesis using assms(1) by simp
next
  case (stepped s p s' fx)
  let ?a = "run_host_event env now rid e a"
  have inv: "rollout_history policy (hget (ag_host_states a) r) (ag_queue_ops a) r" for r
    using assms(1) by (simp add: history_ok_def)
  have s: "has_history policy rid s (ag_queue_ops a)"
      "map (unat \<circ> qe_seq) (emitted_for rid (ag_queue_ops a)) = [1..<Suc (unat (hrs_last_event_seq s))]"
    using stepped(1) inv [of rid]
    by (auto simp: rollout_history_def intro: has_history_fresh)
  obtain payload where em: "emissions_of fx = [(rid, payload)]" "emitted_of fx = [payload]"
      "outbound_event_seq payload = event_seq (with_seq e (hrs_last_event_seq s + 1))"
    using local_emission [OF stepped(3)] assms(2) has_history_id [OF s(1)] by auto
  let ?q = "queued_event env now rid payload"
  have ops: "ag_queue_ops ?a = ag_queue_ops a @ [WriteEvent (ae_disk env ?q) ?q]"
    by (simp add: stepped(4) apply_effects em Let_def)
  have next_seq: "event_seq (with_seq e (hrs_last_event_seq s + 1)) = hrs_last_event_seq s + 1"
    using step_frame(8) [OF stepped(3)] with_seq_seq [OF assms(2,3), of "hrs_last_event_seq s + 1"] by auto
  then have "unat (hrs_last_event_seq s') = Suc (unat (hrs_last_event_seq s))"
    using step_frame(7,8) [OF stepped(3)] by (simp add: unat_next)
  then have q: "qe_rollout_id ?q = rid" "unat (qe_seq ?q) = Suc (unat (hrs_last_event_seq s))"
      "unat (hrs_last_event_seq s') = Suc (unat (hrs_last_event_seq s))"
      "qe_payload ?q = OutboundAgentEvent_to_wire payload"
    using step_frame(7) [OF stepped(3)] em(3) by (simp_all add: queued_event_def)
  have agree: "pol_on_health_failure p = pol_on_health_failure policy"
    using assms(1) stepped(2) by (auto simp: history_ok_def agrees_def)
  have "has_history policy rid s' (ag_queue_ops ?a)"
    using assms(2) by (intro has_history_step [OF s(1) _ stepped(3) agree]) (simp_all add: ops q em)
  moreover have "map (unat \<circ> qe_seq) (emitted_for rid (ag_queue_ops ?a)) = [1..<Suc (unat (hrs_last_event_seq s'))]"
    using s(2) q by (simp add: ops)
  moreover have "hget (ag_host_states ?a) rid = Some s'" by (simp add: stepped(4) apply_effects)
  ultimately have mine: "rollout_history policy (hget (ag_host_states ?a) rid) (ag_queue_ops ?a) rid"
    by (simp add: rollout_history_def)
  have "emitted_for r (ag_queue_ops ?a) = emitted_for r (ag_queue_ops a)" if "r \<noteq> rid" for r
    using that by (simp add: ops q)
  then have "rollout_history policy (hget (ag_host_states ?a) r) (ag_queue_ops ?a) r" if "r \<noteq> rid" for r
    using that inv [of r] rollout_history_cong by (metis run_host_event_other)
  moreover have "hwf (ag_host_states ?a)" using assms(1) by (simp add: stepped(4) apply_effects history_ok_def hm.wf_insert)
  ultimately show ?thesis using assms(1) mine unfolding history_ok_def by (metis run_host_event_manifests)
qed

section \<open>Runs\<close>

lemma fail_gate_event: "x \<in> set (fail_gate now ms entry) \<Longrightarrow> is_local (snd x) \<and> event_seq (snd x) = 0"
  by (cases entry) (auto simp: fail_gate_def Let_def split: option.splits if_splits)

lemma pass_gate_event: "x \<in> set (pass_gate now entry) \<Longrightarrow> is_local (snd x) \<and> event_seq (snd x) = 0"
  by (cases entry) (auto simp: pass_gate_def split: option.splits if_splits)

lemma fold_events_history:
  "history_ok policy a \<Longrightarrow> \<forall>(rid, e) \<in> set es. is_local e \<and> event_seq e = 0 \<Longrightarrow>
     history_ok policy (fold (\<lambda>(rid, e). run_host_event env now rid e) es a)"
  by (induction es arbitrary: a) (auto intro: run_host_event_history)

lemma agent_act_history:
  assumes "history_ok policy a" "worker_action policy act"
  shows "history_ok policy (agent_act env act a)"
proof (cases act)
  case (AgentTurn now i)
  show ?thesis
  proof (cases i)
    case (AgentHostEvent rid e)
    then show ?thesis using AgentTurn assms by (simp add: run_host_event_history)
  next
    case AgentAdvanceTick
    have "\<forall>(rid, e) \<in> set (concat (map (fail_gate now (ag_manifests a)) (ag_host_states a))
        @ concat (map (pass_gate now) (ag_host_states a))). is_local e \<and> event_seq e = 0"
      using fail_gate_event pass_gate_event by (fastforce simp del: o_apply)
    then show ?thesis using AgentTurn AgentAdvanceTick assms(1) fold_events_history
      by (simp add: run_advance_tick_def)
  qed (use AgentTurn assms in \<open>auto simp: history_ok_def\<close>)
next
  case (AgentDrain answer)
  have "rollout_history policy rec (ops @ [DrainPass answer]) rid = rollout_history policy rec ops rid" for rec ops rid
    by (rule rollout_history_cong) simp
  then show ?thesis using AgentDrain assms(1) by (simp add: history_ok_def)
qed

lemma agent_run_history:
  assumes "\<forall>act \<in> set acts. worker_action policy act"
  shows "history_ok policy (agent_run env acts)"
proof -
  have "history_ok policy initial_agent"
    by (simp add: history_ok_def initial_agent_def rollout_history_def agrees_def agent_resolve_policy_def)
  then have "history_ok policy (fold (agent_act env) acts initial_agent)"
    using assms by (induction acts rule: rev_induct) (auto intro: agent_act_history)
  then show ?thesis by (simp add: agent_run_def)
qed

end
