(* ===== verification/Agent_Properties.thy ===== *)
theory Agent_Properties
  imports Agent_Runtime Manifest
begin

text \<open>
  What the agent's reducer task guarantees over every run of its workers, and where it does not do
  what its documentation says.
\<close>

section \<open>Specification vocabulary and samples\<close>

text \<open>What one event makes of the record of its rollout, apart from the effects.\<close>

definition record_after ::
  "instant \<Rightarrow> SignedManifestSet option \<Rightarrow> RolloutId \<Rightarrow> Event \<Rightarrow> HostRolloutState option \<Rightarrow> HostRolloutState option" where
  "record_after now ms rid e rec =
     (case (case (rec, e) of
              (Some s, _) \<Rightarrow> Some s
            | (None, LocalActivate _ tc _ sd _) \<Rightarrow> Some (bootstrap_pending_state rid tc sd now)
            | (None, _) \<Rightarrow> None) of
        None \<Rightarrow> rec
      | Some s \<Rightarrow>
        case agent_resolve_policy ms (hrs_channel s) of
          None \<Rightarrow> rec
        | Some policy \<Rightarrow>
          case step s (with_seq e (hrs_last_event_seq s + 1)) now policy of
            Inl _ \<Rightarrow> rec
          | Inr (s', _) \<Rightarrow> Some s')"

text \<open>A probe in enforce mode has failed for the whole threshold; every condition of convergence holds.\<close>

definition sustained_failure :: "instant \<Rightarrow> HostRolloutState \<Rightarrow> bool" where
  "sustained_failure now s \<longleftrightarrow>
     (\<exists>t. hrs_probe_failure_first_at s = Some t \<and> 120 \<le> num_seconds (now - t))
     \<and> (\<exists>r \<in> set (hvalues (hrs_probes s)). pr_mode r = Enforce \<and> pr_status r = Fail)"

definition convergence_due :: "instant \<Rightarrow> HostRolloutState \<Rightarrow> bool" where
  "convergence_due now s \<longleftrightarrow>
     (\<exists>due. hrs_soak_due_at s = Some due \<and> due \<le> now)
     \<and> hrs_current_closure s = Some (hrs_target_closure s)
     \<and> (\<forall>r \<in> set (hvalues (hrs_probes s)). pr_mode r = Enforce \<longrightarrow> pr_status r = Pass)"

section \<open>Specification vocabulary and samples\<close>

text \<open>One host: a dispatch, the activation, a passing probe and the end of the soak.\<close>

definition sample_ms :: SignedManifestSet where
  "sample_ms =
     \<lparr>sm_fleet = \<lparr>v_inner = (two_host_fleet two_hosts)\<lparr>fl_rollout_policies := [(''p'', sample_policy)]\<rparr>, v_signed_at = 0\<rparr>,
      sm_rollouts = []\<rparr>"

definition sample_env :: agent_env where
  "sample_env = \<lparr>ae_machine_id = ''h1'', ae_disk = (\<lambda>_. IO_Done)\<rparr>"

definition sample_acts :: "agent_action list" where
  "sample_acts =
     [AgentTurn 0 (AgentManifestSetUpdated sample_ms),
      AgentTurn 1 (AgentHostEvent rid_a (LocalActivate ''p'' ''t'' 1 5 0)),
      AgentDrain (\<lambda>_. False),
      AgentTurn 2 (AgentHostEvent rid_a (LocalActivationCompleted ''t'' 0 2 0)),
      AgentDrain (\<lambda>_. True)]"

definition sample_agent :: agent_state where
  "sample_agent = agent_run sample_env sample_acts"

definition all_written :: "queue_op list \<Rightarrow> bool" where
  "all_written ops \<longleftrightarrow> (\<forall>op \<in> set ops. case op of WriteEvent io _ \<Rightarrow> io = IO_Done | _ \<Rightarrow> True)"

section \<open>The record of one rollout\<close>

lemma run_host_event_record:
  "hget (ag_host_states (run_host_event env now rid e a)) rid
     = record_after now (ag_manifests a) rid e (hget (ag_host_states a) rid)"
  unfolding run_host_event_def record_after_def Let_def
  by (simp add: apply_effects split: option.splits sum.splits prod.splits Event.splits)

lemma fold_events_record:
  "hget (ag_host_states (fold (\<lambda>(r, e). run_host_event env now r e) es a)) rid
     = fold (\<lambda>(r, e). record_after now (ag_manifests a) rid e) (filter (\<lambda>x. fst x = rid) es)
         (hget (ag_host_states a) rid)"
proof (induction es arbitrary: a)
  case (Cons x es)
  obtain r e where "x = (r, e)" by (cases x)
  with Cons [of "run_host_event env now r e a"] show ?case
    by (cases "r = rid") (simp_all add: run_host_event_record)
qed simp

lemma gate_of_record:
  assumes "hwf m" "hget m rid = Some s" "\<And>en x. x \<in> set (g en) \<Longrightarrow> fst x = fst en"
  shows "filter (\<lambda>x. fst x = rid) (concat (map g m)) = g (rid, s)"
proof -
  have other: "filter (\<lambda>x. fst x = rid) (concat (map g es)) = []" if "rid \<notin> fst ` set es" for es
    using that assms(3) by (force simp: filter_empty_conv)
  have same: "filter (\<lambda>x. fst x = rid) (g (rid, s)) = g (rid, s)"
    using assms(3) by (force simp: filter_id_conv)
  from assms(1,2) show ?thesis
  proof (induction m)
    case (Cons en m)
    show ?case
    proof (cases "fst en = rid")
      case True
      then have "en = (rid, s)" "rid \<notin> fst ` set m" using Cons.prems by (auto simp: hget_def hwf_def prod_eq_iff)
      then show ?thesis by (simp add: same other)
    next
      case False
      then have "filter (\<lambda>x. fst x = rid) (g en) = []" using assms(3) [of _ en] by (simp add: filter_empty_conv)
      with False Cons show ?thesis by (auto simp: hget_def hwf_def split: if_splits)
    qed
  qed simp
qed

lemma gates_name_their_rollout:
  "x \<in> set (fail_gate now ms en) \<Longrightarrow> fst x = fst en"
  "x \<in> set (pass_gate now en) \<Longrightarrow> fst x = fst en"
  by (cases en; auto simp: fail_gate_def pass_gate_def Let_def split: option.splits if_splits)+

lemma failing_probes_iff:
  "collect_failing_enforce_probes ps \<noteq> [] \<longleftrightarrow> (\<exists>r \<in> set (hvalues ps). pr_mode r = Enforce \<and> pr_status r = Fail)"
  by (force simp: collect_failing_enforce_probes_def hvalues_def filter_empty_conv)

lemma enforce_pass_iff:
  "all_enforce_probes_pass ps \<longleftrightarrow> (\<forall>r \<in> set (hvalues ps). pr_mode r = Enforce \<longrightarrow> pr_status r = Pass)"
  by (auto simp: all_enforce_probes_pass_def list_all_iff)

lemma fail_gate_iff:
  "hrs_state s = HS_Soaking \<Longrightarrow> agent_resolve_policy ms (hrs_channel s) = Some p \<Longrightarrow>
     fail_gate now ms (rid, s) =
       (if sustained_failure now s
        then [(rid, LocalSustainedFailureCrossed now
                 (word_of_int (num_seconds (now - the (hrs_probe_failure_first_at s))))
                 (collect_failing_enforce_probes (hrs_probes s)) (pol_on_health_failure p) 0)]
        else [])"
  using failing_probes_iff [of "hrs_probes s"]
  by (auto simp: fail_gate_def sustained_failure_def SUSTAINED_FAILURE_THRESHOLD_SECS_def Let_def split: option.split)

lemma pass_gate_iff:
  "hrs_state s = HS_Soaking \<Longrightarrow>
     pass_gate now (rid, s) =
       (if convergence_due now s then [(rid, LocalConvergedReached now (hrs_target_closure s) 0)] else [])"
  by (auto simp: pass_gate_def convergence_due_def enforce_pass_iff not_less split: option.split)

lemma gates_exclusive: "sustained_failure now s \<Longrightarrow> \<not> convergence_due now s"
  by (auto simp: sustained_failure_def convergence_due_def)

section \<open>Properties\<close>

text \<open>
  A tick of the agent decides every soaking rollout: it fails when an enforce-mode probe has been
  failing for the threshold, with the policy its channel resolves to; it converges when the soak is
  over, the target closure runs and every enforce-mode probe passes; otherwise its record is left
  alone. The records of other rollouts, in whatever order the map lists them, do not matter.
\<close>

lemma advance_tick_decides:
  assumes "hwf (ag_host_states a)" "hget (ag_host_states a) rid = Some s" "hrs_state s = HS_Soaking"
    "agent_resolve_policy (ag_manifests a) (hrs_channel s) = Some p"
    "hrs_last_event_seq s < hrs_last_event_seq s + 1"
  shows "\<exists>s'. hget (ag_host_states (run_advance_tick env now a)) rid = Some s'
    \<and> (if sustained_failure now s
       then hrs_state s' = HS_Failed \<and> hrs_policy_applied s' = Some (pol_on_health_failure p)
       else if convergence_due now s
       then hrs_state s' = HS_Converged \<and> hrs_converged_at s' = Some now
       else s' = s)"
proof -
  have synth: "filter (\<lambda>x. fst x = rid) (concat (map (fail_gate now (ag_manifests a)) (ag_host_states a))
      @ concat (map (pass_gate now) (ag_host_states a)))
    = fail_gate now (ag_manifests a) (rid, s) @ pass_gate now (rid, s)"
    using gates_name_their_rollout by (simp add: gate_of_record [OF assms(1,2)])
  have seq: "\<not> hrs_last_event_seq s + 1 \<le> hrs_last_event_seq s" using assms(5) by simp
  show ?thesis
    using assms(2-4) seq gates_exclusive [of now s]
    unfolding run_advance_tick_def Let_def fold_events_record synth
    by (auto simp: fail_gate_iff pass_gate_iff record_after_def step_def dispatch_def
        verify_converged_invariants_def convergence_due_def list_ex_iff split: sum.split option.splits)
qed

text \<open>
  Every record of the agent is sound and every event it emits is accounted for: whatever its
  workers report and however the drainer interleaves, the record of a rollout satisfies the phase
  invariant, and the events handed to the queue for the rollout are numbered 1, 2, 3, up to the
  record's last number, without a gap or a repetition.
\<close>

lemma agent_events_numbered:
  assumes "\<forall>act \<in> set acts. worker_action policy act"
    and "hget (ag_host_states (agent_run env acts)) rid = Some s"
  shows "host_inv s \<and> hrs_rollout_id s = rid
    \<and> map (unat \<circ> qe_seq) (emitted_for rid (ag_queue_ops (agent_run env acts)))
      = [1..<Suc (unat (hrs_last_event_seq s))]"
proof -
  from agent_run_history [OF assms(1), of env]
  have "rollout_history policy (hget (ag_host_states (agent_run env acts)) rid) (ag_queue_ops (agent_run env acts)) rid"
    by (simp add: history_ok_def)
  then have h: "rollout_history policy (Some s) (ag_queue_ops (agent_run env acts)) rid" by (simp add: assms(2))
  then have "host_inv s"
    by (auto simp: rollout_history_def has_history_def intro: host_machine.run_inv [OF new_pending_inv])
  with h show ?thesis using has_history_id by (auto simp: rollout_history_def)
qed

lemma sample_workers: "\<forall>act \<in> set sample_acts. worker_action sample_policy act"
proof -
  have "agrees sample_policy (Some sample_ms)"
    by (auto simp: agrees_def agent_resolve_policy_def sample_ms_def sm_fleet_inner_def hget_def
        split: option.splits if_splits)
  then show ?thesis by (simp add: sample_acts_def)
qed

lemma all_written_event:
  assumes "\<forall>e. ae_disk env e = IO_Done" "all_written (ag_queue_ops a)"
  shows "all_written (ag_queue_ops (run_host_event env now rid e a))"
  by (rule run_host_event_cases [of env now rid e a])
    (use assms in \<open>auto simp: apply_effects all_written_def Let_def split: queue_op.splits\<close>)

lemma all_written_events:
  assumes "\<forall>e. ae_disk env e = IO_Done"
  shows "all_written (ag_queue_ops a) \<Longrightarrow>
    all_written (ag_queue_ops (fold (\<lambda>(rid, e). run_host_event env now rid e) es a))"
  by (induction es arbitrary: a) (auto intro: all_written_event [OF assms])

lemma all_written_act:
  assumes "\<forall>e. ae_disk env e = IO_Done" "all_written (ag_queue_ops a)"
  shows "all_written (ag_queue_ops (agent_act env act a))"
proof (cases act)
  case (AgentTurn now i)
  show ?thesis
  proof (cases i)
    case (AgentHostEvent rid e)
    then show ?thesis using AgentTurn all_written_event [OF assms] by simp
  next
    case AgentAdvanceTick
    then show ?thesis using AgentTurn all_written_events [OF assms(1) assms(2)]
      by (simp add: run_advance_tick_def Let_def del: fold_append)
  next
    case (AgentBootstrapHost snap)
    then show ?thesis using AgentTurn assms
      by (auto simp: apply_bootstrap_snapshot_def Let_def apply_effects all_written_def split: queue_op.splits)
  qed (use AgentTurn assms in simp)
qed (use assms in \<open>simp add: all_written_def\<close>)

lemma agent_writes_done:
  assumes "\<forall>e. ae_disk env e = IO_Done"
  shows "emitted_for rid (ag_queue_ops (agent_run env acts))
    = filter (\<lambda>e. qe_rollout_id e = rid) (written (ag_queue_ops (agent_run env acts)))"
proof -
  have "all_written (ag_queue_ops (agent_run env acts))"
    unfolding agent_run_def
    by (induction acts rule: rev_induct) (simp_all add: all_written_act [OF assms], simp add: initial_agent_def all_written_def)
  then have "concat (map (\<lambda>op. case op of WriteEvent _ e \<Rightarrow> [e] | _ \<Rightarrow> []) (ag_queue_ops (agent_run env acts)))
      = written (ag_queue_ops (agent_run env acts))"
    unfolding written_def all_written_def
    by (intro arg_cong [where f = concat] map_cong) (auto split: queue_op.splits io_outcome.splits)
  then show ?thesis by (simp add: emitted_for_def)
qed

lemma numbered_increase:
  "map (unat \<circ> qe_seq) es = [1..<n] \<Longrightarrow> sorted_wrt (\<lambda>a b. qe_seq a < qe_seq b) es"
proof -
  assume *: "map (unat \<circ> qe_seq) es = [1..<n]"
  have "sorted_wrt (<) (map (unat \<circ> qe_seq) es)" unfolding * by simp
  then show ?thesis by (simp add: sorted_wrt_map word_less_nat_alt)
qed



text \<open>
  C34. A deferred activation is never reported: the activation worker sends the event with the number
  0 like every other, but the reducer has no arm that renumbers it, so the state machine refuses it as
  a replay whatever the record is. Neither the record nor the queue changes.
\<close>

theorem deferred_activation_dropped:
  "run_host_event env now rid (LocalActivationDeferred component deferred_at 0) a = a"
  by (auto simp: run_host_event_def Let_def step_def dispatch_def split: option.split)

end
