(* ===== verification/Agent_Activation.thy ===== *)
theory Agent_Activation
  imports Agent_Properties
begin

text \<open>
  The agent's activation worker (\<open>nixfleet-agent/src/runtime/workers/activation.rs\<close>) and the pipeline it
  drives (\<open>nixfleet-agent/src/activation\<close>): realise, set the profile, fire the switch, poll
  \<open>/run/current-system\<close>, and the rollback. The operating system (commands by their arguments, symbolic
  links, the clock) is a parameter: a record of functions on a world.
\<close>

section \<open>The operating system\<close>

record cmd_output =
  out_code :: "i32 option"
  out_stdout :: "byte list"
  out_stderr :: "byte list"

record 'w os =
  os_run :: "string list \<Rightarrow> 'w \<Rightarrow> (string + cmd_output) \<times> 'w"
    \<comment> \<open>spawn the command and wait: \<open>Inl\<close> when it cannot be spawned\<close>
  os_spawn :: "string \<Rightarrow> 'w \<Rightarrow> (string + unit) \<times> 'w"
    \<comment> \<open>spawn detached in a session of its own\<close>
  os_exists :: "string \<Rightarrow> 'w \<Rightarrow> bool"
  os_read_link :: "string \<Rightarrow> 'w \<Rightarrow> string + string"
  os_canonicalize :: "string \<Rightarrow> 'w \<Rightarrow> string + string"
  os_env_set :: "string \<Rightarrow> 'w \<Rightarrow> bool"
  os_now :: "'w \<Rightarrow> instant"
  os_sleep :: "duration \<Rightarrow> 'w \<Rightarrow> 'w"

definition status_success :: "cmd_output \<Rightarrow> bool" where
  "status_success out \<longleftrightarrow> out_code out = Some 0"

text \<open>A result of \<open>anyhow\<close>, or a panic, which ends the worker task.\<close>

datatype 'a outcome = Done 'a | Err string | Panics string

section \<open>Strings and paths\<close>

text \<open>
  \<open>String::from_utf8_lossy\<close>: each maximal ill-formed part becomes the replacement character. The
  range of the second byte depends on the first.
\<close>

definition REPLACEMENT :: "byte list" where
  "REPLACEMENT = [0xEF, 0xBF, 0xBD]"

definition second_ok :: "byte \<Rightarrow> byte \<Rightarrow> bool" where
  "second_ok b c \<longleftrightarrow>
     (if b = 0xE0 then 0xA0 \<le> c \<and> c \<le> 0xBF
      else if b = 0xED then 0x80 \<le> c \<and> c \<le> 0x9F
      else if b = 0xF0 then 0x90 \<le> c \<and> c \<le> 0xBF
      else if b = 0xF4 then 0x80 \<le> c \<and> c \<le> 0x8F
      else cont_byte c)"

fun utf8_lossy :: "byte list \<Rightarrow> byte list" where
  "utf8_lossy [] = []"
| "utf8_lossy (b # bs) =
     (if b \<le> 0x7F then b # utf8_lossy bs
      else if 0xC2 \<le> b \<and> b \<le> 0xDF then
        (case bs of
           c # cs \<Rightarrow> if cont_byte c then b # c # utf8_lossy cs else REPLACEMENT @ utf8_lossy bs
         | [] \<Rightarrow> REPLACEMENT)
      else if 0xE0 \<le> b \<and> b \<le> 0xEF then
        (case bs of
           c # d # ds \<Rightarrow>
             if second_ok b c
             then if cont_byte d then b # c # d # utf8_lossy ds else REPLACEMENT @ utf8_lossy (d # ds)
             else REPLACEMENT @ utf8_lossy bs
         | [c] \<Rightarrow> if second_ok b c then REPLACEMENT else REPLACEMENT @ utf8_lossy bs
         | [] \<Rightarrow> REPLACEMENT)
      else if 0xF0 \<le> b \<and> b \<le> 0xF4 then
        (case bs of
           c # d # e # es \<Rightarrow>
             if second_ok b c
             then if cont_byte d
                  then if cont_byte e then b # c # d # e # utf8_lossy es else REPLACEMENT @ utf8_lossy (e # es)
                  else REPLACEMENT @ utf8_lossy (d # e # es)
             else REPLACEMENT @ utf8_lossy bs
         | [c, d] \<Rightarrow>
             if second_ok b c
             then if cont_byte d then REPLACEMENT else REPLACEMENT @ utf8_lossy [d]
             else REPLACEMENT @ utf8_lossy bs
         | [c] \<Rightarrow> if second_ok b c then REPLACEMENT else REPLACEMENT @ utf8_lossy bs
         | [] \<Rightarrow> REPLACEMENT)
      else REPLACEMENT @ utf8_lossy bs)"

definition from_utf8_lossy :: "byte list \<Rightarrow> string" where
  "from_utf8_lossy bs = map (\<lambda>b. char_of (unat b)) (utf8_lossy bs)"

text \<open>Slicing a \<open>str\<close> from an index panics unless a character starts there.\<close>

definition is_char_boundary :: "string \<Rightarrow> nat \<Rightarrow> bool" where
  "is_char_boundary s i \<longleftrightarrow>
     i = 0 \<or> i = length s \<or> (i < length s \<and> \<not> cont_byte (word_of_nat (of_char (s ! i))))"

definition slice_from :: "string \<Rightarrow> nat \<Rightarrow> string option" where
  "slice_from s i = (if is_char_boundary s i then Some (drop i s) else None)"

text \<open>\<open>to_lowercase\<close> on the ASCII letters (the phrases it is compared with are ASCII).\<close>

definition to_lowercase :: "string \<Rightarrow> string" where
  "to_lowercase s = map (\<lambda>c. let n = (of_char c :: nat) in if 65 \<le> n \<and> n \<le> 90 then char_of (n + 32) else c) s"

fun starts_with :: "string \<Rightarrow> string \<Rightarrow> bool" where
  "starts_with s [] = True"
| "starts_with [] (p # ps) = False"
| "starts_with (c # cs) (p # ps) = (if c = p then starts_with cs ps else False)"

fun contains :: "string \<Rightarrow> string \<Rightarrow> bool" where
  "contains [] needle = (needle = [])"
| "contains (c # cs) needle = (if starts_with (c # cs) needle then True else contains cs needle)"

definition is_space :: "char \<Rightarrow> bool" where
  "is_space c \<longleftrightarrow> (let n = (of_char c :: nat) in n = 32 \<or> (9 \<le> n \<and> n \<le> 13))"

definition trim :: "string \<Rightarrow> string" where
  "trim s = rev (dropWhile is_space (rev (dropWhile is_space s)))"

text \<open>\<open>str::lines\<close>: split at line feeds, without a final empty line; \<open>trim\<close> removes a carriage return.\<close>

definition first_line :: "string \<Rightarrow> string option" where
  "first_line s = (if s = [] then None else Some (takeWhile (\<lambda>c. c \<noteq> CHR 0x0A) s))"

fun split_slash :: "string \<Rightarrow> string list" where
  "split_slash [] = [[]]"
| "split_slash (c # cs) =
     (if c = CHR ''/'' then [] # split_slash cs
      else case split_slash cs of [] \<Rightarrow> [[c]] | x # xs \<Rightarrow> (c # x) # xs)"

definition file_name :: "string \<Rightarrow> string option" where
  "file_name p =
     (case rev (filter (\<lambda>c. c \<noteq> [] \<and> c \<noteq> ''.'') (split_slash p)) of
        [] \<Rightarrow> None
      | x # _ \<Rightarrow> if x = ''..'' then None else Some x)"

definition is_relative :: "string \<Rightarrow> bool" where
  "is_relative p \<longleftrightarrow> \<not> starts_with p ''/''"

text \<open>\<open>{:?}\<close> of an exit code.\<close>

definition show_i32 :: "i32 \<Rightarrow> string" where
  "show_i32 x = (if sint x < 0 then ''-'' @ show_nat (nat (- sint x)) else show_nat (nat (sint x)))"

definition show_code :: "i32 option \<Rightarrow> string" where
  "show_code c = (case c of None \<Rightarrow> ''None'' | Some x \<Rightarrow> ''Some('' @ show_i32 x @ '')'')"

section \<open>types.rs\<close>

record ActivationTarget =
  at_closure_hash :: ClosureHash
  at_channel_ref :: string

datatype ActivationOutcome =
    FiredAndPolled
  | RealiseFailed string
  | SignatureMismatch ClosureHash string
  | SwitchFailed string "i32 option"
  | VerifyMismatch string string
  | DeferredPendingReboot string

datatype RollbackOutcome =
    RollbackFiredAndPolled ClosureHash
  | RollbackFailed string "i32 option"

record 'w backend =
  is_switch_in_progress :: "'w \<Rightarrow> bool"
  read_unit_exit_code :: "string \<Rightarrow> 'w \<Rightarrow> i32 option"
  fire_switch :: "ActivationTarget \<Rightarrow> string \<Rightarrow> 'w \<Rightarrow> ActivationOutcome option outcome \<times> 'w"
  fire_rollback :: "string \<Rightarrow> 'w \<Rightarrow> RollbackOutcome option outcome \<times> 'w"

definition POLL_BUDGET :: duration where
  "POLL_BUDGET = seconds 300"

definition POLL_INTERVAL :: duration where
  "POLL_INTERVAL = seconds 2"

section \<open>realise.rs\<close>

datatype RealiseError = RE_SignatureMismatch string | RE_Other string | RE_Panic

definition looks_like_signature_error :: "string \<Rightarrow> bool" where
  "looks_like_signature_error stderr \<longleftrightarrow>
     (let lower = to_lowercase stderr
      in find (contains lower)
           [''lacks a valid signature'', ''no signature is trusted'', ''is not signed by any of the keys'',
            ''no signatures matched'', ''signature mismatch'', ''untrusted signature''] \<noteq> None)"

definition realise :: "'w os \<Rightarrow> string \<Rightarrow> 'w \<Rightarrow> (RealiseError + string) \<times> 'w" where
  "realise os store_path w =
     (let (res, w) = os_run os [''nix-store'', ''--realise'', store_path] w
      in (case res of
            Inl _ \<Rightarrow> Inl (RE_Other (''spawn nix-store --realise '' @ store_path))
          | Inr out \<Rightarrow>
            if \<not> status_success out
            then
              let stderr = from_utf8_lossy (out_stderr out)
              in if looks_like_signature_error stderr
                 then case slice_from stderr (length stderr - 500) of
                        Some tail \<Rightarrow> Inl (RE_SignatureMismatch tail)
                      | None \<Rightarrow> Inl RE_Panic
                 else Inl (RE_Other (''nix-store --realise '' @ store_path @ '' exited '' @ show_code (out_code out)
                             @ '': '' @ stderr))
            else case from_utf8 (out_stdout out) of
                   None \<Rightarrow> Inl (RE_Other ''nix-store --realise stdout not utf-8'')
                 | Some stdout \<Rightarrow>
                   case first_line stdout of
                     None \<Rightarrow> Inl (RE_Other ''nix-store --realise produced no output'')
                   | Some line \<Rightarrow> Inr (trim line), w))"

section \<open>verify_poll.rs\<close>

datatype PollOutcome = Settled | Timeout string | FlippedToUnexpected string

definition read_current_system_basename :: "'w os \<Rightarrow> 'w \<Rightarrow> string + string" where
  "read_current_system_basename os w =
     (case os_read_link os ''/run/current-system'' w of
        Inl _ \<Rightarrow> Inl ''readlink /run/current-system''
      | Inr target \<Rightarrow>
        case file_name target of
          None \<Rightarrow> Inl (''/run/current-system target has no utf-8 basename: '' @ target)
        | Some b \<Rightarrow> Inr b)"

text \<open>
  The loop of \<open>until_settled\<close>, bounded: each turn reads the link, then gives up past the deadline or
  sleeps one interval. \<open>None\<close> means the bound was used up.
\<close>

fun poll_loop :: "'w os \<Rightarrow> string \<Rightarrow> string option \<Rightarrow> instant \<Rightarrow> nat \<Rightarrow> 'w \<Rightarrow> (PollOutcome \<times> 'w) option" where
  "poll_loop os expected previous deadline 0 w = None"
| "poll_loop os expected previous deadline (Suc n) w =
     (case read_current_system_basename os w of
        Inr basename \<Rightarrow>
          if basename = expected then Some (Settled, w)
          else if previous \<noteq> None \<and> previous \<noteq> Some basename then Some (FlippedToUnexpected basename, w)
          else if deadline \<le> os_now os w then Some (Timeout basename, w)
          else poll_loop os expected previous deadline n (os_sleep os POLL_INTERVAL w)
      | Inl err \<Rightarrow>
          if deadline \<le> os_now os w then Some (Timeout (''<read-error: '' @ err @ ''>''), w)
          else poll_loop os expected previous deadline n (os_sleep os POLL_INTERVAL w))"

text \<open>One turn per interval of the budget, and the one that finds the deadline passed.\<close>

definition POLL_TURNS :: nat where
  "POLL_TURNS = nat (POLL_BUDGET div POLL_INTERVAL) + 1"

definition until_settled :: "'w os \<Rightarrow> string \<Rightarrow> string option \<Rightarrow> 'w \<Rightarrow> (PollOutcome \<times> 'w) option" where
  "until_settled os expected previous w =
     poll_loop os expected previous (os_now os w + POLL_BUDGET) POLL_TURNS w"

section \<open>profile.rs\<close>

definition PROFILE :: string where
  "PROFILE = ''/nix/var/nix/profiles/system''"

definition PROFILE_PARENT :: string where
  "PROFILE_PARENT = ''/nix/var/nix/profiles''"

definition abs_gen_link :: "string \<Rightarrow> string" where
  "abs_gen_link gen_link = (if is_relative gen_link then PROFILE_PARENT @ ''/'' @ gen_link else gen_link)"

definition profile_matches :: "'w os \<Rightarrow> string \<Rightarrow> 'w \<Rightarrow> bool" where
  "profile_matches os expected_store_path w =
     (case os_read_link os PROFILE w of
        Inl _ \<Rightarrow> False
      | Inr gen_link \<Rightarrow>
        (case os_read_link os (abs_gen_link gen_link) w of
           Inr t \<Rightarrow> t = expected_store_path
         | Inl _ \<Rightarrow> abs_gen_link gen_link = expected_store_path))"

definition nix_env_set :: "'w os \<Rightarrow> string \<Rightarrow> 'w \<Rightarrow> (string + cmd_output) \<times> 'w" where
  "nix_env_set os store_path w = os_run os [''nix-env'', ''--profile'', PROFILE, ''--set'', store_path] w"

text \<open>The caller only logs the error of a self-correction.\<close>

definition self_correct_profile :: "'w os \<Rightarrow> string \<Rightarrow> 'w \<Rightarrow> unit outcome \<times> 'w" where
  "self_correct_profile os expected_store_path w =
     (if profile_matches os expected_store_path w then (Done (), w)
      else
        let (res, w) = nix_env_set os expected_store_path w
        in (case res of
              Inl _ \<Rightarrow> Err ''spawn nix-env --set (self-correction)''
            | Inr out \<Rightarrow>
              if \<not> status_success out
              then Err (''nix-env --set self-correction exited '' @ show_code (out_code out))
              else if \<not> profile_matches os expected_store_path w
              then Err ''profile still mismatched after nix-env --set self-correction''
              else Done (), w))"

definition resolve_profile_target :: "'w os \<Rightarrow> 'w \<Rightarrow> string + string" where
  "resolve_profile_target os w =
     (case os_read_link os PROFILE w of
        Inl _ \<Rightarrow> Inl ''readlink /nix/var/nix/profiles/system''
      | Inr gen_link \<Rightarrow>
        case os_read_link os (abs_gen_link gen_link) w of
          Inl _ \<Rightarrow> Inl (''readlink '' @ abs_gen_link gen_link)
        | Inr store_path \<Rightarrow>
          case file_name store_path of
            None \<Rightarrow> Inl (''non-utf8 basename: '' @ store_path)
          | Some b \<Rightarrow> Inr b)"

section \<open>pipeline.rs and rollback.rs\<close>

definition settle_switch ::
  "'w os \<Rightarrow> 'w backend \<Rightarrow> ActivationTarget \<Rightarrow> string \<Rightarrow> string \<Rightarrow> 'w \<Rightarrow> (ActivationOutcome outcome \<times> 'w) option" where
  "settle_switch os backend target store_path previous_basename w =
     (case until_settled os (at_closure_hash target) (Some previous_basename) w of
        None \<Rightarrow> None
      | Some (Settled, w) \<Rightarrow> Some (Done FiredAndPolled, snd (self_correct_profile os store_path w))
      | Some (Timeout _, w) \<Rightarrow>
          Some (Done (SwitchFailed ''switch-poll-timeout''
            (read_unit_exit_code backend ''nixfleet-switch.service'' w)), w)
      | Some (FlippedToUnexpected observed, w) \<Rightarrow>
          Some (Done (VerifyMismatch (at_closure_hash target) observed), w))"

definition activate_with ::
  "'w os \<Rightarrow> 'w backend \<Rightarrow> ActivationTarget \<Rightarrow> 'w \<Rightarrow> (ActivationOutcome outcome \<times> 'w) option" where
  "activate_with os backend target w =
     (if is_switch_in_progress backend w
      then Some (Done (RealiseFailed
             ''switch-to-configuration lock held by another process; will retry on next tick''), w)
      else
        let store_path = ''/nix/store/'' @ at_closure_hash target;
            (res, w) = realise os store_path w
        in case res of
             Inl (RE_SignatureMismatch tail) \<Rightarrow> Some (Done (SignatureMismatch (at_closure_hash target) tail), w)
           | Inl (RE_Other err) \<Rightarrow> Some (Done (RealiseFailed err), w)
           | Inl RE_Panic \<Rightarrow> Some (Panics ''byte index is not a char boundary'', w)
           | Inr realised \<Rightarrow>
             if realised \<noteq> store_path
             then Some (Done (RealiseFailed
                    (''realised path '' @ realised @ '' does not match requested '' @ store_path)), w)
             else
               let (set_res, w) = nix_env_set os store_path w
               in case set_res of
                    Inl _ \<Rightarrow> Some (Err ''spawn nix-env --set'', w)
                  | Inr out \<Rightarrow>
                    if \<not> status_success out
                    then Some (Done (SwitchFailed ''nix-env-set'' (out_code out)), w)
                    else case read_current_system_basename os w of
                      Inl err \<Rightarrow>
                        Some (Done (RealiseFailed (''pre-switch /run/current-system read failed: '' @ err)), w)
                    | Inr previous_basename \<Rightarrow>
                      let (fired, w) = fire_switch backend target store_path w
                      in case fired of
                           Err e \<Rightarrow> Some (Err e, w)
                         | Panics e \<Rightarrow> Some (Panics e, w)
                         | Done (Some oc) \<Rightarrow> Some (Done oc, w)
                         | Done None \<Rightarrow> settle_switch os backend target store_path previous_basename w)"

definition settle_rollback ::
  "'w os \<Rightarrow> 'w backend \<Rightarrow> string \<Rightarrow> 'w \<Rightarrow> (RollbackOutcome outcome \<times> 'w) option" where
  "settle_rollback os backend target_basename w =
     (case until_settled os target_basename None w of
        None \<Rightarrow> None
      | Some (Settled, w) \<Rightarrow> Some (Done (RollbackFiredAndPolled target_basename), w)
      | Some (Timeout _, w) \<Rightarrow>
          Some (Done (RollbackFailed ''rollback-poll-timeout''
            (read_unit_exit_code backend ''nixfleet-rollback.service'' w)), w)
      | Some (FlippedToUnexpected _, w) \<Rightarrow>
          Some (Panics ''FlippedToUnexpected requires Some(previous_basename); rollback leaves it None'', w))"

definition rollback_with ::
  "'w os \<Rightarrow> 'w backend \<Rightarrow> 'w \<Rightarrow> (RollbackOutcome outcome \<times> 'w) option" where
  "rollback_with os backend w =
     (let (res, w) = os_run os [''nix-env'', ''--profile'', PROFILE, ''--rollback''] w
      in case res of
           Inl _ \<Rightarrow> Some (Err ''spawn nix-env --rollback'', w)
         | Inr out \<Rightarrow>
           if \<not> status_success out
           then Some (Done (RollbackFailed ''nix-env-rollback'' (out_code out)), w)
           else case resolve_profile_target os w of
             Inl _ \<Rightarrow> Some (Done (RollbackFailed ''discover-target'' None), w)
           | Inr target_basename \<Rightarrow>
             let (fired, w) = fire_rollback backend target_basename w
             in case fired of
                  Err e \<Rightarrow> Some (Err e, w)
                | Panics e \<Rightarrow> Some (Panics e, w)
                | Done (Some oc) \<Rightarrow> Some (Done oc, w)
                | Done None \<Rightarrow> settle_rollback os backend target_basename w)"

section \<open>linux.rs\<close>

definition SWITCH_LOCK_PATH :: string where
  "SWITCH_LOCK_PATH = ''/run/nixos/switch-to-configuration.lock''"

definition is_switch_in_progress_at :: "'w os \<Rightarrow> string \<Rightarrow> 'w \<Rightarrow> bool" where
  "is_switch_in_progress_at os lock_path w =
     (if \<not> os_exists os lock_path w then False
      else case fst (os_run os [''flock'', ''--nonblock'', ''--shared'', lock_path, ''true''] w) of
        Inr out \<Rightarrow> \<not> status_success out
      | Inl _ \<Rightarrow> False)"

text \<open>\<open>str::parse::<i32>\<close>: an optional sign and decimal digits, within the range of the type.\<close>

definition is_digit :: "char \<Rightarrow> bool" where
  "is_digit c \<longleftrightarrow> (let n = (of_char c :: nat) in 48 \<le> n \<and> n \<le> 57)"

definition decimal :: "string \<Rightarrow> int option" where
  "decimal s =
     (if s = [] \<or> \<not> list_all is_digit s then None
      else Some (foldl (\<lambda>a c. 10 * a + (int (of_char c) - 48)) 0 s))"

definition parse_i32 :: "string \<Rightarrow> i32 option" where
  "parse_i32 s =
     (let v = (case s of
                 c # cs \<Rightarrow> if c = CHR ''-'' then map_option uminus (decimal cs)
                          else if c = CHR ''+'' then decimal cs else decimal s
               | [] \<Rightarrow> None)
      in case v of
           Some x \<Rightarrow> if - (2 ^ 31) \<le> x \<and> x < 2 ^ 31 then Some (word_of_int x) else None
         | None \<Rightarrow> None)"

definition linux_read_unit_exit_code :: "'w os \<Rightarrow> string \<Rightarrow> 'w \<Rightarrow> i32 option" where
  "linux_read_unit_exit_code os unit_name w =
     (case fst (os_run os [''systemctl'', ''show'', ''--property=ExecMainStatus'', ''--value'', unit_name] w) of
        Inl _ \<Rightarrow> None
      | Inr out \<Rightarrow>
        if \<not> status_success out then None
        else case from_utf8 (out_stdout out) of
          None \<Rightarrow> None
        | Some stdout \<Rightarrow> if trim stdout = [] then None else parse_i32 (trim stdout))"

definition SWITCH_INHIBITORS :: "(string \<times> string) list" where
  "SWITCH_INHIBITORS =
     [(''dbus'', ''etc/systemd/system/dbus.service''), (''systemd'', ''sw/lib/systemd/systemd''), (''kernel'', ''kernel'')]"

definition detect_switch_inhibitors :: "'w os \<Rightarrow> string \<Rightarrow> string \<Rightarrow> 'w \<Rightarrow> string option" where
  "detect_switch_inhibitors os current_system new_store_path w =
     map_option fst (find (\<lambda>(_, rel_path).
       case (os_canonicalize os (current_system @ ''/'' @ rel_path) w,
             os_canonicalize os (new_store_path @ ''/'' @ rel_path) w) of
         (Inr c, Inr n) \<Rightarrow> c \<noteq> n
       | _ \<Rightarrow> False) SWITCH_INHIBITORS)"

definition linux_fire_switch ::
  "'w os \<Rightarrow> ActivationTarget \<Rightarrow> string \<Rightarrow> 'w \<Rightarrow> ActivationOutcome option outcome \<times> 'w" where
  "linux_fire_switch os target store_path w =
     (let switch_bin = store_path @ ''/bin/switch-to-configuration''
      in case detect_switch_inhibitors os ''/run/current-system'' store_path w of
           Some component \<Rightarrow>
             let (res, w) = os_run os [switch_bin, ''boot''] w
             in (case res of
                   Inl _ \<Rightarrow> Err (''spawn '' @ switch_bin @ '' boot'')
                 | Inr out \<Rightarrow>
                   if \<not> status_success out
                   then Done (Some (SwitchFailed ''defer-bootloader-update'' (out_code out)))
                   else Done (Some (DeferredPendingReboot component)), w)
         | None \<Rightarrow>
             let w = snd (os_run os [''systemctl'', ''reset-failed'', ''nixfleet-switch.service''] w);
                 (res, w) = os_run os [''systemd-run'', ''--unit=nixfleet-switch'', ''--collect'', ''--'', switch_bin, ''switch''] w
             in (case res of
                   Inl _ \<Rightarrow> Err ''spawn systemd-run --unit=nixfleet-switch''
                 | Inr out \<Rightarrow>
                   if \<not> status_success out
                   then Done (Some (SwitchFailed ''systemd-run-fire'' (out_code out)))
                   else Done None, w))"

definition rollback_switch_bin :: "string \<Rightarrow> string" where
  "rollback_switch_bin target_basename = ''/nix/store/'' @ target_basename @ ''/bin/switch-to-configuration''"

definition linux_fire_rollback :: "'w os \<Rightarrow> string \<Rightarrow> 'w \<Rightarrow> RollbackOutcome option outcome \<times> 'w" where
  "linux_fire_rollback os target_basename w =
     (let w = snd (os_run os [''systemctl'', ''reset-failed'', ''nixfleet-rollback.service''] w);
          (res, w) = os_run os [''systemd-run'', ''--unit=nixfleet-rollback'', ''--collect'', ''--'',
            rollback_switch_bin target_basename, ''switch''] w
      in (case res of
            Inl _ \<Rightarrow> Err ''spawn systemd-run --unit=nixfleet-rollback''
          | Inr out \<Rightarrow>
            if \<not> status_success out
            then Done (Some (RollbackFailed ''systemd-run-fire'' (out_code out)))
            else Done None, w))"

definition LinuxBackend :: "'w os \<Rightarrow> 'w backend" where
  "LinuxBackend os =
     \<lparr>is_switch_in_progress = is_switch_in_progress_at os SWITCH_LOCK_PATH,
      read_unit_exit_code = linux_read_unit_exit_code os,
      fire_switch = linux_fire_switch os, fire_rollback = linux_fire_rollback os\<rparr>"

section \<open>darwin.rs\<close>

definition darwin_fire_switch ::
  "'w os \<Rightarrow> ActivationTarget \<Rightarrow> string \<Rightarrow> 'w \<Rightarrow> ActivationOutcome option outcome \<times> 'w" where
  "darwin_fire_switch os target store_path w =
     (let activate_user = store_path @ ''/activate-user'';
          w = (if os_exists os activate_user w then snd (os_spawn os activate_user w) else w);
          (res, w) = os_spawn os (store_path @ ''/activate'') w
      in (case res of
            Inr _ \<Rightarrow> Done None
          | Inl _ \<Rightarrow> Done (Some (SwitchFailed ''darwin-activate-spawn'' None)), w))"

definition darwin_fire_rollback :: "'w os \<Rightarrow> string \<Rightarrow> 'w \<Rightarrow> RollbackOutcome option outcome \<times> 'w" where
  "darwin_fire_rollback os target_basename w =
     (let activate = ''/nix/store/'' @ target_basename @ ''/activate''
      in if \<not> os_exists os activate w
         then (Done (Some (RollbackFailed ''darwin-activate-missing'' None)), w)
         else
           let (res, w) = os_spawn os activate w
           in (case res of
                 Inr _ \<Rightarrow> Done None
               | Inl _ \<Rightarrow> Done (Some (RollbackFailed ''darwin-activate-spawn'' None)), w))"

definition DarwinBackend :: "'w os \<Rightarrow> 'w backend" where
  "DarwinBackend os =
     \<lparr>is_switch_in_progress = (\<lambda>_. False), read_unit_exit_code = (\<lambda>_ _. None),
      fire_switch = darwin_fire_switch os, fire_rollback = darwin_fire_rollback os\<rparr>"

section \<open>The worker\<close>

definition activation_event :: "instant \<Rightarrow> ActivationIntent \<Rightarrow> ActivationOutcome outcome \<Rightarrow> Event option" where
  "activation_event now intent res =
     (case res of
        Done FiredAndPolled \<Rightarrow> Some (LocalActivationCompleted (ai_target_closure intent) 0 now 0)
      | Done (DeferredPendingReboot component) \<Rightarrow> Some (LocalActivationDeferred component now 0)
      | Done (SignatureMismatch closure_hash stderr_tail) \<Rightarrow>
          Some (LocalActivationFailed (-2) (''signature mismatch on '' @ closure_hash @ '': '' @ stderr_tail) now 0)
      | Done (RealiseFailed reason) \<Rightarrow> Some (LocalActivationFailed (-1) (''realise failed: '' @ reason) now 0)
      | Done (SwitchFailed phase exit_code) \<Rightarrow>
          Some (LocalActivationFailed (case exit_code of Some x \<Rightarrow> x | None \<Rightarrow> -1) (''switch failed at phase '' @ phase) now 0)
      | Done (VerifyMismatch expected actual) \<Rightarrow>
          Some (LocalActivationFailed (-3) (''verify mismatch: expected='' @ expected @ '' actual='' @ actual) now 0)
      | Err err \<Rightarrow> Some (LocalActivationFailed (-1) (''activation pipeline error: '' @ err) now 0)
      | Panics _ \<Rightarrow> None)"

definition rollback_event :: "instant \<Rightarrow> RollbackOutcome outcome \<Rightarrow> Event option" where
  "rollback_event now res =
     (case res of
        Done (RollbackFiredAndPolled reverted_to_closure) \<Rightarrow> Some (LocalRollbackCompleted reverted_to_closure 0 now 0)
      | Done (RollbackFailed phase exit_code) \<Rightarrow>
          Some (LocalActivationFailed (case exit_code of Some x \<Rightarrow> x | None \<Rightarrow> -1) (''rollback failed at phase '' @ phase) now 0)
      | Err err \<Rightarrow> Some (LocalActivationFailed (-1) (''rollback pipeline error: '' @ err) now 0)
      | Panics _ \<Rightarrow> None)"

definition intent_target :: "ActivationIntent \<Rightarrow> ActivationTarget" where
  "intent_target intent =
     \<lparr>at_closure_hash = ai_target_closure intent, at_channel_ref = RolloutId_channel_ref (ai_rollout_id intent)\<rparr>"

definition activation_test_mode_enabled :: "'w os \<Rightarrow> 'w \<Rightarrow> bool" where
  "activation_test_mode_enabled os w = os_env_set os ''NIXFLEET_AGENT_ACTIVATION_TEST_MODE'' w"

text \<open>
  The inputs the worker sends to the reducer for one intent, in order. The clock is read before the
  pipeline runs. After a panic the task is gone and sends nothing more.
\<close>

definition handle_intent ::
  "'w os \<Rightarrow> 'w backend \<Rightarrow> ActivationIntent \<Rightarrow> 'w \<Rightarrow> (AgentInput list \<times> 'w) option" where
  "handle_intent os backend intent w =
     (let now = os_now os w;
          started = (if ai_rollback intent then []
                     else [AgentHostEvent (ai_rollout_id intent) (LocalActivationStarted now ''switch-to-configuration'' 0)]);
          send = (\<lambda>e. started @ (case e of None \<Rightarrow> [] | Some e \<Rightarrow> [AgentHostEvent (ai_rollout_id intent) e]))
      in if activation_test_mode_enabled os w
         then Some (send (Some (if ai_rollback intent
                then LocalRollbackCompleted (ai_target_closure intent) 0 now 0
                else LocalActivationCompleted (ai_target_closure intent) 0 now 0)), w)
         else if ai_rollback intent
         then case rollback_with os backend w of
                None \<Rightarrow> None
              | Some (res, w) \<Rightarrow> Some (send (rollback_event now res), w)
         else case activate_with os backend (intent_target intent) w of
                None \<Rightarrow> None
              | Some (res, w) \<Rightarrow> Some (send (activation_event now intent res), w))"

section \<open>Specification vocabulary and samples\<close>

text \<open>Sleeping an interval takes at least the interval.\<close>

definition clock_advances :: "'w os \<Rightarrow> bool" where
  "clock_advances os \<longleftrightarrow> (\<forall>w. os_now os w + POLL_INTERVAL \<le> os_now os (os_sleep os POLL_INTERVAL w))"

definition real_backend :: "'w os \<Rightarrow> 'w backend \<Rightarrow> bool" where
  "real_backend os backend \<longleftrightarrow> backend = LinuxBackend os \<or> backend = DarwinBackend os"

text \<open>
  A host with two system generations: the profile's generations and its current one, the running
  system, the store paths that can be realised, and the clock.
\<close>

record nix_world =
  nw_gens :: "string list"
  nw_current :: nat
  nw_system :: string
  nw_store :: "string list"
  nw_realise_stderr :: "byte list"
  nw_clock :: instant

definition nix_ok :: "string \<Rightarrow> cmd_output" where
  "nix_ok out = \<lparr>out_code = Some 0, out_stdout = as_bytes out, out_stderr = []\<rparr>"

definition nix_run :: "string list \<Rightarrow> nix_world \<Rightarrow> (string + cmd_output) \<times> nix_world" where
  "nix_run argv w =
     (if take 2 argv = [''nix-store'', ''--realise'']
      then (Inr (if argv ! 2 \<in> set (nw_store w) then nix_ok (argv ! 2)
                 else \<lparr>out_code = Some 1, out_stdout = [], out_stderr = nw_realise_stderr w\<rparr>), w)
      else if take 4 argv = [''nix-env'', ''--profile'', PROFILE, ''--set'']
      then (Inr (nix_ok []), w\<lparr>nw_gens := take (nw_current w + 1) (nw_gens w) @ [drop 11 (argv ! 4)],
              nw_current := nw_current w + 1\<rparr>)
      else if take 4 argv = [''nix-env'', ''--profile'', PROFILE, ''--rollback'']
      then if nw_current w = 0 then (Inr \<lparr>out_code = Some 1, out_stdout = [], out_stderr = []\<rparr>, w)
           else (Inr (nix_ok []), w\<lparr>nw_current := nw_current w - 1\<rparr>)
      else if take 1 argv = [''systemd-run'']
      then (Inr (nix_ok []), w\<lparr>nw_system := nw_gens w ! nw_current w\<rparr>)
      else (Inr (nix_ok []), w))"

definition nix_read_link :: "string \<Rightarrow> nix_world \<Rightarrow> string + string" where
  "nix_read_link p w =
     (if p = PROFILE then Inr ''system-link''
      else if p = PROFILE_PARENT @ ''/system-link'' then Inr (''/nix/store/'' @ nw_gens w ! nw_current w)
      else if p = ''/run/current-system'' then Inr (''/nix/store/'' @ nw_system w)
      else Inl ''no such file'')"

definition nix_os :: "nix_world os" where
  "nix_os =
     \<lparr>os_run = nix_run, os_spawn = (\<lambda>_ w. (Inr (), w)), os_exists = (\<lambda>_ _. False),
      os_read_link = nix_read_link, os_canonicalize = (\<lambda>_ _. Inl ''no such file''),
      os_env_set = (\<lambda>_ _. False), os_now = nw_clock, os_sleep = (\<lambda>d w. w\<lparr>nw_clock := nw_clock w + d\<rparr>)\<rparr>"

definition nix_host :: "string list \<Rightarrow> byte list \<Rightarrow> nix_world" where
  "nix_host store err =
     \<lparr>nw_gens = [''older'', ''p''], nw_current = 1, nw_system = ''p'', nw_store = store,
      nw_realise_stderr = err, nw_clock = 0\<rparr>"

definition sample_intent :: ActivationIntent where
  "sample_intent = \<lparr>ai_rollout_id = rid_a, ai_target_closure = ''t'', ai_rollback = False\<rparr>"

text \<open>The agent right after it acted on a dispatch, and what it does with a worker's inputs.\<close>

definition dispatched_agent :: agent_state where
  "dispatched_agent = agent_run sample_env
     [AgentTurn 0 (AgentManifestSetUpdated sample_ms), AgentTurn 1 (AgentHostEvent rid_a (LocalActivate ''p'' ''t'' 1 5 0))]"

definition feed_agent :: "instant \<Rightarrow> AgentInput list \<Rightarrow> agent_state \<Rightarrow> agent_state" where
  "feed_agent now inputs a = fold (agent_input sample_env now) inputs a"

definition next_intent :: "agent_state \<Rightarrow> nat \<Rightarrow> nix_world \<Rightarrow> AgentInput list \<times> nix_world" where
  "next_intent a i w = the (handle_intent nix_os (LinuxBackend nix_os) (ag_intents a ! i) w)"

section \<open>The poll\<close>

lemma poll_loop_returns:
  assumes "clock_advances os"
  shows "deadline \<le> os_now os w + int n * POLL_INTERVAL \<Longrightarrow> \<exists>r. poll_loop os expected previous deadline (Suc n) w = Some r"
proof (induction n arbitrary: w)
  case (Suc n)
  have "os_now os w + POLL_INTERVAL \<le> os_now os (os_sleep os POLL_INTERVAL w)"
    using assms by (simp add: clock_advances_def)
  then have "deadline \<le> os_now os (os_sleep os POLL_INTERVAL w) + int n * POLL_INTERVAL"
    using Suc.prems by (simp add: algebra_simps)
  from Suc.IH [OF this] show ?case
    by (subst poll_loop.simps) (auto simp del: poll_loop.simps split: sum.split)
qed (auto split: sum.split)

lemma POLL_TURNS_eq: "POLL_TURNS = Suc 150"
  by code_simp

lemma until_settled_returns: "clock_advances os \<Longrightarrow> \<exists>r. until_settled os expected previous w = Some r"
  using poll_loop_returns [of os "os_now os w + POLL_BUDGET" w 150 expected previous]
  unfolding until_settled_def POLL_TURNS_eq by (simp add: POLL_BUDGET_def POLL_INTERVAL_def seconds_def del: poll_loop.simps)

lemma poll_settled:
  "poll_loop os expected previous deadline n w = Some (Settled, w') \<Longrightarrow> read_current_system_basename os w' = Inr expected"
  by (induction n arbitrary: w) (auto split: sum.splits if_splits)

lemma until_settled_read:
  "until_settled os expected previous w = Some (Settled, w') \<Longrightarrow> read_current_system_basename os w' = Inr expected"
  by (auto simp: until_settled_def intro: poll_settled)

lemma poll_no_flip: "poll_loop os expected None deadline n w \<noteq> Some (FlippedToUnexpected b, w')"
  by (induction n arbitrary: w) (auto split: sum.splits if_splits)

lemma settle_switch_returns: "clock_advances os \<Longrightarrow> settle_switch os backend target store_path previous w \<noteq> None"
  using until_settled_returns [of os "at_closure_hash target" "Some previous" w]
  by (auto simp: settle_switch_def split: PollOutcome.split)

lemma settle_rollback_returns: "clock_advances os \<Longrightarrow> settle_rollback os backend target_basename w \<noteq> None"
  using until_settled_returns [of os target_basename None w]
  by (auto simp: settle_rollback_def split: PollOutcome.split)

lemma activate_returns: "clock_advances os \<Longrightarrow> activate_with os backend target w \<noteq> None"
  using settle_switch_returns [of os backend target]
  by (simp add: activate_with_def Let_def split: prod.split sum.split RealiseError.split outcome.split option.split)

lemma rollback_returns: "clock_advances os \<Longrightarrow> rollback_with os backend w \<noteq> None"
  using settle_rollback_returns [of os backend]
  by (simp add: rollback_with_def Let_def split: prod.split sum.split outcome.split option.split)

section \<open>What a success means\<close>

lemma settle_switch_success:
  "settle_switch os backend target store_path previous w = Some (Done FiredAndPolled, w') \<Longrightarrow>
     \<exists>w1. read_current_system_basename os w1 = Inr (at_closure_hash target)"
  by (auto simp: settle_switch_def split: option.splits PollOutcome.splits prod.splits intro: until_settled_read)

lemma fire_switch_reports: "real_backend os backend \<Longrightarrow> fst (fire_switch backend target store_path w) \<noteq> Done (Some FiredAndPolled)"
  by (auto simp: real_backend_def LinuxBackend_def DarwinBackend_def linux_fire_switch_def darwin_fire_switch_def Let_def
      split: if_splits option.splits prod.splits sum.splits)

lemma activate_success:
  assumes "real_backend os backend" "activate_with os backend target w = Some (Done FiredAndPolled, w')"
  shows "fst (realise os (''/nix/store/'' @ at_closure_hash target) w) = Inr (''/nix/store/'' @ at_closure_hash target)
    \<and> (\<exists>w1. read_current_system_basename os w1 = Inr (at_closure_hash target))"
  using assms(2) fire_switch_reports [OF assms(1)]
  by (auto simp: activate_with_def Let_def dest!: settle_switch_success
      split: if_splits prod.splits sum.splits RealiseError.splits outcome.splits option.splits)
    (metis fst_conv)+

lemma settle_rollback_success:
  "settle_rollback os backend b w = Some (Done (RollbackFiredAndPolled c), w') \<Longrightarrow> read_current_system_basename os w' = Inr c"
  by (auto simp: settle_rollback_def split: option.splits PollOutcome.splits prod.splits intro: until_settled_read)

lemma fire_rollback_reports:
  "real_backend os backend \<Longrightarrow> fst (fire_rollback backend b w) \<noteq> Done (Some (RollbackFiredAndPolled c))"
  by (auto simp: real_backend_def LinuxBackend_def DarwinBackend_def linux_fire_rollback_def darwin_fire_rollback_def Let_def
      split: if_splits prod.splits sum.splits)

lemma rollback_success:
  assumes "real_backend os backend" "rollback_with os backend w = Some (Done (RollbackFiredAndPolled c), w')"
  shows "read_current_system_basename os w' = Inr c"
  using assms(2) fire_rollback_reports [OF assms(1)]
  by (auto simp: rollback_with_def Let_def dest!: settle_rollback_success
      split: if_splits prod.splits sum.splits outcome.splits option.splits) (metis fst_conv)

section \<open>Properties\<close>






text \<open>
  A long signature error can end the worker: the tail of the error text is cut at a byte count, and
  where that falls inside a multi-byte character the slice panics. Nothing but the start is reported.
\<close>

lemma signature_error_panics:
  assumes "os_run os [''nix-store'', ''--realise'', ''/nix/store/'' @ ai_target_closure intent] w = (Inr out, w')"
    "\<not> status_success out" "looks_like_signature_error (from_utf8_lossy (out_stderr out))"
    "\<not> is_char_boundary (from_utf8_lossy (out_stderr out)) (length (from_utf8_lossy (out_stderr out)) - 500)"
    "\<not> ai_rollback intent" "\<not> activation_test_mode_enabled os w" "\<not> is_switch_in_progress backend w"
  shows "handle_intent os backend intent w =
    Some ([AgentHostEvent (ai_rollout_id intent) (LocalActivationStarted (os_now os w) ''switch-to-configuration'' 0)], w')"
  using assms
  by (simp add: handle_intent_def activate_with_def realise_def intent_target_def slice_from_def activation_event_def Let_def)

end
