(* ===== verification/Agent_Manifests.thy ===== *)
theory Agent_Manifests
  imports Agent_Activation
begin

text \<open>
  The agent's verified manifest cache (\<open>nixfleet-agent/src/manifest_cache.rs\<close>, \<open>freshness.rs\<close>) and the
  workers that feed the reducer from the control plane: the long poll (\<open>runtime/workers/longpoll.rs\<close>),
  the manifest poll (\<open>runtime/workers/manifest_poll.rs\<close>), the heartbeat
  (\<open>runtime/workers/heartbeat.rs\<close>) and the boot handshake (\<open>runtime/recovery.rs\<close>). The control plane is not
  trusted: what it answers (\<open>net\<close>, a reply for every URL) and what the disk holds are arbitrary. JSON
  parsers, cryptography and the outcome of writes are parameters. The readings of the clock during one
  verification are taken as one instant.
\<close>

section \<open>Data\<close>

record DispatchResponse =
  dr_hostname :: string
  dr_rollout_id :: RolloutId
  dr_target_closure :: ClosureHash
  dr_soak_due_at :: instant
  dr_enqueued_at :: instant

record HeartbeatRequest =
  hq_hostname :: string
  hq_rollout_id :: "RolloutId option"
  hq_current_closure :: "ClosureHash option"
  hq_at :: instant

record HeartbeatResponse =
  hp_received_at :: "instant option"
  hp_bootstrap_rollouts :: "HostRolloutSnapshot list"

text \<open>A reply: the status code and the body, which may fail to be read; or no reply.\<close>

datatype http_reply = NoReply string | Reply nat "string + byte list"

text \<open>
  The files of the host by path, and the outcome of a write: whether it succeeds, and what it leaves
  under the path. A write touches no other path.
\<close>

type_synonym files = "(string, byte list) hmap"

record ('v, 'ek, 'pt, 'pk, 'ps) agent_io =
  io_crypto :: "('v, 'ek, 'pt, 'pk, 'ps) crypto"
  io_parse_manifest :: "string \<Rightarrow> string + RolloutManifest"
  io_parse_fleet :: "string \<Rightarrow> string + FleetResolved"
  io_parse_trust :: "string \<Rightarrow> string + TrustConfig"
  io_parse_dispatch :: "string \<Rightarrow> string + DispatchResponse option" \<comment> \<open>\<open>None\<close>: the JSON value \<open>null\<close>\<close>
  io_parse_heartbeat :: "string \<Rightarrow> string + HeartbeatResponse"
  io_mkdir :: "string \<Rightarrow> bool"
  io_write :: "string \<Rightarrow> byte list \<Rightarrow> bool \<times> byte list option"

record AgentConfig =
  cfg_machine_id :: string
  cfg_control_plane_url :: string
  cfg_state_dir :: string
  cfg_trust_file :: string
  cfg_current_system_path :: string
  cfg_manifest_freshness_window_secs :: u64

text \<open>Errors keep what their texts are made of.\<close>

datatype MissingReason =
    SendFailed string string
  | NotFound string
  | BadStatus string nat
  | BodyUnread string string

datatype VerifyReason = TrustUnreadable | TrustUnparsed string | NotVerified VerifyError

datatype MismatchReason =
    PathTraversal string
  | OtherRollout string string
  | NotMember string u32
  | NoSuchHost string
  | OtherTarget ClosureHash ClosureHash string
  | HashFailed VerifyError

datatype ManifestError =
    Missing MissingReason
  | VerifyFailed VerifyReason
  | Mismatch MismatchReason

section \<open>manifest\_cache.rs\<close>

definition DEFAULT_FRESHNESS_WINDOW_SECS :: u64 where
  "DEFAULT_FRESHNESS_WINDOW_SECS = 3600"

record ManifestCache =
  mc_rollouts_dir :: string
  mc_fleet_dir :: string
  mc_trust_path :: string
  mc_freshness_window :: duration

text \<open>\<open>Path::join\<close>.\<close>

definition path_join :: "string \<Rightarrow> string \<Rightarrow> string" where
  "path_join dir p =
     (if starts_with p ''/'' \<or> dir = [] then p
      else if last dir = CHR ''/'' then dir @ p else dir @ ''/'' @ p)"

definition new_with_freshness :: "string \<Rightarrow> string \<Rightarrow> duration \<Rightarrow> ManifestCache" where
  "new_with_freshness state_dir trust_path freshness_window =
     \<lparr>mc_rollouts_dir = path_join state_dir ''rollouts'', mc_fleet_dir = path_join state_dir ''fleet'',
      mc_trust_path = trust_path, mc_freshness_window = freshness_window\<rparr>"

definition manifest_path :: "ManifestCache \<Rightarrow> string \<Rightarrow> string" where
  "manifest_path mc rollout_id = path_join (mc_rollouts_dir mc) (rollout_id @ ''.json'')"

definition signature_path :: "ManifestCache \<Rightarrow> string \<Rightarrow> string" where
  "signature_path mc rollout_id = path_join (mc_rollouts_dir mc) (rollout_id @ ''.json.sig'')"

definition fleet_path :: "ManifestCache \<Rightarrow> string" where
  "fleet_path mc = path_join (mc_fleet_dir mc) ''fleet.resolved.json''"

definition fleet_sig_path :: "ManifestCache \<Rightarrow> string" where
  "fleet_sig_path mc = path_join (mc_fleet_dir mc) ''fleet.resolved.json.sig''"

definition read_pair :: "string \<Rightarrow> string \<Rightarrow> files \<Rightarrow> (byte list \<times> byte list) option" where
  "read_pair p q fs =
     (case (hget fs p, hget fs q) of (Some m, Some s) \<Rightarrow> Some (m, s) | _ \<Rightarrow> None)"

definition read_cached_bytes :: "ManifestCache \<Rightarrow> string \<Rightarrow> files \<Rightarrow> (byte list \<times> byte list) option" where
  "read_cached_bytes mc rollout_id = read_pair (manifest_path mc rollout_id) (signature_path mc rollout_id)"

definition read_cached_fleet_bytes :: "ManifestCache \<Rightarrow> files \<Rightarrow> (byte list \<times> byte list) option" where
  "read_cached_fleet_bytes mc = read_pair (fleet_path mc) (fleet_sig_path mc)"

definition load_trust_roots ::
  "('v, 'ek, 'pt, 'pk, 'ps) agent_io \<Rightarrow> ManifestCache \<Rightarrow> instant \<Rightarrow> files \<Rightarrow>
   VerifyReason + TrustedPubkey list \<times> instant option" where
  "load_trust_roots io mc now fs =
     (case Option.bind (hget fs (mc_trust_path mc)) from_utf8 of
        None \<Rightarrow> Inl TrustUnreadable
      | Some raw \<Rightarrow>
        case io_parse_trust io raw of
          Inl e \<Rightarrow> Inl (TrustUnparsed e)
        | Inr trust \<Rightarrow>
          Inr (active_keys_at (tc_ci_release_key trust) now, ks_reject_before (tc_ci_release_key trust)))"

definition validate_rollout_id_for_path :: "string \<Rightarrow> ManifestError + unit" where
  "validate_rollout_id_for_path rollout_id =
     (if CHR ''/'' \<in> set rollout_id \<or> contains rollout_id ''..''
      then Inl (Mismatch (PathTraversal rollout_id)) else Inr ())"

definition assert_rollout_id_matches :: "RolloutManifest \<Rightarrow> string \<Rightarrow> ManifestError + unit" where
  "assert_rollout_id_matches manifest advertised =
     (let parsed = as_str (RolloutId_new (rm_channel manifest) (rm_channel_ref manifest))
      in if parsed \<noteq> advertised then Inl (Mismatch (OtherRollout advertised parsed)) else Inr ())"

definition verify_bytes ::
  "('v, 'ek, 'pt, 'pk, 'ps) agent_io \<Rightarrow> ManifestCache \<Rightarrow> instant \<Rightarrow> files \<Rightarrow> byte list \<Rightarrow> byte list \<Rightarrow> string \<Rightarrow>
   ManifestError + RolloutManifest Verified" where
  "verify_bytes io mc now fs manifest_bytes signature_bytes advertised =
     (case load_trust_roots io mc now fs of
        Inl e \<Rightarrow> Inl (VerifyFailed e)
      | Inr (trusted_keys, reject_before) \<Rightarrow>
        case verify_rollout_manifest (io_crypto io) (io_parse_manifest io) manifest_bytes signature_bytes
               trusted_keys now (mc_freshness_window mc) reject_before of
          Inl e \<Rightarrow> Inl (VerifyFailed (NotVerified e))
        | Inr verified \<Rightarrow>
          case assert_rollout_id_matches (v_inner verified) advertised of
            Inl e \<Rightarrow> Inl e
          | Inr _ \<Rightarrow> Inr verified)"

definition assert_membership :: "RolloutManifest \<Rightarrow> string \<Rightarrow> u32 \<Rightarrow> ManifestError + unit" where
  "assert_membership manifest hostname wave_index =
     (if list_ex (\<lambda>h. hw_hostname h = hostname \<and> hw_wave_index h = wave_index) (rm_host_set manifest)
      then Inr () else Inl (Mismatch (NotMember hostname wave_index)))"

definition assert_target_closure :: "RolloutManifest \<Rightarrow> string \<Rightarrow> ClosureHash \<Rightarrow> ManifestError + unit" where
  "assert_target_closure manifest hostname expected =
     (case find (\<lambda>h. hw_hostname h = hostname) (rm_host_set manifest) of
        None \<Rightarrow> Inl (Mismatch (NoSuchHost hostname))
      | Some host \<Rightarrow>
        if hw_target_closure host \<noteq> expected
        then Inl (Mismatch (OtherTarget expected (hw_target_closure host) hostname)) else Inr ())"

definition put_file :: "('v, 'ek, 'pt, 'pk, 'ps) agent_io \<Rightarrow> string \<Rightarrow> byte list \<Rightarrow> files \<Rightarrow> bool \<times> files" where
  "put_file io p bytes fs =
     (let (ok, left) = io_write io p bytes
      in (ok, case left of Some b \<Rightarrow> hput p b fs | None \<Rightarrow> hremove p fs))"

text \<open>A failed write-through is logged; the files it left remain.\<close>

definition write_pair ::
  "('v, 'ek, 'pt, 'pk, 'ps) agent_io \<Rightarrow> string \<Rightarrow> string \<Rightarrow> string \<Rightarrow> byte list \<Rightarrow> byte list \<Rightarrow> files \<Rightarrow> files" where
  "write_pair io dir p q bytes sig fs =
     (if \<not> io_mkdir io dir then fs
      else let (ok, fs) = put_file io p bytes fs
           in if \<not> ok then fs else snd (put_file io q sig fs))"

definition write_cache ::
  "('v, 'ek, 'pt, 'pk, 'ps) agent_io \<Rightarrow> ManifestCache \<Rightarrow> string \<Rightarrow> byte list \<Rightarrow> byte list \<Rightarrow> files \<Rightarrow> files" where
  "write_cache io mc rollout_id =
     write_pair io (mc_rollouts_dir mc) (manifest_path mc rollout_id) (signature_path mc rollout_id)"

definition write_fleet_cache ::
  "('v, 'ek, 'pt, 'pk, 'ps) agent_io \<Rightarrow> ManifestCache \<Rightarrow> byte list \<Rightarrow> byte list \<Rightarrow> files \<Rightarrow> files" where
  "write_fleet_cache io mc = write_pair io (mc_fleet_dir mc) (fleet_path mc) (fleet_sig_path mc)"

definition fetch :: "(string \<Rightarrow> http_reply) \<Rightarrow> string \<Rightarrow> ManifestError + byte list" where
  "fetch net url =
     (case net url of
        NoReply e \<Rightarrow> Inl (Missing (SendFailed url e))
      | Reply status body \<Rightarrow>
        if status = 404 then Inl (Missing (NotFound url))
        else if \<not> (200 \<le> status \<and> status < 300) then Inl (Missing (BadStatus url status))
        else case body of Inl e \<Rightarrow> Inl (Missing (BodyUnread url e)) | Inr bytes \<Rightarrow> Inr bytes)"

definition trim_end_slash :: "string \<Rightarrow> string" where
  "trim_end_slash s = rev (dropWhile (\<lambda>c. c = CHR ''/'') (rev s))"

definition fetch_pair :: "(string \<Rightarrow> http_reply) \<Rightarrow> string \<Rightarrow> string \<Rightarrow> ManifestError + byte list \<times> byte list" where
  "fetch_pair net url sig_url =
     (case fetch net url of
        Inl e \<Rightarrow> Inl e
      | Inr bytes \<Rightarrow> case fetch net sig_url of Inl e \<Rightarrow> Inl e | Inr sig \<Rightarrow> Inr (bytes, sig))"

text \<open>The cached copy, when it still verifies; otherwise the caller fetches.\<close>

definition load_cached ::
  "('v, 'ek, 'pt, 'pk, 'ps) agent_io \<Rightarrow> ManifestCache \<Rightarrow> instant \<Rightarrow> string \<Rightarrow> files \<Rightarrow> RolloutManifest Verified option" where
  "load_cached io mc now rollout_id fs =
     (case read_cached_bytes mc rollout_id fs of
        None \<Rightarrow> None
      | Some (m, s) \<Rightarrow> case verify_bytes io mc now fs m s rollout_id of Inr v \<Rightarrow> Some v | Inl _ \<Rightarrow> None)"

definition fetch_or_load ::
  "('v, 'ek, 'pt, 'pk, 'ps) agent_io \<Rightarrow> ManifestCache \<Rightarrow> (string \<Rightarrow> http_reply) \<Rightarrow> instant \<Rightarrow> string \<Rightarrow> string \<Rightarrow> files \<Rightarrow>
   (ManifestError + RolloutManifest Verified) \<times> files" where
  "fetch_or_load io mc net now cp_url rollout_id fs =
     (case validate_rollout_id_for_path rollout_id of
        Inl e \<Rightarrow> (Inl e, fs)
      | Inr _ \<Rightarrow>
        case load_cached io mc now rollout_id fs of
          Some verified \<Rightarrow> (Inr verified, fs)
        | None \<Rightarrow>
          let url = trim_end_slash cp_url @ ''/v1/rollouts/'' @ rollout_id
          in case fetch_pair net url (url @ ''/sig'') of
               Inl e \<Rightarrow> (Inl e, fs)
             | Inr (manifest_bytes, sig_bytes) \<Rightarrow>
               case verify_bytes io mc now fs manifest_bytes sig_bytes rollout_id of
                 Inl e \<Rightarrow> (Inl e, fs)
               | Inr verified \<Rightarrow> (Inr verified, write_cache io mc rollout_id manifest_bytes sig_bytes fs))"

definition ensure ::
  "('v, 'ek, 'pt, 'pk, 'ps) agent_io \<Rightarrow> ManifestCache \<Rightarrow> (string \<Rightarrow> http_reply) \<Rightarrow> instant \<Rightarrow> string \<Rightarrow> string \<Rightarrow>
   string \<Rightarrow> u32 \<Rightarrow> files \<Rightarrow> (ManifestError + RolloutManifest Verified) \<times> files" where
  "ensure io mc net now cp_url rollout_id hostname wave_index fs =
     (case fetch_or_load io mc net now cp_url rollout_id fs of
        (Inl e, fs) \<Rightarrow> (Inl e, fs)
      | (Inr verified, fs) \<Rightarrow>
        (case assert_membership (v_inner verified) hostname wave_index of Inl e \<Rightarrow> Inl e | Inr _ \<Rightarrow> Inr verified, fs))"

definition ensure_for_dispatch ::
  "('v, 'ek, 'pt, 'pk, 'ps) agent_io \<Rightarrow> ManifestCache \<Rightarrow> (string \<Rightarrow> http_reply) \<Rightarrow> instant \<Rightarrow> string \<Rightarrow> string \<Rightarrow>
   string \<Rightarrow> ClosureHash \<Rightarrow> files \<Rightarrow> (ManifestError + RolloutManifest Verified) \<times> files" where
  "ensure_for_dispatch io mc net now cp_url rollout_id hostname expected fs =
     (case fetch_or_load io mc net now cp_url rollout_id fs of
        (Inl e, fs) \<Rightarrow> (Inl e, fs)
      | (Inr verified, fs) \<Rightarrow>
        (case assert_target_closure (v_inner verified) hostname expected of Inl e \<Rightarrow> Inl e | Inr _ \<Rightarrow> Inr verified, fs))"

definition verify_fleet_bytes ::
  "('v, 'ek, 'pt, 'pk, 'ps) agent_io \<Rightarrow> ManifestCache \<Rightarrow> instant \<Rightarrow> files \<Rightarrow> byte list \<Rightarrow> byte list \<Rightarrow>
   ManifestError + FleetResolved Verified" where
  "verify_fleet_bytes io mc now fs artifact_bytes signature_bytes =
     (case load_trust_roots io mc now fs of
        Inl e \<Rightarrow> Inl (VerifyFailed e)
      | Inr (trusted_keys, reject_before) \<Rightarrow>
        case verify_artifact (io_crypto io) (io_parse_fleet io) artifact_bytes signature_bytes trusted_keys now
               (mc_freshness_window mc) reject_before of
          Inl e \<Rightarrow> Inl (VerifyFailed (NotVerified e))
        | Inr verified \<Rightarrow> Inr verified)"

definition with_hash ::
  "('v, 'ek, 'pt, 'pk, 'ps) agent_io \<Rightarrow> byte list \<Rightarrow> FleetResolved Verified \<Rightarrow>
   ManifestError + FleetResolved Verified \<times> string" where
  "with_hash io bytes verified =
     (case canonical_hash_from_bytes (io_crypto io) bytes of
        Inl e \<Rightarrow> Inl (Mismatch (HashFailed e))
      | Inr hash \<Rightarrow> Inr (verified, hash))"

definition load_cached_fleet ::
  "('v, 'ek, 'pt, 'pk, 'ps) agent_io \<Rightarrow> ManifestCache \<Rightarrow> instant \<Rightarrow> files \<Rightarrow> (byte list \<times> FleetResolved Verified) option" where
  "load_cached_fleet io mc now fs =
     (case read_cached_fleet_bytes mc fs of
        None \<Rightarrow> None
      | Some (a, s) \<Rightarrow> case verify_fleet_bytes io mc now fs a s of Inr v \<Rightarrow> Some (a, v) | Inl _ \<Rightarrow> None)"

definition fetch_or_load_fleet ::
  "('v, 'ek, 'pt, 'pk, 'ps) agent_io \<Rightarrow> ManifestCache \<Rightarrow> (string \<Rightarrow> http_reply) \<Rightarrow> instant \<Rightarrow> string \<Rightarrow> files \<Rightarrow>
   (ManifestError + FleetResolved Verified \<times> string) \<times> files" where
  "fetch_or_load_fleet io mc net now cp_url fs =
     (case load_cached_fleet io mc now fs of
        Some (artifact_bytes, verified) \<Rightarrow> (with_hash io artifact_bytes verified, fs)
      | None \<Rightarrow>
        let url = trim_end_slash cp_url @ ''/v1/fleet.resolved''
        in case fetch_pair net url (url @ ''/sig'') of
             Inl e \<Rightarrow> (Inl e, fs)
           | Inr (artifact_bytes, sig_bytes) \<Rightarrow>
             case verify_fleet_bytes io mc now fs artifact_bytes sig_bytes of
               Inl e \<Rightarrow> (Inl e, fs)
             | Inr verified \<Rightarrow>
               case with_hash io artifact_bytes verified of
                 Inl e \<Rightarrow> (Inl e, fs)
               | Inr r \<Rightarrow> (Inr r, write_fleet_cache io mc artifact_bytes sig_bytes fs))"

section \<open>freshness.rs\<close>

datatype FreshnessCheck = Fresh | Stale instant u32 int

text \<open>The sum is one of 64-bit integers and cannot overflow.\<close>

definition check_signed_at :: "instant \<Rightarrow> u32 \<Rightarrow> instant \<Rightarrow> FreshnessCheck" where
  "check_signed_at signed_at freshness_window_secs now =
     (let age_secs = num_seconds (now - signed_at);
          limit = uint freshness_window_secs + CLOCK_SKEW_SLACK_SECS
      in if age_secs > limit then Stale signed_at freshness_window_secs age_secs else Fresh)"

section \<open>The manifest poll\<close>

definition tick_channel ::
  "('v, 'ek, 'pt, 'pk, 'ps) agent_io \<Rightarrow> ManifestCache \<Rightarrow> (string \<Rightarrow> http_reply) \<Rightarrow> instant \<Rightarrow> string \<Rightarrow>
   FleetResolved \<Rightarrow> string \<Rightarrow> string \<Rightarrow> (string, RolloutManifest Verified) hmap \<times> files \<Rightarrow>
   (string, RolloutManifest Verified) hmap \<times> files" where
  "tick_channel io mc net now cp_url fleet fleet_hash channel acc =
     (case acc of (rollouts, fs) \<Rightarrow>
        case compute_rollout_id_for_channel fleet fleet_hash channel of
          Inl _ \<Rightarrow> (rollouts, fs)
        | Inr None \<Rightarrow> (rollouts, fs)
        | Inr (Some rollout_id) \<Rightarrow>
          case fetch_or_load io mc net now cp_url rollout_id fs of
            (Inl _, fs) \<Rightarrow> (rollouts, fs)
          | (Inr verified, fs) \<Rightarrow>
            if rm_fleet_resolved_hash (v_inner verified) \<noteq> fleet_hash then (rollouts, fs)
            else (hput channel verified rollouts, fs))"

definition tick_once ::
  "('v, 'ek, 'pt, 'pk, 'ps) agent_io \<Rightarrow> ManifestCache \<Rightarrow> (string \<Rightarrow> http_reply) \<Rightarrow> instant \<Rightarrow> string \<Rightarrow> files \<Rightarrow>
   (ManifestError + SignedManifestSet) \<times> files" where
  "tick_once io mc net now cp_url fs =
     (case fetch_or_load_fleet io mc net now cp_url fs of
        (Inl e, fs) \<Rightarrow> (Inl e, fs)
      | (Inr (verified_fleet, fleet_hash), fs) \<Rightarrow>
        let (rollouts, fs) = fold (tick_channel io mc net now cp_url (v_inner verified_fleet) fleet_hash)
              (hkeys (fl_channels (v_inner verified_fleet))) ([], fs)
        in (Inr \<lparr>sm_fleet = verified_fleet, sm_rollouts = rollouts\<rparr>, fs))"

definition agent_cache :: "AgentConfig \<Rightarrow> ManifestCache" where
  "agent_cache cfg = new_with_freshness (cfg_state_dir cfg) (cfg_trust_file cfg)
     (seconds (uint (cfg_manifest_freshness_window_secs cfg)))"

text \<open>One turn of the worker: what it sends to the reducer.\<close>

definition manifest_poll_turn ::
  "('v, 'ek, 'pt, 'pk, 'ps) agent_io \<Rightarrow> AgentConfig \<Rightarrow> (string \<Rightarrow> http_reply) \<Rightarrow> instant \<Rightarrow> files \<Rightarrow>
   AgentInput list \<times> files" where
  "manifest_poll_turn io cfg net now fs =
     (case tick_once io (agent_cache cfg) net now (cfg_control_plane_url cfg) fs of
        (Inr ms, fs) \<Rightarrow> ([AgentManifestSetUpdated ms], fs)
      | (Inl _, fs) \<Rightarrow> ([], fs))"

section \<open>The long poll\<close>

definition WAIT_SECS :: nat where
  "WAIT_SECS = 60"

datatype longpoll_error =
    PollFailed string
  | PollStatus nat
  | PollBody string
  | OtherHost string
  | ManifestRefused RolloutId ManifestError
  | StaleManifest RolloutId instant u32 int

definition poll_once ::
  "('v, 'ek, 'pt, 'pk, 'ps) agent_io \<Rightarrow> http_reply \<Rightarrow> longpoll_error + DispatchResponse option" where
  "poll_once io reply =
     (case reply of
        NoReply e \<Rightarrow> Inl (PollFailed e)
      | Reply status body \<Rightarrow>
        if status = 204 then Inr None
        else if \<not> (200 \<le> status \<and> status < 300) then Inl (PollStatus status)
        else case body of
          Inl e \<Rightarrow> Inl (PollBody e)
        | Inr bytes \<Rightarrow>
          let trimmed = trim (from_utf8_lossy bytes)
          in if trimmed = [] \<or> trimmed = ''null'' then Inr None
             else case io_parse_dispatch io trimmed of Inl e \<Rightarrow> Inl (PollBody e) | Inr d \<Rightarrow> Inr d)"

definition read_current_closure :: "'w os \<Rightarrow> string \<Rightarrow> 'w \<Rightarrow> ClosureHash option" where
  "read_current_closure os p w = (case os_read_link os p w of Inl _ \<Rightarrow> None | Inr target \<Rightarrow> file_name target)"

text \<open>\<open>now\<close> is the instant of the verification, \<open>later\<close> that of the second freshness check.\<close>

definition handle_dispatch ::
  "('v, 'ek, 'pt, 'pk, 'ps) agent_io \<Rightarrow> AgentConfig \<Rightarrow> (string \<Rightarrow> http_reply) \<Rightarrow> instant \<Rightarrow> instant \<Rightarrow>
   ClosureHash option \<Rightarrow> DispatchResponse \<Rightarrow> files \<Rightarrow> (longpoll_error + AgentInput) \<times> files" where
  "handle_dispatch io cfg net now later current d fs =
     (if dr_hostname d \<noteq> cfg_machine_id cfg then (Inl (OtherHost (dr_hostname d)), fs)
      else case ensure_for_dispatch io (agent_cache cfg) net now (cfg_control_plane_url cfg)
                  (as_str (dr_rollout_id d)) (cfg_machine_id cfg) (dr_target_closure d) fs of
        (Inl e, fs) \<Rightarrow> (Inl (ManifestRefused (dr_rollout_id d) e), fs)
      | (Inr verified, fs) \<Rightarrow>
        (case check_signed_at (v_signed_at verified) 3600 later of
           Stale signed_at window age \<Rightarrow> Inl (StaleManifest (dr_rollout_id d) signed_at window age)
         | Fresh \<Rightarrow>
           Inr (AgentHostEvent (dr_rollout_id d)
             (LocalActivate (case current of Some c \<Rightarrow> c | None \<Rightarrow> [])
                (dr_target_closure d) (dr_enqueued_at d) (dr_soak_due_at d) 0)), fs))"

definition dispatch_url :: "AgentConfig \<Rightarrow> string" where
  "dispatch_url cfg = trim_end_slash (cfg_control_plane_url cfg) @ ''/v1/agent/dispatch?wait='' @ show_nat WAIT_SECS"

definition longpoll_turn ::
  "('v, 'ek, 'pt, 'pk, 'ps) agent_io \<Rightarrow> AgentConfig \<Rightarrow> (string \<Rightarrow> http_reply) \<Rightarrow> instant \<Rightarrow> instant \<Rightarrow>
   ClosureHash option \<Rightarrow> files \<Rightarrow> AgentInput list \<times> files" where
  "longpoll_turn io cfg net now later current fs =
     (case poll_once io (net (dispatch_url cfg)) of
        Inr (Some d) \<Rightarrow>
          (case handle_dispatch io cfg net now later current d fs of
             (Inr i, fs) \<Rightarrow> ([i], fs)
           | (Inl _, fs) \<Rightarrow> ([], fs))
      | _ \<Rightarrow> ([], fs))"

section \<open>The heartbeat and the boot handshake\<close>

definition heartbeat_request :: "string \<Rightarrow> ClosureHash option \<Rightarrow> instant \<Rightarrow> HeartbeatRequest" where
  "heartbeat_request machine_id current_closure now =
     \<lparr>hq_hostname = machine_id, hq_rollout_id = None, hq_current_closure = current_closure, hq_at = now\<rparr>"

definition parse_heartbeat_body ::
  "('v, 'ek, 'pt, 'pk, 'ps) agent_io \<Rightarrow> string + byte list \<Rightarrow> string + HeartbeatResponse" where
  "parse_heartbeat_body io body =
     (case body of
        Inl e \<Rightarrow> Inl e
      | Inr bytes \<Rightarrow> case from_utf8 bytes of None \<Rightarrow> Inl ''invalid utf-8'' | Some s \<Rightarrow> io_parse_heartbeat io s)"

text \<open>The replay header is only logged.\<close>

definition heartbeat_once :: "('v, 'ek, 'pt, 'pk, 'ps) agent_io \<Rightarrow> http_reply \<Rightarrow> string + AgentInput list" where
  "heartbeat_once io reply =
     (case reply of
        NoReply e \<Rightarrow> Inl e
      | Reply status body \<Rightarrow>
        if \<not> (200 \<le> status \<and> status < 300) then Inl (''CP returned '' @ show_nat status)
        else case parse_heartbeat_body io body of
          Inl e \<Rightarrow> Inl e
        | Inr resp \<Rightarrow> Inr (map AgentBootstrapHost (hp_bootstrap_rollouts resp)))"

text \<open>The handshake reads the body whatever the status.\<close>

definition handshake :: "('v, 'ek, 'pt, 'pk, 'ps) agent_io \<Rightarrow> http_reply \<Rightarrow> HostRolloutSnapshot list" where
  "handshake io reply =
     (case reply of
        NoReply _ \<Rightarrow> []
      | Reply _ body \<Rightarrow>
        case parse_heartbeat_body io body of Inl _ \<Rightarrow> [] | Inr resp \<Rightarrow> hp_bootstrap_rollouts resp)"

section \<open>Specification vocabulary and samples\<close>

text \<open>
  A closure is signed for a host in a rollout: some bytes verify, at some instant, under the release
  keys active then, parse as the manifest of that rollout and give the host that target.
\<close>

definition signed_for ::
  "('v, 'ek, 'pt, 'pk, 'ps) agent_io \<Rightarrow> KeySlot \<Rightarrow> duration \<Rightarrow> string \<Rightarrow> RolloutId \<Rightarrow> ClosureHash \<Rightarrow> bool" where
  "signed_for io slot window machine rid t \<longleftrightarrow>
     (\<exists>now bytes sig v h.
        verify_rollout_manifest (io_crypto io) (io_parse_manifest io) bytes sig (active_keys_at slot now) now
          window (ks_reject_before slot) = Inr v
        \<and> RolloutId_new (rm_channel (v_inner v)) (rm_channel_ref (v_inner v)) = rid
        \<and> h \<in> set (rm_host_set (v_inner v)) \<and> hw_hostname h = machine \<and> hw_target_closure h = t)"

definition trusts :: "('v, 'ek, 'pt, 'pk, 'ps) agent_io \<Rightarrow> ManifestCache \<Rightarrow> KeySlot \<Rightarrow> files \<Rightarrow> bool" where
  "trusts io mc slot fs \<longleftrightarrow>
     (case Option.bind (hget fs (mc_trust_path mc)) from_utf8 of
        None \<Rightarrow> False
      | Some raw \<Rightarrow> (case io_parse_trust io raw of Inl _ \<Rightarrow> False | Inr trust \<Rightarrow> tc_ci_release_key trust = slot))"

text \<open>
  Inputs of a host whose trust file holds the key slot: activations come from the long poll, under any
  network, files and instants; there is no snapshot.
\<close>

definition from_longpoll :: "('v, 'ek, 'pt, 'pk, 'ps) agent_io \<Rightarrow> AgentConfig \<Rightarrow> KeySlot \<Rightarrow> AgentInput \<Rightarrow> bool" where
  "from_longpoll io cfg slot i \<longleftrightarrow>
     (\<exists>net now later current fs. trusts io (agent_cache cfg) slot fs
        \<and> i \<in> set (fst (longpoll_turn io cfg net now later current fs)))"

definition guarded_input :: "('v, 'ek, 'pt, 'pk, 'ps) agent_io \<Rightarrow> AgentConfig \<Rightarrow> KeySlot \<Rightarrow> AgentInput \<Rightarrow> bool" where
  "guarded_input io cfg slot i \<longleftrightarrow>
     (case i of
        AgentHostEvent _ (LocalActivate _ _ _ _ _) \<Rightarrow> from_longpoll io cfg slot i
      | AgentBootstrapHost _ \<Rightarrow> False
      | _ \<Rightarrow> True)"

definition guarded_action :: "('v, 'ek, 'pt, 'pk, 'ps) agent_io \<Rightarrow> AgentConfig \<Rightarrow> KeySlot \<Rightarrow> agent_action \<Rightarrow> bool" where
  "guarded_action io cfg slot act \<longleftrightarrow>
     (case act of AgentTurn _ i \<Rightarrow> guarded_input io cfg slot i | AgentDrain _ \<Rightarrow> True)"

definition targets_ok :: "(RolloutId \<Rightarrow> ClosureHash \<Rightarrow> bool) \<Rightarrow> agent_state \<Rightarrow> bool" where
  "targets_ok ok a \<longleftrightarrow>
     (\<forall>rid s. hget (ag_host_states a) rid = Some s \<longrightarrow> hrs_rollout_id s = rid \<and> ok rid (hrs_target_closure s))
     \<and> (\<forall>i \<in> set (ag_intents a). ai_rollback i \<or> ok (ai_rollout_id i) (ai_target_closure i))"

text \<open>The trust file is not one of the cache's own files; and a disk whose writes succeed.\<close>

definition trust_apart :: "ManifestCache \<Rightarrow> bool" where
  "trust_apart mc \<longleftrightarrow> mc_trust_path mc \<notin> {fleet_path mc, fleet_sig_path mc} \<union> range (manifest_path mc) \<union> range (signature_path mc)"

definition verified_for ::
  "('v, 'ek, 'pt, 'pk, 'ps) agent_io \<Rightarrow> ManifestCache \<Rightarrow> KeySlot \<Rightarrow> instant \<Rightarrow> string \<Rightarrow> RolloutManifest Verified \<Rightarrow> bool" where
  "verified_for io mc slot now rid v \<longleftrightarrow>
     as_str (RolloutId_new (rm_channel (v_inner v)) (rm_channel_ref (v_inner v))) = rid
     \<and> (\<exists>bytes sig. verify_rollout_manifest (io_crypto io) (io_parse_manifest io) bytes sig
          (active_keys_at slot now) now (mc_freshness_window mc) (ks_reject_before slot) = Inr v)"

definition honest_disk :: "('v, 'ek, 'pt, 'pk, 'ps) agent_io \<Rightarrow> bool" where
  "honest_disk io \<longleftrightarrow> (\<forall>d. io_mkdir io d) \<and> (\<forall>p b. io_write io p b = (True, Some b))"

definition sample_manifest :: RolloutManifest where
  "sample_manifest =
     \<lparr>rm_schema_version = 1, rm_display_name = [], rm_channel = ''stable'', rm_channel_ref = ''r1'',
      rm_fleet_resolved_hash = [],
      rm_host_set = [\<lparr>hw_hostname = ''h1'', hw_wave_index = 0, hw_target_closure = ''t''\<rparr>],
      rm_health_gate = \<lparr>hg_systemd_failed_units = None\<rparr>, rm_disruption_budgets = [],
      rm_meta = \<lparr>meta_schema_version = 1, meta_signed_at = Some 100, meta_ci_commit = None,
                 meta_signature_algorithm = None\<rparr>\<rparr>"

definition sample_slot :: KeySlot where
  "sample_slot = \<lparr>ks_current = Some sample_key, ks_previous = None, ks_reject_before = None, ks_successor = None,
      ks_retire_at = None\<rparr>"

definition sample_dispatch :: DispatchResponse where
  "sample_dispatch = \<lparr>dr_hostname = ''h1'', dr_rollout_id = rid_a, dr_target_closure = ''t'', dr_soak_due_at = 200,
      dr_enqueued_at = 100\<rparr>"

definition sample_io :: "(string, byte list, byte list, byte list, byte list) agent_io" where
  "sample_io =
     \<lparr>io_crypto = sample_crypto, io_parse_manifest = (\<lambda>_. Inr sample_manifest), 
      io_parse_fleet = (\<lambda>_. Inr ((two_host_fleet two_hosts)\<lparr>fl_meta := \<lparr>meta_schema_version = 1,
        meta_signed_at = Some 100, meta_ci_commit = Some ''r1'', meta_signature_algorithm = None\<rparr>\<rparr>)),
      io_parse_trust = (\<lambda>_. Inr \<lparr>tc_schema_version = 1, tc_ci_release_key = sample_slot, tc_cache_keys = [],
        tc_org_root_key = None, tc_root_ca_pem = None, tc_issuance_ca_pems = []\<rparr>),
      io_parse_dispatch = (\<lambda>_. Inr (Some sample_dispatch)),
      io_parse_heartbeat = (\<lambda>_. Inl ''no''), io_mkdir = (\<lambda>_. True), io_write = (\<lambda>_ b. (True, Some b))\<rparr>"

definition sample_cfg :: AgentConfig where
  "sample_cfg = \<lparr>cfg_machine_id = ''h1'', cfg_control_plane_url = ''cp/'', cfg_state_dir = ''s'', cfg_trust_file = ''t'',
      cfg_current_system_path = ''c'', cfg_manifest_freshness_window_secs = 60\<rparr>"

definition sample_net :: "string \<Rightarrow> http_reply" where
  "sample_net url =
     (if url = ''cp/v1/rollouts/stable@r1'' then Reply 200 (Inr [])
      else if url = ''cp/v1/rollouts/stable@r1/sig'' then Reply 200 (Inr sample_signature)
      else if url = ''cp/v1/fleet.resolved'' then Reply 200 (Inr [])
      else if url = ''cp/v1/fleet.resolved/sig'' then Reply 200 (Inr sample_signature)
      else if url = ''cp/v1/agent/dispatch?wait=60'' then Reply 200 (Inr [0x7B])
      else NoReply ''down'')"

definition sample_files :: files where
  "sample_files = [(''t'', [])]"

definition evil_snapshot :: HostRolloutSnapshot where
  "evil_snapshot =
     \<lparr>snap_rollout_id = rid_a, snap_hostname = ''h1'', snap_channel = ''stable'', snap_state = WS_Pending,
      snap_target_closure = ''evil'', snap_current_closure_at_dispatch = None, snap_current_closure = None,
      snap_dispatched_at = 0, snap_dispatch_acked_at = None, snap_activation_started_at = None,
      snap_activation_completed_at = None, snap_soak_due_at = Some 5, snap_last_event_seq = 0\<rparr>"

section \<open>The cache\<close>

lemma verify_bytes_Inr_iff:
  "verify_bytes io mc now fs m s rid = Inr v \<longleftrightarrow>
     (\<exists>keys rb. load_trust_roots io mc now fs = Inr (keys, rb)
        \<and> verify_rollout_manifest (io_crypto io) (io_parse_manifest io) m s keys now (mc_freshness_window mc) rb = Inr v
        \<and> as_str (RolloutId_new (rm_channel (v_inner v)) (rm_channel_ref (v_inner v))) = rid)"
  by (auto simp: verify_bytes_def assert_rollout_id_matches_def Let_def split: sum.splits if_splits)

lemma load_trust_roots_trusts:
  "trusts io mc slot fs \<Longrightarrow>
     load_trust_roots io mc now fs = Inr (active_keys_at slot now, ks_reject_before slot)"
  by (auto simp: trusts_def load_trust_roots_def split: option.splits sum.splits)

lemma load_cached_Some:
  "load_cached io mc now rid fs = Some v \<Longrightarrow>
     \<exists>m s. read_cached_bytes mc rid fs = Some (m, s) \<and> verify_bytes io mc now fs m s rid = Inr v"
  by (auto simp: load_cached_def split: option.splits sum.splits)

lemma fetch_or_load_Inr:
  assumes "fetch_or_load io mc net now cp_url rid fs = (Inr v, fs')"
  shows "validate_rollout_id_for_path rid = Inr () \<and> (\<exists>m s. verify_bytes io mc now fs m s rid = Inr v
    \<and> (read_cached_bytes mc rid fs = Some (m, s) \<and> fs' = fs \<or> fs' = write_cache io mc rid m s fs))"
  using assms
  by (fastforce simp: fetch_or_load_def Let_def dest: load_cached_Some split: sum.splits option.splits prod.splits)

lemma hget_hremove [simp]: "hget (hremove k m) k' = (if k' = k then None else hget m k')"
  by (induction m) (auto simp: hget_def hremove_def)

lemma put_file_other: "put_file io p b fs = (ok, fs') \<Longrightarrow> p' \<noteq> p \<Longrightarrow> hget fs' p' = hget fs p'"
  by (auto simp: put_file_def Let_def split: prod.splits option.splits)

lemma write_pair_other: "p' \<noteq> p \<Longrightarrow> p' \<noteq> q \<Longrightarrow> hget (write_pair io dir p q b sg fs) p' = hget fs p'"
  by (cases "put_file io q sg (snd (put_file io p b fs))")
    (auto simp: write_pair_def Let_def put_file_other split: prod.splits)

lemma write_pair_read:
  "honest_disk io \<Longrightarrow> p \<noteq> q \<Longrightarrow> read_pair p q (write_pair io dir p q b sg fs) = Some (b, sg)"
  by (simp add: honest_disk_def write_pair_def put_file_def read_pair_def Let_def)

lemma manifest_paths_differ: "manifest_path mc rid \<noteq> signature_path mc rid"
  by (auto simp: manifest_path_def signature_path_def path_join_def split: if_splits dest: arg_cong [of _ _ length])

section \<open>Dispatches\<close>

lemma assert_target_closure_Inr:
  "assert_target_closure m h t = Inr u \<Longrightarrow>
     \<exists>e \<in> set (rm_host_set m). hw_hostname e = h \<and> hw_target_closure e = t"
  by (auto simp: assert_target_closure_def find_Some_iff split: option.splits if_splits)

lemma handle_dispatch_signed:
  assumes "handle_dispatch io cfg net now later current d fs = (Inr i, fs')" "trusts io (agent_cache cfg) slot fs"
  shows "\<exists>c. i = AgentHostEvent (dr_rollout_id d)
      (LocalActivate c (dr_target_closure d) (dr_enqueued_at d) (dr_soak_due_at d) 0)
    \<and> signed_for io slot (mc_freshness_window (agent_cache cfg)) (cfg_machine_id cfg) (dr_rollout_id d) (dr_target_closure d)"
proof -
  from assms(1) obtain v where f: "fetch_or_load io (agent_cache cfg) net now (cfg_control_plane_url cfg)
        (as_str (dr_rollout_id d)) fs = (Inr v, fs')"
      and t: "assert_target_closure (v_inner v) (cfg_machine_id cfg) (dr_target_closure d) = Inr ()"
      and i: "\<exists>c. i = AgentHostEvent (dr_rollout_id d)
        (LocalActivate c (dr_target_closure d) (dr_enqueued_at d) (dr_soak_due_at d) 0)"
    by (auto simp: handle_dispatch_def ensure_for_dispatch_def
        split: if_splits prod.splits sum.splits FreshnessCheck.splits)
  from fetch_or_load_Inr [OF f] obtain m sg where
    "verify_bytes io (agent_cache cfg) now fs m sg (as_str (dr_rollout_id d)) = Inr v" by blast
  then have "verify_rollout_manifest (io_crypto io) (io_parse_manifest io) m sg (active_keys_at slot now) now
      (mc_freshness_window (agent_cache cfg)) (ks_reject_before slot) = Inr v"
    "RolloutId_new (rm_channel (v_inner v)) (rm_channel_ref (v_inner v)) = dr_rollout_id d"
    by (auto simp: verify_bytes_Inr_iff load_trust_roots_trusts [OF assms(2)] intro: RolloutId.expand)
  with assert_target_closure_Inr [OF t] i show ?thesis unfolding signed_for_def by blast
qed

lemma longpoll_turn_input:
  "longpoll_turn io cfg net now later current fs = (inputs, fs') \<Longrightarrow> i \<in> set inputs \<Longrightarrow>
     \<exists>d. handle_dispatch io cfg net now later current d fs = (Inr i, fs')"
  by (auto simp: longpoll_turn_def split: sum.splits option.splits prod.splits)

lemma from_longpoll_signed:
  assumes "from_longpoll io cfg slot (AgentHostEvent rid (LocalActivate c t r d n))"
  shows "signed_for io slot (mc_freshness_window (agent_cache cfg)) (cfg_machine_id cfg) rid t"
proof -
  from assms obtain net now later current fs inputs fs' where tr: "trusts io (agent_cache cfg) slot fs"
      and lp: "longpoll_turn io cfg net now later current fs = (inputs, fs')"
      and i: "AgentHostEvent rid (LocalActivate c t r d n) \<in> set inputs"
    by (auto simp: from_longpoll_def) (metis prod.collapse)
  from longpoll_turn_input [OF lp i] tr show ?thesis by (auto dest: handle_dispatch_signed)
qed

section \<open>The targets an agent acts on\<close>

lemma step_fires:
  assumes "step s e now policy = Inr (s', fx)" "LocalFireSwitch r t \<in> set fx"
  shows "r = hrs_rollout_id s \<and> t = hrs_target_closure s"
  using assms
  by (elim step_accepted handle_elims)
    (auto simp: rollback_effect_def split: sum.splits option.splits OnHealthFailure.splits)

lemma apply_effects_targets:
  "(\<forall>i \<in> set (ag_intents a). ai_rollback i \<or> ok (ai_rollout_id i) (ai_target_closure i)) \<Longrightarrow>
   (\<forall>r t. LocalFireSwitch r t \<in> set fx \<longrightarrow> ok r t) \<Longrightarrow>
   \<forall>i \<in> set (ag_intents (fold (agent_apply_effect env now) fx a)). ai_rollback i \<or> ok (ai_rollout_id i) (ai_target_closure i)"
proof (induction fx arbitrary: a)
  case (Cons f fx)
  have "\<forall>i \<in> set (ag_intents (agent_apply_effect env now f a)). ai_rollback i \<or> ok (ai_rollout_id i) (ai_target_closure i)"
    using Cons.prems by (cases f) (auto simp: send_intent_def Let_def)
  from Cons.IH [OF this] Cons.prems(2) show ?case by simp
qed simp

lemma run_host_event_targets:
  assumes inv: "targets_ok ok a" and new: "\<And>c t r d n. e = LocalActivate c t r d n \<Longrightarrow> ok rid t"
  shows "targets_ok ok (run_host_event env now rid e a)"
proof -
  have go: "targets_ok ok (fold (agent_apply_effect env now) fx (a\<lparr>ag_host_states := hput rid s' (ag_host_states a)\<rparr>))"
    if "step s e' now policy = Inr (s', fx)" "hrs_rollout_id s = rid" "ok rid (hrs_target_closure s)" for s e' policy s' fx
    using inv step_frame [OF that(1)] that step_fires [OF that(1)]
    unfolding targets_ok_def
    by (intro conjI apply_effects_targets) (auto simp: apply_effects)
  have started: "hrs_rollout_id s = rid \<and> ok rid (hrs_target_closure s)" if "hget (ag_host_states a) rid = Some s" for s
    using inv that by (simp add: targets_ok_def)
  show ?thesis
    using started new inv
    by (auto simp: run_host_event_def Let_def bootstrap_pending_state_def new_pending_def
        split: option.splits Event.splits sum.splits intro!: go)
qed

lemma gates_no_activate:
  "re \<in> set (fail_gate now ms x) \<Longrightarrow> snd re \<noteq> LocalActivate c t r d n"
  "re \<in> set (pass_gate now x) \<Longrightarrow> snd re \<noteq> LocalActivate c t r d n"
  by (auto simp: fail_gate_def pass_gate_def Let_def split: prod.splits if_splits option.splits)

lemma advance_tick_targets:
  assumes "targets_ok ok a"
  shows "targets_ok ok (run_advance_tick env now a)"
proof -
  have "targets_ok ok (fold (\<lambda>(rid, e). run_host_event env now rid e) es a)"
    if "\<forall>re \<in> set es. \<forall>c t r d n. snd re \<noteq> LocalActivate c t r d n" for es
    by (rule fold_invariant [where Q = "\<lambda>re. \<forall>c t r d n. snd re \<noteq> LocalActivate c t r d n" and P = "targets_ok ok"])
      (use that assms in \<open>auto intro!: run_host_event_targets\<close>)
  from this [of "concat (map (fail_gate now (ag_manifests a)) (ag_host_states a))
      @ concat (map (pass_gate now) (ag_host_states a))"] show ?thesis
    unfolding run_advance_tick_def Let_def
    by (auto simp del: fold_append dest: gates_no_activate)
qed

lemma guarded_act_targets:
  assumes "guarded_action io cfg slot act" "targets_ok ok a"
    and ok: "ok = signed_for io slot (mc_freshness_window (agent_cache cfg)) (cfg_machine_id cfg)"
  shows "targets_ok ok (agent_act env act a)"
proof (cases act)
  case (AgentTurn now i)
  show ?thesis
  proof (cases i)
    case (AgentHostEvent rid e)
    then show ?thesis using assms AgentTurn
      by (auto simp: guarded_action_def guarded_input_def ok intro!: run_host_event_targets dest: from_longpoll_signed)
  next
    case (AgentManifestSetUpdated ms)
    then show ?thesis using assms AgentTurn by (simp add: targets_ok_def)
  qed (use assms AgentTurn in \<open>auto simp: guarded_action_def guarded_input_def advance_tick_targets\<close>)
qed (use assms in \<open>simp add: targets_ok_def\<close>)

section \<open>The trust file and the cache\<close>

lemma fetch_or_load_files:
  assumes "fetch_or_load io mc net now cp_url rid fs = (r, fs')" "hget fs' p \<noteq> hget fs p"
  shows "validate_rollout_id_for_path rid = Inr () \<and> (p = manifest_path mc rid \<or> p = signature_path mc rid)"
  using assms write_pair_other [of p "manifest_path mc rid" "signature_path mc rid" io "mc_rollouts_dir mc"]
  by (auto simp: fetch_or_load_def Let_def write_cache_def split: sum.splits option.splits prod.splits)

lemma trusts_cong: "hget fs' (mc_trust_path mc) = hget fs (mc_trust_path mc) \<Longrightarrow> trusts io mc slot fs' = trusts io mc slot fs"
  by (simp add: trusts_def)

lemma fetch_or_load_trusts:
  assumes "fetch_or_load io mc net now cp_url rid fs = (r, fs')" "trust_apart mc" "trusts io mc slot fs"
  shows "trusts io mc slot fs'"
  using fetch_or_load_files [OF assms(1), of "mc_trust_path mc"] assms(2,3) trusts_cong [of fs' mc fs io slot]
  by (auto simp: trust_apart_def)

lemma fetch_or_load_verified:
  assumes "fetch_or_load io mc net now cp_url rid fs = (Inr v, fs')" "trusts io mc slot fs"
  shows "verified_for io mc slot now rid v"
  using fetch_or_load_Inr [OF assms(1)] load_trust_roots_trusts [OF assms(2), of now]
  by (auto simp: verified_for_def verify_bytes_Inr_iff)

lemma load_cached_fleet_Some:
  "load_cached_fleet io mc now fs = Some (b, v) \<Longrightarrow> \<exists>sg. verify_fleet_bytes io mc now fs b sg = Inr v"
  by (auto simp: load_cached_fleet_def split: option.splits sum.splits)

lemma fetch_or_load_fleet_Inr:
  assumes "fetch_or_load_fleet io mc net now cp_url fs = (Inr (v, h), fs')"
  shows "(\<exists>b sg. verify_fleet_bytes io mc now fs b sg = Inr v \<and> canonical_hash_from_bytes (io_crypto io) b = Inr h)
    \<and> (fs' = fs \<or> (\<exists>b sg. fs' = write_fleet_cache io mc b sg fs))"
  using assms
  by (fastforce simp: fetch_or_load_fleet_def with_hash_def Let_def dest: load_cached_fleet_Some
      split: sum.splits option.splits prod.splits)

lemma verify_fleet_bytes_Inr_iff:
  "trusts io mc slot fs \<Longrightarrow> verify_fleet_bytes io mc now fs b sg = Inr v \<longleftrightarrow>
     verify_artifact (io_crypto io) (io_parse_fleet io) b sg (active_keys_at slot now) now (mc_freshness_window mc)
       (ks_reject_before slot) = Inr v"
  by (auto simp: verify_fleet_bytes_def load_trust_roots_trusts split: sum.splits)

lemma fetch_fleet_trusts:
  assumes "fetch_or_load_fleet io mc net now cp_url fs = (Inr (v, h), fs')" "trust_apart mc" "trusts io mc slot fs"
  shows "trusts io mc slot fs'"
  using fetch_or_load_fleet_Inr [OF assms(1)] assms(2,3)
    write_pair_other [of "mc_trust_path mc" "fleet_path mc" "fleet_sig_path mc" io "mc_fleet_dir mc"]
  by (auto simp: write_fleet_cache_def trust_apart_def trusts_def)

lemma tick_channel_inv:
  assumes "trusts io mc slot (snd acc) \<and> (\<forall>e \<in> set (fst acc). P (fst e) (snd e))" "trust_apart mc"
    "\<And>rid v. compute_rollout_id_for_channel fleet h ch = Inr (Some rid) \<Longrightarrow> verified_for io mc slot now rid v \<Longrightarrow>
       rm_fleet_resolved_hash (v_inner v) = h \<Longrightarrow> P ch v"
  shows "trusts io mc slot (snd (tick_channel io mc net now cp_url fleet h ch acc))
    \<and> (\<forall>e \<in> set (fst (tick_channel io mc net now cp_url fleet h ch acc)). P (fst e) (snd e))"
  using assms
  by (auto simp: tick_channel_def dest!: hput_in_set dest: fetch_or_load_trusts fetch_or_load_verified
      split: prod.splits sum.splits option.splits if_splits)

lemma verify_later:
  assumes "verify_rollout_manifest c parse b sg keys now window rb = Inr v" "fresh now' window rb (v_signed_at v)"
  shows "verify_rollout_manifest c parse b sg keys now' window rb = Inr v"
  using assms by (auto simp: verify_rollout_manifest_def verify_signed_sidecar_def finish_Inr_iff split: sum.splits)

section \<open>Paths\<close>

lemma split_slash_nonempty [simp]: "split_slash s \<noteq> []"
  by (cases s) (auto split: list.splits)

lemma split_slash_join: "split_slash (d @ CHR ''/'' # x) = split_slash d @ split_slash x"
  by (induction d) (auto split: list.splits)

lemma split_slash_plain: "CHR ''/'' \<notin> set x \<Longrightarrow> split_slash x = [x]"
  by (induction x) auto

lemma cache_dir: "mc_rollouts_dir (agent_cache cfg) \<noteq> [] \<and> last (mc_rollouts_dir (agent_cache cfg)) \<noteq> CHR ''/''"
  by (simp add: agent_cache_def new_with_freshness_def path_join_def)

lemma path_join_child:
  assumes "d \<noteq> []" "last d \<noteq> CHR ''/''" "CHR ''/'' \<notin> set x" "x \<noteq> []"
  shows "split_slash (path_join d x) = split_slash d @ [x]"
proof -
  from assms(3,4) have "\<not> starts_with x ''/''" by (cases x) auto
  with assms show ?thesis by (simp add: path_join_def split_slash_join split_slash_plain)
qed

section \<open>Samples\<close>

lemma sample_trusts: "trusts sample_io (agent_cache sample_cfg) sample_slot sample_files"
  by code_simp

lemma sample_apart: "trust_apart (agent_cache sample_cfg)"
proof -
  have "path_join ''s/rollouts'' x \<noteq> ''t''" if "x = rid @ suffix" "suffix \<noteq> []" for x rid suffix
    using that by (cases rid) (auto simp: path_join_def)
  then show ?thesis
    by (auto simp: trust_apart_def agent_cache_def new_with_freshness_def sample_cfg_def manifest_path_def
        signature_path_def fleet_path_def fleet_sig_path_def path_join_def)
qed

lemma sample_honest: "honest_disk sample_io"
  by (simp add: honest_disk_def sample_io_def)

lemma sample_fetch:
  "fetch_or_load sample_io (agent_cache sample_cfg) sample_net 100 ''cp/'' ''stable@r1'' sample_files
     = (Inr \<lparr>v_inner = sample_manifest, v_signed_at = 100\<rparr>,
        [(''t'', []), (''s/rollouts/stable@r1.json'', []), (''s/rollouts/stable@r1.json.sig'', sample_signature)])"
  by code_simp

section \<open>Properties\<close>

text \<open>
  C7. The agent switches only to signed closures. Whatever the control plane answers, the files hold
  and the instants are, when activations reach the reducer by the long poll and no snapshot is merged,
  every switch the agent fires is to the closure that a manifest of that rollout, verified under the
  release keys of the trust file, gives this host.
\<close>

theorem only_signed_closures_fired:
  assumes "\<forall>act \<in> set acts. guarded_action io cfg slot act" "i \<in> set (ag_intents (agent_run env acts))" "\<not> ai_rollback i"
  shows "signed_for io slot (mc_freshness_window (agent_cache cfg)) (cfg_machine_id cfg) (ai_rollout_id i) (ai_target_closure i)"
proof -
  let ?ok = "signed_for io slot (mc_freshness_window (agent_cache cfg)) (cfg_machine_id cfg)"
  have "targets_ok ?ok initial_agent" by (simp add: targets_ok_def initial_agent_def)
  then have "targets_ok ?ok (agent_run env acts)"
    unfolding agent_run_def
    by (intro fold_invariant [where Q = "guarded_action io cfg slot" and P = "targets_ok ?ok"])
      (use assms(1) in \<open>auto intro: guarded_act_targets [OF _ _ refl]\<close>)
  with assms(2,3) show ?thesis by (auto simp: targets_ok_def)
qed

theorem only_signed_closures_fired_witness:
  "let acts = [AgentTurn 0 (AgentManifestSetUpdated sample_ms),
         AgentTurn 100 (AgentHostEvent rid_a (LocalActivate ''p'' ''t'' 100 200 0))]
   in map ai_target_closure (ag_intents (agent_run sample_env acts)) = [''t'']
      \<and> signed_for sample_io sample_slot (mc_freshness_window (agent_cache sample_cfg)) ''h1'' rid_a ''t''"
proof -
  let ?e = "AgentHostEvent rid_a (LocalActivate ''p'' ''t'' 100 200 0)"
  let ?acts = "[AgentTurn 0 (AgentManifestSetUpdated sample_ms), AgentTurn 100 ?e]"
  note sample_trusts
  moreover have "fst (longpoll_turn sample_io sample_cfg sample_net 100 100 (Some ''p'') sample_files) = [?e]" by code_simp
  ultimately have "from_longpoll sample_io sample_cfg sample_slot ?e"
    unfolding from_longpoll_def by (metis list.set_intros(1))
  then have g: "\<forall>act \<in> set ?acts. guarded_action sample_io sample_cfg sample_slot act"
    by (simp add: guarded_action_def guarded_input_def)
  have i: "ag_intents (agent_run sample_env ?acts) = [\<lparr>ai_rollout_id = rid_a, ai_target_closure = ''t'', ai_rollback = False\<rparr>]"
    by code_simp
  from only_signed_closures_fired [OF g, of _ sample_env] i show ?thesis by (simp add: sample_cfg_def)
qed


text \<open>
  C24. The manifest set handed to the reducer is consistent: its fleet verified under the release keys
  active now, and each rollout manifest in it belongs to a channel of that fleet, verified, carries the
  identity the fleet gives that channel's rollout and pins the hash of that very fleet. This holds for
  any network and files, as long as the trust file is not one of the cache's.
\<close>

theorem manifest_set_consistent:
  assumes "tick_once io mc net now cp_url fs = (Inr ms, fs')" "trusts io mc slot fs" "trust_apart mc"
  shows "\<exists>b sg h. verify_artifact (io_crypto io) (io_parse_fleet io) b sg (active_keys_at slot now) now
        (mc_freshness_window mc) (ks_reject_before slot) = Inr (sm_fleet ms)
      \<and> canonical_hash_from_bytes (io_crypto io) b = Inr h
      \<and> (\<forall>(ch, v) \<in> set (sm_rollouts ms).
           ch \<in> set (hkeys (fl_channels (sm_fleet_inner ms)))
           \<and> (\<exists>rid. compute_rollout_id_for_channel (sm_fleet_inner ms) h ch = Inr (Some rid) \<and> verified_for io mc slot now rid v)
           \<and> rm_fleet_resolved_hash (v_inner v) = h)"
proof -
  from assms(1) obtain h fs1 where f: "fetch_or_load_fleet io mc net now cp_url fs = (Inr (sm_fleet ms, h), fs1)"
      and r: "sm_rollouts ms = fst (fold (tick_channel io mc net now cp_url (sm_fleet_inner ms) h)
        (hkeys (fl_channels (sm_fleet_inner ms))) ([], fs1))"
    by (auto simp: tick_once_def sm_fleet_inner_def Let_def split: prod.splits sum.splits)
  let ?good = "\<lambda>ch v. ch \<in> set (hkeys (fl_channels (sm_fleet_inner ms)))
    \<and> (\<exists>rid. compute_rollout_id_for_channel (sm_fleet_inner ms) h ch = Inr (Some rid) \<and> verified_for io mc slot now rid v)
    \<and> rm_fleet_resolved_hash (v_inner v) = h"
  let ?P = "\<lambda>acc. trusts io mc slot (snd acc) \<and> (\<forall>e \<in> set (fst acc). ?good (fst e) (snd e))"
  have "?P (fold (tick_channel io mc net now cp_url (sm_fleet_inner ms) h) (hkeys (fl_channels (sm_fleet_inner ms))) ([], fs1))"
    by (rule fold_invariant [where Q = "\<lambda>ch. ch \<in> set (hkeys (fl_channels (sm_fleet_inner ms)))" and P = ?P])
      (simp, use fetch_fleet_trusts [OF f assms(3,2)] in simp, rule tick_channel_inv, use assms(3) in auto)
  with fetch_or_load_fleet_Inr [OF f] show ?thesis
    by (fastforce simp: verify_fleet_bytes_Inr_iff [OF assms(2)] r)
qed

theorem manifest_set_consistent_witness:
  "\<exists>ms fs'. tick_once sample_io (agent_cache sample_cfg) sample_net 100 ''cp/'' sample_files = (Inr ms, fs')
     \<and> sm_rollouts ms = [(''stable'', \<lparr>v_inner = sample_manifest, v_signed_at = 100\<rparr>)]
     \<and> verified_for sample_io (agent_cache sample_cfg) sample_slot 100 ''stable@r1'' \<lparr>v_inner = sample_manifest, v_signed_at = 100\<rparr>"
proof -
  let ?t = "tick_once sample_io (agent_cache sample_cfg) sample_net 100 ''cp/'' sample_files"
  have ms: "case fst ?t of Inr ms \<Rightarrow> sm_rollouts ms = [(''stable'', \<lparr>v_inner = sample_manifest, v_signed_at = 100\<rparr>)]
      \<and> compute_rollout_id_for_channel (sm_fleet_inner ms) [] ''stable'' = Inr (Some ''stable@r1'') | Inl _ \<Rightarrow> False"
    by code_simp
  then obtain ms fs' where t: "?t = (Inr ms, fs')" by (cases ?t) (auto split: sum.splits)
  with ms have r: "sm_rollouts ms = [(''stable'', \<lparr>v_inner = sample_manifest, v_signed_at = 100\<rparr>)]"
      "compute_rollout_id_for_channel (sm_fleet_inner ms) [] ''stable'' = Inr (Some ''stable@r1'')" by auto
  from manifest_set_consistent [OF t sample_trusts sample_apart] r t show ?thesis
    by (auto simp: sample_manifest_def)
qed

text \<open>
  A fetched manifest is served offline: after a fetch on a disk whose writes succeed, a later call
  returns the same manifest without the network, as long as the release keys are the same and the
  manifest is fresh at that time.
\<close>

lemma cache_serves_offline:
  assumes "fetch_or_load io mc net now cp_url rid fs = (Inr v, fs')" "trusts io mc slot fs" "trust_apart mc" "honest_disk io"
    "active_keys_at slot now' = active_keys_at slot now"
    "fresh now' (mc_freshness_window mc) (ks_reject_before slot) (v_signed_at v)"
  shows "fetch_or_load io mc net' now' cp_url rid fs' = (Inr v, fs')"
proof -
  from fetch_or_load_Inr [OF assms(1)] obtain m sg where vb: "verify_bytes io mc now fs m sg rid = Inr v"
      and valid: "validate_rollout_id_for_path rid = Inr ()"
      and src: "read_cached_bytes mc rid fs = Some (m, sg) \<and> fs' = fs \<or> fs' = write_cache io mc rid m sg fs" by blast
  have "read_cached_bytes mc rid fs' = Some (m, sg)"
    using src write_pair_read [OF assms(4) manifest_paths_differ] by (auto simp: read_cached_bytes_def write_cache_def)
  moreover have "verify_bytes io mc now' fs' m sg rid = Inr v"
    using vb assms(5,6) load_trust_roots_trusts [OF assms(2)]
      load_trust_roots_trusts [OF fetch_or_load_trusts [OF assms(1,3,2)]]
    by (auto simp: verify_bytes_Inr_iff intro: verify_later)
  ultimately show ?thesis using valid by (simp add: fetch_or_load_def load_cached_def)
qed

text \<open>
  C26. The cache writes only into its own directory: whatever the identifier a dispatch carries, a file
  that a call changes is a direct child of the rollouts directory named after the identifier.
\<close>

theorem cache_confined:
  assumes "fetch_or_load io (agent_cache cfg) net now cp_url rid fs = (r, fs')" "hget fs' p \<noteq> hget fs p"
  shows "\<exists>suffix \<in> {''.json'', ''.json.sig''}.
    split_slash p = split_slash (mc_rollouts_dir (agent_cache cfg)) @ [rid @ suffix]"
proof -
  from fetch_or_load_files [OF assms] have "CHR ''/'' \<notin> set rid"
    and "p = manifest_path (agent_cache cfg) rid \<or> p = signature_path (agent_cache cfg) rid"
    by (auto simp: validate_rollout_id_for_path_def split: if_splits)
  then show ?thesis
    using path_join_child [of "mc_rollouts_dir (agent_cache cfg)"] cache_dir [of cfg]
    by (auto simp: manifest_path_def signature_path_def)
qed

theorem cache_confined_witness:
  "\<exists>suffix \<in> {''.json'', ''.json.sig''}. split_slash ''s/rollouts/stable@r1.json''
     = split_slash (mc_rollouts_dir (agent_cache sample_cfg)) @ [''stable@r1'' @ suffix]"
  by (rule cache_confined [OF sample_fetch]) (simp add: sample_files_def hget_def)

end
