(* ===== verification/Fleet.thy ===== *)
theory Fleet
  imports CP_Properties Agent_Manifests
begin

text \<open>
  The control plane and the agent together: the snapshots of a heartbeat reply
  (\<open>nixfleet-control-plane/src/runtime/reducer.rs\<close>) and what the agent's reducer makes of them
  (\<open>nixfleet-agent/src/runtime/reducer.rs\<close>), after a restart and while it runs.
\<close>

section \<open>Specification vocabulary and samples\<close>

text \<open>A record without what the agent observes of its probes, which no snapshot carries.\<close>

definition without_probes :: "HostRolloutState \<Rightarrow> HostRolloutState" where
  "without_probes t =
     t\<lparr>hrs_probes := [], hrs_probe_observed_first_at := None, hrs_probe_failure_first_at := None\<rparr>"

text \<open>One host of one rollout, on both sides, up to the dispatch.\<close>

definition fleet_acts :: "cp_action list" where
  "fleet_acts =
     [Turn 0 (ManifestSetUpdated (demo_set Halt ''r1'' [(''a'', ''c1'')] [])), Turn 1 PlanTick, LongPoll ''a'']"

definition fleet_cp :: "ReducerState \<times> cp_state" where
  "fleet_cp = cp_run fleet_acts"

definition fleet_agent_env :: agent_env where
  "fleet_agent_env = \<lparr>ae_machine_id = ''a'', ae_disk = (\<lambda>_. IO_Done)\<rparr>"

definition fleet_agent :: agent_state where
  "fleet_agent = agent_run fleet_agent_env
     [AgentTurn 0 (AgentManifestSetUpdated (demo_set Halt ''r1'' [(''a'', ''c1'')] [])),
      AgentTurn 2 (AgentHostEvent demo_rid (LocalActivate ''c0'' ''c1'' 1 3600000000000 0))]"

definition heartbeat_snapshots :: "instant \<Rightarrow> ClosureHash \<Rightarrow> ReducerState \<times> cp_state \<Rightarrow> HostRolloutSnapshot list" where
  "heartbeat_snapshots now c st =
     reply_bootstrap_rollouts (snd (snd (handle_heartbeat now (fst st) ''a'' None (Some c) now (snd st))))"

section \<open>Snapshots\<close>

lemma host_state_roundtrip [simp]: "host_state_of_wire (wire_state_of st) = st"
  by (cases st) simp_all

lemma snapshot_rollout [simp]: "snap_rollout_id (host_rollout_state_to_snapshot t) = hrs_rollout_id t"
  by (simp add: host_rollout_state_to_snapshot_def)

lemma merge_mirror:
  "mirrors s t \<Longrightarrow> merge_snapshot_into_state (Some s) (host_rollout_state_to_snapshot t)
     = s\<lparr>hrs_hostname := hrs_hostname t, hrs_dispatched_at := hrs_dispatched_at t\<rparr>"
  by (cases s; cases t) (simp add: mirrors_def merge_snapshot_into_state_def host_rollout_state_to_snapshot_def)

lemma merge_fresh:
  "host_inv t \<Longrightarrow> hrs_state t \<in> {HS_Pending, HS_Activating, HS_Deferred, HS_Soaking} \<Longrightarrow>
     merge_snapshot_into_state None (host_rollout_state_to_snapshot t) = without_probes t"
  by (cases t) (auto simp: host_inv_def phase_inv_def unfailed_def without_probes_def merge_snapshot_into_state_def
      host_rollout_state_to_snapshot_def)

lemma without_probes_id:
  "host_inv t \<Longrightarrow> hrs_state t \<in> {HS_Pending, HS_Activating, HS_Deferred} \<Longrightarrow> without_probes t = t"
  by (cases t) (auto simp: host_inv_def phase_inv_def unprobed_def without_probes_def)

section \<open>Properties\<close>

text \<open>
  A heartbeat in step is harmless: when the control plane's record mirrors the agent's, merging its
  snapshot changes nothing of the agent's record but the host name and the dispatch instant, which are the
  control plane's own.
\<close>

lemma heartbeat_in_step_harmless:
  assumes "mirrors s t" "hget (ag_host_states a) (hrs_rollout_id t) = Some s"
  shows "hget (ag_host_states (agent_input env now (AgentBootstrapHost (host_rollout_state_to_snapshot t)) a)) (hrs_rollout_id t)
    = Some (s\<lparr>hrs_hostname := hrs_hostname t, hrs_dispatched_at := hrs_dispatched_at t\<rparr>)"
  using assms
  by (simp add: apply_bootstrap_snapshot_def Let_def apply_effects merge_mirror)

text \<open>
  C23. A restarted agent resumes where the control plane left it: over every run of the control plane,
  each snapshot of a heartbeat reply is that of a stored record of the host, and an agent that knows
  nothing makes of it that very record while the host is pending, activating or deferred, and that record
  without its probes while it soaks.
\<close>

theorem restart_resumes:
  assumes "handle_heartbeat now R h None c at (snd (cp_run acts)) = (R', w', reply)"
    "snap \<in> set (reply_bootstrap_rollouts reply)"
  shows "\<exists>t. load (snap_rollout_id snap) h (db_records (cp_db w')) = Inr (Some t)
    \<and> snap = host_rollout_state_to_snapshot t
    \<and> (hrs_state t \<in> {HS_Pending, HS_Activating, HS_Deferred} \<longrightarrow> merge_snapshot_into_state None snap = t)
    \<and> (hrs_state t = HS_Soaking \<longrightarrow> merge_snapshot_into_state None snap = without_probes t)"
proof -
  obtain rs0 ss0 where "stored (snd (cp_run acts)) rs0 ss0" "records_ok rs0 ss0" by (rule cp_run_stored)
  then have "cp_inv (snd (cp_run acts))" by (auto simp: cp_inv_def)
  from heartbeat_inv [OF this, of now R h None c at] assms(1) have "cp_inv w'" by simp
  then obtain rs ss where st: "stored w' rs ss" "records_ok rs ss" by (auto simp: cp_inv_def)
  from assms have "snap \<in> set (build_bootstrap_for_host h w')"
    by (auto simp: handle_heartbeat_def Let_def)
  with st(1) obtain t where t: "t \<in> set ss" "hrs_hostname t = h" "snap = host_rollout_state_to_snapshot t"
    by (auto simp: build_bootstrap_for_host_def stored_def active_for_host_stored)
  have "load (snap_rollout_id snap) h (db_records (cp_db w')) = Inr (Some t)"
    using st(1) t select_row_iff [of host_key ss "(hrs_rollout_id t, h)" t]
    by (auto simp: stored_def load_stored host_rollout_state_to_snapshot_def host_key_def)
  moreover have "host_inv t" using st(2) t(1) by (simp add: records_ok_def)
  ultimately show ?thesis using t(3) merge_fresh [of t] without_probes_id [of t] by (intro exI [of _ t]) auto
qed

theorem restart_resumes_witness:
  "merge_snapshot_into_state None (hd (heartbeat_snapshots 3 ''c0'' fleet_cp)) = demo_pending"
proof -
  let ?r = "handle_heartbeat 3 (fst fleet_cp) ''a'' None (Some ''c0'') 3 (snd (cp_run fleet_acts))"
  obtain R' w' reply where r: "?r = (R', w', reply)" by (cases ?r) auto
  have s: "reply_bootstrap_rollouts (snd (snd ?r)) = [host_rollout_state_to_snapshot demo_pending]" by code_simp
  with r have "host_rollout_state_to_snapshot demo_pending \<in> set (reply_bootstrap_rollouts reply)" by simp
  from restart_resumes [OF r this] obtain t where
    t: "host_rollout_state_to_snapshot demo_pending = host_rollout_state_to_snapshot t"
      "hrs_state t \<in> {HS_Pending, HS_Activating, HS_Deferred} \<longrightarrow>
         merge_snapshot_into_state None (host_rollout_state_to_snapshot demo_pending) = t" by blast
  have "wire_state_of (hrs_state t) = WS_Pending"
    using arg_cong [OF t(1), of snap_state] by (simp add: host_rollout_state_to_snapshot_def demo_pending_def new_pending_def)
  then have "hrs_state t = HS_Pending" by (cases "hrs_state t") simp_all
  with t(2) have "merge_snapshot_into_state None (host_rollout_state_to_snapshot demo_pending) = t" by simp
  moreover have "merge_snapshot_into_state None (host_rollout_state_to_snapshot demo_pending) = demo_pending" by code_simp
  ultimately show ?thesis using s by (simp add: heartbeat_snapshots_def fleet_cp_def)
qed

text \<open>
  A heartbeat that overtakes the queue undoes an activation: while the agent's acknowledgement waits
  in its queue the control plane still answers with the pending record, the merge takes the agent back to
  \<open>Pending\<close>, and the completion of the switch is refused. The host runs the new closure and its agent
  has reported nothing but the acknowledgement.
\<close>

lemma stale_snapshot_loses_completion:
  "let snaps = heartbeat_snapshots 3 ''c0'' fleet_cp;
       a = fold (agent_input fleet_agent_env 3) (map AgentBootstrapHost snaps) fleet_agent;
       a' = agent_input fleet_agent_env 4 (AgentHostEvent demo_rid (LocalActivationCompleted ''c1'' 0 4 0)) a
   in map_option hrs_state (hget (ag_host_states fleet_agent) demo_rid) = Some HS_Activating
      \<and> length snaps = 1
      \<and> map_option hrs_state (hget (ag_host_states a') demo_rid) = Some HS_Pending
      \<and> map qe_event_kind (emitted_for demo_rid (ag_queue_ops a')) = [''DispatchAck'']"
  by code_simp

end
