(* ===== verification/Agent_Probes.thy ===== *)
theory Agent_Probes
  imports Agent_Activation
begin

text \<open>
  The probe worker of the agent (\<open>nixfleet-agent/src/runtime/workers/probe.rs\<close>) and its runners
  (\<open>workers/probe_runners\<close>): HTTP, TCP, command and signed-evidence probes. The network, commands, files,
  JSON and cryptography are parameters. White space is the ASCII one.
\<close>

section \<open>Declarations\<close>

definition MIN_INTERVAL_SECS :: u64 where
  "MIN_INTERVAL_SECS = 5"

definition FAILURE_REASON_MAX_LEN :: nat where
  "FAILURE_REASON_MAX_LEN = 512"

record ControlOverrideDecl =
  co_mode :: string
  co_reason :: string

record ProbeDecl =
  pd_kind :: string
  pd_mode :: string
  pd_interval_seconds :: u64
  pd_run_once :: bool
  pd_url :: "string option"
  pd_expect_status :: nat
  pd_host :: "string option"
  pd_port :: "nat option"
  pd_connect_timeout_secs :: u64
  pd_command :: "string list"
  pd_timeout_secs :: u64
  pd_framework :: "string option"
  pd_evidence_path :: string
  pd_control_overrides :: "(string, ControlOverrideDecl) hmap"
  pd_controls :: "(string, ControlOverrideDecl) hmap"

definition resolved_mode :: "ControlOverrideDecl \<Rightarrow> ProbeMode" where
  "resolved_mode o' =
     (if co_mode o' = ''observe'' then Observe else if co_mode o' = ''disabled'' then Disabled else Enforce)"

record RunnerOutcome =
  ro_status :: ProbeStatus
  ro_observed_at :: instant
  ro_failure_reason :: "string option"
  ro_sub_results :: "ProbeSubResult list option"

section \<open>Evidence files\<close>

definition EVIDENCE_SCHEMA_VERSION :: u32 where
  "EVIDENCE_SCHEMA_VERSION = 1"

text \<open>The details of a control are a JSON value the agent does not read: here its text.\<close>

record EvidenceControlEntry =
  ec_control_id :: string
  ec_passed :: bool
  ec_framework_articles :: "(string, string list) hmap"
  ec_details :: "string option"
  ec_schema :: "string option"

record EvidenceFile =
  ef_schema_version :: u32
  ef_hostname :: string
  ef_collected_at :: instant
  ef_controls :: "EvidenceControlEntry list"

section \<open>What the runners call\<close>

datatype http_result = ClientError string | HttpStatus nat | HttpSendError string
datatype tcp_result = Connected | ConnectError string | ConnectTimeout
datatype exec_result = SpawnError string | Exited cmd_output | WaitError string | ExecTimeout

record 'ek probe_io =
  pi_http :: "string \<Rightarrow> u64 \<Rightarrow> http_result"
  pi_connect :: "string \<Rightarrow> u64 \<Rightarrow> tcp_result"
  pi_exec :: "string list \<Rightarrow> u64 \<Rightarrow> exec_result"
  pi_read :: "string \<Rightarrow> string + byte list"
  pi_env :: "string \<Rightarrow> string option"
  pi_parse_evidence :: "byte list \<Rightarrow> string + EvidenceFile"
  pi_jcs :: "EvidenceFile \<Rightarrow> string + byte list"
  pi_base64 :: "string \<Rightarrow> string + byte list"
  pi_key :: "byte list \<Rightarrow> string + 'ek"
  pi_verify :: "'ek \<Rightarrow> byte list \<Rightarrow> byte list \<Rightarrow> bool"
  pi_parse_decls :: "string \<Rightarrow> string + (string, ProbeDecl) hmap"

section \<open>probe\_runners/mod.rs\<close>

text \<open>The loop that moves the cut back to a character boundary.\<close>

fun boundary_at_or_before :: "string \<Rightarrow> nat \<Rightarrow> nat" where
  "boundary_at_or_before s 0 = 0"
| "boundary_at_or_before s (Suc n) = (if is_char_boundary s (Suc n) then Suc n else boundary_at_or_before s n)"

definition truncate_reason :: "string \<Rightarrow> string" where
  "truncate_reason s =
     (if length s > FAILURE_REASON_MAX_LEN
      then take (boundary_at_or_before s FAILURE_REASON_MAX_LEN) s @ ''...[truncated]''
      else s)"

definition outcome_pass :: "instant \<Rightarrow> RunnerOutcome" where
  "outcome_pass observed_at =
     \<lparr>ro_status = Pass, ro_observed_at = observed_at, ro_failure_reason = None, ro_sub_results = None\<rparr>"

definition outcome_fail :: "instant \<Rightarrow> string \<Rightarrow> RunnerOutcome" where
  "outcome_fail observed_at reason =
     \<lparr>ro_status = Fail, ro_observed_at = observed_at, ro_failure_reason = Some (truncate_reason reason),
      ro_sub_results = None\<rparr>"

section \<open>http.rs, tcp.rs and exec.rs\<close>

definition http_run :: "'ek probe_io \<Rightarrow> ProbeDecl \<Rightarrow> instant \<Rightarrow> RunnerOutcome" where
  "http_run pio decl now =
     (case pd_url decl of
        None \<Rightarrow> outcome_fail now ''http probe: url missing''
      | Some url \<Rightarrow>
        case pi_http pio url (pd_timeout_secs decl) of
          ClientError e \<Rightarrow> outcome_fail now (''http probe: client build: '' @ e)
        | HttpStatus got \<Rightarrow>
            if got = pd_expect_status decl then outcome_pass now
            else outcome_fail now (''http probe: status '' @ show_nat got @ '' != expected '' @ show_nat (pd_expect_status decl))
        | HttpSendError e \<Rightarrow> outcome_fail now (''http probe: send: '' @ e))"

definition tcp_run :: "'ek probe_io \<Rightarrow> ProbeDecl \<Rightarrow> instant \<Rightarrow> RunnerOutcome" where
  "tcp_run pio decl now =
     (case pd_port decl of
        None \<Rightarrow> outcome_fail now ''tcp probe: port missing''
      | Some port \<Rightarrow>
        let addr = (case pd_host decl of Some h \<Rightarrow> h | None \<Rightarrow> ''127.0.0.1'') @ '':'' @ show_nat port
        in case pi_connect pio addr (pd_connect_timeout_secs decl) of
             Connected \<Rightarrow> outcome_pass now
           | ConnectError e \<Rightarrow> outcome_fail now (''tcp probe: connect '' @ addr @ '': '' @ e)
           | ConnectTimeout \<Rightarrow> outcome_fail now (''tcp probe: connect '' @ addr @ '' timed out after ''
               @ show_nat (unat (pd_connect_timeout_secs decl)) @ ''s''))"

text \<open>\<open>str::lines\<close>.\<close>

fun split_lines :: "string \<Rightarrow> string list" where
  "split_lines [] = [[]]"
| "split_lines (c # cs) =
     (if c = CHR 0x0A then [] # split_lines cs
      else case split_lines cs of [] \<Rightarrow> [[c]] | x # xs \<Rightarrow> (c # x) # xs)"

definition strip_cr :: "string \<Rightarrow> string" where
  "strip_cr s = (if s \<noteq> [] \<and> last s = CHR 0x0D then butlast s else s)"

definition str_lines :: "string \<Rightarrow> string list" where
  "str_lines s =
     (let ls = split_lines s; ls = (if last ls = [] then butlast ls else ls) in map strip_cr ls)"

definition exec_run :: "'ek probe_io \<Rightarrow> ProbeDecl \<Rightarrow> instant \<Rightarrow> RunnerOutcome" where
  "exec_run pio decl now =
     (if pd_command decl = [] then outcome_fail now ''exec probe: command argv missing''
      else case pi_exec pio (pd_command decl) (pd_timeout_secs decl) of
        SpawnError e \<Rightarrow> outcome_fail now (''exec probe: spawn: '' @ e)
      | Exited out \<Rightarrow>
          if status_success out then outcome_pass now
          else
            let stderr_tail = join_with '' / '' (take 3 (rev (str_lines (from_utf8_lossy (out_stderr out)))))
            in outcome_fail now (''exec probe: exit '' @ show_code (out_code out) @ ''; stderr: '' @ stderr_tail)
      | WaitError e \<Rightarrow> outcome_fail now (''exec probe: wait: '' @ e)
      | ExecTimeout \<Rightarrow> outcome_fail now (''exec probe: timed out after '' @ show_nat (unat (pd_timeout_secs decl)) @ ''s''))"

section \<open>evidence.rs\<close>

definition probe_level_mode :: "ProbeDecl \<Rightarrow> ProbeMode" where
  "probe_level_mode decl =
     (if pd_mode decl = ''observe'' then Observe else if pd_mode decl = ''disabled'' then Disabled else Enforce)"

definition resolve_effective_mode ::
  "ProbeDecl \<Rightarrow> string \<Rightarrow> ProbeMode \<Rightarrow> string option \<Rightarrow> ProbeMode \<times> string option" where
  "resolve_effective_mode decl control_id probe_mode framework_filter =
     (if framework_filter \<noteq> None
      then case hget (pd_control_overrides decl) control_id of
             Some ov \<Rightarrow> (resolved_mode ov, Some (co_reason ov))
           | None \<Rightarrow> (probe_mode, None)
      else case hget (pd_controls decl) control_id of
             Some c \<Rightarrow> (resolved_mode c, Some (co_reason c))
           | None \<Rightarrow> (Disabled, None))"

definition sub_result ::
  "EvidenceControlEntry \<Rightarrow> ProbeStatus \<Rightarrow> string \<Rightarrow> string option \<Rightarrow> ProbeMode \<Rightarrow> string option \<Rightarrow> ProbeSubResult" where
  "sub_result entry status framework article effective_mode reason =
     \<lparr>psr_control_id = ec_control_id entry, psr_status = status, psr_framework = framework, psr_article = article,
      psr_effective_mode = effective_mode, psr_override_reason = reason\<rparr>"

definition article_sub_results ::
  "EvidenceControlEntry \<Rightarrow> ProbeStatus \<Rightarrow> ProbeMode \<Rightarrow> string option \<Rightarrow> string \<Rightarrow> string list \<Rightarrow> ProbeSubResult list" where
  "article_sub_results entry status effective_mode reason framework articles =
     (if articles = [] then [sub_result entry status framework None effective_mode reason]
      else map (\<lambda>a. sub_result entry status framework (Some a) effective_mode reason) articles)"

definition push_entry_sub_results ::
  "EvidenceControlEntry \<Rightarrow> string option \<Rightarrow> ProbeStatus \<Rightarrow> ProbeMode \<Rightarrow> string option \<Rightarrow> ProbeSubResult list" where
  "push_entry_sub_results entry framework_filter status effective_mode reason =
     (case framework_filter of
        Some framework \<Rightarrow>
          (case hget (ec_framework_articles entry) framework of
             None \<Rightarrow> []
           | Some articles \<Rightarrow> article_sub_results entry status effective_mode reason framework articles)
      | None \<Rightarrow>
          if ec_framework_articles entry = []
          then [sub_result entry status ''custom'' None effective_mode reason]
          else concat (map (\<lambda>(framework, articles).
                 article_sub_results entry status effective_mode reason framework articles) (ec_framework_articles entry)))"

definition entry_sub_results :: "ProbeDecl \<Rightarrow> EvidenceControlEntry \<Rightarrow> ProbeSubResult list" where
  "entry_sub_results decl entry =
     (let (effective_mode, override_reason) =
            resolve_effective_mode decl (ec_control_id entry) (probe_level_mode decl) (pd_framework decl)
      in if effective_mode = Disabled then []
         else push_entry_sub_results entry (pd_framework decl) (if ec_passed entry then Pass else Fail)
                effective_mode override_reason)"

text \<open>\<open>Path::with_extension\<close>, for a path whose last component is a plain name.\<close>

definition with_extension :: "string \<Rightarrow> string \<Rightarrow> string" where
  "with_extension p ext =
     (let name = rev (takeWhile (\<lambda>c. c \<noteq> CHR ''/'') (rev p));
          dir = take (length p - length name) p;
          suffix = takeWhile (\<lambda>c. c \<noteq> CHR ''.'') (rev name);
          stem = take (length name - length suffix - 1) name
      in if name = [] \<or> name = ''..'' then p
         else dir @ (if length suffix + 1 < length name then stem else name) @ ''.'' @ ext)"

fun split_whitespace_aux :: "string \<Rightarrow> string \<Rightarrow> string list" where
  "split_whitespace_aux w [] = (if w = [] then [] else [rev w])"
| "split_whitespace_aux w (c # cs) =
     (if is_space c then (if w = [] then [] else [rev w]) @ split_whitespace_aux [] cs
      else split_whitespace_aux (c # w) cs)"

definition split_whitespace :: "string \<Rightarrow> string list" where
  "split_whitespace s = split_whitespace_aux [] s"

definition resolve_host_pubkey :: "'ek probe_io \<Rightarrow> string + byte list" where
  "resolve_host_pubkey pio =
     (let priv_path = (case pi_env pio ''NIXFLEET_AGENT_SSH_HOST_KEY_FILE'' of
            Some p \<Rightarrow> p | None \<Rightarrow> ''/etc/ssh/ssh_host_ed25519_key'');
          pub_path = priv_path @ ''.pub''
      in case pi_read pio pub_path of
           Inl e \<Rightarrow> Inl (''read host pubkey '' @ pub_path @ '': '' @ e)
         | Inr bytes \<Rightarrow>
           case from_utf8 bytes of
             None \<Rightarrow> Inl (''read host pubkey '' @ pub_path @ '': stream did not contain valid UTF-8'')
           | Some raw \<Rightarrow>
             case split_whitespace raw of
               _ # blob_b64 # _ \<Rightarrow>
                 (case pi_base64 pio blob_b64 of
                    Inl e \<Rightarrow> Inl (''host pubkey base64 decode: '' @ e)
                  | Inr blob \<Rightarrow>
                    if length blob < 32 then Inl (''host pubkey blob len '' @ show_nat (length blob) @ '' < 32'')
                    else Inr (drop (length blob - 32) blob))
             | _ \<Rightarrow> Inl (''malformed host pubkey at '' @ pub_path))"

text \<open>The evidence, when it is signed by the host's own key and of the schema; otherwise the reason.\<close>

definition verified_evidence :: "'ek probe_io \<Rightarrow> ProbeDecl \<Rightarrow> string + EvidenceFile" where
  "verified_evidence pio decl =
     (let path = pd_evidence_path decl;
          sig_path = with_extension path ''json.sig''
      in case pi_read pio path of
           Inl e \<Rightarrow> Inl (''evidence probe: read '' @ path @ '': '' @ e)
         | Inr payload_bytes \<Rightarrow>
           case pi_read pio sig_path of
             Inl e \<Rightarrow> Inl (''evidence probe: read '' @ sig_path @ '': '' @ e)
           | Inr sig_file \<Rightarrow>
             case from_utf8 sig_file of
               None \<Rightarrow> Inl (''evidence probe: read '' @ sig_path @ '': stream did not contain valid UTF-8'')
             | Some sig_text \<Rightarrow>
               case resolve_host_pubkey pio of
                 Inl reason \<Rightarrow> Inl (''evidence probe: '' @ reason)
               | Inr pubkey_bytes \<Rightarrow>
                 case pi_key pio pubkey_bytes of
                   Inl e \<Rightarrow> Inl (''evidence probe: pubkey parse: '' @ e)
                 | Inr vk \<Rightarrow>
                   case pi_base64 pio (trim sig_text) of
                     Inl e \<Rightarrow> Inl (''evidence probe: sig base64: '' @ e)
                   | Inr sig_bytes \<Rightarrow>
                     if length sig_bytes \<noteq> 64
                     then Inl (''evidence probe: sig length '' @ show_nat (length sig_bytes) @ '' != 64'')
                     else case pi_parse_evidence pio payload_bytes of
                       Inl e \<Rightarrow> Inl (''evidence probe: parse: '' @ e)
                     | Inr parsed \<Rightarrow>
                       case pi_jcs pio parsed of
                         Inl e \<Rightarrow> Inl (''evidence probe: canonicalise: '' @ e)
                       | Inr canonical_bytes \<Rightarrow>
                         if \<not> pi_verify pio vk canonical_bytes sig_bytes
                         then Inl ''evidence probe: signature verify failed''
                         else if ef_schema_version parsed \<noteq> EVIDENCE_SCHEMA_VERSION
                         then Inl (''evidence probe: schemaVersion '' @ show_nat (unat (ef_schema_version parsed))
                                @ '' unsupported (agent expects 1); upgrade nixfleet-compliance'')
                         else Inr parsed)"

definition evidence_run :: "'ek probe_io \<Rightarrow> ProbeDecl \<Rightarrow> instant \<Rightarrow> RunnerOutcome" where
  "evidence_run pio decl now =
     (if pd_framework decl = None \<and> pd_controls decl = []
      then outcome_fail now ''evidence probe: neither framework nor controls declared''
      else if pd_framework decl \<noteq> None \<and> pd_controls decl \<noteq> []
      then outcome_fail now ''evidence probe: framework and controls both set (XOR violation)''
      else case verified_evidence pio decl of
        Inl reason \<Rightarrow> outcome_fail now reason
      | Inr parsed \<Rightarrow>
        let sub_results = concat (map (entry_sub_results decl) (ef_controls parsed))
        in if sub_results = []
           then outcome_fail now (case pd_framework decl of
                  Some f \<Rightarrow> ''evidence probe: no controls match framework '' @ [CHR 0x27] @ f @ [CHR 0x27]
                | None \<Rightarrow> ''evidence probe: no controls matched the explicit selection'')
           else
             let all_enforce_pass = list_all (\<lambda>r. psr_status r = Pass)
                   (filter (\<lambda>r. psr_effective_mode r = Enforce) sub_results)
             in \<lparr>ro_status = (if all_enforce_pass then Pass else Fail), ro_observed_at = now,
                 ro_failure_reason =
                   (if all_enforce_pass then None
                    else Some (''evidence probe: '' @ (case pd_framework decl of Some f \<Rightarrow> f | None \<Rightarrow> ''custom-controls'')
                           @ '': at least one enforce-mode control failed'')),
                 ro_sub_results = Some sub_results\<rparr>)"

definition probe_run :: "'ek probe_io \<Rightarrow> ProbeDecl \<Rightarrow> instant \<Rightarrow> RunnerOutcome" where
  "probe_run pio decl now =
     (if pd_kind decl = ''http'' then http_run pio decl now
      else if pd_kind decl = ''tcp'' then tcp_run pio decl now
      else if pd_kind decl = ''exec'' then exec_run pio decl now
      else if pd_kind decl = ''evidence'' then evidence_run pio decl now
      else outcome_fail now (''unknown probe kind '' @ [CHR 0x27] @ pd_kind decl @ [CHR 0x27]))"

section \<open>probe.rs\<close>

definition HEALTH_CHECKS_PATH :: string where
  "HEALTH_CHECKS_PATH = ''/etc/nixfleet/agent/health-checks.json''"

definition parse_mode :: "string \<Rightarrow> ProbeMode" where
  "parse_mode s =
     (if s = ''enforce'' then Enforce else if s = ''observe'' then Observe else if s = ''disabled'' then Disabled
      else Enforce)"

record ticker =
  tk_name :: ProbeName
  tk_decl :: ProbeDecl
  tk_mode :: ProbeMode
  tk_rollout :: RolloutId

definition ticker_interval :: "ProbeDecl \<Rightarrow> u64" where
  "ticker_interval decl = max (pd_interval_seconds decl) MIN_INTERVAL_SECS"

text \<open>
  One turn of a ticker: its state is whether it observed before and the last status. \<open>now\<close> is the
  clock when the probe started.
\<close>

definition ticker_turn ::
  "ticker \<Rightarrow> RunnerOutcome \<Rightarrow> bool \<times> ProbeStatus option \<Rightarrow> AgentInput list \<times> (bool \<times> ProbeStatus option)" where
  "ticker_turn tk oc st =
     (case st of (first_observed, last_status) \<Rightarrow>
        let at = ro_observed_at oc;
            was_fail = (last_status = Some Fail);
            now_fail = (ro_status oc = Fail);
            events =
              (if first_observed then [] else [LocalProbeObservedFirst (tk_name tk) (tk_mode tk) at 0])
              @ (if now_fail \<and> \<not> was_fail then [LocalProbeFailureFirst (tk_name tk) (tk_mode tk) at 0] else [])
              @ [LocalProbeResult (tk_name tk) (tk_mode tk) (ro_status oc) at (ro_failure_reason oc) (ro_sub_results oc) 0]
        in (map (AgentHostEvent (tk_rollout tk)) events, (True, Some (ro_status oc))))"

fun ticker_loop :: "ticker \<Rightarrow> RunnerOutcome list \<Rightarrow> bool \<times> ProbeStatus option \<Rightarrow> AgentInput list" where
  "ticker_loop tk [] st = []"
| "ticker_loop tk (oc # ocs) st =
     (let (inputs, st) = ticker_turn tk oc st
      in if pd_run_once (tk_decl tk) then inputs else inputs @ ticker_loop tk ocs st)"

text \<open>What a ticker sends while its probe runs at the given instants.\<close>

definition ticker_inputs :: "'ek probe_io \<Rightarrow> ticker \<Rightarrow> instant list \<Rightarrow> AgentInput list" where
  "ticker_inputs pio tk ts = ticker_loop tk (map (probe_run pio (tk_decl tk)) ts) (False, None)"

text \<open>A reset: what is sent at once, and the tickers that replace the old ones.\<close>

definition handle_reset :: "'ek probe_io \<Rightarrow> RolloutId \<Rightarrow> instant \<Rightarrow> AgentInput list \<times> ticker list" where
  "handle_reset pio rollout_id now =
     (if pi_env pio ''NIXFLEET_AGENT_PROBE_TEST_MODE'' \<noteq> None then ([], [])
      else case pi_read pio HEALTH_CHECKS_PATH of
        Inl _ \<Rightarrow> ([], [])
      | Inr bytes \<Rightarrow>
        case from_utf8 bytes of
          None \<Rightarrow> ([], [])
        | Some raw \<Rightarrow>
          case pi_parse_decls pio raw of
            Inl _ \<Rightarrow> ([], [])
          | Inr decls \<Rightarrow>
            let topology = map (\<lambda>(name, d). \<lparr>pte_probe_name = name, pte_kind = pd_kind d, pte_mode = parse_mode (pd_mode d)\<rparr>) decls
            in ([AgentHostEvent rollout_id (LocalProbeTopologyDeclared topology now 0)],
                concat (map (\<lambda>(name, d).
                  if parse_mode (pd_mode d) = Disabled then []
                  else [\<lparr>tk_name = name, tk_decl = d, tk_mode = parse_mode (pd_mode d), tk_rollout = rollout_id\<rparr>]) decls)))"

section \<open>Specification vocabulary and samples\<close>

text \<open>The mode of a control under a declaration, and whether the declaration selects it.\<close>

definition control_mode :: "ProbeDecl \<Rightarrow> EvidenceControlEntry \<Rightarrow> ProbeMode" where
  "control_mode decl e = fst (resolve_effective_mode decl (ec_control_id e) (probe_level_mode decl) (pd_framework decl))"

definition selects :: "ProbeDecl \<Rightarrow> EvidenceControlEntry \<Rightarrow> bool" where
  "selects decl e \<longleftrightarrow> control_mode decl e \<noteq> Disabled
     \<and> (case pd_framework decl of Some f \<Rightarrow> hget (ec_framework_articles e) f \<noteq> None | None \<Rightarrow> True)"

definition evidence_ok :: "ProbeDecl \<Rightarrow> EvidenceFile \<Rightarrow> bool" where
  "evidence_ok decl ev \<longleftrightarrow>
     (\<exists>e \<in> set (ef_controls ev). selects decl e)
     \<and> (\<forall>e \<in> set (ef_controls ev). selects decl e \<and> control_mode decl e = Enforce \<longrightarrow> ec_passed e)"

text \<open>A well-formed byte list starts with a character of one to four bytes.\<close>

definition utf8_char :: "nat \<Rightarrow> byte list \<Rightarrow> bool" where
  "utf8_char n bs \<longleftrightarrow> 0 < n \<and> n \<le> length bs \<and> (\<forall>i. 0 < i \<and> i < n \<longrightarrow> cont_byte (bs ! i))
     \<and> utf8_valid (drop n bs) \<and> (\<forall>rest. utf8_valid rest \<longrightarrow> utf8_valid (take n bs @ rest))"

text \<open>What the turn with index \<open>i\<close> of a ticker sends.\<close>

definition turn_events :: "ticker \<Rightarrow> RunnerOutcome list \<Rightarrow> nat \<Rightarrow> Event list" where
  "turn_events tk ocs i =
     (if i = 0 then [LocalProbeObservedFirst (tk_name tk) (tk_mode tk) (ro_observed_at (ocs ! i)) 0] else [])
     @ (if ro_status (ocs ! i) = Fail \<and> (i = 0 \<or> ro_status (ocs ! (i - 1)) = Pass)
        then [LocalProbeFailureFirst (tk_name tk) (tk_mode tk) (ro_observed_at (ocs ! i)) 0] else [])
     @ [LocalProbeResult (tk_name tk) (tk_mode tk) (ro_status (ocs ! i)) (ro_observed_at (ocs ! i))
          (ro_failure_reason (ocs ! i)) (ro_sub_results (ocs ! i)) 0]"

definition sample_decl :: ProbeDecl where
  "sample_decl =
     \<lparr>pd_kind = ''evidence'', pd_mode = ''enforce'', pd_interval_seconds = 1, pd_run_once = False, pd_url = None,
      pd_expect_status = 200, pd_host = None, pd_port = None, pd_connect_timeout_secs = 5, pd_command = [],
      pd_timeout_secs = 10, pd_framework = Some ''nis2'', pd_evidence_path = ''/v/evidence.json'',
      pd_control_overrides = [(''weak'', \<lparr>co_mode = ''observe'', co_reason = ''legacy''\<rparr>)], pd_controls = []\<rparr>"

definition sample_evidence :: EvidenceFile where
  "sample_evidence =
     \<lparr>ef_schema_version = 1, ef_hostname = ''h1'', ef_collected_at = 0,
      ef_controls =
        [\<lparr>ec_control_id = ''access'', ec_passed = True, ec_framework_articles = [(''nis2'', [''21''])], ec_details = None,
          ec_schema = None\<rparr>,
         \<lparr>ec_control_id = ''weak'', ec_passed = False, ec_framework_articles = [(''nis2'', [])], ec_details = None,
          ec_schema = None\<rparr>]\<rparr>"

definition sample_probe_io :: "byte list probe_io" where
  "sample_probe_io =
     \<lparr>pi_http = (\<lambda>_ _. HttpSendError ''down''), pi_connect = (\<lambda>_ _. ConnectTimeout), pi_exec = (\<lambda>_ _. ExecTimeout),
      pi_read = (\<lambda>p. if p = ''/v/evidence.json.sig'' then Inr (replicate 64 0x41)
                else if p = ''/etc/ssh/ssh_host_ed25519_key.pub'' then Inr (as_bytes (''k '' @ replicate 32 (CHR ''A'')))
                else Inr []),
      pi_env = (\<lambda>_. None), pi_parse_evidence = (\<lambda>_. Inr sample_evidence), pi_jcs = (\<lambda>_. Inr []),
      pi_base64 = (\<lambda>s. Inr (as_bytes s)), pi_key = Inr, pi_verify = (\<lambda>k m sg. hd k = hd sg),
      pi_parse_decls = (\<lambda>_. Inr [(''web'', sample_decl)])\<rparr>"

section \<open>Failure reasons\<close>

lemma boundary_le: "boundary_at_or_before s n \<le> n"
  by (induction n) auto

lemma boundary_is: "is_char_boundary s (boundary_at_or_before s n)"
  by (induction n) (auto simp: is_char_boundary_def)

lemma as_bytes_append [simp]: "as_bytes (s @ t) = as_bytes s @ as_bytes t"
  by (simp add: as_bytes_def)

lemma utf8_head:
  assumes "utf8_valid (b # bs)"
  shows "\<exists>n. utf8_char n (b # bs)"
proof (cases "b \<le> 0x7F")
  case True
  then have "utf8_char 1 (b # bs)" using assms by (simp add: utf8_char_def)
  then show ?thesis ..
next
  case b: False
  with assms obtain c cs where bs: "bs = c # cs" by (cases bs) auto
  show ?thesis
  proof (cases "0xC2 \<le> b \<and> b \<le> 0xDF")
    case True
    then have "utf8_char 2 (b # bs)" using assms b by (auto simp: utf8_char_def bs less_2_cases_iff)
    then show ?thesis ..
  next
    case b2: False
    with assms b bs obtain d ds where cs: "cs = d # ds" by (cases cs) auto
    show ?thesis
    proof (cases "0xE0 \<le> b \<and> b \<le> 0xEF")
      case True
      then have "utf8_char 3 (b # bs)" using assms b b2
        by (auto simp: utf8_char_def bs cs numeral_3_eq_3 less_Suc_eq)
      then show ?thesis ..
    next
      case b3: False
      with assms b b2 bs cs obtain e es where ds: "ds = e # es" by (cases ds) auto
      then have "utf8_char 4 (b # bs)" using assms b b2 b3
        by (auto simp: utf8_char_def bs cs numeral_eq_Suc less_Suc_eq)
      then show ?thesis ..
    qed
  qed
qed

lemma utf8_take:
  "utf8_valid bs \<Longrightarrow> k < length bs \<Longrightarrow> k = 0 \<or> \<not> cont_byte (bs ! k) \<Longrightarrow> utf8_valid (take k bs)"
proof (induction "length bs" arbitrary: bs k rule: less_induct)
  case less
  then obtain b bs' where bs: "bs = b # bs'" by (cases bs) auto
  from utf8_head less.prems(1) bs obtain n where n: "utf8_char n bs" by blast
  show ?case
  proof (cases "k = 0")
    case False
    with less.prems(2,3) n have "n \<le> k" by (auto simp: utf8_char_def not_le dest: spec [of _ k])
    then obtain j where k: "k = n + j" using le_Suc_ex by blast
    have "utf8_valid (take j (drop n bs))"
      by (rule less.hyps) (use n less.prems k in \<open>auto simp: utf8_char_def\<close>)
    then show ?thesis using n k by (simp add: utf8_char_def take_add)
  qed simp
qed

lemma utf8_append: "utf8_valid xs \<Longrightarrow> utf8_valid ys \<Longrightarrow> utf8_valid (xs @ ys)"
proof (induction "length xs" arbitrary: xs rule: less_induct)
  case less
  show ?case
  proof (cases xs)
    case (Cons b bs)
    with utf8_head less.prems(1) obtain n where n: "utf8_char n xs" by blast
    have "utf8_valid (drop n xs @ ys)"
      by (rule less.hyps) (use n less.prems(2) in \<open>auto simp: utf8_char_def\<close>)
    with n have "utf8_valid (take n xs @ drop n xs @ ys)" by (simp add: utf8_char_def)
    then show ?thesis by (simp only: append_assoc [symmetric] append_take_drop_id)
  qed (use less.prems(2) in simp)
qed

lemma truncate_utf8:
  assumes "utf8_valid (as_bytes s)"
  shows "utf8_valid (as_bytes (truncate_reason s))"
proof (cases "length s > FAILURE_REASON_MAX_LEN")
  case True
  let ?k = "boundary_at_or_before s FAILURE_REASON_MAX_LEN"
  have k: "?k < length s" using True boundary_le [of s FAILURE_REASON_MAX_LEN] by simp
  with boundary_is [of s FAILURE_REASON_MAX_LEN] have "?k = 0 \<or> \<not> cont_byte (as_bytes s ! ?k)"
    by (auto simp: is_char_boundary_def as_bytes_def)
  from utf8_take [OF assms _ this] k have "utf8_valid (as_bytes (take ?k s))" by (simp add: as_bytes_def take_map)
  moreover have "utf8_valid (as_bytes ''...[truncated]'')" by code_simp
  ultimately show ?thesis using True by (simp add: truncate_reason_def utf8_append)
qed (use assms in \<open>simp add: truncate_reason_def\<close>)

section \<open>Evidence\<close>

lemma article_sub_results_props:
  "article_sub_results e st m r f as \<noteq> []"
  "x \<in> set (article_sub_results e st m r f as) \<Longrightarrow> psr_status x = st \<and> psr_effective_mode x = m"
  by (auto simp: article_sub_results_def sub_result_def split: if_splits)

lemma push_entry_props:
  "x \<in> set (push_entry_sub_results e ff st m r) \<Longrightarrow> psr_status x = st \<and> psr_effective_mode x = m"
  by (auto simp: push_entry_sub_results_def sub_result_def dest: article_sub_results_props(2)
      split: option.splits if_splits)

lemma push_entry_Nil:
  "push_entry_sub_results e ff st m r = [] \<longleftrightarrow> (case ff of Some f \<Rightarrow> hget (ec_framework_articles e) f = None | None \<Rightarrow> False)"
  by (cases "ec_framework_articles e") (auto simp: push_entry_sub_results_def article_sub_results_props(1) split: option.splits)

lemma entry_sub_results_Nil: "entry_sub_results decl e = [] \<longleftrightarrow> \<not> selects decl e"
  by (auto simp: entry_sub_results_def selects_def control_mode_def push_entry_Nil Let_def split: prod.splits option.splits)

lemma entry_sub_results_props:
  "x \<in> set (entry_sub_results decl e) \<Longrightarrow>
     psr_status x = (if ec_passed e then Pass else Fail) \<and> psr_effective_mode x = control_mode decl e"
  by (cases "resolve_effective_mode decl (ec_control_id e) (probe_level_mode decl) (pd_framework decl)")
    (auto simp: entry_sub_results_def control_mode_def dest: push_entry_props split: if_splits)

lemma entries_pass_iff:
  "list_all (\<lambda>r. psr_status r = Pass) (filter (\<lambda>r. psr_effective_mode r = Enforce) (entry_sub_results decl e))
     \<longleftrightarrow> (selects decl e \<and> control_mode decl e = Enforce \<longrightarrow> ec_passed e)"
  using entry_sub_results_Nil [of decl e] entry_sub_results_props [of _ decl e]
  by (cases "entry_sub_results decl e") (auto simp: list_all_iff split: if_splits)

lemma evidence_subs_iff:
  "concat (map (entry_sub_results decl) es) \<noteq> [] \<longleftrightarrow> (\<exists>e \<in> set es. selects decl e)"
  "list_all (\<lambda>r. psr_status r = Pass) (filter (\<lambda>r. psr_effective_mode r = Enforce) (concat (map (entry_sub_results decl) es)))
     \<longleftrightarrow> (\<forall>e \<in> set es. selects decl e \<and> control_mode decl e = Enforce \<longrightarrow> ec_passed e)"
proof -
  show "concat (map (entry_sub_results decl) es) \<noteq> [] \<longleftrightarrow> (\<exists>e \<in> set es. selects decl e)"
    using entry_sub_results_Nil by auto
  show "list_all (\<lambda>r. psr_status r = Pass) (filter (\<lambda>r. psr_effective_mode r = Enforce) (concat (map (entry_sub_results decl) es)))
     \<longleftrightarrow> (\<forall>e \<in> set es. selects decl e \<and> control_mode decl e = Enforce \<longrightarrow> ec_passed e)"
    by (induction es) (simp_all add: entries_pass_iff)
qed

lemma evidence_pass_iff:
  "ro_status (evidence_run pio decl now) = Pass \<longleftrightarrow>
     (pd_framework decl = None \<longleftrightarrow> pd_controls decl \<noteq> []) \<and> (\<exists>ev. verified_evidence pio decl = Inr ev \<and> evidence_ok decl ev)"
  by (auto simp: evidence_run_def outcome_fail_def evidence_ok_def evidence_subs_iff(2) entry_sub_results_Nil Let_def
      split: sum.splits)

section \<open>Tickers\<close>

lemma ticker_loop_eq:
  assumes "\<not> pd_run_once (tk_decl tk)"
  shows "ticker_loop tk ocs st = concat (map (\<lambda>i. fst (ticker_turn tk (ocs ! i)
    (if i = 0 then st else (True, Some (ro_status (ocs ! (i - 1))))))) [0..<length ocs])"
proof (induction ocs arbitrary: st)
  case (Cons oc ocs)
  have shift: "map (\<lambda>i. fst (ticker_turn tk ((oc # ocs) ! i)
      (if i = 0 then st else (True, Some (ro_status ((oc # ocs) ! (i - 1))))))) [Suc 0..<Suc (length ocs)]
    = map (\<lambda>i. fst (ticker_turn tk (ocs ! i) (if i = 0 then (True, Some (ro_status oc))
        else (True, Some (ro_status (ocs ! (i - 1))))))) [0..<length ocs]"
    by (simp add: map_Suc_upt [symmetric] nth_Cons' del: upt_Suc)
  obtain inputs where "ticker_turn tk oc st = (inputs, True, Some (ro_status oc))"
    by (cases st) (simp add: ticker_turn_def Let_def)
  with assms show ?case by (simp add: upt_conv_Cons Cons.IH shift del: upt_Suc)
qed simp

section \<open>Properties\<close>


text \<open>
  A failure reason is short and still text: cutting it keeps it UTF-8, within 526 bytes, and leaves
  a reason of at most 512 bytes alone.
\<close>

lemma reason_bounded:
  assumes "utf8_valid (as_bytes s)"
  shows "utf8_valid (as_bytes (truncate_reason s)) \<and> length (truncate_reason s) \<le> 526
    \<and> (length s \<le> 512 \<longrightarrow> truncate_reason s = s)"
  using truncate_utf8 [OF assms] boundary_le [of s FAILURE_REASON_MAX_LEN]
  by (auto simp: truncate_reason_def FAILURE_REASON_MAX_LEN_def)

text \<open>
  What a ticker reports: one first observation with its first run, a first failure with every run that
  fails after none or after a pass and with no other, and the result of every run, in that order and with
  the instants of the runs.
\<close>

lemma ticker_reports:
  assumes "\<not> pd_run_once (tk_decl tk)"
  shows "ticker_inputs pio tk ts = map (AgentHostEvent (tk_rollout tk))
    (concat (map (turn_events tk (map (probe_run pio (tk_decl tk)) ts)) [0..<length ts]))"
proof -
  have "fst (ticker_turn tk (ocs ! i) (if i = 0 then (False, None) else (True, Some (ro_status (ocs ! (i - 1))))))
      = map (AgentHostEvent (tk_rollout tk)) (turn_events tk ocs i)" for ocs i
    by (cases "ro_status (ocs ! (i - 1))") (auto simp: ticker_turn_def turn_events_def Let_def)
  then show ?thesis
    by (simp add: ticker_inputs_def ticker_loop_eq [OF assms] map_concat comp_def)
qed

text \<open>
  A probe that has not answered does not gate. The reset of the probe worker declares an enforce-mode
  probe and starts its ticker, but the record of the host has no entry for the probe until its first
  result; a tick of the agent after the soak deadline and before that result declares the host
  converged.
\<close>

lemma unanswered_probe_does_not_gate:
  "let a1 = agent_run sample_env
         [AgentTurn 0 (AgentManifestSetUpdated sample_ms),
          AgentTurn 1 (AgentHostEvent rid_a (LocalActivate ''p'' ''t'' 1 5 0)),
          AgentTurn 2 (AgentHostEvent rid_a (LocalActivationCompleted ''t'' 0 2 0))];
       (inputs, tickers) = handle_reset sample_probe_io (hd (ag_probe_resets a1)) 3;
       a2 = fold (agent_input sample_env 3) inputs a1;
       a3 = agent_input sample_env 5 AgentAdvanceTick a2
   in map (\<lambda>tk. (tk_name tk, tk_mode tk, tk_rollout tk)) tickers = [(''web'', Enforce, rid_a)]
      \<and> length inputs = 1
      \<and> map_option (\<lambda>s. (hrs_state s, hrs_probes s)) (hget (ag_host_states a3) rid_a) = Some (HS_Converged, [])"
  by code_simp

end
