(* ===== verification/CP_Auth.thy ===== *)
theory CP_Auth
  imports CP_Db Host_Keys
begin

text \<open>
  Authentication and certificate issuance of the control plane: the enrolment wire types
  (\<open>nixfleet-proto/src/enroll_wire.rs\<close>), certificates of peers (\<open>auth/auth_cn.rs\<close>), issuance
  (\<open>auth/issuance.rs\<close>), the middleware of the router (\<open>server/middleware.rs\<close>, \<open>server/mod.rs\<close>) and
  the two issuing routes (\<open>server/routes/enrollment.rs\<close>). JSON, X.509, the certificate builder
  \<open>rcgen\<close>, the TPM wrapper and the file system are fields of two records of functions, read as they
  answer during the request; the database may fail at any call.
\<close>

section \<open>enroll\_wire.rs\<close>

record TokenClaims =
  tkc_hostname :: string
  tkc_expected_pubkey_fingerprint :: string
  tkc_issued_at :: instant
  tkc_expires_at :: instant
  tkc_nonce :: string

record BootstrapToken =
  bt_version :: u32
  bt_claims :: TokenClaims
  bt_signature :: string

record EnrollRequest =
  enr_token :: BootstrapToken
  enr_csr_pem :: string

text \<open>\<open>EnrollResponse\<close> and \<open>RenewResponse\<close> have the same two fields, \<open>RenewRequest\<close> is the CSR alone.\<close>

record EnrollResponse =
  ers_cert_pem :: string
  ers_not_after :: instant

section \<open>Third-party functions\<close>

record ('v, 'ek, 'pt, 'pk, 'ps) token_env =
  te_crypto :: "('v, 'ek, 'pt, 'pk, 'ps) crypto"
  te_base64_encode :: "byte list \<Rightarrow> string"
  te_ed25519_verify :: "'ek \<Rightarrow> byte list \<Rightarrow> byte list \<Rightarrow> bool"
  te_claims_json :: "TokenClaims \<Rightarrow> string + string"
  te_trust_parse :: "string \<Rightarrow> string + TrustConfig"
  te_read :: "string \<Rightarrow> string + string"
    \<comment> \<open>\<open>fs::read_to_string\<close>\<close>
  te_db_err :: "string \<Rightarrow> bool"
    \<comment> \<open>the database calls that fail during the request\<close>

datatype DnType = CommonName | OtherDnType string

text \<open>Of the other kinds of value the source only takes the \<open>Debug\<close> text.\<close>

datatype DnValue = PrintableString string | Utf8String string | OtherDnValue string

text \<open>
  A parsed CSR: the attributes of its subject in order, its public key, and whatever else of the
  request \<open>rcgen\<close> carries over into the certificate.
\<close>

record 'x csr =
  csr_dn :: "(DnType \<times> DnValue) list"
  csr_public_key :: "byte list"
  csr_rest :: 'x

record 'x cert_params =
  cpm_dn :: "(DnType \<times> DnValue) list"
    \<comment> \<open>the attributes pushed, in order\<close>
  cpm_subject_alt_names :: "string list"
  cpm_extended_key_usages :: "string list"
  cpm_not_before :: instant
  cpm_not_after :: instant
  cpm_rest :: 'x

record ('x, 'p, 'cert, 'kp) issuer_env =
  ie_csr_from_pem :: "string \<Rightarrow> string + 'x csr"
  ie_dns_name :: "string \<Rightarrow> bool"
    \<comment> \<open>the text is accepted as a dNSName\<close>
  ie_signed_by :: "'x cert_params \<Rightarrow> byte list \<Rightarrow> 'cert \<Rightarrow> 'kp \<Rightarrow> string + string"
    \<comment> \<open>the PEM of the certificate\<close>
  ie_key_from_pem :: "string \<Rightarrow> string + 'kp"
  ie_key_from_remote :: "byte list \<Rightarrow> (byte list \<Rightarrow> byte list option) \<Rightarrow> string + 'kp"
  ie_ca_params :: "string \<Rightarrow> string + 'p"
  ie_self_signed :: "'p \<Rightarrow> 'kp \<Rightarrow> string + 'cert"
  ie_read_string :: "string \<Rightarrow> string + string"
  ie_read_bytes :: "string \<Rightarrow> string + byte list"
  ie_tpm_run :: "string \<Rightarrow> byte list \<Rightarrow> string + cmd_output"
    \<comment> \<open>write the message to a temporary file and run the wrapper on it\<close>
  ie_audit_writes :: "string \<Rightarrow> bool"
    \<comment> \<open>the audit log at this path can be appended to\<close>

section \<open>issuance.rs: names and tokens\<close>

definition AGENT_CERT_VALIDITY :: duration where
  "AGENT_CERT_VALIDITY = seconds (30 * 24 * 60 * 60)"

definition DEFAULT_AGENT_CN_SUFFIX :: string where
  "DEFAULT_AGENT_CN_SUFFIX = ''fleet.example.com''"

definition canonical_agent_cn :: "string \<Rightarrow> string \<Rightarrow> string" where
  "canonical_agent_cn machine_id suffix = ''agent-'' @ machine_id @ ''.'' @ suffix"

definition extract_machine_id :: "string \<Rightarrow> string \<Rightarrow> string" where
  "extract_machine_id cn suffix =
     (case Option.bind (strip_prefix ''agent-'' cn) (strip_suffix (''.'' @ suffix)) of
        Some machine_id \<Rightarrow> machine_id
      | None \<Rightarrow> cn)"

datatype AuditContext = AC_Enroll string | AC_Renew string

datatype TrustVerifyError =
    TrustFileRead string string
  | TrustFileParse string
  | NoOrgRootKey
  | NoActiveKeys
  | SignatureMismatch

definition verify_token_signature ::
  "('v, 'ek, 'pt, 'pk, 'ps) token_env \<Rightarrow> BootstrapToken \<Rightarrow> byte list \<Rightarrow> string + unit" where
  "verify_token_signature te token org_root_pubkey =
     (let c = te_crypto te
      in if bt_version token \<noteq> 1 then Inl (''unsupported token version: '' @ show_u32 (bt_version token))
         else if length org_root_pubkey \<noteq> 32 then Inl ''orgRootKey is not 32 bytes''
         else case ed25519_from_bytes c org_root_pubkey of
           Inl e \<Rightarrow> Inl (''parse orgRootKey: '' @ e)
         | Inr pubkey \<Rightarrow>
           case base64_decode c (bt_signature token) of
             Inl e \<Rightarrow> Inl (''decode token signature base64: '' @ e)
           | Inr sig_bytes \<Rightarrow>
             if length sig_bytes \<noteq> 64 then Inl ''parse ed25519 signature''
             else case te_claims_json te (bt_claims token) of
               Inl e \<Rightarrow> Inl (''serialize claims: '' @ e)
             | Inr claims_json \<Rightarrow>
               case canonicalize c claims_json of
                 Inl e \<Rightarrow> Inl (''canonicalize claims: '' @ e)
               | Inr canonical \<Rightarrow>
                 if te_ed25519_verify te pubkey (as_bytes canonical) sig_bytes then Inr ()
                 else Inl ''verify token signature'')"

text \<open>The loop over the candidate keys: one of them verifies the token.\<close>

fun candidate_verifies ::
  "('v, 'ek, 'pt, 'pk, 'ps) token_env \<Rightarrow> BootstrapToken \<Rightarrow> TrustedPubkey list \<Rightarrow> bool" where
  "candidate_verifies te token [] = False"
| "candidate_verifies te token (pubkey # candidates) =
     (if tp_algorithm pubkey \<noteq> ''ed25519'' then candidate_verifies te token candidates
      else case base64_decode (te_crypto te) (tp_public pubkey) of
        Inl _ \<Rightarrow> candidate_verifies te token candidates
      | Inr pubkey_bytes \<Rightarrow>
        (case verify_token_signature te token pubkey_bytes of
           Inr _ \<Rightarrow> True
         | Inl _ \<Rightarrow> candidate_verifies te token candidates))"

definition verify_bootstrap_token_against_trust ::
  "('v, 'ek, 'pt, 'pk, 'ps) token_env \<Rightarrow> string \<Rightarrow> BootstrapToken \<Rightarrow> instant \<Rightarrow> TrustVerifyError + unit" where
  "verify_bootstrap_token_against_trust te trust_path token now =
     (case te_read te trust_path of
        Inl e \<Rightarrow> Inl (TrustFileRead trust_path e)
      | Inr trust_raw \<Rightarrow>
        case te_trust_parse te trust_raw of
          Inl e \<Rightarrow> Inl (TrustFileParse e)
        | Inr trust \<Rightarrow>
          case tc_org_root_key trust of
            None \<Rightarrow> Inl NoOrgRootKey
          | Some org_root \<Rightarrow>
            let candidates = active_keys_at org_root now
            in if candidates = [] then Inl NoActiveKeys
               else if candidate_verifies te token candidates then Inr () else Inl SignatureMismatch)"

definition validate_token_claims :: "TokenClaims \<Rightarrow> string \<Rightarrow> string \<Rightarrow> instant \<Rightarrow> string + unit" where
  "validate_token_claims claims csr_cn csr_pubkey_fingerprint now =
     (if now < tkc_issued_at claims then Inl ''token issued in the future''
      else if now \<ge> tkc_expires_at claims then Inl ''token expired''
      else if csr_cn \<noteq> tkc_hostname claims
      then Inl (''CSR CN ('' @ csr_cn @ '') does not match token hostname ('' @ tkc_hostname claims @ '')'')
      else if csr_pubkey_fingerprint \<noteq> tkc_expected_pubkey_fingerprint claims
      then Inl ''CSR pubkey fingerprint does not match token expected_pubkey_fingerprint''
      else Inr ())"

definition fingerprint :: "('v, 'ek, 'pt, 'pk, 'ps) token_env \<Rightarrow> byte list \<Rightarrow> string" where
  "fingerprint te pubkey_bytes = te_base64_encode te (sha256 (te_crypto te) pubkey_bytes)"

definition validate_csr_against_fleet_host ::
  "('v, 'ek, 'pt, 'pk, 'ps) token_env \<Rightarrow> byte list \<Rightarrow> string option \<Rightarrow> string + unit" where
  "validate_csr_against_fleet_host te csr_pubkey_raw declared_openssh_pubkey =
     (case declared_openssh_pubkey of
        None \<Rightarrow> Inl ''host has no `pubkey` declared in fleet.nix - enrollment refused (declarative-enrollment policy)''
      | Some openssh \<Rightarrow>
        case ed25519_pubkey_raw_from_openssh (base64_decode (te_crypto te)) openssh of
          Inl e \<Rightarrow> Inl (''parse declared OpenSSH pubkey for fleet host: '' @ openssh @ '': ''
                         @ OpenSshParseError_display e)
        | Inr declared_raw \<Rightarrow>
          if csr_pubkey_raw \<noteq> declared_raw
          then Inl (''CSR pubkey does not match host's declared SSH host pubkey (CSR fingerprint: ''
                    @ fingerprint te csr_pubkey_raw @ '', declared fingerprint: ''
                    @ fingerprint te declared_raw @ '')'')
          else Inr ())"

section \<open>issuance.rs: the signers\<close>

datatype 'cert CaSigner =
    FileCaSigner (fcs_key_path: string) (issuer: 'cert)
  | TpmCaSigner (tcs_pubkey_uncompressed: "byte list") (tcs_sign_wrapper_path: string) (issuer: 'cert)

text \<open>\<open>Display\<close> of an exit status; the number of a signal is not kept by \<open>cmd_output\<close>.\<close>

definition show_status :: "i32 option \<Rightarrow> string" where
  "show_status code = (case code of Some n \<Rightarrow> ''exit status: '' @ show_i32 n | None \<Rightarrow> ''signal'')"

definition invoke_tpm_sign :: "('x, 'p, 'cert, 'kp) issuer_env \<Rightarrow> string \<Rightarrow> byte list \<Rightarrow> string + byte list" where
  "invoke_tpm_sign ie wrapper msg =
     (case ie_tpm_run ie wrapper msg of
        Inl e \<Rightarrow> Inl (''invoke tpm-sign wrapper '' @ wrapper @ '': '' @ e)
      | Inr output \<Rightarrow>
        if \<not> status_success output
        then Inl (''tpm-sign wrapper '' @ wrapper @ '' exited '' @ show_status (out_code output)
                  @ '': stderr='' @ from_utf8_lossy (out_stderr output))
        else Inr (out_stdout output))"

text \<open>\<open>RemoteKeyPair::sign\<close>: every failure is the same error of \<open>rcgen\<close>.\<close>

definition tpm_remote_sign :: "('x, 'p, 'cert, 'kp) issuer_env \<Rightarrow> string \<Rightarrow> byte list \<Rightarrow> byte list option" where
  "tpm_remote_sign ie wrapper msg =
     (case invoke_tpm_sign ie wrapper msg of
        Inl _ \<Rightarrow> None
      | Inr raw \<Rightarrow> case der_encode_ecdsa_p256_sig raw of Inl _ \<Rightarrow> None | Inr der \<Rightarrow> Some der)"

definition file_key_pair :: "('x, 'p, 'cert, 'kp) issuer_env \<Rightarrow> string \<Rightarrow> string \<Rightarrow> string + 'kp" where
  "file_key_pair ie label key_path =
     (case ie_read_string ie key_path of
        Inl e \<Rightarrow> Inl (''read fleet CA key '' @ key_path @ '': '' @ e)
      | Inr raw \<Rightarrow>
        case extract_private_key_pem_block raw of
          None \<Rightarrow> Inl label
        | Some pem \<Rightarrow>
          case ie_key_from_pem ie pem of
            Inl e \<Rightarrow> Inl (''parse fleet CA key PEM: '' @ e)
          | Inr key \<Rightarrow> Inr key)"

definition tpm_key_pair :: "('x, 'p, 'cert, 'kp) issuer_env \<Rightarrow> byte list \<Rightarrow> string \<Rightarrow> string + 'kp" where
  "tpm_key_pair ie pubkey_uncompressed wrapper =
     (case ie_key_from_remote ie pubkey_uncompressed (tpm_remote_sign ie wrapper) of
        Inl e \<Rightarrow> Inl (''rcgen from_remote (TPM): '' @ e)
      | Inr key \<Rightarrow> Inr key)"

fun make_key_pair :: "('x, 'p, 'cert, 'kp) issuer_env \<Rightarrow> 'cert CaSigner \<Rightarrow> string + 'kp" where
  "make_key_pair ie (FileCaSigner key_path _) = file_key_pair ie ''extract CA key PEM block'' key_path"
| "make_key_pair ie (TpmCaSigner pubkey_uncompressed wrapper _) = tpm_key_pair ie pubkey_uncompressed wrapper"

text \<open>Both constructors rebuild the issuer certificate by signing the parsed parameters anew.\<close>

definition rebuild_issuer :: "('x, 'p, 'cert, 'kp) issuer_env \<Rightarrow> string \<Rightarrow> 'kp \<Rightarrow> string + 'cert" where
  "rebuild_issuer ie ca_cert_pem key =
     (case ie_ca_params ie ca_cert_pem of Inl e \<Rightarrow> Inl e | Inr ca_params \<Rightarrow> ie_self_signed ie ca_params key)"

definition FileCaSigner_from_paths ::
  "('x, 'p, 'cert, 'kp) issuer_env \<Rightarrow> string \<Rightarrow> string \<Rightarrow> string + 'cert CaSigner" where
  "FileCaSigner_from_paths ie ca_cert_path ca_key_path =
     (case ie_read_string ie ca_cert_path of
        Inl e \<Rightarrow> Inl (''read fleet CA cert '' @ ca_cert_path @ '': '' @ e)
      | Inr ca_cert_pem \<Rightarrow>
        case file_key_pair ie ''extract private-key block from fleet CA key PEM'' ca_key_path of
          Inl e \<Rightarrow> Inl e
        | Inr ca_key \<Rightarrow>
          case rebuild_issuer ie ca_cert_pem ca_key of
            Inl e \<Rightarrow> Inl e
          | Inr issuer_cert \<Rightarrow> Inr (FileCaSigner ca_key_path issuer_cert))"

definition TpmCaSigner_from_paths ::
  "('x, 'p, 'cert, 'kp) issuer_env \<Rightarrow> string \<Rightarrow> string \<Rightarrow> string \<Rightarrow> string + 'cert CaSigner" where
  "TpmCaSigner_from_paths ie ca_cert_path tpm_pubkey_raw_path sign_wrapper_path =
     (case ie_read_bytes ie tpm_pubkey_raw_path of
        Inl e \<Rightarrow> Inl (''read TPM pubkey '' @ tpm_pubkey_raw_path @ '': '' @ e)
      | Inr pubkey_raw \<Rightarrow>
        if length pubkey_raw \<noteq> 64
        then Inl (''TPM pubkey expected 64 bytes (raw P-256 X||Y), got '' @ show_nat (length pubkey_raw))
        else case ie_read_string ie ca_cert_path of
          Inl e \<Rightarrow> Inl (''read issuance CA cert '' @ ca_cert_path @ '': '' @ e)
        | Inr ca_cert_pem \<Rightarrow>
          case tpm_key_pair ie (0x04 # pubkey_raw) sign_wrapper_path of
            Inl e \<Rightarrow> Inl e
          | Inr key_pair \<Rightarrow>
            case rebuild_issuer ie ca_cert_pem key_pair of
              Inl e \<Rightarrow> Inl e
            | Inr issuer_cert \<Rightarrow> Inr (TpmCaSigner (0x04 # pubkey_raw) sign_wrapper_path issuer_cert))"

definition ok :: "'e + 'a \<Rightarrow> 'a option" where
  "ok r = (case r of Inl _ \<Rightarrow> None | Inr a \<Rightarrow> Some a)"

definition build_signer_from_args ::
  "('x, 'p, 'cert, 'kp) issuer_env \<Rightarrow> string \<Rightarrow> string option \<Rightarrow> string option \<Rightarrow> string option \<Rightarrow> 'cert CaSigner option" where
  "build_signer_from_args ie cert_path tpm_pubkey_raw tpm_sign_wrapper fleet_ca_key =
     (case (tpm_pubkey_raw, tpm_sign_wrapper, fleet_ca_key) of
        (Some pub_raw, Some wrapper, _) \<Rightarrow> ok (TpmCaSigner_from_paths ie cert_path pub_raw wrapper)
      | (None, None, Some key_path) \<Rightarrow> ok (FileCaSigner_from_paths ie cert_path key_path)
      | _ \<Rightarrow> None)"

section \<open>issuance.rs: issuing a certificate\<close>

definition csr_common_name :: "'x csr \<Rightarrow> DnValue option" where
  "csr_common_name csr = map_option snd (find (\<lambda>(t, v). t = CommonName) (csr_dn csr))"

fun dn_value_str :: "DnValue \<Rightarrow> string" where
  "dn_value_str (PrintableString s) = s"
| "dn_value_str (Utf8String s) = s"
| "dn_value_str (OtherDnValue debug) = debug"

datatype issue_error = IssueErr string | IssuePanic

text \<open>
  The time crate of \<open>rcgen\<close> holds dates up to the year 9999: the conversion of a later one panics, and
  so does the addition for a clock before 1970, whose seconds become a huge unsigned number.
\<close>

definition END_OF_TIME :: instant where
  "END_OF_TIME = seconds 253402300800"

definition agent_cert_params :: "'x csr \<Rightarrow> string \<Rightarrow> instant \<Rightarrow> instant \<Rightarrow> 'x cert_params" where
  "agent_cert_params csr canonical_cn not_before not_after =
     \<lparr>cpm_dn = filter (\<lambda>(t, v). t \<noteq> CommonName) (csr_dn csr) @ [(CommonName, Utf8String canonical_cn)],
      cpm_subject_alt_names = [canonical_cn], cpm_extended_key_usages = [''ClientAuth''],
      cpm_not_before = not_before, cpm_not_after = not_after, cpm_rest = csr_rest csr\<rparr>"

definition issue_cert ::
  "('x, 'p, 'cert, 'kp) issuer_env \<Rightarrow> string \<Rightarrow> 'cert CaSigner \<Rightarrow> duration \<Rightarrow> instant \<Rightarrow> string \<Rightarrow>
   issue_error + string \<times> instant" where
  "issue_cert ie csr_pem signer validity now agent_cn_suffix =
     (case make_key_pair ie signer of
        Inl e \<Rightarrow> Inl (IssueErr e)
      | Inr ca_key \<Rightarrow>
        case ie_csr_from_pem ie csr_pem of
          Inl e \<Rightarrow> Inl (IssueErr (''parse CSR PEM: '' @ e))
        | Inr csr_params \<Rightarrow>
          case csr_common_name csr_params of
            None \<Rightarrow> Inl (IssueErr ''CSR has no CN'')
          | Some csr_cn \<Rightarrow>
            let machine_id = extract_machine_id (dn_value_str csr_cn) agent_cn_suffix;
                canonical_cn = canonical_agent_cn machine_id agent_cn_suffix;
                not_before = seconds (now div seconds 1); not_after = not_before + validity
            in if \<not> ie_dns_name ie canonical_cn then Inl (IssueErr ''canonical CN is not a valid dNSName'')
               else if now < 0 \<or> END_OF_TIME \<le> not_after then Inl IssuePanic
               else case ie_signed_by ie (agent_cert_params csr_params canonical_cn not_before not_after)
                          (csr_public_key csr_params) (issuer signer) ca_key of
                 Inl e \<Rightarrow> Inl (IssueErr (''sign cert with fleet CA: '' @ e))
               | Inr pem \<Rightarrow> Inr (pem, not_after))"

record audit_record =
  aud_at :: instant
  aud_requester_cn :: string
  aud_issued_cn :: string
  aud_not_after :: instant
  aud_validity_secs :: int
  aud_context :: string

fun audit_context_str :: "AuditContext \<Rightarrow> string" where
  "audit_context_str (AC_Enroll token_nonce) = ''enroll/nonce:'' @ token_nonce"
| "audit_context_str (AC_Renew previous_cert_serial) = ''renew/prev:'' @ previous_cert_serial"

text \<open>Best effort: a log that cannot be written is left as it is. One record is one line of JSON.\<close>

definition audit_log ::
  "('x, 'p, 'cert, 'kp) issuer_env \<Rightarrow> string \<Rightarrow> instant \<Rightarrow> string \<Rightarrow> string \<Rightarrow> instant \<Rightarrow> AuditContext \<Rightarrow>
   audit_record list \<Rightarrow> audit_record list" where
  "audit_log ie path now requester_cn issued_cn not_after ctxt log =
     (if ie_audit_writes ie path
      then log @ [\<lparr>aud_at = now, aud_requester_cn = requester_cn, aud_issued_cn = issued_cn,
                   aud_not_after = not_after, aud_validity_secs = num_seconds (not_after - now),
                   aud_context = audit_context_str ctxt\<rparr>]
      else log)"


section \<open>server/state.rs\<close>

record VerifiedFleetSnapshot =
  vfs_fleet :: FleetResolved
  vfs_fleet_resolved_hash :: string
  vfs_artifact_bytes :: "byte list"
  vfs_signature_bytes :: "byte list"

record IssuancePaths =
  ip_fleet_ca_cert :: "string option"
  ip_fleet_ca_key :: "string option"
  ip_audit_log :: "string option"
  ip_trust_path :: string

record AuthDb =
  adb_token_replay :: "TokenReplay list"
  adb_cert_revocations :: "CertRevocation list"

text \<open>The fields of \<open>AppState\<close> the authenticated surface uses, and the content of the audit log file.\<close>

record 'cert AppState =
  as_issuance_paths :: IssuancePaths
  as_ca_signer :: "'cert CaSigner option"
  as_db :: "AuthDb option"
  as_verified_fleet :: "VerifiedFleetSnapshot option"
  as_strict :: bool
  as_agent_cn_suffix :: string
  as_agent_cert_validity :: duration
  as_artifact_primed :: bool
  as_revocations_primed :: bool
  as_revocations_required :: bool
  as_allowed_nonces :: AllowedNoncesView
  as_bootstrap_nonces_primed :: bool
  as_bootstrap_nonces_required :: bool
  as_audit :: "audit_record list"

definition AppState_default :: "'cert AppState" where
  "AppState_default =
     \<lparr>as_issuance_paths = \<lparr>ip_fleet_ca_cert = None, ip_fleet_ca_key = None, ip_audit_log = None, ip_trust_path = []\<rparr>,
      as_ca_signer = None, as_db = None, as_verified_fleet = None, as_strict = False,
      as_agent_cn_suffix = DEFAULT_AGENT_CN_SUFFIX, as_agent_cert_validity = AGENT_CERT_VALIDITY,
      as_artifact_primed = False, as_revocations_primed = False, as_revocations_required = False,
      as_allowed_nonces = [], as_bootstrap_nonces_primed = False, as_bootstrap_nonces_required = False,
      as_audit = []\<rparr>"

definition is_ready :: "'cert AppState \<Rightarrow> bool" where
  "is_ready st =
     (if \<not> as_artifact_primed st then False
      else if as_revocations_required st \<and> \<not> as_revocations_primed st then False
      else if as_bootstrap_nonces_required st \<and> \<not> as_bootstrap_nonces_primed st then False
      else True)"

section \<open>auth\_cn.rs\<close>

text \<open>
  A parsed certificate: the common names of its subject, each with its text when it is a string,
  and \<open>notBefore\<close> in seconds. Certificate times have years of four digits, within the range of \<open>chrono\<close>.
\<close>

record x509 =
  x5_common_names :: "string option list"
  x5_not_before :: int

type_synonym PeerCertificates = "byte list list"

definition is_present :: "PeerCertificates \<Rightarrow> bool" where
  "is_present chain \<longleftrightarrow> chain \<noteq> []"

definition leaf :: "PeerCertificates \<Rightarrow> byte list option" where
  "leaf chain = (case chain of [] \<Rightarrow> None | c # _ \<Rightarrow> Some c)"

definition leaf_cn :: "(byte list \<Rightarrow> x509 option) \<Rightarrow> PeerCertificates \<Rightarrow> string option" where
  "leaf_cn x509 chain =
     (case Option.bind (leaf chain) x509 of
        None \<Rightarrow> None
      | Some cert \<Rightarrow> case x5_common_names cert of [] \<Rightarrow> None | attr # _ \<Rightarrow> attr)"

definition leaf_not_before :: "(byte list \<Rightarrow> x509 option) \<Rightarrow> PeerCertificates \<Rightarrow> instant option" where
  "leaf_not_before x509 chain = map_option (\<lambda>cert. seconds (x5_not_before cert)) (Option.bind (leaf chain) x509)"

definition FORBIDDEN :: nat where
  "FORBIDDEN = 403"

definition UNAUTHORIZED :: nat where
  "UNAUTHORIZED = 401"

definition BAD_REQUEST :: nat where
  "BAD_REQUEST = 400"

definition CONFLICT :: nat where
  "CONFLICT = 409"

definition UPGRADE_REQUIRED :: nat where
  "UPGRADE_REQUIRED = 426"

definition INTERNAL_SERVER_ERROR :: nat where
  "INTERNAL_SERVER_ERROR = 500"

definition SERVICE_UNAVAILABLE :: nat where
  "SERVICE_UNAVAILABLE = 503"

text \<open>The path parameter \<open>id\<close> and the certificates of the connection; \<open>Inr ()\<close> passes the request on.\<close>

definition cn_matches_path_machine_id ::
  "(byte list \<Rightarrow> x509 option) \<Rightarrow> string option \<Rightarrow> PeerCertificates option \<Rightarrow> nat + unit" where
  "cn_matches_path_machine_id x509 param_id extension =
     (case param_id of
        None \<Rightarrow> Inr ()
      | Some path_id \<Rightarrow>
        case extension of
          None \<Rightarrow> Inr ()
        | Some certs \<Rightarrow>
          if \<not> is_present certs then Inr ()
          else case leaf_cn x509 certs of
            None \<Rightarrow> Inl FORBIDDEN
          | Some cn \<Rightarrow> if cn \<noteq> path_id then Inl FORBIDDEN else Inr ())"

section \<open>middleware.rs\<close>

definition require_cn ::
  "('v, 'ek, 'pt, 'pk, 'ps) token_env \<Rightarrow> (byte list \<Rightarrow> x509 option) \<Rightarrow> 'cert AppState \<Rightarrow> PeerCertificates \<Rightarrow> nat + string" where
  "require_cn te x509 st peer_certs =
     (if \<not> is_present peer_certs then Inl UNAUTHORIZED
      else case leaf_cn x509 peer_certs of
        None \<Rightarrow> Inl UNAUTHORIZED
      | Some cn \<Rightarrow>
        case as_db st of
          None \<Rightarrow> Inr cn
        | Some db \<Rightarrow>
          let machine_id = extract_machine_id cn (as_agent_cn_suffix st)
          in if te_db_err te ''cert_revoked_before'' then Inl INTERNAL_SERVER_ERROR
             else case cert_revoked_before machine_id (adb_cert_revocations db) of
               None \<Rightarrow> Inr cn
             | Some revoked_before \<Rightarrow>
               case leaf_not_before x509 peer_certs of
                 None \<Rightarrow> Inl UNAUTHORIZED
               | Some cert_nbf \<Rightarrow> if cert_nbf < revoked_before then Inl UNAUTHORIZED else Inr cn)"

definition PROTOCOL_MAJOR_VERSION :: u32 where
  "PROTOCOL_MAJOR_VERSION = 1"

text \<open>\<open>HeaderValue::to_str\<close> accepts visible ASCII and tabs; \<open>str::parse::<u32>\<close> an optional plus sign.\<close>

definition header_to_str :: "byte list \<Rightarrow> string option" where
  "header_to_str bs =
     (if list_all (\<lambda>b. (32 \<le> b \<and> b < 127) \<or> b = 9) bs then Some (map (\<lambda>b. char_of (unat b)) bs) else None)"

definition parse_u32 :: "string \<Rightarrow> u32 option" where
  "parse_u32 s =
     (case (case s of c # cs \<Rightarrow> if c = CHR ''+'' then decimal cs else decimal s | [] \<Rightarrow> None) of
        Some x \<Rightarrow> if x < 2 ^ 32 then Some (word_of_int x) else None
      | None \<Rightarrow> None)"

definition protocol_version_middleware :: "bool \<Rightarrow> byte list option \<Rightarrow> nat + unit" where
  "protocol_version_middleware strict header =
     (case header of
        Some bytes \<Rightarrow>
          (case Option.bind (header_to_str bytes) parse_u32 of
             Some v \<Rightarrow> if v = PROTOCOL_MAJOR_VERSION then Inr () else Inl UPGRADE_REQUIRED
           | None \<Rightarrow> Inl BAD_REQUEST)
      | None \<Rightarrow> if strict then Inl BAD_REQUEST else Inr ())"

definition require_ready_layer :: "'cert AppState \<Rightarrow> nat + unit" where
  "require_ready_layer st = (if is_ready st then Inr () else Inl SERVICE_UNAVAILABLE)"

section \<open>server/mod.rs: the router\<close>

text \<open>
  What the middleware lets through: a layer added later runs earlier, so readiness comes first, then
  the protocol version, then, on every route but enrolment, the certificate.
\<close>

datatype route = Healthz | Enroll | Authenticated string

record http_request =
  rq_route :: route
  rq_protocol :: "byte list option"
  rq_peer :: PeerCertificates

definition admit ::
  "('v, 'ek, 'pt, 'pk, 'ps) token_env \<Rightarrow> (byte list \<Rightarrow> x509 option) \<Rightarrow> 'cert AppState \<Rightarrow> http_request \<Rightarrow> nat + string option" where
  "admit te x509 st rq =
     (if rq_route rq = Healthz then Inr None
      else case require_ready_layer st of
        Inl s \<Rightarrow> Inl s
      | Inr _ \<Rightarrow>
        case protocol_version_middleware (as_strict st) (rq_protocol rq) of
          Inl s \<Rightarrow> Inl s
        | Inr _ \<Rightarrow>
          if rq_route rq = Enroll then Inr None
          else case require_cn te x509 st (rq_peer rq) of
            Inl s \<Rightarrow> Inl s
          | Inr cn \<Rightarrow> Inr (Some cn))"

section \<open>routes/enrollment.rs\<close>

datatype 'a answer = Granted 'a | Refused nat | Crashed


text \<open>
  \<open>enroll\<close> runs in two parts: what it checks, up to the key binding, and what it commits, from the
  insertion of the nonce on. Requests run concurrently, so others may commit between the two; the
  clock of the token table is read at the insertion.
\<close>

definition enroll_check ::
  "('v, 'ek, 'pt, 'pk, 'ps) token_env \<Rightarrow> ('x, 'p, 'cert, 'kp) issuer_env \<Rightarrow> 'cert AppState \<Rightarrow> instant \<Rightarrow>
   EnrollRequest \<Rightarrow> nat + unit" where
  "enroll_check te ie st now req =
     (let claims = bt_claims (enr_token req)
      in case as_db st of
           None \<Rightarrow> Inl SERVICE_UNAVAILABLE
         | Some db \<Rightarrow>
           if te_db_err te ''token_seen'' then Inl INTERNAL_SERVER_ERROR
           else if token_seen (tkc_nonce claims) (adb_token_replay db) then Inl CONFLICT
           else case lookup_nonce (as_allowed_nonces st) (tkc_nonce claims) of
             None \<Rightarrow> Inl UNAUTHORIZED
           | Some entry \<Rightarrow>
             if bn_hostname entry \<noteq> tkc_hostname claims then Inl UNAUTHORIZED
             else if \<not> entry_is_live entry now then Inl UNAUTHORIZED
             else if now < tkc_issued_at claims \<or> now \<ge> tkc_expires_at claims then Inl UNAUTHORIZED
             else case verify_bootstrap_token_against_trust te (ip_trust_path (as_issuance_paths st)) (enr_token req) now of
               Inl e \<Rightarrow> Inl (if e = SignatureMismatch then UNAUTHORIZED else INTERNAL_SERVER_ERROR)
             | Inr _ \<Rightarrow>
               case ie_csr_from_pem ie (enr_csr_pem req) of
                 Inl _ \<Rightarrow> Inl BAD_REQUEST
               | Inr csr_params \<Rightarrow>
                 case csr_common_name csr_params of
                   None \<Rightarrow> Inl BAD_REQUEST
                 | Some cn_value \<Rightarrow>
                   let csr_cn = dn_value_str cn_value; csr_pubkey_der = csr_public_key csr_params
                   in case validate_token_claims claims csr_cn (fingerprint te csr_pubkey_der) now of
                        Inl _ \<Rightarrow> Inl UNAUTHORIZED
                      | Inr _ \<Rightarrow>
                        case as_verified_fleet st of
                          None \<Rightarrow> Inl SERVICE_UNAVAILABLE
                        | Some snap \<Rightarrow>
                          case hget (fl_hosts (vfs_fleet snap)) csr_cn of
                            None \<Rightarrow> Inl UNAUTHORIZED
                          | Some host_decl \<Rightarrow>
                            if length csr_pubkey_der \<noteq> 32 then Inl BAD_REQUEST
                            else case validate_csr_against_fleet_host te csr_pubkey_der (host_pubkey host_decl) of
                              Inl _ \<Rightarrow> Inl UNAUTHORIZED
                            | Inr _ \<Rightarrow> Inr ())"

text \<open>The common tail of both routes: the signer, the certificate, the audit record.\<close>

definition issue_and_audit ::
  "('x, 'p, 'cert, 'kp) issuer_env \<Rightarrow> 'cert AppState \<Rightarrow> instant \<Rightarrow> string \<Rightarrow> string \<Rightarrow> string \<Rightarrow> AuditContext \<Rightarrow>
   EnrollResponse answer \<times> 'cert AppState" where
  "issue_and_audit ie st now csr_pem requester_cn issued_cn ctxt =
     (case as_ca_signer st of
        None \<Rightarrow> (Refused INTERNAL_SERVER_ERROR, st)
      | Some signer \<Rightarrow>
        case issue_cert ie csr_pem signer (as_agent_cert_validity st) now (as_agent_cn_suffix st) of
          Inl IssuePanic \<Rightarrow> (Crashed, st)
        | Inl (IssueErr _) \<Rightarrow> (Refused BAD_REQUEST, st)
        | Inr (cert_pem, not_after) \<Rightarrow>
          (Granted \<lparr>ers_cert_pem = cert_pem, ers_not_after = not_after\<rparr>,
           case ip_audit_log (as_issuance_paths st) of
             None \<Rightarrow> st
           | Some path \<Rightarrow>
             st\<lparr>as_audit := audit_log ie path now requester_cn issued_cn not_after ctxt (as_audit st)\<rparr>))"

definition enroll_commit ::
  "('v, 'ek, 'pt, 'pk, 'ps) token_env \<Rightarrow> ('x, 'p, 'cert, 'kp) issuer_env \<Rightarrow> 'cert AppState \<Rightarrow> instant \<Rightarrow> instant \<Rightarrow>
   EnrollRequest \<Rightarrow> EnrollResponse answer \<times> 'cert AppState" where
  "enroll_commit te ie st now sql_now req =
     (let claims = bt_claims (enr_token req)
      in case as_db st of
           None \<Rightarrow> (Refused SERVICE_UNAVAILABLE, st)
         | Some db \<Rightarrow>
           if te_db_err te ''record_token_nonce'' then (Refused INTERNAL_SERVER_ERROR, st)
           else case record_token_nonce sql_now (tkc_nonce claims) (tkc_hostname claims) (adb_token_replay db) of
             (AlreadyRecorded, _) \<Rightarrow> (Refused CONFLICT, st)
           | (Recorded, t) \<Rightarrow>
             issue_and_audit ie (st\<lparr>as_db := Some (db\<lparr>adb_token_replay := t\<rparr>)\<rparr>) now (enr_csr_pem req) ''<enroll>''
               (canonical_agent_cn (tkc_hostname claims) (as_agent_cn_suffix st)) (AC_Enroll (tkc_nonce claims)))"

definition enroll ::
  "('v, 'ek, 'pt, 'pk, 'ps) token_env \<Rightarrow> ('x, 'p, 'cert, 'kp) issuer_env \<Rightarrow> 'cert AppState \<Rightarrow> instant \<Rightarrow> instant \<Rightarrow>
   EnrollRequest \<Rightarrow> EnrollResponse answer \<times> 'cert AppState" where
  "enroll te ie st now sql_now req =
     (case enroll_check te ie st now req of
        Inl status \<Rightarrow> (Refused status, st)
      | Inr _ \<Rightarrow> enroll_commit te ie st now sql_now req)"

definition renew ::
  "('v, 'ek, 'pt, 'pk, 'ps) token_env \<Rightarrow> ('x, 'p, 'cert, 'kp) issuer_env \<Rightarrow> 'cert AppState \<Rightarrow> instant \<Rightarrow>
   string \<Rightarrow> string \<Rightarrow> EnrollResponse answer \<times> 'cert AppState" where
  "renew te ie st now cn csr_pem =
     (case ie_csr_from_pem ie csr_pem of
        Inl _ \<Rightarrow> (Refused BAD_REQUEST, st)
      | Inr renew_csr_params \<Rightarrow>
        let csr_pubkey_der = csr_public_key renew_csr_params
        in if length csr_pubkey_der \<noteq> 32 then (Refused BAD_REQUEST, st)
           else case as_verified_fleet st of
             None \<Rightarrow> (Refused SERVICE_UNAVAILABLE, st)
           | Some snap \<Rightarrow>
             let machine_id = extract_machine_id cn (as_agent_cn_suffix st)
             in case hget (fl_hosts (vfs_fleet snap)) machine_id of
                  None \<Rightarrow> (Refused UNAUTHORIZED, st)
                | Some host_decl \<Rightarrow>
                  case validate_csr_against_fleet_host te csr_pubkey_der (host_pubkey host_decl) of
                    Inl _ \<Rightarrow> (Refused UNAUTHORIZED, st)
                  | Inr _ \<Rightarrow> issue_and_audit ie st now csr_pem cn cn (AC_Renew ''<unknown>''))"


section \<open>What the routes promise\<close>

text \<open>The trust file lists a key that signed the token; the fleet declares \<open>raw\<close> as the key of a host.\<close>

definition token_signed ::
  "('v, 'ek, 'pt, 'pk, 'ps) token_env \<Rightarrow> string \<Rightarrow> instant \<Rightarrow> BootstrapToken \<Rightarrow> bool" where
  "token_signed te trust_path now token \<longleftrightarrow>
     (\<exists>text trust slot key bytes. te_read te trust_path = Inr text \<and> te_trust_parse te text = Inr trust
        \<and> tc_org_root_key trust = Some slot \<and> key \<in> set (active_keys_at slot now)
        \<and> tp_algorithm key = ''ed25519'' \<and> base64_decode (te_crypto te) (tp_public key) = Inr bytes
        \<and> verify_token_signature te token bytes = Inr ())"

definition declared_key ::
  "('v, 'ek, 'pt, 'pk, 'ps) token_env \<Rightarrow> VerifiedFleetSnapshot \<Rightarrow> string \<Rightarrow> byte list \<Rightarrow> bool" where
  "declared_key te snap host raw \<longleftrightarrow>
     (\<exists>decl line. hget (fl_hosts (vfs_fleet snap)) host = Some decl \<and> host_pubkey decl = Some line
        \<and> ed25519_pubkey_raw_from_openssh (base64_decode (te_crypto te)) line = Inr raw)"

text \<open>
  The response carries the certificate the CA signs for this machine: its canonical name as subject
  and only alternative name, the key of the signing request, client authentication, and the
  configured validity from the second of the request on.
\<close>

definition certifies ::
  "('x, 'p, 'cert, 'kp) issuer_env \<Rightarrow> 'cert AppState \<Rightarrow> instant \<Rightarrow> string \<Rightarrow> string \<Rightarrow> byte list \<Rightarrow> EnrollResponse \<Rightarrow> bool" where
  "certifies ie st now csr_pem machine_id raw resp \<longleftrightarrow>
     (\<exists>csr signer kp.
        let cn = canonical_agent_cn machine_id (as_agent_cn_suffix st);
            not_before = seconds (now div seconds 1); not_after = not_before + as_agent_cert_validity st
        in as_ca_signer st = Some signer \<and> make_key_pair ie signer = Inr kp
           \<and> ie_csr_from_pem ie csr_pem = Inr csr \<and> csr_public_key csr = raw
           \<and> ie_dns_name ie cn \<and> 0 \<le> now \<and> not_after < END_OF_TIME
           \<and> ie_signed_by ie (agent_cert_params csr cn not_before not_after) raw (issuer signer) kp
               = Inr (ers_cert_pem resp)
           \<and> ers_not_after resp = not_after)"

text \<open>What a token must satisfy to be admitted, of the token, the signing request and the fleet.\<close>

definition enrol_permitted ::
  "('v, 'ek, 'pt, 'pk, 'ps) token_env \<Rightarrow> ('x, 'p, 'cert, 'kp) issuer_env \<Rightarrow> 'cert AppState \<Rightarrow> instant \<Rightarrow>
   EnrollRequest \<Rightarrow> byte list \<Rightarrow> bool" where
  "enrol_permitted te ie st now req raw \<longleftrightarrow>
     (let claims = bt_claims (enr_token req); host = tkc_hostname claims
      in (\<exists>entry. lookup_nonce (as_allowed_nonces st) (tkc_nonce claims) = Some entry
            \<and> bn_hostname entry = host \<and> now \<le> bn_expires_at entry)
         \<and> tkc_issued_at claims \<le> now \<and> now < tkc_expires_at claims
         \<and> token_signed te (ip_trust_path (as_issuance_paths st)) now (enr_token req)
         \<and> (\<exists>csr cn. ie_csr_from_pem ie (enr_csr_pem req) = Inr csr \<and> csr_common_name csr = Some cn
              \<and> dn_value_str cn = host \<and> csr_public_key csr = raw)
         \<and> fingerprint te raw = tkc_expected_pubkey_fingerprint claims
         \<and> (\<exists>snap. as_verified_fleet st = Some snap \<and> declared_key te snap host raw))"

section \<open>A small fleet\<close>

text \<open>
  Two hosts with their own keys. A CSR is the name it asks for, with the key of \<open>web\<close>; a certificate
  is its subject's name, issued at time 100.
\<close>

definition web_key :: "byte list" where
  "web_key = replicate 32 0x11"

definition db_key :: "byte list" where
  "db_key = replicate 32 0x22"

definition keyed_host :: "byte list \<Rightarrow> Host" where
  "keyed_host raw =
     \<lparr>host_system = ''x86_64-linux'', host_tags = [], host_channel = ''stable'', host_closure_hash = None,
      host_pubkey = Some (openssh_line sample_encode raw ''root@host''), host_pin = None\<rparr>"

definition keyed_fleet :: FleetResolved where
  "keyed_fleet = sample_fleet\<lparr>fl_hosts := [(''web'', keyed_host web_key), (''db'', keyed_host db_key)]\<rparr>"

definition sample_te :: "(string, byte list, byte list, byte list, byte list) token_env" where
  "sample_te =
     \<lparr>te_crypto = sample_crypto\<lparr>base64_decode := sample_decode\<rparr>, te_base64_encode = sample_encode,
      te_ed25519_verify = (\<lambda>k m s. hd k = hd s), te_claims_json = (\<lambda>claims. Inr (tkc_nonce claims)),
      te_trust_parse = (\<lambda>_. Inr \<lparr>tc_schema_version = 1,
        tc_ci_release_key = \<lparr>ks_current = None, ks_previous = None, ks_reject_before = None, ks_successor = None, ks_retire_at = None\<rparr>,
        tc_cache_keys = [],
        tc_org_root_key = Some \<lparr>ks_current = Some \<lparr>tp_algorithm = ''ed25519'', tp_public = sample_encode (replicate 32 7)\<rparr>,
          ks_previous = None, ks_reject_before = None, ks_successor = None, ks_retire_at = None\<rparr>,
        tc_root_ca_pem = None, tc_issuance_ca_pems = []\<rparr>),
      te_read = Inr, te_db_err = (\<lambda>_. False)\<rparr>"

definition sample_ie :: "(unit, unit, unit, unit) issuer_env" where
  "sample_ie =
     \<lparr>ie_csr_from_pem = (\<lambda>name. Inr \<lparr>csr_dn = [(CommonName, Utf8String name)], csr_public_key = web_key, csr_rest = ()\<rparr>),
      ie_dns_name = (\<lambda>_. True),
      ie_signed_by = (\<lambda>params key ca kp. Inr (hd (cpm_subject_alt_names params))),
      ie_key_from_pem = (\<lambda>_. Inr ()), ie_key_from_remote = (\<lambda>_ _. Inr ()), ie_ca_params = (\<lambda>_. Inr ()),
      ie_self_signed = (\<lambda>_ _. Inr ()),
      ie_read_string = (\<lambda>_. Inr (pem_block ''PRIVATE KEY'' (''key'' @ newline))), ie_read_bytes = (\<lambda>_. Inr []),
      ie_tpm_run = (\<lambda>_ _. Inl ''no TPM''), ie_audit_writes = (\<lambda>_. True)\<rparr>"

definition sample_x509 :: "byte list \<Rightarrow> x509 option" where
  "sample_x509 der = Some \<lparr>x5_common_names = [Some (map (\<lambda>b. char_of (unat b)) der)], x5_not_before = 100\<rparr>"

definition sample_app :: "unit AppState" where
  "sample_app = AppState_default
     \<lparr>as_ca_signer := Some (FileCaSigner ''ca.key'' ()),
      as_db := Some \<lparr>adb_token_replay = [], adb_cert_revocations = []\<rparr>,
      as_verified_fleet := Some \<lparr>vfs_fleet = keyed_fleet, vfs_fleet_resolved_hash = ''h'', vfs_artifact_bytes = [],
        vfs_signature_bytes = []\<rparr>,
      as_artifact_primed := True,
      as_allowed_nonces := [(''n'', \<lparr>bn_nonce = ''n'', bn_hostname = ''web'', bn_expires_at = seconds 1000000,
        bn_minted_at = None, bn_minted_by = None\<rparr>)]\<rparr>"

definition audited_app :: "unit AppState" where
  "audited_app = sample_app\<lparr>as_issuance_paths := (as_issuance_paths sample_app)\<lparr>ip_audit_log := Some ''audit''\<rparr>\<rparr>"

definition request_with :: "string \<Rightarrow> http_request" where
  "request_with cert_pem = \<lparr>rq_route = Authenticated ''/v1/agent/events'', rq_protocol = None, rq_peer = [as_bytes cert_pem]\<rparr>"

section \<open>Names\<close>

lemmas status_defs = FORBIDDEN_def UNAUTHORIZED_def BAD_REQUEST_def CONFLICT_def UPGRADE_REQUIRED_def
  INTERNAL_SERVER_ERROR_def SERVICE_UNAVAILABLE_def

lemma starts_with_iff: "starts_with s p \<longleftrightarrow> (\<exists>r. s = p @ r)"
  by (induction s p rule: starts_with.induct) auto

lemma strip_prefix_append [simp]: "strip_prefix p (p @ s) = Some s"
  by (auto simp: strip_prefix_def starts_with_iff)

lemma strip_suffix_append [simp]: "strip_suffix p (s @ p) = Some s"
  by (auto simp: strip_suffix_def starts_with_iff)

lemma extract_canonical [simp]: "extract_machine_id (canonical_agent_cn machine_id suffix) suffix = machine_id"
proof -
  have "strip_prefix ''agent-'' (canonical_agent_cn machine_id suffix) = Some (machine_id @ ''.'' @ suffix)"
    unfolding canonical_agent_cn_def by (rule strip_prefix_append)
  moreover have "strip_suffix (''.'' @ suffix) (machine_id @ ''.'' @ suffix) = Some machine_id"
    by (rule strip_suffix_append)
  ultimately show ?thesis
    by (simp add: extract_machine_id_def)
qed

section \<open>Early returns\<close>

text \<open>A chain of checks, each of which may return early, succeeds when every check does.\<close>

lemma case_sum_Inr_iff:
  "(case r of Inl e \<Rightarrow> Inl (f e) | Inr a \<Rightarrow> k a) = Inr u \<longleftrightarrow> (\<exists>a. r = Inr a \<and> k a = Inr u)"
  by (cases r) auto

lemma case_option_Inr_iff:
  "(case x of None \<Rightarrow> Inl s | Some a \<Rightarrow> k a) = Inr u \<longleftrightarrow> (\<exists>a. x = Some a \<and> k a = Inr u)"
  by (cases x) auto

lemma if_Inr_iff: "(if b then Inl s else r) = Inr u \<longleftrightarrow> \<not> b \<and> r = Inr u"
  by simp

lemmas early_return = case_sum_Inr_iff case_option_Inr_iff if_Inr_iff

section \<open>Enrolment\<close>

lemma candidate_verifies_iff:
  "candidate_verifies te token keys \<longleftrightarrow>
     (\<exists>key \<in> set keys. \<exists>bytes. tp_algorithm key = ''ed25519''
        \<and> base64_decode (te_crypto te) (tp_public key) = Inr bytes \<and> verify_token_signature te token bytes = Inr ())"
  by (induction keys) (auto split: sum.splits)

lemma trust_verified_iff:
  "verify_bootstrap_token_against_trust te path token now = Inr u \<longleftrightarrow> token_signed te path now token"
  by (cases u)
    (auto simp: verify_bootstrap_token_against_trust_def token_signed_def candidate_verifies_iff Let_def
       split: sum.splits option.splits if_splits)

lemma openssh_length: "ed25519_pubkey_raw_from_openssh decode line = Inr raw \<Longrightarrow> length raw = 32"
  by (auto simp: ed25519_pubkey_raw_from_openssh_def split: list.splits sum.splits if_splits prod.splits)

lemma declared_iff:
  "hget (fl_hosts (vfs_fleet snap)) host = Some decl \<Longrightarrow>
   length raw = 32 \<and> validate_csr_against_fleet_host te raw (host_pubkey decl) = Inr u \<longleftrightarrow> declared_key te snap host raw"
  by (cases u) (auto simp: validate_csr_against_fleet_host_def declared_key_def openssh_length
      split: option.splits sum.splits if_splits)

lemma validate_token_claims_iff:
  "validate_token_claims claims cn fp now = Inr u \<longleftrightarrow>
     tkc_issued_at claims \<le> now \<and> now < tkc_expires_at claims \<and> cn = tkc_hostname claims
     \<and> fp = tkc_expected_pubkey_fingerprint claims"
  by (auto simp: validate_token_claims_def)

lemma token_seen_iff: "token_seen nonce t \<longleftrightarrow> nonce \<in> tr_nonce ` set t"
  by (auto simp: token_seen_def select_row_def find_None_iff)


lemma enroll_check_iff:
  "enroll_check te ie st now req = Inr u \<longleftrightarrow>
     (\<exists>db. as_db st = Some db \<and> \<not> te_db_err te ''token_seen''
        \<and> tkc_nonce (bt_claims (enr_token req)) \<notin> tr_nonce ` set (adb_token_replay db))
     \<and> (\<exists>raw. enrol_permitted te ie st now req raw)"
proof -
  have key: "(\<exists>decl. hget (fl_hosts (vfs_fleet snap)) host = Some decl \<and> length raw = 32
      \<and> validate_csr_against_fleet_host te raw (host_pubkey decl) = Inr ()) \<longleftrightarrow> declared_key te snap host raw"
    for snap host raw
    using declared_iff [of snap host _ raw te "()"] by (auto simp: declared_key_def)
  show ?thesis
    unfolding enrol_permitted_def Let_def key [symmetric]
    by (simp add: enroll_check_def Let_def token_seen_iff entry_is_live_def validate_token_claims_iff
        trust_verified_iff early_return) (auto simp: not_le not_less)
qed


lemma issue_cert_Inr_iff:
  "issue_cert ie csr_pem signer validity now suffix = Inr r \<longleftrightarrow>
     (\<exists>kp csr cn pem. make_key_pair ie signer = Inr kp \<and> ie_csr_from_pem ie csr_pem = Inr csr
        \<and> csr_common_name csr = Some cn
        \<and> (let name = canonical_agent_cn (extract_machine_id (dn_value_str cn) suffix) suffix;
               not_before = seconds (now div seconds 1); not_after = not_before + validity
           in ie_dns_name ie name \<and> 0 \<le> now \<and> not_after < END_OF_TIME
              \<and> ie_signed_by ie (agent_cert_params csr name not_before not_after) (csr_public_key csr)
                  (issuer signer) kp = Inr pem
              \<and> r = (pem, not_after)))"
  by (simp add: issue_cert_def Let_def early_return) (auto simp: not_le not_less)

lemma issue_and_audit_Granted_iff:
  "fst (issue_and_audit ie st now csr_pem requester_cn issued_cn ctxt) = Granted resp \<longleftrightarrow>
     (\<exists>signer. as_ca_signer st = Some signer
        \<and> issue_cert ie csr_pem signer (as_agent_cert_validity st) now (as_agent_cn_suffix st)
            = Inr (ers_cert_pem resp, ers_not_after resp))"
  by (auto simp: issue_and_audit_def split: option.splits sum.splits issue_error.splits)

lemma issue_and_audit_keeps [simp]:
  "as_db (snd (issue_and_audit ie st now csr_pem requester_cn issued_cn ctxt)) = as_db st"
  by (auto simp: issue_and_audit_def split: option.splits sum.splits issue_error.splits)


lemma issue_and_audit_certifies:
  assumes "ie_csr_from_pem ie csr_pem = Inr csr"
  shows "fst (issue_and_audit ie st now csr_pem requester_cn issued_cn ctxt) = Granted resp \<longleftrightarrow>
    (\<exists>cn. csr_common_name csr = Some cn
       \<and> certifies ie st now csr_pem (extract_machine_id (dn_value_str cn) (as_agent_cn_suffix st)) (csr_public_key csr) resp)"
  unfolding issue_and_audit_Granted_iff issue_cert_Inr_iff certifies_def Let_def using assms by auto

lemma certifies_db [simp]:
  "certifies ie (st\<lparr>as_db := d\<rparr>) now csr_pem machine_id raw resp \<longleftrightarrow> certifies ie st now csr_pem machine_id raw resp"
  by (simp add: certifies_def)

lemma enroll_commit_Granted_iff:
  "fst (enroll_commit te ie st now sql_now req) = Granted resp \<longleftrightarrow>
     (\<exists>db. as_db st = Some db \<and> \<not> te_db_err te ''record_token_nonce''
        \<and> tkc_nonce (bt_claims (enr_token req)) \<notin> tr_nonce ` set (adb_token_replay db))
     \<and> fst (issue_and_audit ie st now (enr_csr_pem req) cn cn' ctxt) = Granted resp"
  by (auto simp: enroll_commit_def record_token_nonce_def issue_and_audit_Granted_iff Let_def split: option.splits)

text \<open>
  C8. Enrolment grants a certificate exactly when the database answers and has not seen the token's
  nonce, the token satisfies every condition of admission (its nonce is on the signed list for this
  host and live, it is within its validity, signed by a trusted organisation key, and the signing
  request bears the host's name and the public key both the token and the verified fleet name), and
  the CA signs. The certificate is then for that host's canonical name and that key.
\<close>

theorem enroll_grants_iff:
  "fst (enroll te ie st now sql_now req) = Granted resp \<longleftrightarrow>
     (\<exists>db. as_db st = Some db \<and> \<not> te_db_err te ''token_seen'' \<and> \<not> te_db_err te ''record_token_nonce''
        \<and> tkc_nonce (bt_claims (enr_token req)) \<notin> tr_nonce ` set (adb_token_replay db))
     \<and> (\<exists>raw. enrol_permitted te ie st now req raw
          \<and> certifies ie st now (enr_csr_pem req)
              (extract_machine_id (tkc_hostname (bt_claims (enr_token req))) (as_agent_cn_suffix st)) raw resp)"
proof -
  have "(\<exists>raw. enrol_permitted te ie st now req raw)
        \<and> fst (issue_and_audit ie st now (enr_csr_pem req) cn cn' ctxt) = Granted resp \<longleftrightarrow>
      (\<exists>raw. enrol_permitted te ie st now req raw
         \<and> certifies ie st now (enr_csr_pem req)
             (extract_machine_id (tkc_hostname (bt_claims (enr_token req))) (as_agent_cn_suffix st)) raw resp)"
    for cn cn' ctxt
    by (auto simp: enrol_permitted_def Let_def issue_and_audit_certifies)
  then show ?thesis
    using enroll_commit_Granted_iff [of te ie st now sql_now req resp]
      enroll_check_iff [of te ie st now req "()"]
    by (auto simp: enroll_def split: sum.splits)
qed

text \<open>
  Renewal grants a certificate exactly when the signing request carries the key the verified
  fleet declares for the machine of the presented certificate and the CA signs; the name in the new
  certificate is the one the signing request states.
\<close>

lemma renew_grants_iff:
  "fst (renew te ie st now cn csr_pem) = Granted resp \<longleftrightarrow>
     (\<exists>csr csr_cn snap. ie_csr_from_pem ie csr_pem = Inr csr \<and> csr_common_name csr = Some csr_cn
        \<and> as_verified_fleet st = Some snap
        \<and> declared_key te snap (extract_machine_id cn (as_agent_cn_suffix st)) (csr_public_key csr)
        \<and> certifies ie st now csr_pem (extract_machine_id (dn_value_str csr_cn) (as_agent_cn_suffix st))
            (csr_public_key csr) resp)"
proof (cases "ie_csr_from_pem ie csr_pem")
  case (Inr csr)
  show ?thesis
  proof (cases "as_verified_fleet st")
    case (Some snap)
    let ?host = "extract_machine_id cn (as_agent_cn_suffix st)"
    show ?thesis
    proof (cases "hget (fl_hosts (vfs_fleet snap)) ?host")
      case None
      then show ?thesis
        using Inr Some by (auto simp: renew_def Let_def declared_key_def)
    next
      case decl: (Some decl)
      then show ?thesis
        using Inr Some declared_iff [OF decl, of "csr_public_key csr" te "()"]
        by (auto simp: renew_def Let_def issue_and_audit_certifies split: sum.splits)
    qed
  qed (auto simp: renew_def Inr Let_def)
qed (auto simp: renew_def)


lemma sample_key_pair: "make_key_pair sample_ie (FileCaSigner path ()) = Inr ()"
proof -
  have "extract_private_key_pem_block (pem_block ''PRIVATE KEY'' (''key'' @ newline)) \<noteq> None"
    by code_simp
  then show ?thesis
    by (auto simp: sample_ie_def file_key_pair_def)
qed

lemma keyed_host_validates:
  "length raw = 32 \<Longrightarrow> validate_csr_against_fleet_host sample_te raw (host_pubkey (keyed_host raw)) = Inr ()"
  using openssh_line_parses [OF sample_base64_codec, of raw "[]" "''root@host''"]
  by (simp add: validate_csr_against_fleet_host_def keyed_host_def sample_te_def)

lemma sample_leaf_cn: "leaf_cn sample_x509 [as_bytes s] = Some s"
proof -
  have "char_of (unat (word_of_nat (of_char c) :: byte)) = c" for c
    by (simp add: unat_of_nat)
  then show ?thesis
    by (simp add: leaf_cn_def leaf_def sample_x509_def as_bytes_def map_idI)
qed

lemma sample_renew:
  assumes "hget (fl_hosts keyed_fleet) machine_id = Some (keyed_host web_key)"
    "as_ca_signer st = as_ca_signer sample_app" "as_verified_fleet st = as_verified_fleet sample_app"
    "as_agent_cert_validity st = as_agent_cert_validity sample_app"
  shows "renew sample_te sample_ie st (seconds 100) (canonical_agent_cn machine_id (as_agent_cn_suffix st)) name
    = issue_and_audit sample_ie st (seconds 100) name (canonical_agent_cn machine_id (as_agent_cn_suffix st))
        (canonical_agent_cn machine_id (as_agent_cn_suffix st)) (AC_Renew ''<unknown>'')"
  using assms keyed_host_validates [of web_key]
  by (simp add: renew_def Let_def sample_app_def sample_ie_def web_key_def)

lemma sample_issue:
  assumes "as_ca_signer st = as_ca_signer sample_app" "as_agent_cert_validity st = as_agent_cert_validity sample_app"
    "ip_audit_log (as_issuance_paths st) = Some path" "0 \<le> now" "now \<le> seconds 1000000"
  shows "issue_and_audit sample_ie st now name requester issued ctxt
    = (Granted \<lparr>ers_cert_pem = canonical_agent_cn (extract_machine_id name (as_agent_cn_suffix st)) (as_agent_cn_suffix st),
         ers_not_after = seconds (now div seconds 1) + AGENT_CERT_VALIDITY\<rparr>,
       st\<lparr>as_audit := audit_log sample_ie path now requester issued
         (seconds (now div seconds 1) + AGENT_CERT_VALIDITY) ctxt (as_audit st)\<rparr>)"
proof -
  have "seconds (now div seconds 1) + AGENT_CERT_VALIDITY < END_OF_TIME"
    using assms(5) by (simp add: seconds_def AGENT_CERT_VALIDITY_def END_OF_TIME_def)
  then show ?thesis
    using assms sample_key_pair [of "''ca.key''"]
    by (simp add: issue_and_audit_def issue_cert_def Let_def sample_app_def sample_ie_def AppState_default_def
        csr_common_name_def agent_cert_params_def)
qed

lemma sample_suffix [simp]: "as_agent_cn_suffix audited_app = DEFAULT_AGENT_CN_SUFFIX"
  by (simp add: audited_app_def sample_app_def AppState_default_def)

lemma extract_plain: "\<not> starts_with cn ''agent-'' \<Longrightarrow> extract_machine_id cn suffix = cn"
  by (simp add: extract_machine_id_def strip_prefix_def)

lemma sample_admit:
  assumes "as_db st = as_db sample_app" "is_ready st" "\<not> as_strict st"
  shows "admit sample_te sample_x509 st (request_with pem) = Inr (Some pem)"
  using assms sample_leaf_cn [of pem]
  by (simp add: admit_def request_with_def require_ready_layer_def protocol_version_middleware_def require_cn_def
      is_present_def sample_app_def sample_te_def Let_def cert_revoked_before_def select_row_def)


end
