(* ===== verification/CP_Polling.thy ===== *)
theory CP_Polling
  imports CP_Auth Agent_Manifests
begin

text \<open>
  The background tasks of the control plane: fetching signed documents (\<open>polling/signed_fetch.rs\<close>,
  \<open>rollouts_source.rs\<close>), the revocation, bootstrap-nonce and manifest polls, the hourly prune
  (\<open>timers/prune_timer.rs\<close>) and the start of the server (\<open>server/mod.rs\<close>). One function is one turn
  of a task's loop; the network, the files and the parsers are functions of a record, answering as
  they do during that turn.
\<close>

section \<open>signed\_fetch.rs\<close>

record ('v, 'ek, 'pt, 'pk, 'ps) poll_env =
  pe_crypto :: "('v, 'ek, 'pt, 'pk, 'ps) crypto"
  pe_parse_fleet :: "string \<Rightarrow> string + FleetResolved"
  pe_parse_manifest :: "string \<Rightarrow> string + RolloutManifest"
  pe_parse_revocations :: "string \<Rightarrow> string + Revocations"
  pe_parse_nonces :: "string \<Rightarrow> string + BootstrapNonces"
  pe_parse_trust :: "string \<Rightarrow> string + TrustConfig"
  pe_read :: "string \<Rightarrow> string + string"
  pe_read_bytes :: "string \<Rightarrow> string + byte list"
  pe_get :: "string \<Rightarrow> string option \<Rightarrow> http_reply"
    \<comment> \<open>the URL and the value of the \<open>Authorization\<close> header\<close>

definition read_trust_config :: "('v, 'ek, 'pt, 'pk, 'ps) poll_env \<Rightarrow> string \<Rightarrow> string + TrustConfig" where
  "read_trust_config pe path =
     (case pe_read pe path of
        Inl e \<Rightarrow> Inl (''read trust file '' @ path @ '': '' @ e)
      | Inr raw \<Rightarrow> case pe_parse_trust pe raw of Inl e \<Rightarrow> Inl (''parse trust file: '' @ e) | Inr trust \<Rightarrow> Inr trust)"

definition read_trust_roots ::
  "('v, 'ek, 'pt, 'pk, 'ps) poll_env \<Rightarrow> string \<Rightarrow> instant \<Rightarrow> string + TrustedPubkey list \<times> instant option" where
  "read_trust_roots pe path now =
     (case read_trust_config pe path of
        Inl e \<Rightarrow> Inl e
      | Inr trust \<Rightarrow> Inr (active_keys_at (tc_ci_release_key trust) now, ks_reject_before (tc_ci_release_key trust)))"

definition read_token :: "('v, 'ek, 'pt, 'pk, 'ps) poll_env \<Rightarrow> string option \<Rightarrow> string + string option" where
  "read_token pe path =
     (case path of
        Some p \<Rightarrow>
          (case pe_read pe p of
             Inl e \<Rightarrow> Inl (''read token file '' @ p @ '': '' @ e)
           | Inr raw \<Rightarrow> Inr (Some (trim raw)))
      | None \<Rightarrow> Inr None)"

definition fetch_url :: "('v, 'ek, 'pt, 'pk, 'ps) poll_env \<Rightarrow> string \<Rightarrow> string option \<Rightarrow> string + byte list" where
  "fetch_url pe url token =
     (case pe_get pe url (map_option (\<lambda>t. ''Bearer '' @ t) token) of
        NoReply e \<Rightarrow> Inl (''GET '' @ url @ '': '' @ e)
      | Reply status body \<Rightarrow>
        if \<not> (200 \<le> status \<and> status < 300)
        then Inl (url @ '': '' @ show_nat status @ '': '' @ (case body of Inl _ \<Rightarrow> [] | Inr b \<Rightarrow> from_utf8_lossy b))
        else case body of Inl e \<Rightarrow> Inl (''read body '' @ url @ '': '' @ e) | Inr bytes \<Rightarrow> Inr bytes)"

definition fetch_signed_pair ::
  "('v, 'ek, 'pt, 'pk, 'ps) poll_env \<Rightarrow> string \<Rightarrow> string \<Rightarrow> string option \<Rightarrow> string + byte list \<times> byte list" where
  "fetch_signed_pair pe artifact_url signature_url token =
     (case fetch_url pe artifact_url token of
        Inl e \<Rightarrow> Inl e
      | Inr artifact \<Rightarrow>
        case fetch_url pe signature_url token of Inl e \<Rightarrow> Inl e | Inr sig \<Rightarrow> Inr (artifact, sig))"

text \<open>\<open>RevocationsSource\<close>, \<open>BootstrapNoncesSource\<close> and \<open>ChannelRefsSource\<close> have the same fields.\<close>

record SignedSource =
  src_artifact_url :: string
  src_signature_url :: string
  src_token_file :: "string option"
  src_trust_path :: string
  src_freshness_window :: duration

text \<open>
  \<open>poll_once\<close> of the two sidecar polls, which differ in the verifier alone. The clock is read twice
  in a row; one instant stands for both readings.
\<close>

definition poll_sidecar ::
  "('v, 'ek, 'pt, 'pk, 'ps) poll_env \<Rightarrow> SignedSource \<Rightarrow> instant \<Rightarrow>
   (byte list \<Rightarrow> byte list \<Rightarrow> TrustedPubkey list \<Rightarrow> instant \<Rightarrow> duration \<Rightarrow> instant option \<Rightarrow> VerifyError + 'a Verified) \<Rightarrow>
   string + 'a" where
  "poll_sidecar pe config now verify =
     (case read_token pe (src_token_file config) of
        Inl e \<Rightarrow> Inl e
      | Inr token \<Rightarrow>
        case fetch_signed_pair pe (src_artifact_url config) (src_signature_url config) token of
          Inl e \<Rightarrow> Inl e
        | Inr (artifact_bytes, signature_bytes) \<Rightarrow>
          case read_trust_roots pe (src_trust_path config) now of
            Inl e \<Rightarrow> Inl e
          | Inr (trusted_keys, reject_before) \<Rightarrow>
            case verify artifact_bytes signature_bytes trusted_keys now (src_freshness_window config) reject_before of
              Inl _ \<Rightarrow> Inl ''verify''
            | Inr v \<Rightarrow> Inr (v_inner v))"

section \<open>revocations\_poll.rs\<close>

definition revocations_poll_once ::
  "('v, 'ek, 'pt, 'pk, 'ps) poll_env \<Rightarrow> SignedSource \<Rightarrow> instant \<Rightarrow> string + Revocations" where
  "revocations_poll_once pe config now =
     poll_sidecar pe config now (verify_revocations (pe_crypto pe) (pe_parse_revocations pe))"

text \<open>\<open>revoke_err\<close> names the hosts whose row cannot be written, \<open>retain_err\<close> a failure of the reconciling delete.\<close>

definition apply_verified_revocations ::
  "(string \<Rightarrow> bool) \<Rightarrow> bool \<Rightarrow> instant \<Rightarrow> Revocations \<Rightarrow> CertRevocation list \<Rightarrow> CertRevocation list" where
  "apply_verified_revocations revoke_err retain_err now revs t =
     (let t = foldl (\<lambda>t entry. if revoke_err (rev_hostname entry) then t
                else revoke_cert now (rev_hostname entry) (rev_not_before entry) (rev_reason entry) (rev_revoked_by entry) t)
              t (rv_revocations revs);
          keep = map rev_hostname (rv_revocations revs)
      in if retain_err then t else fst (retain_only keep t))"

text \<open>One turn of the task; a failed poll keeps the previous state. The task runs only with a database.\<close>

definition revocations_tick ::
  "('v, 'ek, 'pt, 'pk, 'ps) poll_env \<Rightarrow> (string \<Rightarrow> bool) \<Rightarrow> bool \<Rightarrow> SignedSource \<Rightarrow> instant \<Rightarrow> 'cert AppState \<Rightarrow> 'cert AppState" where
  "revocations_tick pe revoke_err retain_err config now st =
     (case as_db st of
        None \<Rightarrow> st
      | Some db \<Rightarrow>
        case revocations_poll_once pe config now of
          Inl _ \<Rightarrow> st
        | Inr revs \<Rightarrow>
          st\<lparr>as_db := Some (db\<lparr>adb_cert_revocations :=
                 apply_verified_revocations revoke_err retain_err now revs (adb_cert_revocations db)\<rparr>),
             as_revocations_primed := True\<rparr>)"

section \<open>bootstrap\_nonces\_poll.rs\<close>

definition nonces_poll_once ::
  "('v, 'ek, 'pt, 'pk, 'ps) poll_env \<Rightarrow> SignedSource \<Rightarrow> instant \<Rightarrow> string + BootstrapNonces" where
  "nonces_poll_once pe config now =
     poll_sidecar pe config now (verify_bootstrap_nonces (pe_crypto pe) (pe_parse_nonces pe))"

definition apply_verified_allowlist :: "BootstrapNonces \<Rightarrow> 'cert AppState \<Rightarrow> 'cert AppState" where
  "apply_verified_allowlist bn st = st\<lparr>as_allowed_nonces := from_artifact bn\<rparr>"

definition nonces_tick ::
  "('v, 'ek, 'pt, 'pk, 'ps) poll_env \<Rightarrow> SignedSource \<Rightarrow> instant \<Rightarrow> 'cert AppState \<Rightarrow> 'cert AppState" where
  "nonces_tick pe config now st =
     (case nonces_poll_once pe config now of
        Inl _ \<Rightarrow> st
      | Inr bn \<Rightarrow> (apply_verified_allowlist bn st)\<lparr>as_bootstrap_nonces_primed := True\<rparr>)"

section \<open>rollouts\_source.rs\<close>

definition ROLLOUT_ID_PLACEHOLDER :: string where
  "ROLLOUT_ID_PLACEHOLDER = ''{rolloutId}''"

record RolloutsSource =
  rsrc_artifact_url_template :: string
  rsrc_signature_url_template :: string
  rsrc_token_file :: "string option"

definition RolloutsSource_new :: "string \<Rightarrow> string \<Rightarrow> string option \<Rightarrow> string + RolloutsSource" where
  "RolloutsSource_new artifact_url_template signature_url_template token_file =
     (if \<not> contains artifact_url_template ROLLOUT_ID_PLACEHOLDER
      then Inl (''rollouts source: artifact_url_template must contain '' @ ROLLOUT_ID_PLACEHOLDER)
      else if \<not> contains signature_url_template ROLLOUT_ID_PLACEHOLDER
      then Inl (''rollouts source: signature_url_template must contain '' @ ROLLOUT_ID_PLACEHOLDER)
      else Inr \<lparr>rsrc_artifact_url_template = artifact_url_template,
                rsrc_signature_url_template = signature_url_template, rsrc_token_file = token_file\<rparr>)"

text \<open>\<open>str::replace\<close> with a non-empty pattern: every occurrence, from the left, without overlap.\<close>

function str_replace :: "string \<Rightarrow> string \<Rightarrow> string \<Rightarrow> string" where
  "str_replace pat sub [] = []"
| "str_replace pat sub (c # cs) =
     (if pat \<noteq> [] \<and> starts_with (c # cs) pat then sub @ str_replace pat sub (drop (length pat - 1) cs)
      else c # str_replace pat sub cs)"
  by pat_completeness auto

termination
  by (relation "measure (\<lambda>(pat, sub, s). length s)") auto

definition rollouts_fetch_pair ::
  "('v, 'ek, 'pt, 'pk, 'ps) poll_env \<Rightarrow> RolloutsSource \<Rightarrow> string \<Rightarrow> string + byte list \<times> byte list" where
  "rollouts_fetch_pair pe src rollout_id =
     (let artifact_url = str_replace ROLLOUT_ID_PLACEHOLDER rollout_id (rsrc_artifact_url_template src);
          signature_url = str_replace ROLLOUT_ID_PLACEHOLDER rollout_id (rsrc_signature_url_template src)
      in case read_token pe (rsrc_token_file src) of
           Inl e \<Rightarrow> Inl e
         | Inr token \<Rightarrow>
           case fetch_signed_pair pe artifact_url signature_url token of
             Inl e \<Rightarrow> Inl (''fetch rollout pair for '' @ rollout_id @ '': '' @ e)
           | Inr pair \<Rightarrow> Inr pair)"

section \<open>workers/manifest\_poll.rs\<close>

definition check_rollout_id_discriminator :: "string \<Rightarrow> string \<Rightarrow> string \<Rightarrow> string + unit" where
  "check_rollout_id_discriminator manifest_channel manifest_channel_ref requested =
     (let parsed = RolloutId_new manifest_channel manifest_channel_ref
      in if as_str parsed \<noteq> requested
         then Inl (''rollout_id discriminator failed: requested '' @ requested @ '' but signed manifest declares '' @ as_str parsed)
         else Inr ())"

definition fetch_and_verify_channel_manifest ::
  "('v, 'ek, 'pt, 'pk, 'ps) poll_env \<Rightarrow> RolloutsSource \<Rightarrow> FleetResolved \<Rightarrow> string \<Rightarrow> string \<Rightarrow> TrustedPubkey list \<Rightarrow>
   instant \<Rightarrow> duration \<Rightarrow> instant option \<Rightarrow> string + RolloutManifest Verified option" where
  "fetch_and_verify_channel_manifest pe src fleet fleet_hash channel trusted_keys now freshness_window reject_before =
     (case compute_rollout_id_for_channel fleet fleet_hash channel of
        Inl e \<Rightarrow> Inl e
      | Inr None \<Rightarrow> Inr None
      | Inr (Some rollout_id) \<Rightarrow>
        case rollouts_fetch_pair pe src rollout_id of
          Inl e \<Rightarrow> Inl e
        | Inr (manifest_bytes, signature_bytes) \<Rightarrow>
          case verify_rollout_manifest (pe_crypto pe) (pe_parse_manifest pe) manifest_bytes signature_bytes
                 trusted_keys now freshness_window reject_before of
            Inl _ \<Rightarrow> Inl (''verify_rollout_manifest('' @ channel @ '')'')
          | Inr verified \<Rightarrow>
            case check_rollout_id_discriminator (rm_channel (v_inner verified)) (rm_channel_ref (v_inner verified)) rollout_id of
              Inl e \<Rightarrow> Inl (channel @ '': '' @ e)
            | Inr _ \<Rightarrow> Inr (Some verified))"

text \<open>The manifests of the channels that have a verified one; the others are left out until the next tick.\<close>

definition poll_rollouts ::
  "('v, 'ek, 'pt, 'pk, 'ps) poll_env \<Rightarrow> RolloutsSource option \<Rightarrow> FleetResolved \<Rightarrow> string \<Rightarrow> TrustedPubkey list \<Rightarrow>
   instant \<Rightarrow> duration \<Rightarrow> instant option \<Rightarrow> (string, RolloutManifest Verified) hmap" where
  "poll_rollouts pe src fleet fleet_hash trusted_keys now freshness_window reject_before =
     (case src of
        None \<Rightarrow> []
      | Some s \<Rightarrow>
        foldl (\<lambda>rollouts channel.
                 case fetch_and_verify_channel_manifest pe s fleet fleet_hash channel trusted_keys now freshness_window reject_before of
                   Inr (Some verified) \<Rightarrow> hput channel verified rollouts
                 | _ \<Rightarrow> rollouts)
              [] (hkeys (fl_channels fleet)))"

definition manifest_poll_once ::
  "('v, 'ek, 'pt, 'pk, 'ps) poll_env \<Rightarrow> SignedSource option \<Rightarrow> RolloutsSource option \<Rightarrow> instant \<Rightarrow>
   string + (SignedManifestSet \<times> VerifiedFleetSnapshot) option" where
  "manifest_poll_once pe channel_refs rollouts_src now =
     (case channel_refs of
        None \<Rightarrow> Inr None
      | Some src \<Rightarrow>
        case read_trust_roots pe (src_trust_path src) now of
          Inl e \<Rightarrow> Inl e
        | Inr (trusted_keys, reject_before) \<Rightarrow>
          case read_token pe (src_token_file src) of
            Inl e \<Rightarrow> Inl e
          | Inr token \<Rightarrow>
            case fetch_signed_pair pe (src_artifact_url src) (src_signature_url src) token of
              Inl e \<Rightarrow> Inl e
            | Inr (artifact_bytes, signature_bytes) \<Rightarrow>
              case verify_artifact (pe_crypto pe) (pe_parse_fleet pe) artifact_bytes signature_bytes trusted_keys now
                     (src_freshness_window src) reject_before of
                Inl _ \<Rightarrow> Inl ''verify_artifact''
              | Inr fleet \<Rightarrow>
                case canonical_hash_from_bytes (pe_crypto pe) artifact_bytes of
                  Inl _ \<Rightarrow> Inl ''canonical_hash_from_bytes''
                | Inr fleet_hash \<Rightarrow>
                  Inr (Some
                    (\<lparr>sm_fleet = fleet,
                      sm_rollouts = poll_rollouts pe rollouts_src (v_inner fleet) fleet_hash trusted_keys now
                        (src_freshness_window src) reject_before\<rparr>,
                     \<lparr>vfs_fleet = v_inner fleet, vfs_fleet_resolved_hash = fleet_hash,
                      vfs_artifact_bytes = artifact_bytes, vfs_signature_bytes = signature_bytes\<rparr>)))"

definition publish_verified_fleet :: "VerifiedFleetSnapshot \<Rightarrow> 'cert AppState \<Rightarrow> 'cert AppState" where
  "publish_verified_fleet snapshot st = st\<lparr>as_verified_fleet := Some snapshot, as_artifact_primed := True\<rparr>"

text \<open>One turn: the new state and the manifest set handed to the reducer.\<close>

definition manifest_tick ::
  "('v, 'ek, 'pt, 'pk, 'ps) poll_env \<Rightarrow> SignedSource option \<Rightarrow> RolloutsSource option \<Rightarrow> instant \<Rightarrow> 'cert AppState \<Rightarrow>
   'cert AppState \<times> SignedManifestSet list" where
  "manifest_tick pe channel_refs rollouts_src now st =
     (case manifest_poll_once pe channel_refs rollouts_src now of
        Inr (Some (ms, snapshot)) \<Rightarrow> (publish_verified_fleet snapshot st, [ms])
      | Inr None \<Rightarrow> (st, [])
      | Inl _ \<Rightarrow> (st, []))"

text \<open>The prime at startup.\<close>

definition prime_blocking ::
  "('v, 'ek, 'pt, 'pk, 'ps) poll_env \<Rightarrow> SignedSource option \<Rightarrow> RolloutsSource option \<Rightarrow> instant \<Rightarrow> 'cert AppState \<Rightarrow>
   (string + bool) \<times> 'cert AppState" where
  "prime_blocking pe channel_refs rollouts_src now st =
     (if channel_refs = None then (Inr False, st)
      else case manifest_poll_once pe channel_refs rollouts_src now of
        Inl e \<Rightarrow> (Inl e, st)
      | Inr (Some (_, snapshot)) \<Rightarrow> (Inr True, publish_verified_fleet snapshot st)
      | Inr None \<Rightarrow> (Inr False, st))"

section \<open>prune\_timer.rs\<close>

definition TOKEN_REPLAY_RETENTION_HOURS :: nat where
  "TOKEN_REPLAY_RETENTION_HOURS = 24"

definition FINISHED_ROLLOUTS_RETENTION_HOURS :: int where
  "FINISHED_ROLLOUTS_RETENTION_HOURS = 24 * 90"

definition BACKUP_RETENTION_DAYS :: int where
  "BACKUP_RETENTION_DAYS = 14"

definition BACKUP_FILENAME_PREFIX :: string where
  "BACKUP_FILENAME_PREFIX = ''state.db.pre-''"

text \<open>
  A directory entry: it may be unreadable, its name may not be UTF-8 (\<open>None\<close>), its metadata may be
  missing; of the metadata the sweep uses whether it is a file and its modification time. The last
  field says whether removing it succeeds.
\<close>

datatype dir_entry = EntryError | Entry "string option" "(bool \<times> instant option) option" bool

text \<open>The entries left and the number deleted.\<close>

fun sweep_entries :: "instant \<Rightarrow> string \<Rightarrow> dir_entry list \<Rightarrow> dir_entry list \<times> nat" where
  "sweep_entries cutoff prefix [] = ([], 0)"
| "sweep_entries cutoff prefix (e # es) =
     (let (rest, n) = sweep_entries cutoff prefix es
      in case e of
           Entry (Some name) (Some (is_file, Some mtime)) removable \<Rightarrow>
             if starts_with name prefix \<and> is_file \<and> \<not> mtime \<ge> cutoff \<and> removable then (rest, n + 1) else (e # rest, n)
         | _ \<Rightarrow> (e # rest, n))"

datatype read_dir = DirNotFound | DirError string | Dir "dir_entry list"

definition prune_backup_files :: "instant \<Rightarrow> read_dir \<Rightarrow> string \<Rightarrow> int \<Rightarrow> (string + nat) \<times> read_dir" where
  "prune_backup_files now parent prefix retention_days =
     (let cutoff = now - seconds (retention_days * 24 * 60 * 60)
      in case parent of
           DirNotFound \<Rightarrow> (Inr 0, parent)
         | DirError e \<Rightarrow> (Inl e, parent)
         | Dir entries \<Rightarrow> let (rest, n) = sweep_entries cutoff prefix entries in (Inr n, Dir rest))"

text \<open>
  One sweep of the token table, the finished rollouts with their records, and the backups beside
  the database file (\<open>None\<close> without one); a failing step changes nothing and the sweep goes on.
\<close>

definition prune_turn ::
  "(string \<Rightarrow> bool) \<Rightarrow> instant \<Rightarrow> TokenReplay list \<times> (RolloutRowTuple list \<times> HostRecordRow list) \<times> read_dir option \<Rightarrow>
   TokenReplay list \<times> (RolloutRowTuple list \<times> HostRecordRow list) \<times> read_dir option" where
  "prune_turn db_err now tables =
     (case tables of (tokens, rollout_tables, backups) \<Rightarrow>
        (if db_err ''prune_token_replay'' then tokens
         else prune_token_replay now TOKEN_REPLAY_RETENTION_HOURS tokens,
         if db_err ''prune_finished_rollouts'' then rollout_tables
         else fst (prune_finished_rollouts now FINISHED_ROLLOUTS_RETENTION_HOURS rollout_tables),
         map_option (\<lambda>dir. snd (prune_backup_files now dir BACKUP_FILENAME_PREFIX BACKUP_RETENTION_DAYS)) backups))"

definition prune_tokens :: "instant \<Rightarrow> 'cert AppState \<Rightarrow> 'cert AppState" where
  "prune_tokens now st =
     st\<lparr>as_db := map_option (\<lambda>db. db\<lparr>adb_token_replay :=
         fst (prune_turn (\<lambda>_. False) now (adb_token_replay db, ([], []), None))\<rparr>) (as_db st)\<rparr>"

section \<open>server/mod.rs: startup\<close>

text \<open>The arguments that shape the state; the listener, the TLS files and the drain have no part in it.\<close>

record ServeArgs =
  sa_client_ca :: "string option"
  sa_fleet_ca_cert :: "string option"
  sa_fleet_ca_key :: "string option"
  sa_tpm_ca_pubkey_raw :: "string option"
  sa_tpm_ca_sign_wrapper :: "string option"
  sa_allow_file_ca_key :: bool
  sa_audit_log_path :: "string option"
  sa_artifact_path :: string
  sa_signature_path :: string
  sa_trust_path :: string
  sa_freshness_window :: duration
  sa_channel_refs :: "SignedSource option"
  sa_revocations :: "SignedSource option"
  sa_bootstrap_nonces :: "SignedSource option"
  sa_db_path :: "string option"
  sa_rollouts_source :: "RolloutsSource option"
  sa_strict :: bool
  sa_agent_cn_suffix :: string
  sa_agent_cert_validity :: duration
  sa_mark_ready_at_startup :: bool
  sa_initial_nonces :: "AllowedNoncesView option"

text \<open>The texts are those of the source, the section sign as its two UTF-8 bytes.\<close>

definition strict_missing :: "ServeArgs \<Rightarrow> string list" where
  "strict_missing args =
     (let tpm_configured = sa_tpm_ca_pubkey_raw args \<noteq> None \<and> sa_tpm_ca_sign_wrapper args \<noteq> None;
          file_only = sa_fleet_ca_key args \<noteq> None \<and> \<not> tpm_configured
      in (if sa_client_ca args = None
          then [''--client-ca (mTLS verification disabled - TLS-only mode)''] else [])
         @ (if sa_revocations args = None
            then [''--revocations-{artifact,signature}-url (revocations polling disabled - '' @
                  ''previously-revoked certs become valid again after CP rebuild)''] else [])
         @ (if sa_bootstrap_nonces args = None
            then [''--bootstrap-nonces-{artifact,signature}-url (bootstrap-nonces polling disabled - '' @
                  ''replay-after-DB-wipe protection absent, nixfleet#96)''] else [])
         @ (if file_only \<and> \<not> sa_allow_file_ca_key args
            then [''--tpm-ca-pubkey-raw + --tpm-ca-sign-wrapper (file-backed --fleet-ca-key keeps signing '' @
                  ''material on disk; pass --allow-file-ca-key to opt out, RFC-0010 '' @
                  [CHR 0xC2, CHR 0xA7] @ ''1.5.1)''] else []))"

definition prime_from_artifact_files ::
  "('v, 'ek, 'pt, 'pk, 'ps) poll_env \<Rightarrow> string \<Rightarrow> string \<Rightarrow> string \<Rightarrow> duration \<Rightarrow> instant \<Rightarrow> VerifiedFleetSnapshot option" where
  "prime_from_artifact_files pe artifact_path sig_path trust_path freshness_window now =
     (case (pe_read_bytes pe artifact_path, pe_read_bytes pe sig_path) of
        (Inr artifact, Inr sig) \<Rightarrow>
          (case Option.bind (ok (pe_read pe trust_path)) (\<lambda>raw. ok (pe_parse_trust pe raw)) of
             None \<Rightarrow> None
           | Some trust \<Rightarrow>
             case verify_artifact (pe_crypto pe) (pe_parse_fleet pe) artifact sig
                    (active_keys_at (tc_ci_release_key trust) now) now freshness_window
                    (ks_reject_before (tc_ci_release_key trust)) of
               Inl _ \<Rightarrow> None
             | Inr verified \<Rightarrow>
               case canonical_hash_from_bytes (pe_crypto pe) artifact of
                 Inl _ \<Rightarrow> None
               | Inr fleet_hash \<Rightarrow>
                 Some \<lparr>vfs_fleet = v_inner verified, vfs_fleet_resolved_hash = fleet_hash,
                       vfs_artifact_bytes = artifact, vfs_signature_bytes = sig\<rparr>)
      | _ \<Rightarrow> None)"

text \<open>The state before any document is fetched.\<close>

definition initial_state ::
  "('x, 'p, 'cert, 'kp) issuer_env \<Rightarrow> AuthDb option \<Rightarrow> ServeArgs \<Rightarrow> 'cert AppState" where
  "initial_state ie db args =
     (let ready = sa_mark_ready_at_startup args
      in (AppState_default :: 'cert AppState)
        \<lparr>as_db := db, as_strict := sa_strict args, as_agent_cn_suffix := sa_agent_cn_suffix args,
         as_agent_cert_validity := sa_agent_cert_validity args,
         as_revocations_required := sa_revocations args \<noteq> None,
         as_bootstrap_nonces_required := sa_bootstrap_nonces args \<noteq> None,
         as_artifact_primed := ready, as_revocations_primed := ready, as_bootstrap_nonces_primed := ready,
         as_allowed_nonces := (case sa_initial_nonces args of Some nonces \<Rightarrow> nonces | None \<Rightarrow> []),
         as_issuance_paths := \<lparr>ip_fleet_ca_cert = sa_fleet_ca_cert args, ip_fleet_ca_key = sa_fleet_ca_key args,
           ip_audit_log = sa_audit_log_path args, ip_trust_path = sa_trust_path args\<rparr>,
         as_ca_signer := Option.bind (sa_fleet_ca_cert args) (\<lambda>cert_path.
           build_signer_from_args ie cert_path (sa_tpm_ca_pubkey_raw args) (sa_tpm_ca_sign_wrapper args)
             (sa_fleet_ca_key args))\<rparr>)"

text \<open>
  The state when the listener opens, from the arguments, the opened and migrated database (or the
  error), and whether the prime from the network timed out.
\<close>

definition serve_state ::
  "('v, 'ek, 'pt, 'pk, 'ps) poll_env \<Rightarrow> ('x, 'p, 'cert, 'kp) issuer_env \<Rightarrow> (string \<Rightarrow> string + AuthDb) \<Rightarrow> bool \<Rightarrow>
   instant \<Rightarrow> ServeArgs \<Rightarrow> string + 'cert AppState" where
  "serve_state pe ie db_open timed_out now args =
     (if sa_strict args \<and> strict_missing args \<noteq> []
      then Inl (''--strict refuses to start: the following security flags are unset:'' @ newline @ ''  - '' @
                join_with (newline @ ''  - '') (strict_missing args) @ newline @
                ''Either set the missing flags or drop --strict for development.'')
      else case (case sa_db_path args of None \<Rightarrow> Inr None | Some path \<Rightarrow>
                   (case db_open path of Inl e \<Rightarrow> Inl e | Inr db \<Rightarrow> Inr (Some db))) of
        Inl e \<Rightarrow> Inl e
      | Inr db \<Rightarrow>
        let st = initial_state ie db args;
            st = (if timed_out then st
                  else snd (prime_blocking pe (sa_channel_refs args) (sa_rollouts_source args) now st))
        in Inr (if as_verified_fleet st \<noteq> None then st
                else case prime_from_artifact_files pe (sa_artifact_path args) (sa_signature_path args)
                       (sa_trust_path args) (sa_freshness_window args) now of
                  None \<Rightarrow> st
                | Some snapshot \<Rightarrow> publish_verified_fleet snapshot st))"

section \<open>The tasks at work\<close>

text \<open>
  The server under concurrent enrolments: the shared state, the requests between their checks and
  their commit with the instant each began, the clock, and the certificates granted with the nonce
  of their token. The environment of every step is arbitrary: files, network and clock move on.
  Requests satisfy \<open>P\<close>; no request is in flight for as long as the retention of the token table.
\<close>

record 'cert server =
  sv_app :: "'cert AppState"
  sv_pending :: "(instant \<times> EnrollRequest) list"
  sv_clock :: instant
  sv_granted :: "(string \<times> EnrollResponse) list"

definition req_nonce :: "EnrollRequest \<Rightarrow> string" where
  "req_nonce req = tkc_nonce (bt_claims (enr_token req))"

definition hours :: "int \<Rightarrow> duration" where
  "hours n = minutes (n * 60)"

type_synonym ('v, 'ek, 'pt, 'pk, 'ps, 'x, 'p, 'cert, 'kp) environment =
  "('v, 'ek, 'pt, 'pk, 'ps) token_env \<times> ('x, 'p, 'cert, 'kp) issuer_env \<times> ('v, 'ek, 'pt, 'pk, 'ps) poll_env"

inductive server_step ::
  "('v, 'ek, 'pt, 'pk, 'ps, 'x, 'p, 'cert, 'kp) environment set \<Rightarrow> (EnrollRequest \<Rightarrow> bool) \<Rightarrow>
   'cert server \<Rightarrow> 'cert server \<Rightarrow> bool" for E P where
  clock: "sv_clock s \<le> t \<Longrightarrow> server_step E P s (s\<lparr>sv_clock := t\<rparr>)"
| check: "(te, ie, pe) \<in> E \<Longrightarrow> P req \<Longrightarrow> enroll_check te ie (sv_app s) (sv_clock s) req = Inr u \<Longrightarrow>
    server_step E P s (s\<lparr>sv_pending := sv_pending s @ [(sv_clock s, req)]\<rparr>)"
| commit: "(te, ie, pe) \<in> E \<Longrightarrow> sv_pending s = before @ (t, req) # after \<Longrightarrow>
    enroll_commit te ie (sv_app s) t (sv_clock s) req = (ans, app) \<Longrightarrow>
    server_step E P s (s\<lparr>sv_pending := before @ after, sv_app := app,
      sv_granted := sv_granted s @ (case ans of Granted resp \<Rightarrow> [(req_nonce req, resp)] | _ \<Rightarrow> [])\<rparr>)"
| renewal: "(te, ie, pe) \<in> E \<Longrightarrow> renew te ie (sv_app s) (sv_clock s) cn csr = (ans, app) \<Longrightarrow>
    server_step E P s (s\<lparr>sv_app := app\<rparr>)"
| revocations: "(te, ie, pe) \<in> E \<Longrightarrow>
    server_step E P s (s\<lparr>sv_app := revocations_tick pe revoke_err retain_err config (sv_clock s) (sv_app s)\<rparr>)"
| nonces: "(te, ie, pe) \<in> E \<Longrightarrow> server_step E P s (s\<lparr>sv_app := nonces_tick pe config (sv_clock s) (sv_app s)\<rparr>)"
| manifests: "(te, ie, pe) \<in> E \<Longrightarrow> manifest_tick pe refs src (sv_clock s) (sv_app s) = (app, sets) \<Longrightarrow>
    server_step E P s (s\<lparr>sv_app := app\<rparr>)"
| prune: "\<forall>(t, req) \<in> set (sv_pending s). sv_clock s - t \<le> hours 24 \<Longrightarrow>
    server_step E P s (s\<lparr>sv_app := prune_tokens (sv_clock s) (sv_app s)\<rparr>)"

text \<open>A token of at most 24 hours, the validity the operator's tool mints by default.\<close>

definition short_lived :: "EnrollRequest \<Rightarrow> bool" where
  "short_lived req \<longleftrightarrow> tkc_expires_at (bt_claims (enr_token req)) - tkc_issued_at (bt_claims (enr_token req)) \<le> hours 24"

definition recorded :: "'cert AppState \<Rightarrow> TokenReplay list" where
  "recorded st = (case as_db st of None \<Rightarrow> [] | Some db \<Rightarrow> adb_token_replay db)"

text \<open>
  What keeps a nonce single-use. A request in flight was begun after its token was issued, and before
  its nonce was recorded, if it is. A spent nonce is still recorded, or its token has expired and no
  request for it is in flight. The nonces granted differ, and all are spent.
\<close>

definition in_flight_ok :: "(EnrollRequest \<Rightarrow> bool) \<Rightarrow> TokenReplay list \<Rightarrow> instant \<Rightarrow> instant \<times> EnrollRequest \<Rightarrow> bool" where
  "in_flight_ok P rows clock p \<longleftrightarrow>
     P (snd p) \<and> fst p \<le> clock \<and> tkc_issued_at (bt_claims (enr_token (snd p))) \<le> fst p
     \<and> (\<forall>r \<in> set rows. tr_nonce r = req_nonce (snd p) \<longrightarrow> sql_datetime (fst p) \<le> tr_first_seen r)"

definition token_of ::
  "(EnrollRequest \<Rightarrow> bool) \<Rightarrow> TokenReplay list \<Rightarrow> instant \<Rightarrow> (instant \<times> EnrollRequest) list \<Rightarrow> string \<Rightarrow> EnrollRequest \<Rightarrow> bool" where
  "token_of P rows clock pending nonce req \<longleftrightarrow>
     P req \<and> req_nonce req = nonce
     \<and> (\<forall>r \<in> set rows. tr_nonce r = nonce \<longrightarrow> sql_datetime (tkc_issued_at (bt_claims (enr_token req))) \<le> tr_first_seen r)
     \<and> (nonce \<in> tr_nonce ` set rows
        \<or> tkc_expires_at (bt_claims (enr_token req)) \<le> clock \<and> nonce \<notin> req_nonce ` snd ` set pending)"

definition single_use :: "(EnrollRequest \<Rightarrow> bool) \<Rightarrow> 'cert server \<Rightarrow> bool" where
  "single_use P s \<longleftrightarrow>
     distinct (map fst (sv_granted s))
     \<and> (\<forall>p \<in> set (sv_pending s). in_flight_ok P (recorded (sv_app s)) (sv_clock s) p)
     \<and> (\<forall>g \<in> set (sv_granted s). \<exists>req.
          token_of P (recorded (sv_app s)) (sv_clock s) (sv_pending s) (fst g) req)"

text \<open>
  The list as the operator wrote it: the last entry for the host decides, and no entry clears it.
\<close>

definition revoked_by_list :: "Revocations \<Rightarrow> string \<Rightarrow> instant option" where
  "revoked_by_list revs h =
     map_option rev_not_before (find (\<lambda>e. rev_hostname e = h) (rev (rv_revocations revs)))"

text \<open>A token for the host \<open>web\<close> of the small fleet, valid for a number of hours.\<close>

definition web_request :: "int \<Rightarrow> EnrollRequest" where
  "web_request validity_hours =
     \<lparr>enr_token = \<lparr>bt_version = 1,
        bt_claims = \<lparr>tkc_hostname = ''web'', tkc_expected_pubkey_fingerprint = sample_encode web_key, tkc_issued_at = 0,
          tkc_expires_at = hours validity_hours, tkc_nonce = ''n''\<rparr>,
        bt_signature = sample_encode (replicate 64 7)\<rparr>,
      enr_csr_pem = ''web''\<rparr>"

text \<open>The states of a run: the audited server with some tokens recorded and some audit records.\<close>

definition web_state :: "TokenReplay list \<Rightarrow> audit_record list \<Rightarrow> unit AppState" where
  "web_state tokens audit = audited_app
     \<lparr>as_db := Some \<lparr>adb_token_replay = tokens, adb_cert_revocations = []\<rparr>, as_audit := audit\<rparr>"

definition web_row :: "instant \<Rightarrow> TokenReplay" where
  "web_row now = \<lparr>tr_nonce = ''n'', tr_hostname = ''web'', tr_first_seen = sql_datetime now\<rparr>"

text \<open>A network that serves one signed revocation list, on which \<open>web\<close> is revoked up to second 200.\<close>

definition sample_revocations :: Revocations where
  "sample_revocations =
     \<lparr>rv_schema_version = 1,
      rv_revocations = [\<lparr>rev_hostname = ''web'', rev_not_before = seconds 200, rev_reason = None, rev_revoked_by = None\<rparr>],
      rv_meta = fl_meta sample_fleet\<rparr>"

definition sample_pe :: "(string, byte list, byte list, byte list, byte list) poll_env" where
  "sample_pe =
     \<lparr>pe_crypto = sample_crypto, pe_parse_fleet = (\<lambda>_. Inr sample_fleet), pe_parse_manifest = (\<lambda>_. Inl ''none''),
      pe_parse_revocations = (\<lambda>_. Inr sample_revocations), pe_parse_nonces = (\<lambda>_. Inl ''none''),
      pe_parse_trust = (\<lambda>_. Inr \<lparr>tc_schema_version = 1,
        tc_ci_release_key = \<lparr>ks_current = Some sample_key, ks_previous = None, ks_reject_before = None, ks_successor = None,
          ks_retire_at = None\<rparr>,
        tc_cache_keys = [], tc_org_root_key = None, tc_root_ca_pem = None, tc_issuance_ca_pems = []\<rparr>),
      pe_read = Inr, pe_read_bytes = Inl, pe_get = (\<lambda>_ _. Reply 200 (Inr sample_signature))\<rparr>"

definition sample_source :: SignedSource where
  "sample_source =
     \<lparr>src_artifact_url = ''artifact'', src_signature_url = ''signature'', src_token_file = None, src_trust_path = ''trust'',
      src_freshness_window = seconds 3600\<rparr>"

text \<open>Revocations are required and never applied, since there is no database to apply them to.\<close>

definition stuck :: "'cert AppState \<Rightarrow> bool" where
  "stuck st \<longleftrightarrow> as_db st = None \<and> as_revocations_required st \<and> \<not> as_revocations_primed st"

definition no_db_args :: ServeArgs where
  "no_db_args =
     \<lparr>sa_client_ca = Some ''ca.pem'', sa_fleet_ca_cert = None, sa_fleet_ca_key = None, sa_tpm_ca_pubkey_raw = None,
      sa_tpm_ca_sign_wrapper = None, sa_allow_file_ca_key = False, sa_audit_log_path = None, sa_artifact_path = [],
      sa_signature_path = [], sa_trust_path = ''trust'', sa_freshness_window = seconds 3600, sa_channel_refs = None,
      sa_revocations = Some sample_source, sa_bootstrap_nonces = Some sample_source, sa_db_path = None,
      sa_rollouts_source = None, sa_strict = True, sa_agent_cn_suffix = DEFAULT_AGENT_CN_SUFFIX,
      sa_agent_cert_validity = AGENT_CERT_VALIDITY, sa_mark_ready_at_startup = False, sa_initial_nonces = None\<rparr>"

section \<open>A nonce is used once\<close>

lemma sql_datetime_mono: "a \<le> b \<Longrightarrow> sql_datetime a \<le> sql_datetime b"
  by (simp add: sql_datetime_def seconds_def zdiv_mono1)

lemma sql_datetime_before:
  assumes "sql_datetime a < sql_datetime b - hours n"
  shows "a + hours n < b"
proof -
  let ?M = "1000000000 :: int"
  have hours: "hours n = n * 3600 * ?M"
    by (simp add: hours_def minutes_def seconds_def)
  have "?M * (a div ?M) < ?M * (b div ?M - n * 3600)"
    using assms by (simp add: sql_datetime_def seconds_def hours algebra_simps)
  then have "a div ?M + 1 + n * 3600 \<le> b div ?M"
    by simp
  then have "(a div ?M + 1 + n * 3600) * ?M \<le> b div ?M * ?M"
    by simp
  moreover have "a < (a div ?M + 1) * ?M" "b div ?M * ?M \<le> b"
    using div_mult_mod_eq [of a ?M] div_mult_mod_eq [of b ?M] by (simp_all add: algebra_simps)
  ultimately show ?thesis
    by (simp add: hours algebra_simps)
qed

lemma recorded_issue [simp]: "recorded (snd (issue_and_audit ie st now csr cn cn' ctxt)) = recorded st"
  by (simp add: recorded_def)

lemma renew_cases:
  "(\<exists>status. renew te ie st now cn csr = (Refused status, st))
   \<or> renew te ie st now cn csr = issue_and_audit ie st now csr cn cn (AC_Renew ''<unknown>'')"
proof (cases "ie_csr_from_pem ie csr")
  case (Inr params)
  show ?thesis
  proof (cases "as_verified_fleet st")
    case (Some snap)
    show ?thesis
    proof (cases "hget (fl_hosts (vfs_fleet snap)) (extract_machine_id cn (as_agent_cn_suffix st))")
      case decl: (Some decl)
      show ?thesis
        using Inr Some decl by (cases "validate_csr_against_fleet_host te (csr_public_key params) (host_pubkey decl)")
          (simp_all add: renew_def Let_def)
    qed (use Inr Some in \<open>simp add: renew_def Let_def\<close>)
  qed (use Inr in \<open>simp add: renew_def Let_def\<close>)
qed (simp add: renew_def)

lemma recorded_renew [simp]: "recorded (snd (renew te ie st now cn csr)) = recorded st"
  using renew_cases [of te ie st now cn csr] by (metis recorded_issue snd_conv)

lemma recorded_revocations [simp]:
  "recorded (revocations_tick pe revoke_err retain_err config now st) = recorded st"
  by (simp add: recorded_def revocations_tick_def split: option.split sum.split)

lemma recorded_nonces [simp]: "recorded (nonces_tick pe config now st) = recorded st"
  by (simp add: recorded_def nonces_tick_def apply_verified_allowlist_def split: sum.split)

lemma recorded_manifests [simp]: "recorded (fst (manifest_tick pe refs src now st)) = recorded st"
  by (cases "manifest_poll_once pe refs src now")
    (simp_all add: recorded_def manifest_tick_def publish_verified_fleet_def split: option.split prod.split)

lemma recorded_prune:
  "recorded (prune_tokens now st) = filter (\<lambda>r. \<not> tr_first_seen r < sql_datetime now - hours 24) (recorded st)"
  by (auto simp: recorded_def prune_tokens_def prune_turn_def prune_token_replay_def delete_where_def
      TOKEN_REPLAY_RETENTION_HOURS_def hours_def split: option.splits)

lemma enroll_commit_records:
  assumes "enroll_commit te ie st t now req = (ans, st')"
  obtains (refused) "recorded st' = recorded st" "\<And>resp. ans \<noteq> Granted resp"
  | (recorded) row where "tr_nonce row = req_nonce req" "tr_first_seen row = sql_datetime now"
      "req_nonce req \<notin> tr_nonce ` set (recorded st)" "recorded st' = recorded st @ [row]"
proof (cases "as_db st")
  case None
  then show ?thesis
    using assms refused by (auto simp: enroll_commit_def Let_def)
next
  case (Some db)
  show ?thesis
  proof (cases "te_db_err te ''record_token_nonce'' \<or> req_nonce req \<in> tr_nonce ` set (recorded st)")
    case True
    then obtain status where "enroll_commit te ie st t now req = (Refused status, st)"
      using Some
      by (cases "te_db_err te ''record_token_nonce''")
        (simp_all add: enroll_commit_def Let_def record_token_nonce_def recorded_def req_nonce_def)
    then show ?thesis
      using assms refused by simp
  next
    case False
    define row where "row = \<lparr>tr_nonce = req_nonce req, tr_hostname = tkc_hostname (bt_claims (enr_token req)),
      tr_first_seen = sql_datetime now\<rparr>"
    have "as_db (snd (enroll_commit te ie st t now req)) = Some (db\<lparr>adb_token_replay := adb_token_replay db @ [row]\<rparr>)"
      using Some False by (simp add: enroll_commit_def Let_def record_token_nonce_def recorded_def req_nonce_def row_def)
    then show ?thesis
      using recorded [of row] False Some assms by (simp add: row_def recorded_def)
  qed
qed


lemma single_useI:
  "distinct (map fst (sv_granted s)) \<Longrightarrow>
   (\<And>p. p \<in> set (sv_pending s) \<Longrightarrow> in_flight_ok P (recorded (sv_app s)) (sv_clock s) p) \<Longrightarrow>
   (\<And>g. g \<in> set (sv_granted s) \<Longrightarrow> \<exists>req. token_of P (recorded (sv_app s)) (sv_clock s) (sv_pending s) (fst g) req) \<Longrightarrow>
   single_use P s"
  by (simp add: single_use_def)

lemma single_useD:
  assumes "single_use P s"
  shows "distinct (map fst (sv_granted s))"
    and "p \<in> set (sv_pending s) \<Longrightarrow> in_flight_ok P (recorded (sv_app s)) (sv_clock s) p"
    and "g \<in> set (sv_granted s) \<Longrightarrow> \<exists>req. token_of P (recorded (sv_app s)) (sv_clock s) (sv_pending s) (fst g) req"
  using assms by (simp_all add: single_use_def)

lemma single_use_app: "recorded app = recorded (sv_app s) \<Longrightarrow> single_use P (s\<lparr>sv_app := app\<rparr>) = single_use P s"
  by (simp add: single_use_def)

lemma in_flight_clock: "in_flight_ok P rows clock p \<Longrightarrow> clock \<le> t \<Longrightarrow> in_flight_ok P rows t p"
  by (simp add: in_flight_ok_def)

lemma token_of_later:
  "token_of P rows clock pending nonce req \<Longrightarrow> clock \<le> t \<Longrightarrow> set pending' \<subseteq> set pending \<Longrightarrow>
   token_of P rows t pending' nonce req"
  by (auto simp: token_of_def)

lemma single_use_clock: "single_use P s \<Longrightarrow> sv_clock s \<le> t \<Longrightarrow> single_use P (s\<lparr>sv_clock := t\<rparr>)"
  using in_flight_clock token_of_later [OF _ _ order_refl] unfolding single_use_def by simp blast

lemma single_use_check:
  assumes "single_use P s" "P req" "enroll_check te ie (sv_app s) (sv_clock s) req = Inr u"
    and unique: "\<And>r r'. P r \<Longrightarrow> P r' \<Longrightarrow> req_nonce r = req_nonce r' \<Longrightarrow> bt_claims (enr_token r) = bt_claims (enr_token r')"
  shows "single_use P (s\<lparr>sv_pending := sv_pending s @ [(sv_clock s, req)]\<rparr>)"
proof -
  let ?rows = "recorded (sv_app s)" and ?clock = "sv_clock s" and ?pending = "sv_pending s"
  have new: "req_nonce req \<notin> tr_nonce ` set ?rows"
    "tkc_issued_at (bt_claims (enr_token req)) \<le> ?clock" "?clock < tkc_expires_at (bt_claims (enr_token req))"
    using assms(3) by (auto simp: enroll_check_iff enrol_permitted_def Let_def recorded_def req_nonce_def)
  have flight: "in_flight_ok P ?rows ?clock (?clock, req)"
    using new assms(2) by (auto simp: in_flight_ok_def image_iff)
  have spent: "token_of P ?rows ?clock (?pending @ [(?clock, req)]) nonce r"
    if "token_of P ?rows ?clock ?pending nonce r" for nonce r
  proof (cases "nonce = req_nonce req")
    case True
    then have "bt_claims (enr_token r) = bt_claims (enr_token req)"
      using unique [of r req] that assms(2) by (auto simp: token_of_def)
    then show ?thesis
      using that new True by (auto simp: token_of_def)
  qed (use that in \<open>auto simp: token_of_def\<close>)
  then show ?thesis
    using assms(1) flight unfolding single_use_def by simp blast
qed

lemma single_use_refused:
  assumes "single_use P s" "sv_pending s = before @ p # after" "recorded app = recorded (sv_app s)"
  shows "single_use P (s\<lparr>sv_pending := before @ after, sv_app := app\<rparr>)"
proof -
  have "set (before @ after) \<subseteq> set (sv_pending s)"
    by (auto simp: assms(2))
  then have "token_of P (recorded (sv_app s)) (sv_clock s) (before @ after) nonce req"
    if "token_of P (recorded (sv_app s)) (sv_clock s) (sv_pending s) nonce req" for nonce req
    using that by (rule token_of_later [rotated 2]) simp
  then show ?thesis
    using assms(1) unfolding single_use_def by (simp add: assms(2,3)) blast
qed

lemma single_use_recorded:
  assumes "single_use P s" "sv_pending s = before @ (t, req) # after"
    and row: "tr_nonce row = req_nonce req" "tr_first_seen row = sql_datetime (sv_clock s)"
      "req_nonce req \<notin> tr_nonce ` set (recorded (sv_app s))" "recorded app = recorded (sv_app s) @ [row]"
    and granted: "granted = [] \<or> (\<exists>resp. granted = [(req_nonce req, resp)])"
  shows "single_use P (s\<lparr>sv_pending := before @ after, sv_app := app, sv_granted := sv_granted s @ granted\<rparr>)"
proof -
  let ?rows = "recorded (sv_app s)" and ?clock = "sv_clock s" and ?pending = "sv_pending s"
  have flight: "in_flight_ok P (?rows @ [row]) ?clock p" if "p \<in> set ?pending" for p
  proof -
    have "in_flight_ok P ?rows ?clock p"
      using single_useD(2) [OF assms(1) that] .
    then show ?thesis
      using row(2) sql_datetime_mono [of "fst p" ?clock] by (auto simp: in_flight_ok_def)
  qed
  have other: "fst g \<noteq> req_nonce req" if granted_g: "g \<in> set (sv_granted s)" for g
  proof -
    obtain r where "token_of P ?rows ?clock ?pending (fst g) r"
      using single_useD(3) [OF assms(1) granted_g] by blast
    then have "fst g \<in> tr_nonce ` set ?rows \<or> fst g \<notin> req_nonce ` snd ` set ?pending"
      unfolding token_of_def by blast
    moreover have "req_nonce req \<in> req_nonce ` snd ` set ?pending"
      by (simp add: assms(2))
    ultimately show ?thesis
      using row(3) by metis
  qed
  have old: "token_of P (?rows @ [row]) ?clock (before @ after) (fst g) r"
    if "token_of P ?rows ?clock ?pending (fst g) r" "g \<in> set (sv_granted s)" for g r
    using that(1) other [OF that(2)] row(1) unfolding token_of_def assms(2) by auto
  have this_one: "token_of P (?rows @ [row]) ?clock (before @ after) (req_nonce req) req"
    using flight [of "(t, req)"] row sql_datetime_mono [of "tkc_issued_at (bt_claims (enr_token req))" ?clock]
    by (auto simp: token_of_def in_flight_ok_def assms(2) image_iff)
  have fresh_nonce: "req_nonce req \<notin> fst ` set (sv_granted s)"
    using other by (metis imageE)
  define s' where "s' = s\<lparr>sv_pending := before @ after, sv_app := app, sv_granted := sv_granted s @ granted\<rparr>"
  have fields: "sv_granted s' = sv_granted s @ granted" "sv_pending s' = before @ after"
    "recorded (sv_app s') = ?rows @ [row]" "sv_clock s' = ?clock"
    by (simp_all add: s'_def row(4))
  have "single_use P s'"
  proof (rule single_useI, unfold fields)
    show "distinct (map fst (sv_granted s @ granted))"
      using granted single_useD(1) [OF assms(1)] fresh_nonce by (elim disjE exE) simp_all
    show "in_flight_ok P (?rows @ [row]) ?clock p" if "p \<in> set (before @ after)" for p
      using that by (intro flight) (auto simp: assms(2))
    show "\<exists>r. token_of P (?rows @ [row]) ?clock (before @ after) (fst g) r" if "g \<in> set (sv_granted s @ granted)" for g
      using that granted this_one old [of g] single_useD(3) [OF assms(1), of g] by auto
  qed
  then show ?thesis
    by (simp add: s'_def)
qed

lemma single_use_prune:
  assumes "single_use P s" and prompt: "\<forall>(t, req) \<in> set (sv_pending s). sv_clock s - t \<le> hours 24"
    and short: "\<And>r. P r \<Longrightarrow> short_lived r"
  shows "single_use P (s\<lparr>sv_app := prune_tokens (sv_clock s) (sv_app s)\<rparr>)"
proof -
  let ?rows = "recorded (sv_app s)" and ?clock = "sv_clock s" and ?pending = "sv_pending s"
  define keep where "keep = filter (\<lambda>r. \<not> tr_first_seen r < sql_datetime ?clock - hours 24) ?rows"
  have flight: "in_flight_ok P keep ?clock p" if "p \<in> set ?pending" for p
    using single_useD(2) [OF assms(1) that] by (simp add: in_flight_ok_def keep_def)
  have spent: "token_of P keep ?clock ?pending nonce req" if "token_of P ?rows ?clock ?pending nonce req" for nonce req
  proof (cases "nonce \<in> tr_nonce ` set ?rows \<and> nonce \<notin> tr_nonce ` set keep")
    case True
    then obtain r where r: "r \<in> set ?rows" "tr_nonce r = nonce" "tr_first_seen r < sql_datetime ?clock - hours 24"
      by (auto simp: keep_def)
    have "sql_datetime (tkc_issued_at (bt_claims (enr_token req))) < sql_datetime ?clock - hours 24"
      using that r unfolding token_of_def by force
    then have expired: "tkc_expires_at (bt_claims (enr_token req)) \<le> ?clock"
      using sql_datetime_before that short [of req] by (force simp: token_of_def short_lived_def)
    have "req_nonce (snd p) \<noteq> nonce" if p: "p \<in> set ?pending" for p
    proof
      assume "req_nonce (snd p) = nonce"
      then have "sql_datetime (fst p) < sql_datetime ?clock - hours 24"
        using single_useD(2) [OF assms(1) p] r by (force simp: in_flight_ok_def)
      then show False
        using sql_datetime_before [of "fst p" ?clock 24] prompt p by (cases p) auto
    qed
    then have "nonce \<notin> req_nonce ` snd ` set ?pending"
      by blast
    then show ?thesis
      using that expired by (simp add: token_of_def keep_def)
  qed (use that in \<open>auto simp: token_of_def keep_def\<close>)
  show ?thesis
    using single_useD(1) [OF assms(1)] flight spent single_useD(3) [OF assms(1)]
    by (intro single_useI) (simp_all add: recorded_prune keep_def, blast)
qed


lemma single_use_step:
  assumes "server_step E P s s'" "single_use P s"
    and "\<And>r. P r \<Longrightarrow> short_lived r"
    and "\<And>r r'. P r \<Longrightarrow> P r' \<Longrightarrow> req_nonce r = req_nonce r' \<Longrightarrow> bt_claims (enr_token r) = bt_claims (enr_token r')"
  shows "single_use P s'"
  using assms(1,2)
proof (cases rule: server_step.cases)
  case (clock t)
  then show ?thesis
    using single_use_clock [OF assms(2)] by simp
next
  case (check te ie pe req u)
  then show ?thesis
    using single_use_check [OF assms(2) _ _ assms(4)] by blast
next
  case (commit te ie pe before t req "after" ans app)
  show ?thesis
  proof (cases rule: enroll_commit_records [OF commit(4)])
    case 1
    then have "(case ans of Granted resp \<Rightarrow> [(req_nonce req, resp)] | _ \<Rightarrow> []) = []"
      by (cases ans) auto
    then show ?thesis
      using single_use_refused [OF assms(2) commit(3) 1(1)] commit(1) by simp
  next
    case (2 row)
    have "(case ans of Granted resp \<Rightarrow> [(req_nonce req, resp)] | _ \<Rightarrow> []) = []
        \<or> (\<exists>resp. (case ans of Granted resp \<Rightarrow> [(req_nonce req, resp)] | _ \<Rightarrow> []) = [(req_nonce req, resp)])"
      by (cases ans) auto
    then show ?thesis
      using single_use_recorded [OF assms(2) commit(3) 2] commit(1) by blast
  qed
next
  case (renewal te ie pe cn csr ans app)
  then have "recorded app = recorded (sv_app s)"
    using recorded_renew [of te ie "sv_app s" "sv_clock s" cn csr] by simp
  then show ?thesis
    using renewal(1) assms(2) single_use_app by metis
next
  case (manifests te ie pe refs src app sets)
  then have "recorded app = recorded (sv_app s)"
    using recorded_manifests [of pe refs src "sv_clock s" "sv_app s"] by simp
  then show ?thesis
    using manifests(1) assms(2) single_use_app by metis
next
  case prune
  then show ?thesis
    using single_use_prune [OF assms(2) _ assms(3)] by blast
qed (use assms(2) in \<open>simp_all add: single_use_app\<close>)

text \<open>
  C10. A bootstrap token is used at most once: however enrolments, renewals, polls, fleet updates and
  the pruning of the token table interleave, and whatever files, network and database answer, two
  granted certificates never come from the same nonce. This holds for tokens of at most 24 hours
  with one nonce each, when no request stays in flight for more than 24 hours.
\<close>

theorem nonce_single_use:
  assumes "(server_step E P)\<^sup>*\<^sup>* s s'" "sv_pending s = []" "sv_granted s = []"
    and "\<forall>r. P r \<longrightarrow> short_lived r"
    and "\<forall>r r'. P r \<longrightarrow> P r' \<longrightarrow> req_nonce r = req_nonce r' \<longrightarrow> bt_claims (enr_token r) = bt_claims (enr_token r')"
  shows "distinct (map fst (sv_granted s'))"
proof -
  have "single_use P s'"
    using assms(1)
  proof (induction rule: rtranclp_induct)
    case base
    then show ?case
      using assms(2,3) by (simp add: single_use_def)
  next
    case (step y z)
    then show ?case
      using single_use_step [of E P y z] assms(4,5) by blast
  qed
  then show ?thesis
    by (rule single_useD)
qed


section \<open>Revocations\<close>

lemma revoke_cert_select:
  "cert_revoked_before h (revoke_cert now g not_before reason by_whom t) = (if h = g then Some not_before else cert_revoked_before h t)"
  by (simp add: cert_revoked_before_def revoke_cert_def select_upsert)

lemma fold_revoke_select:
  "cert_revoked_before h (foldl (\<lambda>t e. revoke_cert now (rev_hostname e) (rev_not_before e) (rev_reason e) (rev_revoked_by e) t) t es)
   = (case find (\<lambda>e. rev_hostname e = h) (rev es) of Some e \<Rightarrow> Some (rev_not_before e) | None \<Rightarrow> cert_revoked_before h t)"
proof (induction es rule: rev_induct)
  case (snoc e es)
  then show ?case
    by (cases "rev_hostname e = h") (simp_all add: revoke_cert_select)
qed simp

lemma retain_select:
  "cert_revoked_before h (fst (retain_only keep t)) = (if h \<in> set keep then cert_revoked_before h t else None)"
proof -
  have "find (\<lambda>r. cr_hostname r = h) (filter (\<lambda>r. cr_hostname r \<in> set keep) t)
      = (if h \<in> set keep then find (\<lambda>r. cr_hostname r = h) t else None)"
    by (induction t) auto
  then show ?thesis
    by (auto simp: retain_only_def cert_revoked_before_def select_row_def delete_where_def Let_def)
qed

lemma table_is_list:
  "cert_revoked_before h (apply_verified_revocations (\<lambda>_. False) False now revs t) = revoked_by_list revs h"
  by (auto simp: apply_verified_revocations_def Let_def retain_select fold_revoke_select revoked_by_list_def
      find_None_iff split: option.split)



section \<open>The small fleet enrols\<close>

lemma sample_codec: "sample_decode (sample_encode bs) = Inr bs"
  using sample_base64_codec by (simp add: base64_codec_def)

lemma web_token_signed: "token_signed sample_te path now (enr_token (web_request h))"
proof -
  have "verify_token_signature sample_te (enr_token (web_request h)) (replicate 32 7) = Inr ()"
    by (simp add: verify_token_signature_def sample_te_def sample_crypto_def web_request_def sample_codec
        canonicalize_def Let_def)
  then show ?thesis
    unfolding token_signed_def
    by (simp add: sample_te_def active_keys_at_def active_keys_def opt_to_list_def sample_codec)
qed

lemma web_permitted:
  assumes "0 \<le> now" "now < hours h" "now \<le> seconds 1000000" "as_allowed_nonces st = as_allowed_nonces sample_app"
    "as_verified_fleet st = as_verified_fleet sample_app"
  shows "enrol_permitted sample_te sample_ie st now (web_request h) web_key"
proof -
  have "declared_key sample_te (the (as_verified_fleet sample_app)) ''web'' web_key"
    using keyed_host_validates [of web_key] declared_iff [of "the (as_verified_fleet sample_app)" "''web''" "keyed_host web_key" web_key sample_te "()"]
    by (simp add: sample_app_def keyed_fleet_def hget_def web_key_def)
  moreover have "fingerprint sample_te web_key = sample_encode web_key"
    by (simp add: fingerprint_def sample_te_def sample_crypto_def)
  ultimately show ?thesis
    using assms web_token_signed [of "ip_trust_path (as_issuance_paths st)" now h]
    by (simp add: enrol_permitted_def Let_def web_request_def lookup_nonce_def hget_def sample_app_def sample_ie_def
        csr_common_name_def)
qed

lemma web_check:
  assumes "0 \<le> now" "now < hours h" "now \<le> seconds 1000000" "as_allowed_nonces st = as_allowed_nonces sample_app"
    "as_verified_fleet st = as_verified_fleet sample_app" "as_db st = Some db" "''n'' \<notin> tr_nonce ` set (adb_token_replay db)"
  shows "enroll_check sample_te sample_ie st now (web_request h) = Inr ()"
  using web_permitted [OF assms(1-5)] assms(6,7)
  by (auto simp: enroll_check_iff sample_te_def web_request_def)


lemma web_state_db:
  "(web_state tokens audit)\<lparr>as_db := Some \<lparr>adb_token_replay = tokens', adb_cert_revocations = []\<rparr>\<rparr> = web_state tokens' audit"
  by (rule AppState.equality) (simp_all add: web_state_def)

lemma web_state_fields [simp]:
  "as_db (web_state tokens audit) = Some \<lparr>adb_token_replay = tokens, adb_cert_revocations = []\<rparr>"
  by (simp add: web_state_def)

lemma web_commit:
  assumes "0 \<le> now" "now \<le> seconds 1000000" "''n'' \<notin> tr_nonce ` set tokens"
  obtains resp audit' where
    "enroll_commit sample_te sample_ie (web_state tokens audit) now now (web_request h)
       = (Granted resp, web_state (tokens @ [web_row now]) audit')"
proof -
  let ?st = "web_state (tokens @ [web_row now]) audit"
  have issue: "as_ca_signer ?st = as_ca_signer sample_app" "as_agent_cert_validity ?st = as_agent_cert_validity sample_app"
    "ip_audit_log (as_issuance_paths ?st) = Some ''audit''"
    by (simp_all add: web_state_def audited_app_def)
  have "enroll_commit sample_te sample_ie (web_state tokens audit) now now (web_request h)
      = issue_and_audit sample_ie ?st now ''web'' ''<enroll>''
          (canonical_agent_cn ''web'' (as_agent_cn_suffix (web_state tokens audit))) (AC_Enroll ''n'')"
    using assms(3)
    by (simp add: enroll_commit_def web_request_def record_token_nonce_def sample_te_def web_row_def Let_def web_state_db)
  then show thesis
    using that sample_issue [OF issue assms(1,2)] by (simp add: web_state_def)
qed

lemma web_enrols:
  assumes "0 \<le> now" "now < hours h" "now \<le> seconds 1000000" "''n'' \<notin> tr_nonce ` set tokens"
  obtains resp audit' where
    "enroll sample_te sample_ie (web_state tokens audit) now now (web_request h)
       = (Granted resp, web_state (tokens @ [web_row now]) audit')"
proof -
  have "enroll_check sample_te sample_ie (web_state tokens audit) now (web_request h) = Inr ()"
    using assms by (intro web_check [where db = "\<lparr>adb_token_replay = tokens, adb_cert_revocations = []\<rparr>"])
      (simp_all add: web_state_def audited_app_def)
  then show thesis
    using that web_commit [OF assms(1,3,4)] by (metis enroll_def sum.case(2))
qed



theorem nonce_single_use_witness:
  "\<exists>s'. (server_step {(sample_te, sample_ie, sample_pe)} (\<lambda>r. r = web_request 24))\<^sup>*\<^sup>*
      \<lparr>sv_app = web_state [] [], sv_pending = [], sv_clock = hours 1, sv_granted = []\<rparr> s'
    \<and> length (sv_granted s') = 1 \<and> distinct (map fst (sv_granted s'))"
proof -
  let ?E = "{(sample_te, sample_ie, sample_pe)}"
  let ?P = "\<lambda>r. r = web_request 24"
  define s0 :: "unit server" where
    "s0 = \<lparr>sv_app = web_state [] [], sv_pending = [], sv_clock = hours 1, sv_granted = []\<rparr>"
  define s1 where "s1 = s0\<lparr>sv_pending := [(hours 1, web_request 24)]\<rparr>"
  obtain resp audit where commit: "enroll_commit sample_te sample_ie (web_state [] []) (hours 1) (hours 1) (web_request 24)
      = (Granted resp, web_state ([] @ [web_row (hours 1)]) audit)"
    by (rule web_commit [where now = "hours 1" and tokens = "[]" and audit = "[]" and h = 24])
      (simp_all add: hours_def minutes_def seconds_def)
  define s2 where "s2 = s1\<lparr>sv_pending := [] @ [], sv_app := web_state ([] @ [web_row (hours 1)]) audit,
    sv_granted := sv_granted s1 @ [(req_nonce (web_request 24), resp)]\<rparr>"
  have check: "enroll_check sample_te sample_ie (sv_app s0) (sv_clock s0) (web_request 24) = Inr ()"
    by (intro web_check [where db = "\<lparr>adb_token_replay = [], adb_cert_revocations = []\<rparr>"])
      (simp_all add: s0_def web_state_def audited_app_def hours_def minutes_def seconds_def)
  have step1: "server_step ?E ?P s0 s1"
    using server_step.check [of sample_te sample_ie sample_pe ?E ?P "web_request 24" s0 "()"] check
    by (simp add: s1_def s0_def)
  have step2: "server_step ?E ?P s1 s2"
    using server_step.commit [of sample_te sample_ie sample_pe ?E s1 "[]" "hours 1" "web_request 24" "[]"
        "Granted resp" "web_state ([] @ [web_row (hours 1)]) audit" ?P] commit
    by (simp add: s2_def s1_def s0_def)
  have run: "(server_step ?E ?P)\<^sup>*\<^sup>* s0 s2"
    using step1 step2 by (meson converse_rtranclp_into_rtranclp rtranclp.rtrancl_refl)
  have "distinct (map fst (sv_granted s2))"
    using nonce_single_use [OF run] by (simp add: s0_def short_lived_def web_request_def)
  then show ?thesis
    using run by (intro exI [of _ s2]) (simp add: s0_def s1_def s2_def)
qed

lemma sample_revocations_poll: "revocations_poll_once sample_pe sample_source (seconds 100) = Inr sample_revocations"
proof -
  have "utf8_valid (replicate n 107)" for n
    by (induction n) simp_all
  then have "verify_signature_against_trust_roots sample_crypto sample_signature sample_signature [sample_key]
      = Inr (map (\<lambda>b. char_of (unat b)) sample_signature)"
    by (simp add: trust_roots_Inr_iff from_utf8_def canonicalize_def key_verifies_def verify_ed25519_def
        sample_crypto_def sample_key_def sample_signature_def as_bytes_def)
  then show ?thesis
    by (simp add: revocations_poll_once_def poll_sidecar_def read_token_def sample_source_def fetch_signed_pair_def
        fetch_url_def sample_pe_def read_trust_roots_def read_trust_config_def active_keys_at_def active_keys_def
        opt_to_list_def verify_revocations_def verify_signed_sidecar_def finish_sidecar_verification_def
        revocations_sidecar_def sample_revocations_def sample_fleet_def ACCEPTED_SCHEMA_VERSION_def CHRONO_MAX_def
        CLOCK_SKEW_SLACK_SECS_def seconds_def)
qed

lemma sample_x509_name: "sample_x509 (as_bytes s) = Some \<lparr>x5_common_names = [Some s], x5_not_before = 100\<rparr>"
  using sample_leaf_cn [of s] by (simp add: leaf_cn_def leaf_def sample_x509_def)


section \<open>A server that never becomes ready\<close>

lemma stuck_issue: "stuck (snd (issue_and_audit ie st now csr cn cn' ctxt)) \<longleftrightarrow> stuck st"
  by (auto simp: issue_and_audit_def stuck_def split: option.splits sum.splits issue_error.splits)

lemma stuck_step: "server_step E P s s' \<Longrightarrow> stuck (sv_app s) \<Longrightarrow> stuck (sv_app s')"
proof (induction rule: server_step.induct)
  case (commit te ie pe s before t req "after" ans app)
  then show ?case
    by (auto simp: enroll_commit_def stuck_def Let_def)
next
  case (renewal te ie pe s cn csr ans app)
  then have "app = snd (renew te ie (sv_app s) (sv_clock s) cn csr)"
    by simp
  then show ?case
    using renew_cases [of te ie "sv_app s" "sv_clock s" cn csr] renewal(3)
      stuck_issue [of ie "sv_app s" "sv_clock s" csr cn cn "AC_Renew ''<unknown>''"]
    by auto
next
  case (manifests te ie pe refs src s app sets)
  then show ?case
    by (auto simp: manifest_tick_def publish_verified_fleet_def stuck_def split: sum.splits option.splits prod.splits)
next
  case (nonces te ie pe s config)
  then show ?case
    by (auto simp: nonces_tick_def apply_verified_allowlist_def stuck_def split: sum.splits)
qed (auto simp: stuck_def revocations_tick_def prune_tokens_def)


lemma stuck_publish [simp]: "stuck (publish_verified_fleet snapshot st) \<longleftrightarrow> stuck st"
  by (simp add: publish_verified_fleet_def stuck_def)

lemma stuck_prime [simp]: "stuck (snd (prime_blocking pe refs src now st)) \<longleftrightarrow> stuck st"
  by (simp add: prime_blocking_def split: sum.split option.split prod.split)

lemma serve_state_stuck:
  assumes "serve_state pe ie db_open timed_out now args = Inr st" "sa_db_path args = None" "sa_revocations args \<noteq> None"
    "\<not> sa_mark_ready_at_startup args"
  shows "stuck st"
proof -
  have "stuck (initial_state ie None args)"
    using assms(3,4) by (simp add: initial_state_def stuck_def Let_def)
  then show ?thesis
    using assms(1,2) by (auto simp: serve_state_def Let_def split: if_splits option.splits)
qed

text \<open>
  C39. A control plane started with a revocation source but without a database never becomes ready: the
  arguments pass every startup check, the strict ones included, but the poll that would prime the
  revocations needs the database. Whatever the background tasks and the clients do, every request
  but the health check is answered with 503.
\<close>

theorem never_ready_without_db:
  assumes "serve_state pe ie db_open timed_out now args = Inr st" "sa_db_path args = None" "sa_revocations args \<noteq> None"
    "\<not> sa_mark_ready_at_startup args"
    and "(server_step E P)\<^sup>*\<^sup>* \<lparr>sv_app = st, sv_pending = [], sv_clock = now, sv_granted = []\<rparr> s" "rq_route rq \<noteq> Healthz"
  shows "admit te x509 (sv_app s) rq = Inl SERVICE_UNAVAILABLE"
proof -
  have "stuck (sv_app s)"
    using assms(5) serve_state_stuck [OF assms(1-4)] by (induction rule: rtranclp_induct) (auto dest: stuck_step)
  then show ?thesis
    using assms(6) by (simp add: admit_def require_ready_layer_def is_ready_def stuck_def)
qed

theorem never_ready_without_db_witness:
  "\<exists>st. serve_state sample_pe sample_ie Inl False 0 no_db_args = Inr st
     \<and> admit sample_te sample_x509 st (request_with ''any'') = Inl SERVICE_UNAVAILABLE"
proof -
  obtain st where st: "serve_state sample_pe sample_ie Inl False 0 no_db_args = Inr st"
    by (simp add: serve_state_def no_db_args_def strict_missing_def Let_def)
  have "admit sample_te sample_x509 (sv_app \<lparr>sv_app = st, sv_pending = [], sv_clock = 0, sv_granted = []\<rparr>) (request_with ''any'')
      = Inl SERVICE_UNAVAILABLE"
    using st by (rule never_ready_without_db [where E = "{(sample_te, sample_ie, sample_pe)}" and P = "\<lambda>_. True"])
      (simp_all add: no_db_args_def request_with_def)
  then show ?thesis
    using st by auto
qed

end
