(* ===== verification/CP_Routes.thy ===== *)
theory CP_Routes
  imports CP_Polling CP_Runtime
begin

text \<open>
  The routes of the control plane beside enrolment (\<open>server/routes\<close>): the three agent endpoints
  \<open>events\<close>, \<open>heartbeat\<close> and \<open>dispatch\<close>, the distribution of signed manifests and of the fleet document, and
  the read-only views of rollouts, hosts and deferrals. A route is a function of the caller's
  authenticated common name, the state it reads and the request; a response is its status and body.
  The database is the tables of \<open>CP_Applier\<close>; \<open>None\<close> is a control plane without one.
\<close>

section \<open>The channel to the reducer\<close>

text \<open>\<open>runtime_input_tx\<close> unset, or the outcome of \<open>try_send\<close>.\<close>

datatype input_channel = NotSpawned | ChannelFull | ChannelClosed | ChannelOpen

section \<open>routes/events.rs\<close>

definition NO_CONTENT :: nat where
  "NO_CONTENT = 204"

definition OK :: nat where
  "OK = 200"

definition NOT_FOUND :: nat where
  "NOT_FOUND = 404"

definition NOT_IMPLEMENTED :: nat where
  "NOT_IMPLEMENTED = 501"

definition BAD_GATEWAY :: nat where
  "BAD_GATEWAY = 502"

text \<open>The status and what is sent to the reducer.\<close>

definition events_route ::
  "string \<Rightarrow> cp_state option \<Rightarrow> input_channel \<Rightarrow> string \<Rightarrow> AgentEventEnvelope \<Rightarrow> nat \<times> ReducerInput list" where
  "events_route suffix db chan cn envelope =
     (let machine_id = extract_machine_id cn suffix; seq = AgentEvent_seq (env_event envelope)
      in if machine_id \<noteq> env_hostname envelope then (FORBIDDEN, [])
         else if (case db of
                    None \<Rightarrow> False
                  | Some w \<Rightarrow>
                    case load (env_rollout_id envelope) (env_hostname envelope) (db_records (cp_db w)) of
                      Inr (Some record) \<Rightarrow> seq \<le> hrs_last_event_seq record
                    | _ \<Rightarrow> False)
         then (NO_CONTENT, [])
         else case chan of
           NotSpawned \<Rightarrow> (SERVICE_UNAVAILABLE, [])
         | ChannelOpen \<Rightarrow>
             (NO_CONTENT, [HostEvent (env_hostname envelope) (env_rollout_id envelope) (Event_of_wire (env_event envelope))])
         | ChannelFull \<Rightarrow> (SERVICE_UNAVAILABLE, [])
         | ChannelClosed \<Rightarrow> (SERVICE_UNAVAILABLE, []))"

section \<open>routes/heartbeat.rs\<close>

text \<open>What comes back from the reducer within five seconds.\<close>

datatype reducer_reply = ReducerReply HeartbeatReply | ReplyDropped | ReplyTimeout

definition heartbeat_route ::
  "string \<Rightarrow> input_channel \<Rightarrow> (ReducerInput \<Rightarrow> reducer_reply) \<Rightarrow> string \<Rightarrow> HeartbeatRequest \<Rightarrow>
   (nat + u64 option \<times> HeartbeatResponse) \<times> ReducerInput list" where
  "heartbeat_route suffix chan reply_of cn req =
     (let machine_id = extract_machine_id cn suffix
      in if machine_id \<noteq> hq_hostname req then (Inl FORBIDDEN, [])
         else if chan \<noteq> ChannelOpen then (Inl SERVICE_UNAVAILABLE, [])
         else let input = HeartbeatReceived (hq_hostname req) (hq_rollout_id req) (hq_current_closure req) (hq_at req)
              in (case reply_of input of
                    ReducerReply reply \<Rightarrow>
                      Inr (reply_replay_from reply,
                           \<lparr>hp_received_at = Some (hq_at req), hp_bootstrap_rollouts = reply_bootstrap_rollouts reply\<rparr>)
                  | ReplyDropped \<Rightarrow> Inl SERVICE_UNAVAILABLE
                  | ReplyTimeout \<Rightarrow> Inl SERVICE_UNAVAILABLE,
                  [input]))"

section \<open>routes/dispatch.rs\<close>

definition MAX_WAIT_SECS :: nat where
  "MAX_WAIT_SECS = 60"

definition dispatch_wait :: "nat option \<Rightarrow> duration" where
  "dispatch_wait wait = seconds (int (min (case wait of Some w \<Rightarrow> w | None \<Rightarrow> MAX_WAIT_SECS) MAX_WAIT_SECS))"

definition deliver :: "QueuedDispatch \<Rightarrow> nat \<times> DispatchResponse option" where
  "deliver q =
     (OK, Some \<lparr>dr_hostname = qd_hostname q, dr_rollout_id = qd_rollout_id q, dr_target_closure = qd_target_closure q,
                dr_soak_due_at = qd_soak_due_at q, dr_enqueued_at = qd_enqueued_at q\<rparr>)"

text \<open>
  The request as the steps it takes, since the queue changes under it: the fast path reads the queue
  (\<open>Arrived\<close>), then the deadline is set and the watch channel subscribed to (\<open>Checked\<close>); the loop waits
  (\<open>Parked\<close>, with the version of the channel last seen and the deadline) and reads the queue again on
  a change (\<open>Woken\<close>).
\<close>

datatype poller = Arrived | Checked | Parked nat instant | Woken nat instant | Answered nat "DispatchResponse option"

record dispatch_server =
  ds_queue :: "QueuedDispatch list"
  ds_version :: nat
    \<comment> \<open>the version of the watch channel \<open>dispatch_kick\<close>\<close>
  ds_open :: bool
    \<comment> \<open>its sender is alive\<close>
  ds_clock :: instant
  ds_poller :: poller

inductive dispatch_step :: "string \<Rightarrow> nat option \<Rightarrow> dispatch_server \<Rightarrow> dispatch_server \<Rightarrow> bool" for host wait where
  fast_path: "ds_poller s = Arrived \<Longrightarrow> take_for_host host (ds_queue s) = (Some q, queue) \<Longrightarrow>
    deliver q = (status, body) \<Longrightarrow>
    dispatch_step host wait s (s\<lparr>ds_queue := queue, ds_poller := Answered status body\<rparr>)"
| nothing_yet: "ds_poller s = Arrived \<Longrightarrow> take_for_host host (ds_queue s) = (None, queue) \<Longrightarrow>
    dispatch_step host wait s (s\<lparr>ds_poller := Checked\<rparr>)"
| subscribe: "ds_poller s = Checked \<Longrightarrow>
    dispatch_step host wait s (s\<lparr>ds_poller := Parked (ds_version s) (ds_clock s + dispatch_wait wait)\<rparr>)"
| timeout: "ds_poller s = Parked seen deadline \<Longrightarrow> deadline \<le> ds_clock s \<Longrightarrow>
    dispatch_step host wait s (s\<lparr>ds_poller := Answered NO_CONTENT None\<rparr>)"
| changed: "ds_poller s = Parked seen deadline \<Longrightarrow> ds_open s \<Longrightarrow> seen \<noteq> ds_version s \<Longrightarrow>
    dispatch_step host wait s (s\<lparr>ds_poller := Woken (ds_version s) deadline\<rparr>)"
| shutdown: "ds_poller s = Parked seen deadline \<Longrightarrow> \<not> ds_open s \<Longrightarrow>
    dispatch_step host wait s (s\<lparr>ds_poller := Answered SERVICE_UNAVAILABLE None\<rparr>)"
| delivered: "ds_poller s = Woken seen deadline \<Longrightarrow> take_for_host host (ds_queue s) = (Some q, queue) \<Longrightarrow>
    deliver q = (status, body) \<Longrightarrow>
    dispatch_step host wait s (s\<lparr>ds_queue := queue, ds_poller := Answered status body\<rparr>)"
| false_wake: "ds_poller s = Woken seen deadline \<Longrightarrow> take_for_host host (ds_queue s) = (None, queue) \<Longrightarrow>
    dispatch_step host wait s (s\<lparr>ds_poller := Parked seen deadline\<rparr>)"
| db_error: "ds_poller s = Arrived \<or> ds_poller s = Woken seen deadline \<Longrightarrow>
    dispatch_step host wait s (s\<lparr>ds_poller := Answered INTERNAL_SERVER_ERROR None\<rparr>)"
| enqueue: "dispatch_step host wait s (s\<lparr>ds_queue := queue_upsert q (ds_queue s)\<rparr>)"
| kick: "dispatch_step host wait s (s\<lparr>ds_version := ds_version s + 1\<rparr>)"
| clock: "ds_clock s \<le> t \<Longrightarrow> dispatch_step host wait s (s\<lparr>ds_clock := t\<rparr>)"
| close: "dispatch_step host wait s (s\<lparr>ds_open := False\<rparr>)"

text \<open>The host a dispatch request is for, and how it starts: without a database it is answered at once.\<close>

definition dispatch_host :: "string \<Rightarrow> string \<Rightarrow> string" where
  "dispatch_host suffix cn = extract_machine_id cn suffix"

definition dispatch_start :: "cp_state option \<Rightarrow> poller" where
  "dispatch_start db = (if db = None then Answered NO_CONTENT None else Arrived)"

section \<open>routes/rollouts.rs\<close>

definition is_ascii_lowercase :: "char \<Rightarrow> bool" where
  "is_ascii_lowercase c \<longleftrightarrow> (let n = (of_char c :: nat) in 97 \<le> n \<and> n \<le> 122)"

definition channel_char :: "char \<Rightarrow> bool" where
  "channel_char c \<longleftrightarrow> is_ascii_lowercase c \<or> is_digit c \<or> c = CHR ''_'' \<or> c = CHR ''-''"

definition ref_char :: "char \<Rightarrow> bool" where
  "ref_char c \<longleftrightarrow> is_digit c \<or> (let n = (of_char c :: nat) in 97 \<le> n \<and> n \<le> 102)"

definition looks_like_rollout_id :: "string \<Rightarrow> bool" where
  "looks_like_rollout_id s =
     (case split_once (CHR ''@'') s of
        None \<Rightarrow> False
      | Some (channel, channel_ref) \<Rightarrow>
        if channel = [] \<or> channel_ref = [] then False
        else if CHR ''@'' \<in> set channel_ref then False
        else if \<not> list_all channel_char channel then False
        else list_all ref_char channel_ref)"

text \<open>\<open>split_once('@').unwrap()\<close> of an id that passed the check, put together again.\<close>

definition reparsed :: "string \<Rightarrow> RolloutId" where
  "reparsed rollout_id =
     (case split_once (CHR ''@'') rollout_id of
        Some (channel, channel_ref) \<Rightarrow> RolloutId_new channel channel_ref
      | None \<Rightarrow> RolloutId rollout_id)"

datatype file_read = FileBytes "byte list" | FileNotFound | FileError

definition manifest_paths :: "string \<Rightarrow> string \<Rightarrow> string \<times> string" where
  "manifest_paths dir rollout_id = (path_join dir (rollout_id @ ''.json''), path_join dir (rollout_id @ ''.json.sig''))"

definition try_load_from_dir ::
  "(string \<Rightarrow> file_read) \<Rightarrow> string \<Rightarrow> string \<Rightarrow> nat + (byte list \<times> byte list) option" where
  "try_load_from_dir read dir rollout_id =
     (let (m_path, s_path) = manifest_paths dir rollout_id
      in case read m_path of
           FileNotFound \<Rightarrow> Inr None
         | FileError \<Rightarrow> Inl INTERNAL_SERVER_ERROR
         | FileBytes manifest_bytes \<Rightarrow>
           case read s_path of
             FileBytes sig_bytes \<Rightarrow> Inr (Some (manifest_bytes, sig_bytes))
           | _ \<Rightarrow> Inl INTERNAL_SERVER_ERROR)"

definition load_pair ::
  "('v, 'ek, 'pt, 'pk, 'ps) poll_env \<Rightarrow> (string \<Rightarrow> file_read) \<Rightarrow> string option \<Rightarrow> RolloutsSource option \<Rightarrow> string \<Rightarrow>
   nat + byte list \<times> byte list" where
  "load_pair pe read rollouts_dir rollouts_src rollout_id =
     (if rollouts_dir = None \<and> rollouts_src = None then Inl SERVICE_UNAVAILABLE
      else if \<not> looks_like_rollout_id rollout_id then Inl NOT_FOUND
      else case (case rollouts_dir of None \<Rightarrow> Inr None | Some dir \<Rightarrow> try_load_from_dir read dir rollout_id) of
        Inl status \<Rightarrow> Inl status
      | Inr (Some pair) \<Rightarrow> Inr pair
      | Inr None \<Rightarrow>
        case rollouts_src of
          None \<Rightarrow> Inl NOT_FOUND
        | Some source \<Rightarrow>
          case rollouts_fetch_pair pe source rollout_id of
            Inr pair \<Rightarrow> Inr pair
          | Inl _ \<Rightarrow> Inl BAD_GATEWAY)"

definition manifest_route ::
  "('v, 'ek, 'pt, 'pk, 'ps) poll_env \<Rightarrow> (string \<Rightarrow> file_read) \<Rightarrow> string option \<Rightarrow> RolloutsSource option \<Rightarrow> string \<Rightarrow>
   nat + byte list" where
  "manifest_route pe read rollouts_dir rollouts_src rollout_id =
     (case load_pair pe read rollouts_dir rollouts_src rollout_id of Inl s \<Rightarrow> Inl s | Inr (m, _) \<Rightarrow> Inr m)"

definition signature_route ::
  "('v, 'ek, 'pt, 'pk, 'ps) poll_env \<Rightarrow> (string \<Rightarrow> file_read) \<Rightarrow> string option \<Rightarrow> RolloutsSource option \<Rightarrow> string \<Rightarrow>
   nat + byte list" where
  "signature_route pe read rollouts_dir rollouts_src rollout_id =
     (case load_pair pe read rollouts_dir rollouts_src rollout_id of Inl s \<Rightarrow> Inl s | Inr (_, sig) \<Rightarrow> Inr sig)"

text \<open>\<open>format!("{:?}", state)\<close> is the name of the variant. A rollout whose records do not decode has none.\<close>

definition list_active_route :: "cp_state option \<Rightarrow> nat + json" where
  "list_active_route db =
     (case db of
        None \<Rightarrow> Inl SERVICE_UNAVAILABLE
      | Some w \<Rightarrow>
        Inr (JObj [(''rollouts'', JArr (map
          (\<lambda>r. JObj [(''rolloutId'', json_rid (ar_rollout_id r)), (''channel'', JStr (ar_channel r)),
                     (''currentWave'', json_u32 (ar_current_wave r)), (''createdAt'', JTime (ar_created_at r)),
                     (''hostStates'', JObj
                        (case all_for_rollout (ar_rollout_id r) (db_records (cp_db w)) of
                           Inl _ \<Rightarrow> []
                         | Inr rows \<Rightarrow>
                           foldl (\<lambda>m row. hput (hrs_hostname row) (JStr (host_state_str (hrs_state row))) m) [] rows))])
          (list_in_flight (db_rollouts (cp_db w)))))]))"

definition opt_time :: "instant option \<Rightarrow> json" where
  "opt_time t = (case t of None \<Rightarrow> JNull | Some x \<Rightarrow> JTime x)"

definition lifecycle_route :: "cp_state option \<Rightarrow> string \<Rightarrow> nat + json" where
  "lifecycle_route db rollout_id =
     (if \<not> looks_like_rollout_id rollout_id then Inl BAD_REQUEST
      else case db of
        None \<Rightarrow> Inl SERVICE_UNAVAILABLE
      | Some w \<Rightarrow>
        case rollouts_state (RolloutId rollout_id) (db_rollouts (cp_db w)) of
          Inl _ \<Rightarrow> Inl INTERNAL_SERVER_ERROR
        | Inr None \<Rightarrow> Inl NOT_FOUND
        | Inr (Some row) \<Rightarrow>
          Inr (JObj [(''rolloutId'', JStr rollout_id), (''state'', JStr (as_db_str (row_state row))),
                     (''supersededAt'', opt_time (row_superseded_at row)), (''supersededBy'', JNull),
                     (''terminalAt'', opt_time (row_terminal_at row))]))"

fun derive_terminal :: "HostRolloutState \<Rightarrow> string option \<times> instant option" where
  "derive_terminal r =
     (case hrs_state r of
        HS_Converged \<Rightarrow> (Some ''converged'', hrs_converged_at r)
      | HS_Reverted \<Rightarrow> (Some ''rolled-back'', hrs_reverted_at r)
      | HS_Failed \<Rightarrow> (Some ''failed'', hrs_failed_at r)
      | _ \<Rightarrow> (None, None))"

record RolloutHostEntry =
  rhe_host :: string
  rhe_channel :: string
  rhe_wave :: u32
  rhe_target_closure_hash :: ClosureHash
  rhe_target_channel_ref :: string
  rhe_dispatched_at :: instant
  rhe_terminal_state :: "string option"
  rhe_terminal_at :: "instant option"

definition host_entry :: "(string, u32) hmap \<Rightarrow> HostRolloutState \<Rightarrow> RolloutHostEntry" where
  "host_entry wave_by_host r =
     (let (terminal_state, terminal_at) = derive_terminal r
      in \<lparr>rhe_host = hrs_hostname r, rhe_channel = hrs_channel r,
          rhe_wave = (case hget wave_by_host (hrs_hostname r) of Some w \<Rightarrow> w | None \<Rightarrow> 0),
          rhe_target_closure_hash = hrs_target_closure r, rhe_target_channel_ref = as_str (hrs_rollout_id r),
          rhe_dispatched_at = hrs_dispatched_at r, rhe_terminal_state = terminal_state,
          rhe_terminal_at = terminal_at\<rparr>)"

definition entry_before :: "RolloutHostEntry \<Rightarrow> RolloutHostEntry \<Rightarrow> bool" where
  "entry_before a b \<longleftrightarrow> rhe_wave a < rhe_wave b \<or> (rhe_wave a = rhe_wave b \<and> text_le (rhe_host a) (rhe_host b))"

text \<open>The map of wave indices is empty in both arms of the match that builds it.\<close>

definition rollout_hosts_route :: "cp_state option \<Rightarrow> string \<Rightarrow> nat + RolloutId \<times> RolloutHostEntry list" where
  "rollout_hosts_route db rollout_id =
     (if \<not> looks_like_rollout_id rollout_id then Inl BAD_REQUEST
      else case db of
        None \<Rightarrow> Inl SERVICE_UNAVAILABLE
      | Some w \<Rightarrow>
        case all_for_rollout (RolloutId rollout_id) (db_records (cp_db w)) of
          Inl _ \<Rightarrow> Inl INTERNAL_SERVER_ERROR
        | Inr records \<Rightarrow>
          if records = [] then Inl NOT_FOUND
          else let wave_by_host = (case rollouts_state (RolloutId rollout_id) (db_rollouts (cp_db w)) of
                     Inr (Some _) \<Rightarrow> [] | _ \<Rightarrow> [])
               in Inr (reparsed rollout_id, sort_by entry_before (map (host_entry wave_by_host) records)))"

text \<open>Payloads are JSON by the writer's check, so no row is replaced by a placeholder.\<close>

definition rollout_events_route :: "EventLogRow list option \<Rightarrow> string \<Rightarrow> int option \<Rightarrow> nat + RolloutId \<times> EventLogRow list" where
  "rollout_events_route log rollout_id limit =
     (if \<not> looks_like_rollout_id rollout_id then Inl BAD_REQUEST
      else case log of
        None \<Rightarrow> Inl SERVICE_UNAVAILABLE
      | Some rows \<Rightarrow>
        let limit = max (case limit of Some l \<Rightarrow> l | None \<Rightarrow> 1000) 1
        in Inr (reparsed rollout_id, query_by_rollout rollout_id limit rows))"

section \<open>routes/status.rs\<close>

record ChannelStatusResponse =
  csr_name :: string
  csr_declared_ci_commit :: "string option"
  csr_signed_at :: "instant option"
  csr_freshness_window_minutes :: u32

definition channel_status :: "'cert AppState \<Rightarrow> string \<Rightarrow> nat + ChannelStatusResponse" where
  "channel_status st name =
     (case as_verified_fleet st of
        None \<Rightarrow> Inl SERVICE_UNAVAILABLE
      | Some snap \<Rightarrow>
        let fleet = vfs_fleet snap
        in case hget (fl_channels fleet) name of
             None \<Rightarrow> Inl NOT_FOUND
           | Some channel \<Rightarrow>
             Inr \<lparr>csr_name = name, csr_declared_ci_commit = meta_ci_commit (fl_meta fleet),
                  csr_signed_at = meta_signed_at (fl_meta fleet),
                  csr_freshness_window_minutes = ch_freshness_window channel\<rparr>)"

text \<open>The fields of \<open>HostStatusEntry\<close> that are not constants.\<close>

record HostStatusEntry =
  hse_hostname :: string
  hse_channel :: string
  hse_declared_closure_hash :: "ClosureHash option"
  hse_current_closure_hash :: "ClosureHash option"
  hse_pending_closure_hash :: "ClosureHash option"
  hse_last_rollout_id :: "string option"
  hse_converged :: bool
  hse_outstanding_compliance_failures :: nat
  hse_verified_event_count :: nat
  hse_rollout_state :: "WireState option"
  hse_pin :: "Pin option"

definition host_status_entry ::
  "VerifiedFleetSnapshot option \<Rightarrow> (RolloutId, (string, nat) hmap) hmap \<Rightarrow> RolloutId \<Rightarrow> HostRolloutState \<Rightarrow> HostStatusEntry" where
  "host_status_entry verified outstanding rollout_id row =
     (let decl = Option.bind verified (\<lambda>s. hget (fl_hosts (vfs_fleet s)) (hrs_hostname row))
      in \<lparr>hse_hostname = hrs_hostname row, hse_channel = hrs_channel row,
          hse_declared_closure_hash = Option.bind decl host_closure_hash,
          hse_current_closure_hash = hrs_current_closure row,
          hse_pending_closure_hash = hrs_current_closure_at_dispatch row,
          hse_last_rollout_id = Some (as_str (hrs_rollout_id row)),
          hse_converged = (hrs_state row = HS_Converged),
          hse_outstanding_compliance_failures =
            (case Option.bind (hget outstanding rollout_id) (\<lambda>per_host. hget per_host (hrs_hostname row)) of
               Some n \<Rightarrow> n | None \<Rightarrow> 0),
          hse_verified_event_count = unat (hrs_last_event_seq row),
          hse_rollout_state = Some (wire_state_of (hrs_state row)),
          hse_pin = Option.bind decl host_pin\<rparr>)"

definition hosts_status :: "cp_state option \<Rightarrow> VerifiedFleetSnapshot option \<Rightarrow> nat + HostStatusEntry list" where
  "hosts_status db verified =
     (case db of
        None \<Rightarrow> Inr []
      | Some w \<Rightarrow>
        let outstanding = outstanding_failing_enforce_probes_by_rollout (db_probe_failures (cp_db w))
        in Inr (concat (map
             (\<lambda>r. case all_for_rollout (ar_rollout_id r) (db_records (cp_db w)) of
                    Inl _ \<Rightarrow> []
                  | Inr records \<Rightarrow> map (host_status_entry verified outstanding (ar_rollout_id r)) records)
             (list_active (db_rollouts (cp_db w))))))"

text \<open>The status and body: the JSON of the unconfigured proxy is its text.\<close>

datatype proxy_body = ProxyUnconfigured string | ProxyText string | ProxyBytes "byte list"

definition closure_proxy :: "(string \<Rightarrow> http_reply) \<Rightarrow> string option \<Rightarrow> string \<Rightarrow> nat + nat \<times> proxy_body" where
  "closure_proxy net upstream closure_hash =
     (case upstream of
        None \<Rightarrow> Inr (NOT_IMPLEMENTED, ProxyUnconfigured closure_hash)
      | Some base_url \<Rightarrow>
        case net (trim_end_slash base_url @ ''/'' @ closure_hash @ ''.narinfo'') of
          NoReply e \<Rightarrow> Inr (BAD_GATEWAY, ProxyText (''upstream error: '' @ e))
        | Reply status body \<Rightarrow> case body of Inl _ \<Rightarrow> Inl BAD_GATEWAY | Inr bytes \<Rightarrow> Inr (status, ProxyBytes bytes))"

section \<open>routes/fleet.rs\<close>

definition fleet_artifact_route :: "'cert AppState \<Rightarrow> nat + byte list" where
  "fleet_artifact_route st =
     (case as_verified_fleet st of None \<Rightarrow> Inl SERVICE_UNAVAILABLE | Some snapshot \<Rightarrow> Inr (vfs_artifact_bytes snapshot))"

definition fleet_signature_route :: "'cert AppState \<Rightarrow> nat + byte list" where
  "fleet_signature_route st =
     (case as_verified_fleet st of None \<Rightarrow> Inl SERVICE_UNAVAILABLE | Some snapshot \<Rightarrow> Inr (vfs_signature_bytes snapshot))"

section \<open>routes/deferrals.rs\<close>

definition SCAN_LIMIT :: int where
  "SCAN_LIMIT = 1024"

definition json_get_str :: "json \<Rightarrow> string \<Rightarrow> string option" where
  "json_get_str j k =
     (case j of JObj obj \<Rightarrow> (case map_of obj k of Some (JStr s) \<Rightarrow> Some s | _ \<Rightarrow> None) | _ \<Rightarrow> None)"

definition str_or :: "string \<Rightarrow> string option \<Rightarrow> string" where
  "str_or d v = (case v of Some s \<Rightarrow> s | None \<Rightarrow> d)"

record Deferral =
  df_host :: string
  df_rollout :: string
  df_blocked_by :: string
  df_reason :: string
  df_observed_at :: instant

text \<open>The loop over the rows from the last back, with the pairs seen.\<close>

fun collect_deferrals :: "EventLogRow list \<Rightarrow> (string \<times> string) list \<Rightarrow> Deferral list" where
  "collect_deferrals [] seen = []"
| "collect_deferrals (row # rows) seen =
     (let payload = er_payload row;
          host = str_or [] (json_get_str payload ''host''); rollout = str_or [] (json_get_str payload ''rollout'')
      in if host = [] \<or> rollout = [] then collect_deferrals rows seen
         else if (host, rollout) \<in> set seen then collect_deferrals rows seen
         else \<lparr>df_host = host, df_rollout = rollout, df_blocked_by = str_or ''unknown'' (json_get_str payload ''gate''),
               df_reason = str_or [] (json_get_str payload ''reason''), df_observed_at = er_ts row\<rparr>
              # collect_deferrals rows ((host, rollout) # seen))"

definition project_deferrals :: "EventLogRow list option \<Rightarrow> nat + Deferral list" where
  "project_deferrals log =
     (case log of
        None \<Rightarrow> Inr []
      | Some rows \<Rightarrow> Inr (collect_deferrals (rev (query_by_kind K_GateDecision SCAN_LIMIT rows)) []))"

section \<open>What the routes promise\<close>

text \<open>The host an input of the reducer speaks for.\<close>

fun input_host :: "ReducerInput \<Rightarrow> string option" where
  "input_host (HostEvent host _ _) = Some host"
| "input_host (HeartbeatReceived host _ _ _) = Some host"
| "input_host _ = None"

text \<open>An answer with a dispatch is for the host.\<close>

definition own_answer :: "string \<Rightarrow> poller \<Rightarrow> bool" where
  "own_answer host p \<longleftrightarrow> (case p of Answered _ (Some resp) \<Rightarrow> dr_hostname resp = host | _ \<Rightarrow> True)"

text \<open>A gate decision of the log, and one for a test fleet.\<close>

definition gate_row :: "EventLogRow \<Rightarrow> bool" where
  "gate_row r \<longleftrightarrow> er_kind r = EventLogKind_as_db_str K_GateDecision"

definition blocked_row :: "string \<Rightarrow> int \<Rightarrow> EventLogRow" where
  "blocked_row host seq =
     \<lparr>er_seq = seq, er_ts = 0, er_kind = ''gate_decision'', er_host_id = Some host, er_rollout_id = Some ''r'',
      er_payload = JObj [(''gate'', JStr ''g''), (''reason'', JStr ''b''), (''host'', JStr host), (''rollout'', JStr ''r'')]\<rparr>"

section \<open>Rollout ids in paths\<close>

lemma split_once_join: "split_once c s = Some (a, b) \<Longrightarrow> s = a @ c # b"
  by (induction s arbitrary: a) (auto split: if_splits)

lemma reparsed_id: "reparsed rollout_id = RolloutId rollout_id"
  by (auto simp: reparsed_def RolloutId_new_def dest: split_once_join split: option.splits)

lemma rollout_id_chars:
  assumes "looks_like_rollout_id s"
  shows "CHR ''/'' \<notin> set s" "CHR ''.'' \<notin> set s" "s \<noteq> []"
proof -
  obtain a b where split: "split_once (CHR ''@'') s = Some (a, b)" "list_all channel_char a" "list_all ref_char b" "a \<noteq> []"
    using assms by (auto simp: looks_like_rollout_id_def split: option.splits if_splits)
  then have s: "s = a @ CHR ''@'' # b"
    by (auto dest: split_once_join)
  have "\<not> channel_char (CHR ''/'')" "\<not> channel_char (CHR ''.'')" "\<not> ref_char (CHR ''/'')" "\<not> ref_char (CHR ''.'')"
    by (simp_all add: channel_char_def ref_char_def is_ascii_lowercase_def is_digit_def)
  then show "CHR ''/'' \<notin> set s" "CHR ''.'' \<notin> set s" "s \<noteq> []"
    using split s by (auto simp: list_all_iff)
qed

text \<open>A manifest is read from two names in the directory and from nowhere else.\<close>

lemma load_pair_reads_only:
  assumes "\<And>id. looks_like_rollout_id id \<Longrightarrow> CHR ''/'' \<notin> set id \<Longrightarrow>
    read (path_join dir (id @ ''.json'')) = read' (path_join dir (id @ ''.json''))
    \<and> read (path_join dir (id @ ''.json.sig'')) = read' (path_join dir (id @ ''.json.sig''))"
  shows "load_pair pe read (Some dir) src rollout_id = load_pair pe read' (Some dir) src rollout_id"
proof (cases "looks_like_rollout_id rollout_id")
  case True
  have "try_load_from_dir read dir rollout_id = try_load_from_dir read' dir rollout_id"
    using assms [OF True rollout_id_chars(1) [OF True]]
    by (auto simp: try_load_from_dir_def manifest_paths_def split: file_read.split)
  then show ?thesis
    by (simp add: load_pair_def)
qed (simp add: load_pair_def)

section \<open>Requests speak for their own host\<close>

lemma events_route_host:
  "input \<in> set (snd (events_route suffix db chan cn envelope)) \<Longrightarrow> input_host input = Some (extract_machine_id cn suffix)"
  by (auto simp: events_route_def Let_def split: if_splits input_channel.splits)

lemma heartbeat_route_host:
  "input \<in> set (snd (heartbeat_route suffix chan reply_of cn req)) \<Longrightarrow> input_host input = Some (extract_machine_id cn suffix)"
  by (auto simp: heartbeat_route_def Let_def split: if_splits)

lemma take_for_host_own: "take_for_host host t = (Some q, t') \<Longrightarrow> qd_hostname q = host"
  using oldest_Some [of "filter (\<lambda>q. qd_hostname q = host) t" q] by (auto simp: take_for_host_def Let_def)

lemma deliver_own:
  "take_for_host host t = (Some q, t') \<Longrightarrow> deliver q = (status, body) \<Longrightarrow> own_answer host (Answered status body)"
  using take_for_host_own [of host t q t'] by (auto simp: deliver_def own_answer_def)

lemma dispatch_step_own: "dispatch_step host wait s s' \<Longrightarrow> own_answer host (ds_poller s) \<Longrightarrow> own_answer host (ds_poller s')"
proof (induction rule: dispatch_step.induct)
  case (fast_path s q queue status body)
  then show ?case
    by (simp add: deliver_own)
next
  case (delivered s seen deadline q queue status body)
  then show ?case
    by (simp add: deliver_own)
qed (auto simp: own_answer_def)

text \<open>
  C11. A host can only speak and be spoken to as itself: an input that the event or heartbeat route
  hands to the reducer names the machine of the client certificate that was presented and not
  revoked, whatever host name the request claims, and a dispatch answer holds a row queued for that
  machine, however the request interleaves with the queue.
\<close>

theorem requests_speak_for_themselves:
  assumes "admit te x509 st rq = Inr (Some cn)"
    and "host = extract_machine_id cn (as_agent_cn_suffix st)"
  shows "(\<exists>der rest cert attrs. rq_peer rq = der # rest \<and> x509 der = Some cert \<and> x5_common_names cert = Some cn # attrs
      \<and> (\<forall>db revoked_before. as_db st = Some db \<longrightarrow> cert_revoked_before host (adb_cert_revocations db) = Some revoked_before
           \<longrightarrow> revoked_before \<le> seconds (x5_not_before cert)))
    \<and> (\<forall>input \<in> set (snd (events_route (as_agent_cn_suffix st) db chan cn envelope)). input_host input = Some host)
    \<and> (\<forall>input \<in> set (snd (heartbeat_route (as_agent_cn_suffix st) chan reply_of cn req)). input_host input = Some host)
    \<and> (\<forall>s s' status resp. (dispatch_step (dispatch_host (as_agent_cn_suffix st) cn) wait)\<^sup>*\<^sup>* s s' \<longrightarrow>
         ds_poller s = dispatch_start db \<longrightarrow> ds_poller s' = Answered status (Some resp) \<longrightarrow> dr_hostname resp = host)"
proof (intro conjI)
  obtain der rest where chain: "rq_peer rq = der # rest"
    using assms(1) by (cases "rq_peer rq") (auto simp: admit_def require_cn_def is_present_def split: sum.splits if_splits)
  obtain cert attrs where cert: "x509 der = Some cert" "x5_common_names cert = Some cn # attrs"
    using assms(1) chain
    by (auto simp: admit_def require_cn_def is_present_def leaf_cn_def leaf_def Let_def
        split: sum.splits if_splits option.splits list.splits Option.bind_splits)
  have "revoked_before \<le> seconds (x5_not_before cert)"
    if "as_db st = Some db" "cert_revoked_before host (adb_cert_revocations db) = Some revoked_before" for db revoked_before
    using assms chain cert that
    by (auto simp: admit_def require_cn_def is_present_def leaf_cn_def leaf_def leaf_not_before_def Let_def
        split: sum.splits if_splits)
  then show "\<exists>der rest cert attrs. rq_peer rq = der # rest \<and> x509 der = Some cert \<and> x5_common_names cert = Some cn # attrs
      \<and> (\<forall>db revoked_before. as_db st = Some db \<longrightarrow> cert_revoked_before host (adb_cert_revocations db) = Some revoked_before
           \<longrightarrow> revoked_before \<le> seconds (x5_not_before cert))"
    using chain cert by blast
  show "\<forall>input \<in> set (snd (events_route (as_agent_cn_suffix st) db chan cn envelope)). input_host input = Some host"
    using assms(2) events_route_host by blast
  show "\<forall>input \<in> set (snd (heartbeat_route (as_agent_cn_suffix st) chan reply_of cn req)). input_host input = Some host"
    using assms(2) heartbeat_route_host by blast
  show "\<forall>s s' status resp. (dispatch_step (dispatch_host (as_agent_cn_suffix st) cn) wait)\<^sup>*\<^sup>* s s' \<longrightarrow>
         ds_poller s = dispatch_start db \<longrightarrow> ds_poller s' = Answered status (Some resp) \<longrightarrow> dr_hostname resp = host"
  proof (intro allI impI)
    fix s s' status resp
    assume run: "(dispatch_step (dispatch_host (as_agent_cn_suffix st) cn) wait)\<^sup>*\<^sup>* s s'"
      and start: "ds_poller s = dispatch_start db" and answer: "ds_poller s' = Answered status (Some resp)"
    have "own_answer (dispatch_host (as_agent_cn_suffix st) cn) (ds_poller s')"
      using run
    proof (induction rule: rtranclp_induct)
      case base
      then show ?case
        using start by (simp add: own_answer_def dispatch_start_def)
    qed (rule dispatch_step_own)
    then show "dr_hostname resp = host"
      using answer assms(2) by (simp add: own_answer_def dispatch_host_def)
  qed
qed

theorem requests_speak_for_themselves_witness:
  "(let web = canonical_agent_cn ''web'' DEFAULT_AGENT_CN_SUFFIX; db = canonical_agent_cn ''db'' DEFAULT_AGENT_CN_SUFFIX
    in admit sample_te sample_x509 sample_app (request_with web) = Inr (Some web)
       \<and> (\<forall>input \<in> set (snd (heartbeat_route DEFAULT_AGENT_CN_SUFFIX ChannelOpen (\<lambda>_. ReplyTimeout) web
             \<lparr>hq_hostname = ''web'', hq_rollout_id = None, hq_current_closure = None, hq_at = 0\<rparr>)). input_host input = Some ''web''))"
proof -
  have ready: "is_ready sample_app" "\<not> as_strict sample_app" and suffix: "as_agent_cn_suffix sample_app = DEFAULT_AGENT_CN_SUFFIX"
    by (simp_all add: is_ready_def sample_app_def AppState_default_def)
  have admitted: "admit sample_te sample_x509 sample_app (request_with (canonical_agent_cn ''web'' DEFAULT_AGENT_CN_SUFFIX))
      = Inr (Some (canonical_agent_cn ''web'' DEFAULT_AGENT_CN_SUFFIX))"
    using ready by (intro sample_admit) simp_all
  show ?thesis
    using requests_speak_for_themselves [OF admitted refl] admitted by (simp add: Let_def suffix)
qed

section \<open>A kick can be missed\<close>



section \<open>Deferrals\<close>

lemma gate_query:
  assumes "sorted (map er_seq (old @ new))" "1024 \<le> length (filter gate_row old)"
  shows "query_by_kind K_GateDecision SCAN_LIMIT (old @ new) = query_by_kind K_GateDecision SCAN_LIMIT old"
proof -
  have query: "query_by_kind K_GateDecision SCAN_LIMIT rows = take 1024 (sort_key er_seq (filter gate_row rows))" for rows
    by (simp add: query_by_kind_def limited_def SCAN_LIMIT_def gate_row_def [abs_def])
  have "sorted (map er_seq (filter gate_row (old @ new)))" "sorted (map er_seq (filter gate_row old))"
    using assms(1) by (auto simp: sorted_append intro: sorted_filter simp del: filter_append)
  then show ?thesis
    using assms(2) unfolding query by (simp add: sort_key_id_if_sorted)
qed

text \<open>
  The deferrals view stops at the oldest decisions: once the log holds 1024 gate decisions, no
  later one ever shows, so the view of what blocks the fleet now is frozen in the past.
\<close>

lemma deferrals_frozen:
  assumes "sorted (map er_seq (old @ new))" "1024 \<le> length (filter gate_row old)"
  shows "project_deferrals (Some (old @ new)) = project_deferrals (Some old)"
  using gate_query [OF assms] by (simp add: project_deferrals_def)

end
