(* ===== verification/Ascii_Text.thy ===== *)
theory Ascii_Text
  imports Host_Keys
begin

text \<open>Text of ASCII characters is its own UTF-8 encoding, so it survives the byte conversions of the code.\<close>

definition ascii :: "string \<Rightarrow> bool" where
  "ascii s \<longleftrightarrow> list_all (\<lambda>c. of_char c < (128 :: nat)) s"

lemma ascii_bytes:
  assumes "ascii s"
  shows "from_utf8 (as_bytes s) = Some s" "from_utf8_lossy (as_bytes s) = s"
proof -
  have byte: "(word_of_nat (of_char c) :: byte) \<le> 0x7F" "char_of (unat (word_of_nat (of_char c) :: byte)) = c"
    if "of_char c < (128 :: nat)" for c :: char
  proof -
    have "unat (word_of_nat (of_char c) :: byte) = of_char c"
      using that by (intro unat_byte) simp
    then show "(word_of_nat (of_char c) :: byte) \<le> 0x7F" "char_of (unat (word_of_nat (of_char c) :: byte)) = c"
      using that by (simp_all add: word_le_nat_alt)
  qed
  have "utf8_valid (as_bytes s) \<and> utf8_lossy (as_bytes s) = as_bytes s \<and> map (\<lambda>b. char_of (unat b)) (as_bytes s) = s"
    using assms by (induction s) (auto simp: ascii_def as_bytes_def byte)
  then show "from_utf8 (as_bytes s) = Some s" "from_utf8_lossy (as_bytes s) = s"
    by (simp_all add: from_utf8_def from_utf8_lossy_def)
qed

lemma ascii_simps [simp]: "ascii []" "ascii (c # s) \<longleftrightarrow> of_char c < (128 :: nat) \<and> ascii s"
  by (simp_all add: ascii_def)

end
