(* ===== verification/Release.thy ===== *)
theory Release
  imports CP_Polling Ascii_Text
begin

text \<open>
  The release tool (\<open>nixfleet-release\<close>): the pipeline that builds the hosts, pushes the closures,
  signs the resolved fleet, the sidecars and one manifest per channel, writes them and commits them.
  Everything the tool does to the outside is an action in a log; what a command, the signing hook,
  the clock or a file operation answers is a function of the actions so far, so the outside is
  arbitrary. The commands themselves do not write into the release directory. Errors are the text
  \<open>anyhow\<close> prints with \<open>{:#}\<close>.
\<close>

section \<open>lib.rs: configuration\<close>

datatype HostsSpec = Auto | AutoExclude "string list" | Explicit "string list"

datatype HostKind = Nixos | Darwin

fun attr_prefix :: "HostKind \<Rightarrow> string" where
  "attr_prefix Nixos = ''nixosConfigurations''"
| "attr_prefix Darwin = ''darwinConfigurations''"

record GitPushTarget =
  gp_remote :: string
  gp_branch :: string

record ReleaseConfig =
  rc_flake_dir :: string
  rc_fleet_resolved_attr :: string
  rc_hosts :: HostsSpec
  rc_push_cmd :: "string option"
  rc_sign_cmd :: string
  rc_signature_algorithm :: string
  rc_release_dir :: string
  rc_artifact_name :: string
  rc_git_commit :: bool
  rc_git_push :: "GitPushTarget option"
  rc_commit_template :: string
  rc_git_user_name :: "string option"
  rc_git_user_email :: "string option"
  rc_smoke_verify :: bool
  rc_reuse_unchanged_signature :: bool
  rc_revocations_attr :: "string option"
  rc_bootstrap_nonces_attr :: "string option"
  rc_pin_source_url :: "string option"

datatype RunOutcome = Released "string option" "string list" | NoChange

section \<open>The outside\<close>

text \<open>
  A command with its directory and arguments, a push hook with its environment, a run of the signing
  hook over some bytes, a file renamed into place.
\<close>

datatype release_action =
    RunCmd "string option" "string list"
  | PushHook string "(string \<times> string) list"
  | SignHook string "byte list"
  | WriteFile string "byte list"

text \<open>The signing hook: a temporary file fails, it cannot be started, it exits, its output cannot be read.\<close>

datatype sign_outcome =
    SignSetup string | SignInvoke string | SignExit "i32 option" | SignReadback string | SignOutput "byte list"

record ('v, 'ek, 'pt, 'pk, 'ps) release_env =
  re_crypto :: "('v, 'ek, 'pt, 'pk, 'ps) crypto"
  re_cmd :: "release_action list \<Rightarrow> release_action \<Rightarrow> string + cmd_output"
  re_sign :: "release_action list \<Rightarrow> string \<Rightarrow> byte list \<Rightarrow> sign_outcome"
  re_now :: "release_action list \<Rightarrow> instant"
  re_read_err :: "release_action list \<Rightarrow> string \<Rightarrow> string option"
  re_mkdir_err :: "release_action list \<Rightarrow> string \<Rightarrow> string option"
  re_write_err :: "release_action list \<Rightarrow> string \<Rightarrow> string option"
  re_fleet_json :: "FleetResolved \<Rightarrow> string + string"
  re_revocations_json :: "Revocations \<Rightarrow> string + string"
  re_nonces_json :: "BootstrapNonces \<Rightarrow> string + string"
  re_manifest_json :: "RolloutManifest \<Rightarrow> string + string"
  re_parse_fleet :: "string \<Rightarrow> string + FleetResolved"
  re_parse_revocation_entries :: "string \<Rightarrow> string + RevocationEntry list"
  re_parse_nonce_entries :: "string \<Rightarrow> string + BootstrapNonceEntry list"
  re_parse_names :: "string \<Rightarrow> string + string list"
  re_rfc3339 :: "instant \<Rightarrow> string"

record release_state =
  rs_files :: "string \<Rightarrow> byte list option"
  rs_log :: "release_action list"

section \<open>Results with effects\<close>

type_synonym 'a rel = "release_state \<Rightarrow> (string + 'a) \<times> release_state"

definition rok :: "'a \<Rightarrow> 'a rel" where
  "rok x s = (Inr x, s)"

definition rerr :: "string \<Rightarrow> 'a rel" where
  "rerr e s = (Inl e, s)"

definition rbind :: "'a rel \<Rightarrow> ('a \<Rightarrow> 'b rel) \<Rightarrow> 'b rel" where
  "rbind m f s = (case m s of (Inl e, s') \<Rightarrow> (Inl e, s') | (Inr x, s') \<Rightarrow> f x s')"

definition rlift :: "string + 'a \<Rightarrow> 'a rel" where
  "rlift r s = (r, s)"

text \<open>\<open>Context::context\<close> and \<open>Result::ok\<close>.\<close>

definition in_context :: "string \<Rightarrow> 'a rel \<Rightarrow> 'a rel" where
  "in_context msg m s = (case m s of (Inl e, s') \<Rightarrow> (Inl (msg @ '': '' @ e), s') | (Inr x, s') \<Rightarrow> (Inr x, s'))"

definition rtry :: "'a rel \<Rightarrow> 'a option rel" where
  "rtry m s = (case m s of (Inl e, s') \<Rightarrow> (Inr None, s') | (Inr x, s') \<Rightarrow> (Inr (Some x), s'))"

fun rmap :: "('a \<Rightarrow> 'b rel) \<Rightarrow> 'a list \<Rightarrow> 'b list rel" where
  "rmap f [] = rok []"
| "rmap f (x # xs) = rbind (f x) (\<lambda>y. rbind (rmap f xs) (\<lambda>ys. rok (y # ys)))"

definition run_cmd :: "('v, 'ek, 'pt, 'pk, 'ps) release_env \<Rightarrow> release_action \<Rightarrow> cmd_output rel" where
  "run_cmd env act s = (re_cmd env (rs_log s) act, s\<lparr>rs_log := rs_log s @ [act]\<rparr>)"

definition read_file :: "('v, 'ek, 'pt, 'pk, 'ps) release_env \<Rightarrow> string \<Rightarrow> byte list rel" where
  "read_file env path s =
     (case re_read_err env (rs_log s) path of
        Some e \<Rightarrow> (Inl e, s)
      | None \<Rightarrow>
        case rs_files s path of
          None \<Rightarrow> (Inl ''No such file or directory (os error 2)'', s)
        | Some bytes \<Rightarrow> (Inr bytes, s))"

definition utc_now :: "('v, 'ek, 'pt, 'pk, 'ps) release_env \<Rightarrow> instant rel" where
  "utc_now env s = (Inr (re_now env (rs_log s)), s)"

definition exists_file :: "string \<Rightarrow> bool rel" where
  "exists_file path s = (Inr (rs_files s path \<noteq> None), s)"

text \<open>\<open>serde_json::from_slice\<close>.\<close>

definition parse_slice :: "(string \<Rightarrow> string + 'a) \<Rightarrow> byte list \<Rightarrow> string + 'a" where
  "parse_slice parse bytes =
     (case from_utf8 bytes of None \<Rightarrow> Inl ''invalid unicode code point'' | Some s \<Rightarrow> parse s)"

text \<open>\<open>{:?}\<close> of a string of printable characters and the usual escapes, and of a list of them.\<close>

definition debug_str :: "string \<Rightarrow> string" where
  "debug_str s =
     [CHR 0x22] @ concat (map (\<lambda>c. if c = CHR 0x22 \<or> c = CHR 0x5C then [CHR 0x5C, c]
        else if c = CHR 0x0A then [CHR 0x5C, CHR ''n''] else if c = CHR 0x0D then [CHR 0x5C, CHR ''r'']
        else if c = CHR 0x09 then [CHR 0x5C, CHR ''t''] else [c]) s) @ [CHR 0x22]"

definition debug_strs :: "string list \<Rightarrow> string" where
  "debug_strs ss = ''['' @ join_with '', '' (map debug_str ss) @ '']''"

definition code_or :: "cmd_output \<Rightarrow> string" where
  "code_or out = (case out_code out of Some c \<Rightarrow> show_i32 c | None \<Rightarrow> ''-1'')"

definition quoted :: "string \<Rightarrow> string" where
  "quoted s = [CHR 0x27] @ s @ [CHR 0x27]"

section \<open>sign.rs\<close>

definition sign :: "('v, 'ek, 'pt, 'pk, 'ps) release_env \<Rightarrow> string \<Rightarrow> byte list \<Rightarrow> byte list rel" where
  "sign env cmd canonical s =
     (let s' = s\<lparr>rs_log := rs_log s @ [SignHook cmd canonical]\<rparr>
      in case re_sign env (rs_log s) cmd canonical of
           SignSetup e \<Rightarrow> (Inl e, s)
         | SignInvoke e \<Rightarrow> (Inl (''invoke sign hook ('' @ debug_str cmd @ ''): '' @ e), s')
         | SignExit code \<Rightarrow>
             (Inl (''sign hook exited '' @ (case code of Some c \<Rightarrow> show_i32 c | None \<Rightarrow> ''-1'') @ '' ('' @ debug_str cmd @ '')''), s')
         | SignReadback e \<Rightarrow> (Inl (''read signature output: '' @ e), s')
         | SignOutput sig \<Rightarrow>
             (if sig = [] then Inl ''sign hook produced 0-byte signature - refusing to publish'' else Inr sig, s'))"

definition canonicalize_resolved ::
  "('v, 'ek, 'pt, 'pk, 'ps) release_env \<Rightarrow> FleetResolved \<Rightarrow> string + string" where
  "canonicalize_resolved env resolved =
     (case re_fleet_json env resolved of
        Inl e \<Rightarrow> Inl (''serialize FleetResolved before canonicalize: '' @ e)
      | Inr raw \<Rightarrow>
        case canonicalize (re_crypto env) raw of Inl e \<Rightarrow> Inl (''canonicalize fleet.resolved: '' @ e) | Inr c \<Rightarrow> Inr c)"

definition smoke_verify ::
  "('v, 'ek, 'pt, 'pk, 'ps) release_env \<Rightarrow> byte list \<Rightarrow> byte list \<Rightarrow> string + unit" where
  "smoke_verify env canonical signature =
     (case parse_slice (re_parse_fleet env) canonical of
        Inl e \<Rightarrow> Inl (''smoke verify: canonical bytes don't parse as FleetResolved: '' @ e)
      | Inr parsed \<Rightarrow>
        case canonicalize_resolved env parsed of
          Inl e \<Rightarrow> Inl (''smoke verify: re-canonicalize failed: '' @ e)
        | Inr recanonical \<Rightarrow>
          if as_bytes recanonical \<noteq> canonical then Inl ''smoke verify: canonicalization is not byte-stable round-trip''
          else if signature = [] then Inl ''smoke verify: empty signature''
          else Inr ())"

definition atomic_write :: "('v, 'ek, 'pt, 'pk, 'ps) release_env \<Rightarrow> string \<Rightarrow> byte list \<Rightarrow> unit rel" where
  "atomic_write env path bytes s =
     (case re_write_err env (rs_log s) path of
        Some e \<Rightarrow> (Inl e, s)
      | None \<Rightarrow> (Inr (), s\<lparr>rs_files := (rs_files s)(path := Some bytes), rs_log := rs_log s @ [WriteFile path bytes]\<rparr>))"

definition write_release ::
  "('v, 'ek, 'pt, 'pk, 'ps) release_env \<Rightarrow> string \<Rightarrow> string \<Rightarrow> byte list \<Rightarrow> byte list \<Rightarrow> unit rel" where
  "write_release env release_dir artifact_name canonical signature s =
     (case re_mkdir_err env (rs_log s) release_dir of
        Some e \<Rightarrow> (Inl (''create release dir '' @ release_dir @ '': '' @ e), s)
      | None \<Rightarrow>
        rbind (atomic_write env (path_join release_dir artifact_name) canonical)
          (\<lambda>_. atomic_write env (path_join release_dir (artifact_name @ ''.sig'')) signature) s)"

section \<open>git.rs\<close>

definition git_head_sha :: "('v, 'ek, 'pt, 'pk, 'ps) release_env \<Rightarrow> string \<Rightarrow> string rel" where
  "git_head_sha env repo =
     rbind (in_context ''invoke `git rev-parse HEAD`'' (run_cmd env (RunCmd (Some repo) [''git'', ''rev-parse'', ''HEAD''])))
       (\<lambda>out. if \<not> status_success out then rerr (''git rev-parse HEAD: '' @ from_utf8_lossy (out_stderr out))
              else rok (trim (from_utf8_lossy (out_stdout out))))"

definition run_git :: "('v, 'ek, 'pt, 'pk, 'ps) release_env \<Rightarrow> string \<Rightarrow> string list \<Rightarrow> unit rel" where
  "run_git env repo args =
     rbind (in_context (''invoke git '' @ debug_strs args) (run_cmd env (RunCmd (Some repo) (''git'' # args))))
       (\<lambda>out. if \<not> status_success out then rerr (''git '' @ debug_strs args @ '' exited '' @ code_or out) else rok ())"

text \<open>The slice \<open>sha[..8]\<close> of a commit hash, which is ASCII.\<close>

definition render_commit_message ::
  "('v, 'ek, 'pt, 'pk, 'ps) release_env \<Rightarrow> string \<Rightarrow> string \<Rightarrow> instant \<Rightarrow> string" where
  "render_commit_message env template sha ts =
     (let short = (if 8 \<le> length sha then take 8 sha else sha)
      in str_replace ''{ts}'' (re_rfc3339 env ts) (str_replace ''{sha}'' sha (str_replace ''{sha:0:8}'' short template)))"

text \<open>\<open>Path::strip_prefix\<close> compares components; \<open>.\<close> is one only at the start.\<close>

definition path_components :: "string \<Rightarrow> string list" where
  "path_components p =
     (if starts_with p ''/'' then [''/''] else if p = ''.'' \<or> starts_with p ''./'' then [''.''] else [])
     @ filter (\<lambda>c. c \<noteq> [] \<and> c \<noteq> ''.'') (split_slash p)"

definition strip_flake_dir :: "string \<Rightarrow> string \<Rightarrow> string" where
  "strip_flake_dir dir p =
     (let ds = path_components dir; ps = path_components p
      in if take (length ds) ps = ds then join_with ''/'' (drop (length ds) ps) else p)"

definition git_commit_release ::
  "('v, 'ek, 'pt, 'pk, 'ps) release_env \<Rightarrow> ReleaseConfig \<Rightarrow> string list \<Rightarrow> string option \<Rightarrow> instant \<Rightarrow> bool rel" where
  "git_commit_release env config files ci_commit signed_at =
     (let dir = rc_flake_dir config; file_strs = map (strip_flake_dir dir) files
      in rbind (case rc_git_user_name config of Some name \<Rightarrow> run_git env dir [''config'', ''user.name'', name] | None \<Rightarrow> rok ())
           (\<lambda>_. rbind (case rc_git_user_email config of Some email \<Rightarrow> run_git env dir [''config'', ''user.email'', email] | None \<Rightarrow> rok ())
           (\<lambda>_. rbind (run_git env dir ([''add'', ''--''] @ file_strs))
           (\<lambda>_. rbind (in_context ''invoke `git diff --cached --quiet`''
                   (run_cmd env (RunCmd (Some dir) ([''git'', ''diff'', ''--cached'', ''--quiet'', ''--''] @ file_strs))))
           (\<lambda>cached_diff. if status_success cached_diff then rok False
              else rbind (run_git env dir [''commit'', ''-m'',
                     render_commit_message env (rc_commit_template config)
                       (case ci_commit of Some c \<Rightarrow> c | None \<Rightarrow> ''HEAD'') signed_at])
                   (\<lambda>_. rok True))))))"

definition git_push_release :: "('v, 'ek, 'pt, 'pk, 'ps) release_env \<Rightarrow> string \<Rightarrow> GitPushTarget \<Rightarrow> unit rel" where
  "git_push_release env repo target = run_git env repo [''push'', gp_remote target, ''HEAD:'' @ gp_branch target]"

section \<open>lib.rs: the steps\<close>

definition validate_config :: "ReleaseConfig \<Rightarrow> string + unit" where
  "validate_config c =
     (if rc_signature_algorithm c \<noteq> ''ed25519'' \<and> rc_signature_algorithm c \<noteq> ''ecdsa-p256''
      then Inl (''--signature-algorithm must be '' @ quoted ''ed25519'' @ '' or '' @ quoted ''ecdsa-p256'' @ '', got ''
             @ quoted (rc_signature_algorithm c))
      else if rc_git_push c \<noteq> None \<and> \<not> rc_git_commit c then Inl ''--git-push requires --git-commit''
      else if trim (rc_sign_cmd c) = [] then Inl ''--sign-cmd is required and cannot be empty''
      else Inr ())"

text \<open>\<open>nix eval --json --no-warn-dirty\<close> of an attribute, with the context of a parse failure.\<close>

definition nix_eval ::
  "('v, 'ek, 'pt, 'pk, 'ps) release_env \<Rightarrow> string \<Rightarrow> string \<Rightarrow> string \<Rightarrow> (string \<Rightarrow> string + 'a) \<Rightarrow> 'a rel" where
  "nix_eval env flake_dir attr parse_context parse =
     rbind (in_context (''invoke `nix eval '' @ attr @ ''`'')
         (run_cmd env (RunCmd (Some flake_dir) [''nix'', ''eval'', ''--json'', ''--no-warn-dirty'', attr])))
       (\<lambda>out. if \<not> status_success out then rerr (''nix eval '' @ attr @ '': '' @ from_utf8_lossy (out_stderr out))
              else in_context parse_context (rlift (parse_slice parse (out_stdout out))))"

definition eval_fleet_resolved :: "('v, 'ek, 'pt, 'pk, 'ps) release_env \<Rightarrow> ReleaseConfig \<Rightarrow> FleetResolved rel" where
  "eval_fleet_resolved env config =
     nix_eval env (rc_flake_dir config) (rc_fleet_resolved_attr config)
       (''parse '' @ rc_fleet_resolved_attr config @ '' as FleetResolved'') (re_parse_fleet env)"

definition eval_revocations :: "('v, 'ek, 'pt, 'pk, 'ps) release_env \<Rightarrow> ReleaseConfig \<Rightarrow> string \<Rightarrow> RevocationEntry list rel" where
  "eval_revocations env config attr =
     nix_eval env (rc_flake_dir config) (''.#'' @ attr) (''parse revocations from `nix eval .#'' @ attr @ ''`'')
       (re_parse_revocation_entries env)"

definition eval_bootstrap_nonces ::
  "('v, 'ek, 'pt, 'pk, 'ps) release_env \<Rightarrow> ReleaseConfig \<Rightarrow> string \<Rightarrow> BootstrapNonceEntry list rel" where
  "eval_bootstrap_nonces env config attr =
     nix_eval env (rc_flake_dir config) (''.#'' @ attr) (''parse bootstrap nonces from `nix eval .#'' @ attr @ ''`'')
       (re_parse_nonce_entries env)"

definition MISSING_PHRASES :: "string list" where
  "MISSING_PHRASES =
     [''does not provide attribute'', ''has no attribute'', ''attribute '' @ quoted ''darwinconfigurations'' @ '' missing'',
      ''attribute '' @ quoted ''nixosconfigurations'' @ '' missing'']"

definition list_attr_optional :: "('v, 'ek, 'pt, 'pk, 'ps) release_env \<Rightarrow> string \<Rightarrow> string \<Rightarrow> string list rel" where
  "list_attr_optional env flake_dir attr_path =
     rbind (in_context (''invoke `nix eval .#'' @ attr_path @ ''`'')
         (run_cmd env (RunCmd (Some flake_dir)
            [''nix'', ''eval'', ''--json'', ''--no-warn-dirty'', ''.#'' @ attr_path, ''--apply'', ''builtins.attrNames''])))
       (\<lambda>out. if \<not> status_success out then
                let stderr = from_utf8_lossy (out_stderr out)
                in if list_ex (contains (to_lowercase stderr)) MISSING_PHRASES then rok []
                   else rerr (''nix eval .#'' @ attr_path @ '': '' @ stderr)
              else in_context (''parse JSON from `nix eval .#'' @ attr_path @ ''`'') (rlift (parse_slice (re_parse_names env) (out_stdout out))))"

text \<open>\<open>sort\<close> and \<open>dedup\<close>, then the hosts of the specification with their kind.\<close>

definition classify :: "string \<Rightarrow> string list \<Rightarrow> string list \<Rightarrow> string \<Rightarrow> string + string \<times> HostKind" where
  "classify flake_dir nixos darwin n =
     (case (n \<in> set nixos, n \<in> set darwin) of
        (True, False) \<Rightarrow> Inr (n, Nixos)
      | (False, True) \<Rightarrow> Inr (n, Darwin)
      | (True, True) \<Rightarrow> Inl (''host '' @ quoted n @ '' is declared in both nixosConfigurations and darwinConfigurations - disambiguate before releasing'')
      | (False, False) \<Rightarrow> Inl (''host '' @ quoted n @ '' is in neither nixosConfigurations nor darwinConfigurations of flake '' @ flake_dir))"

definition hosts_of_spec ::
  "string \<Rightarrow> string list \<Rightarrow> string list \<Rightarrow> HostsSpec \<Rightarrow> (string \<times> HostKind) list rel" where
  "hosts_of_spec flake_dir nixos darwin spec =
     (case spec of
        Auto \<Rightarrow> rok (map (\<lambda>n. (n, Nixos)) nixos @ map (\<lambda>n. (n, Darwin)) darwin)
      | AutoExclude exclude \<Rightarrow>
          rok (map (\<lambda>n. (n, Nixos)) (filter (\<lambda>h. h \<notin> set exclude) nixos)
             @ map (\<lambda>n. (n, Darwin)) (filter (\<lambda>h. h \<notin> set exclude) darwin))
      | Explicit list \<Rightarrow> rmap (\<lambda>n. rlift (classify flake_dir nixos darwin n)) list)"

definition enumerate_hosts :: "('v, 'ek, 'pt, 'pk, 'ps) release_env \<Rightarrow> ReleaseConfig \<Rightarrow> (string \<times> HostKind) list rel" where
  "enumerate_hosts env config =
     rbind (list_attr_optional env (rc_flake_dir config) ''nixosConfigurations'')
       (\<lambda>nixos. rbind (list_attr_optional env (rc_flake_dir config) ''darwinConfigurations'')
       (\<lambda>darwin. hosts_of_spec (rc_flake_dir config) (remdups_adj (sort nixos)) (remdups_adj (sort darwin)) (rc_hosts config)))"

definition sha256_hex :: "('v, 'ek, 'pt, 'pk, 'ps) crypto \<Rightarrow> byte list \<Rightarrow> string" where
  "sha256_hex c bytes = hex_lowercase (sha256 c bytes)"

definition prune_expired_bootstrap_nonces :: "BootstrapNonceEntry list \<Rightarrow> instant \<Rightarrow> BootstrapNonceEntry list" where
  "prune_expired_bootstrap_nonces entries signed_at = filter (\<lambda>e. signed_at \<le> bn_expires_at e) entries"

definition expire_pin :: "instant \<Rightarrow> Host \<Rightarrow> Host" where
  "expire_pin now host =
     (case host_pin host of
        None \<Rightarrow> host
      | Some pin \<Rightarrow>
        case pin_expires_at pin of
          None \<Rightarrow> host
        | Some expires \<Rightarrow> if expires \<le> now then host\<lparr>host_pin := None\<rparr> else host)"

definition filter_expired_pins :: "FleetResolved \<Rightarrow> instant \<Rightarrow> FleetResolved" where
  "filter_expired_pins resolved now = resolved\<lparr>fl_hosts := map (\<lambda>(n, h). (n, expire_pin now h)) (fl_hosts resolved)\<rparr>"

definition pin_target_commit :: "FleetResolved \<Rightarrow> string \<Rightarrow> string option \<Rightarrow> string option" where
  "pin_target_commit resolved host current_commit =
     (case hget (fl_hosts resolved) host of
        None \<Rightarrow> None
      | Some h \<Rightarrow>
        case host_pin h of
          None \<Rightarrow> None
        | Some pin \<Rightarrow> if Some (pin_commit pin) = current_commit then None else Some (pin_commit pin))"

definition validate_pin_source_url :: "ReleaseConfig \<Rightarrow> FleetResolved \<Rightarrow> string option \<Rightarrow> string + unit" where
  "validate_pin_source_url config resolved current_commit =
     (if rc_pin_source_url config \<noteq> None then Inr ()
      else let needs = concat (map (\<lambda>(name, host). case host_pin host of
                   Some p \<Rightarrow> if Some (pin_commit p) \<noteq> current_commit then [name] else []
                 | None \<Rightarrow> []) (fl_hosts resolved))
           in if needs \<noteq> []
              then Inl (''--pin-source-url is required: hosts with non-current-commit pins ('' @ join_with '', '' needs
                     @ '') can't be built without a source URL'')
              else Inr ())"

definition interpret_build_output :: "string \<Rightarrow> cmd_output \<Rightarrow> string + string" where
  "interpret_build_output attr out =
     (if \<not> status_success out then Inl (''nix build '' @ attr @ '': '' @ from_utf8_lossy (out_stderr out))
      else let path = trim (from_utf8_lossy (out_stdout out))
           in if path = [] then Inl (''nix build '' @ attr @ '': empty output'') else Inr path)"

definition nix_build :: "('v, 'ek, 'pt, 'pk, 'ps) release_env \<Rightarrow> string option \<Rightarrow> string \<Rightarrow> string rel" where
  "nix_build env dir attr =
     rbind (in_context (''invoke `nix build '' @ attr @ ''`'')
         (run_cmd env (RunCmd dir [''nix'', ''build'', ''--no-link'', ''--print-out-paths'', ''--no-warn-dirty'', attr])))
       (\<lambda>out. rlift (interpret_build_output attr out))"

definition build_local :: "('v, 'ek, 'pt, 'pk, 'ps) release_env \<Rightarrow> string \<Rightarrow> string \<Rightarrow> string rel" where
  "build_local env flake_dir attr = nix_build env (Some flake_dir) attr"

definition local_attr :: "HostKind \<Rightarrow> string \<Rightarrow> string" where
  "local_attr kind host = ''.#'' @ attr_prefix kind @ ''.'' @ host @ ''.config.system.build.toplevel''"

definition pinned_attr :: "string \<Rightarrow> string \<Rightarrow> HostKind \<Rightarrow> string \<Rightarrow> string" where
  "pinned_attr url commit kind host =
     url @ ''?rev='' @ commit @ ''#'' @ attr_prefix kind @ ''.'' @ host @ ''.config.system.build.toplevel''"

definition build_pinned :: "('v, 'ek, 'pt, 'pk, 'ps) release_env \<Rightarrow> string \<Rightarrow> string \<Rightarrow> HostKind \<Rightarrow> string \<Rightarrow> string rel" where
  "build_pinned env url commit kind host = nix_build env None (pinned_attr url commit kind host)"

definition build_host ::
  "('v, 'ek, 'pt, 'pk, 'ps) release_env \<Rightarrow> ReleaseConfig \<Rightarrow> FleetResolved \<Rightarrow> string option \<Rightarrow> string \<times> HostKind \<Rightarrow> (string \<times> string) rel" where
  "build_host env config resolved current_commit hk =
     (case hk of (host, kind) \<Rightarrow>
        rbind (case pin_target_commit resolved host current_commit of
                 None \<Rightarrow> in_context (''build host '' @ host) (build_local env (rc_flake_dir config) (local_attr kind host))
               | Some commit \<Rightarrow>
                 case rc_pin_source_url config of
                   None \<Rightarrow> rerr (''host '' @ quoted host @ '' is pinned to commit '' @ quoted commit @ '' but --pin-source-url is unset'')
                 | Some url \<Rightarrow> in_context (''build pinned host '' @ host @ '' @ '' @ commit) (build_pinned env url commit kind host))
          (\<lambda>path. rok (host, path)))"

definition build_hosts ::
  "('v, 'ek, 'pt, 'pk, 'ps) release_env \<Rightarrow> ReleaseConfig \<Rightarrow> (string \<times> HostKind) list \<Rightarrow> FleetResolved \<Rightarrow> string option \<Rightarrow>
   (string \<times> string) list rel" where
  "build_hosts env config hosts resolved current_commit =
     rbind (rmap (build_host env config resolved current_commit) hosts)
       (\<lambda>built. rok (foldl (\<lambda>m (host, path). btree_insert host path m) [] built))"

definition closure_hash :: "string \<Rightarrow> string" where
  "closure_hash path = (case file_name path of Some n \<Rightarrow> n | None \<Rightarrow> [])"

definition push_one :: "('v, 'ek, 'pt, 'pk, 'ps) release_env \<Rightarrow> string \<Rightarrow> string \<times> string \<Rightarrow> unit rel" where
  "push_one env cmd hp =
     (case hp of (host, path) \<Rightarrow>
        rbind (in_context (''invoke push hook for '' @ host)
            (run_cmd env (PushHook cmd [(''NIXFLEET_HOST'', host), (''NIXFLEET_PATH'', path), (''NIXFLEET_CLOSURE_HASH'', closure_hash path)])))
          (\<lambda>out. if \<not> status_success out
                 then rerr (''push hook for '' @ host @ '' exited '' @ code_or out @ '' ('' @ debug_str cmd @ '')'')
                 else rok ()))"

text \<open>Hosts of the build that the fleet does not declare are skipped.\<close>

definition inject_closure_hashes :: "FleetResolved \<Rightarrow> (string \<times> string) list \<Rightarrow> FleetResolved" where
  "inject_closure_hashes resolved hashes =
     resolved\<lparr>fl_hosts := map (\<lambda>(n, h). (n, case map_of hashes n of Some hash \<Rightarrow> h\<lparr>host_closure_hash := Some hash\<rparr> | None \<Rightarrow> h))
       (fl_hosts resolved)\<rparr>"

definition stamp_meta :: "FleetResolved \<Rightarrow> instant \<Rightarrow> string option \<Rightarrow> string \<Rightarrow> FleetResolved" where
  "stamp_meta resolved signed_at ci_commit signature_algorithm =
     resolved\<lparr>fl_meta := (fl_meta resolved)\<lparr>meta_signed_at := Some signed_at, meta_ci_commit := ci_commit,
       meta_signature_algorithm := Some signature_algorithm\<rparr>\<rparr>"

definition host_hashes :: "FleetResolved \<Rightarrow> (string \<times> ClosureHash option) set" where
  "host_hashes fleet = set (map (\<lambda>(k, v). (k, host_closure_hash v)) (fl_hosts fleet))"

definition load_existing_signed_at_if_unchanged ::
  "('v, 'ek, 'pt, 'pk, 'ps) release_env \<Rightarrow> string \<Rightarrow> FleetResolved \<Rightarrow> instant option rel" where
  "load_existing_signed_at_if_unchanged env release_path resolved =
     rbind (exists_file release_path)
     (\<lambda>present. if \<not> present then rok None
      else rbind (in_context (''read existing release '' @ release_path)
               (rbind (read_file env release_path) (\<lambda>bytes. case from_utf8 bytes of
                  None \<Rightarrow> rerr ''stream did not contain valid UTF-8'' | Some raw \<Rightarrow> rok raw)))
             (\<lambda>raw. rbind (in_context ''parse existing release file'' (rlift (re_parse_fleet env raw)))
             (\<lambda>existing. rok (if host_hashes resolved = host_hashes existing then meta_signed_at (fl_meta existing) else None))))"

section \<open>lib.rs: the pipeline\<close>

text \<open>A signature on disk is used again when the bytes on disk are the ones to be signed.\<close>

definition sign_or_reuse ::
  "('v, 'ek, 'pt, 'pk, 'ps) release_env \<Rightarrow> string \<Rightarrow> string \<Rightarrow> string \<Rightarrow> string \<Rightarrow> byte list \<Rightarrow> byte list rel" where
  "sign_or_reuse env cmd read_context path sig_path canonical =
     rbind (exists_file path)
     (\<lambda>present. rbind (exists_file sig_path)
     (\<lambda>sig_present. rbind (if present \<and> sig_present then rtry (read_file env path) else rok None)
     (\<lambda>on_disk. if on_disk = Some canonical then in_context read_context (read_file env sig_path)
                else sign env cmd canonical)))"

definition publish ::
  "('v, 'ek, 'pt, 'pk, 'ps) release_env \<Rightarrow> string \<Rightarrow> string \<Rightarrow> string \<Rightarrow> string \<Rightarrow> byte list \<Rightarrow> string list rel" where
  "publish env cmd read_context dir name canonical =
     (let path = path_join dir name; sig_path = path_join dir (name @ ''.sig'')
      in rbind (sign_or_reuse env cmd read_context path sig_path canonical)
           (\<lambda>sig. rbind (write_release env dir name canonical sig) (\<lambda>_. rok [path, sig_path])))"

definition release_meta :: "ReleaseConfig \<Rightarrow> instant \<Rightarrow> string option \<Rightarrow> Meta" where
  "release_meta config signed_at ci_commit =
     \<lparr>meta_schema_version = 1, meta_signed_at = Some signed_at, meta_ci_commit = ci_commit,
      meta_signature_algorithm = Some (rc_signature_algorithm config)\<rparr>"

definition canonical_json ::
  "('v, 'ek, 'pt, 'pk, 'ps) release_env \<Rightarrow> string \<Rightarrow> ('a \<Rightarrow> string + string) \<Rightarrow> 'a \<Rightarrow> string rel" where
  "canonical_json env what to_json x =
     rbind (in_context (''serialise '' @ what) (rlift (to_json x)))
       (\<lambda>raw. in_context (''canonicalize '' @ what) (rlift (canonicalize (re_crypto env) raw)))"

definition release_revocations ::
  "('v, 'ek, 'pt, 'pk, 'ps) release_env \<Rightarrow> ReleaseConfig \<Rightarrow> instant \<Rightarrow> string option \<Rightarrow> string list rel" where
  "release_revocations env config signed_at ci_commit =
     (case rc_revocations_attr config of
        None \<Rightarrow> rok []
      | Some attr \<Rightarrow>
        rbind (eval_revocations env config attr)
          (\<lambda>entries. rbind (canonical_json env ''revocations.json'' (re_revocations_json env)
              \<lparr>rv_schema_version = 1, rv_revocations = entries, rv_meta = release_meta config signed_at ci_commit\<rparr>)
          (\<lambda>canonical. publish env (rc_sign_cmd config) ''read existing revocations signature'' (rc_release_dir config)
             ''revocations.json'' (as_bytes canonical))))"

definition release_bootstrap_nonces ::
  "('v, 'ek, 'pt, 'pk, 'ps) release_env \<Rightarrow> ReleaseConfig \<Rightarrow> instant \<Rightarrow> string option \<Rightarrow> string list rel" where
  "release_bootstrap_nonces env config signed_at ci_commit =
     (case rc_bootstrap_nonces_attr config of
        None \<Rightarrow> rok []
      | Some attr \<Rightarrow>
        rbind (eval_bootstrap_nonces env config attr)
          (\<lambda>raw_entries. rbind (canonical_json env ''bootstrap-nonces.json'' (re_nonces_json env)
              \<lparr>bns_schema_version = 1, bns_bootstrap_nonces = prune_expired_bootstrap_nonces raw_entries signed_at,
               bns_meta = release_meta config signed_at ci_commit\<rparr>)
          (\<lambda>canonical. publish env (rc_sign_cmd config) ''read existing bootstrap-nonces signature'' (rc_release_dir config)
             ''bootstrap-nonces.json'' (as_bytes canonical))))"

definition release_manifest ::
  "('v, 'ek, 'pt, 'pk, 'ps) release_env \<Rightarrow> ReleaseConfig \<Rightarrow> FleetResolved \<Rightarrow> string \<Rightarrow> instant \<Rightarrow> string option \<Rightarrow> string \<Rightarrow>
   string list rel" where
  "release_manifest env config resolved fleet_resolved_hash signed_at ci_commit channel =
     rbind (rlift (project_manifest resolved channel fleet_resolved_hash signed_at ci_commit (rc_signature_algorithm config)))
       (\<lambda>projected. case projected of
          None \<Rightarrow> rok []
        | Some manifest \<Rightarrow>
          rbind (canonical_json env (''manifest for channel '' @ channel) (re_manifest_json env) manifest)
            (\<lambda>canonical.
               let rollout_id = as_str (RolloutId_new (rm_channel manifest) (rm_channel_ref manifest))
               in publish env (rc_sign_cmd config) ''read existing manifest signature''
                    (path_join (rc_release_dir config) ''rollouts'') (rollout_id @ ''.json'') (as_bytes canonical)))"

text \<open>The fleet as it is signed: evaluated, without expired pins, built and pushed.\<close>

definition prepare ::
  "('v, 'ek, 'pt, 'pk, 'ps) release_env \<Rightarrow> ReleaseConfig \<Rightarrow> (FleetResolved \<times> (string \<times> string) list \<times> string option) rel" where
  "prepare env config =
     rbind (rlift (validate_config config))
       (\<lambda>_. rbind (enumerate_hosts env config)
       (\<lambda>hosts. if hosts = [] then rerr ''no hosts to release - empty enumeration''
         else rbind (eval_fleet_resolved env config)
         (\<lambda>evaluated. rbind (rtry (git_head_sha env (rc_flake_dir config)))
         (\<lambda>current_commit. rbind (utc_now env)
         (\<lambda>now. let resolved = filter_expired_pins evaluated now
            in rbind (rlift (validate_pin_source_url config resolved current_commit))
              (\<lambda>_. rbind (build_hosts env config hosts resolved current_commit)
              (\<lambda>built. rok (resolved, built, current_commit))))))))"

definition push_all :: "('v, 'ek, 'pt, 'pk, 'ps) release_env \<Rightarrow> ReleaseConfig \<Rightarrow> (string \<times> string) list \<Rightarrow> unit list rel" where
  "push_all env config built =
     (case rc_push_cmd config of None \<Rightarrow> rok [] | Some cmd \<Rightarrow> rmap (push_one env cmd) built)"

text \<open>The signed fleet: the fleet, its canonical text, the instant, and whether that is the one of the last release.\<close>

definition release_fleet ::
  "('v, 'ek, 'pt, 'pk, 'ps) release_env \<Rightarrow> ReleaseConfig \<Rightarrow> FleetResolved \<Rightarrow> string option \<Rightarrow>
   (FleetResolved \<times> string \<times> instant \<times> bool) rel" where
  "release_fleet env config injected current_commit =
     (let release_path = path_join (rc_release_dir config) (rc_artifact_name config);
          signature_path = path_join (rc_release_dir config) (rc_artifact_name config @ ''.sig'')
      in rbind (if rc_reuse_unchanged_signature config then load_existing_signed_at_if_unchanged env release_path injected else rok None)
        (\<lambda>preserved. rbind (case preserved of Some t \<Rightarrow> rok t | None \<Rightarrow> utc_now env)
        (\<lambda>signed_at.
           let resolved = stamp_meta injected signed_at current_commit (rc_signature_algorithm config)
           in rbind (rlift (canonicalize_resolved env resolved))
             (\<lambda>canonical. rbind (exists_file signature_path)
             (\<lambda>sig_present. rbind (if preserved \<noteq> None \<and> sig_present
                   then in_context ''read existing signature'' (read_file env signature_path)
                   else sign env (rc_sign_cmd config) (as_bytes canonical))
             (\<lambda>sig. rbind (if rc_smoke_verify config then rlift (smoke_verify env (as_bytes canonical) sig) else rok ())
             (\<lambda>_. rbind (write_release env (rc_release_dir config) (rc_artifact_name config) (as_bytes canonical) sig)
             (\<lambda>_. rok (resolved, canonical, signed_at, preserved \<noteq> None)))))))))"

definition commit_release ::
  "('v, 'ek, 'pt, 'pk, 'ps) release_env \<Rightarrow> ReleaseConfig \<Rightarrow> string list \<Rightarrow> string option \<Rightarrow> instant \<Rightarrow> (bool \<times> string option) rel" where
  "commit_release env config files ci_commit signed_at =
     rbind (git_commit_release env config files ci_commit signed_at)
       (\<lambda>committed. rbind (case rc_git_push config of
            Some target \<Rightarrow> if committed then git_push_release env (rc_flake_dir config) target else rok ()
          | None \<Rightarrow> rok ())
       (\<lambda>_. rbind (if committed then rtry (git_head_sha env (rc_flake_dir config)) else rok None)
       (\<lambda>commit_sha. rok (committed, commit_sha))))"

text \<open>What happens once every host is built.\<close>

definition finish_release ::
  "('v, 'ek, 'pt, 'pk, 'ps) release_env \<Rightarrow> ReleaseConfig \<Rightarrow> FleetResolved \<times> (string \<times> string) list \<times> string option \<Rightarrow> RunOutcome rel" where
  "finish_release env config =
       (\<lambda>(prepared, built, current_commit).
          let hashes = map (\<lambda>(h, p). (h, closure_hash p)) built
          in rbind (push_all env config built)
          (\<lambda>_. rbind (release_fleet env config (inject_closure_hashes prepared hashes) current_commit)
          (\<lambda>(resolved, canonical, signed_at, preserved).
          rbind (release_revocations env config signed_at current_commit)
          (\<lambda>revocations_paths. rbind (release_bootstrap_nonces env config signed_at current_commit)
          (\<lambda>nonces_paths. rbind (rmap (release_manifest env config resolved (sha256_hex (re_crypto env) (as_bytes canonical))
                 signed_at current_commit) (hkeys (fl_channels resolved)))
          (\<lambda>manifest_paths.
             if rc_git_commit config
             then rbind (commit_release env config
                    ([path_join (rc_release_dir config) (rc_artifact_name config),
                      path_join (rc_release_dir config) (rc_artifact_name config @ ''.sig'')]
                     @ revocations_paths @ nonces_paths @ concat manifest_paths) current_commit signed_at)
                  (\<lambda>(committed, commit_sha).
                     if \<not> committed \<and> preserved then rok NoChange else rok (Released commit_sha (map fst hashes)))
             else rok (Released None (map fst hashes))))))))"

definition run :: "('v, 'ek, 'pt, 'pk, 'ps) release_env \<Rightarrow> ReleaseConfig \<Rightarrow> RunOutcome rel" where
  "run env config = rbind (prepare env config) (finish_release env config)"

section \<open>main.rs\<close>

fun split_on :: "char \<Rightarrow> string \<Rightarrow> string list" where
  "split_on sep [] = [[]]"
| "split_on sep (c # cs) =
     (if c = sep then [] # split_on sep cs
      else case split_on sep cs of [] \<Rightarrow> [[c]] | x # xs \<Rightarrow> (c # x) # xs)"

definition parse_hosts_spec :: "string \<Rightarrow> string + HostsSpec" where
  "parse_hosts_spec spec =
     (if spec = ''auto'' then Inr Auto
      else case strip_prefix ''auto:exclude='' spec of
        Some rest \<Rightarrow> Inr (AutoExclude (filter (\<lambda>x. x \<noteq> []) (split_on (CHR '','') rest)))
      | None \<Rightarrow>
        let list = filter (\<lambda>x. x \<noteq> []) (split_on (CHR '','') spec)
        in if list = [] then Inl ''hosts spec is empty'' else Inr (Explicit list))"

definition parse_git_push :: "string \<Rightarrow> string + GitPushTarget" where
  "parse_git_push s =
     (case split_once (CHR '':'') s of
        None \<Rightarrow> Inl (''--git-push expects REMOTE:BRANCH, got '' @ debug_str s)
      | Some (remote, branch) \<Rightarrow> Inr \<lparr>gp_remote = remote, gp_branch = branch\<rparr>)"

text \<open>
  The exit code. \<open>cli\<close> holds the options that are passed through; the host specification and the push
  target are still text.
\<close>

definition main :: "('v, 'ek, 'pt, 'pk, 'ps) release_env \<Rightarrow> string \<Rightarrow> string option \<Rightarrow> ReleaseConfig \<Rightarrow> release_state \<Rightarrow> nat \<times> release_state" where
  "main env hosts_arg push_arg cli s =
     (case parse_hosts_spec hosts_arg of
        Inl _ \<Rightarrow> (1, s)
      | Inr hosts \<Rightarrow>
        case (case push_arg of None \<Rightarrow> Inr None | Some a \<Rightarrow> (case parse_git_push a of Inl e \<Rightarrow> Inl e | Inr t \<Rightarrow> Inr (Some t))) of
          Inl _ \<Rightarrow> (1, s)
        | Inr git_push \<Rightarrow>
          case run env (cli\<lparr>rc_hosts := hosts, rc_git_push := git_push, rc_git_commit := rc_git_commit cli \<or> git_push \<noteq> None\<rparr>) s of
            (Inr _, s') \<Rightarrow> (0, s')
          | (Inl msg, s') \<Rightarrow>
            (if contains msg ''smoke verify'' then 3
             else if contains msg ''sign hook'' \<or> contains msg ''push hook'' then 2
             else 1, s'))"

section \<open>Specifications\<close>

text \<open>
  The contract of the JSON library for a signed document: a canonical form is valid UTF-8, its own
  canonical form, and parses to the same document. A hash map comes back in another order.
\<close>

definition signed_codec ::
  "('v, 'ek, 'pt, 'pk, 'ps) crypto \<Rightarrow> ('a \<Rightarrow> string + string) \<Rightarrow> (string \<Rightarrow> string + 'a) \<Rightarrow> ('a \<Rightarrow> 'a \<Rightarrow> bool) \<Rightarrow> bool" where
  "signed_codec c to_json parse same \<longleftrightarrow>
     (\<forall>x raw canonical. to_json x = Inr raw \<longrightarrow> canonicalize c raw = Inr canonical \<longrightarrow>
        from_utf8 (as_bytes canonical) = Some canonical \<and> canonicalize c canonical = Inr canonical
        \<and> (\<exists>y. parse canonical = Inr y \<and> same x y))"

definition same_document :: "FleetResolved \<Rightarrow> FleetResolved \<Rightarrow> bool" where
  "same_document f g \<longleftrightarrow>
     (hwf (fl_hosts f) \<longrightarrow> same_fleet f g) \<and> fl_meta g = fl_meta f \<and> fl_schema_version g = fl_schema_version f"

text \<open>
  What \<open>nix eval\<close> must give: schema version 1, the keys of a map once each, and channel names that are not
  absolute paths.
\<close>

definition fleet_document :: "FleetResolved \<Rightarrow> bool" where
  "fleet_document f \<longleftrightarrow>
     fl_schema_version f = 1 \<and> hwf (fl_hosts f) \<and> hwf (fl_channels f)
     \<and> list_all (\<lambda>ch. \<not> starts_with ch ''/'') (hkeys (fl_channels f))"

text \<open>The contract of the signing hook, and the state of a release directory: signatures verify.\<close>

definition hook_signs ::
  "('v, 'ek, 'pt, 'pk, 'ps) release_env \<Rightarrow> string \<Rightarrow> TrustedPubkey list \<Rightarrow> bool" where
  "hook_signs env cmd keys \<longleftrightarrow>
     (\<forall>log msg sig. re_sign env log cmd msg = SignOutput sig \<longrightarrow> (\<exists>k \<in> set keys. key_verifies (re_crypto env) msg sig k))"

definition signed_pair ::
  "('v, 'ek, 'pt, 'pk, 'ps) crypto \<Rightarrow> TrustedPubkey list \<Rightarrow> (string \<Rightarrow> byte list option) \<Rightarrow> string \<Rightarrow> byte list \<Rightarrow> bool" where
  "signed_pair c keys files path bytes \<longleftrightarrow>
     files path = Some bytes \<and> (\<exists>sig. files (path @ ''.sig'') = Some sig \<and> (\<exists>k \<in> set keys. key_verifies c bytes sig k))"

definition locally_sound ::
  "('v, 'ek, 'pt, 'pk, 'ps) crypto \<Rightarrow> TrustedPubkey list \<Rightarrow> (string \<Rightarrow> byte list option) \<Rightarrow> string \<Rightarrow> bool" where
  "locally_sound c keys files path \<longleftrightarrow>
     (\<forall>bytes. files path = Some bytes \<longrightarrow> files (path @ ''.sig'') \<noteq> None \<longrightarrow> signed_pair c keys files path bytes)"

definition sound_dir ::
  "('v, 'ek, 'pt, 'pk, 'ps) crypto \<Rightarrow> TrustedPubkey list \<Rightarrow> (string \<Rightarrow> byte list option) \<Rightarrow> bool" where
  "sound_dir c keys files \<longleftrightarrow> (\<forall>path. locally_sound c keys files path)"

definition path_prefix :: "string \<Rightarrow> string" where
  "path_prefix dir = (if dir = [] then [] else if last dir = CHR ''/'' then dir else dir @ ''/'')"

text \<open>Where the documents go, and a mirror that serves them to the control plane.\<close>

definition artifact_file :: "ReleaseConfig \<Rightarrow> string" where
  "artifact_file config = path_join (rc_release_dir config) (rc_artifact_name config)"

definition manifest_file :: "ReleaseConfig \<Rightarrow> string \<Rightarrow> string" where
  "manifest_file config rollout_id =
     path_join (path_join (rc_release_dir config) ''rollouts'') (rollout_id @ ''.json'')"

definition rollout_of :: "string option \<Rightarrow> string \<Rightarrow> string" where
  "rollout_of commit channel = as_str (RolloutId_new channel (case commit of Some c \<Rightarrow> c | None \<Rightarrow> []))"

text \<open>A manifest is written for every channel that projects to one, under its rollout identifier.\<close>

definition manifest_published ::
  "('v, 'ek, 'pt, 'pk, 'ps) release_env \<Rightarrow> ReleaseConfig \<Rightarrow> TrustedPubkey list \<Rightarrow> (string \<Rightarrow> byte list option) \<Rightarrow> string option \<Rightarrow> string \<Rightarrow>
   RolloutManifest \<Rightarrow> bool" where
  "manifest_published env config keys files commit channel m \<longleftrightarrow>
     (\<exists>raw canonical. re_manifest_json env m = Inr raw \<and> canonicalize (re_crypto env) raw = Inr canonical
        \<and> signed_pair (re_crypto env) keys files (manifest_file config (rollout_of commit channel)) (as_bytes canonical))"

definition serves ::
  "('v, 'ek, 'pt, 'pk, 'ps) poll_env \<Rightarrow> ReleaseConfig \<Rightarrow> (string \<Rightarrow> byte list option) \<Rightarrow> SignedSource \<Rightarrow> RolloutsSource \<Rightarrow> bool" where
  "serves pe config files refs src \<longleftrightarrow>
     (\<exists>token. read_token pe (src_token_file refs) = Inr token
        \<and> (\<forall>bytes sig. files (artifact_file config) = Some bytes \<longrightarrow> files (artifact_file config @ ''.sig'') = Some sig
             \<longrightarrow> fetch_signed_pair pe (src_artifact_url refs) (src_signature_url refs) token = Inr (bytes, sig)))
     \<and> (\<forall>rid bytes sig. files (manifest_file config rid) = Some bytes \<longrightarrow> files (manifest_file config rid @ ''.sig'') = Some sig
          \<longrightarrow> rollouts_fetch_pair pe src rid = Inr (bytes, sig))"

text \<open>A file name of its own, in the release directory; a channel name that is not an absolute path.\<close>

definition names_ok :: "ReleaseConfig \<Rightarrow> bool" where
  "names_ok config \<longleftrightarrow>
     CHR ''/'' \<notin> set (rc_artifact_name config)
     \<and> rc_artifact_name config \<notin> {''revocations.json'', ''revocations.json.sig'', ''bootstrap-nonces.json'', ''bootstrap-nonces.json.sig''}"

text \<open>A command, a build among them, and the build of one host.\<close>

fun is_cmd :: "release_action \<Rightarrow> bool" where
  "is_cmd (RunCmd dir args) = True"
| "is_cmd act = False"

fun is_build :: "release_action \<Rightarrow> bool" where
  "is_build (RunCmd dir args) = (take 2 args = [''nix'', ''build''])"
| "is_build act = False"

definition build_action :: "ReleaseConfig \<Rightarrow> FleetResolved \<Rightarrow> string option \<Rightarrow> string \<times> HostKind \<Rightarrow> release_action" where
  "build_action config fleet commit hk =
     (let cmd = [''nix'', ''build'', ''--no-link'', ''--print-out-paths'', ''--no-warn-dirty'']
      in case (pin_target_commit fleet (fst hk) commit, rc_pin_source_url config) of
           (Some target, Some url) \<Rightarrow> RunCmd None (cmd @ [pinned_attr url target (snd hk) (fst hk)])
         | _ \<Rightarrow> RunCmd (Some (rc_flake_dir config)) (cmd @ [local_attr (snd hk) (fst hk)]))"

definition succeeded :: "('v, 'ek, 'pt, 'pk, 'ps) release_env \<Rightarrow> release_action list \<Rightarrow> release_action \<Rightarrow> bool" where
  "succeeded env log act \<longleftrightarrow>
     (\<exists>pre post out. log = pre @ act # post \<and> re_cmd env pre act = Inr out \<and> status_success out)"

section \<open>A sample release\<close>

text \<open>
  A fleet of one host; documents are written as one letter and the commit, a signature repeats the
  last byte of what it signs, and the clock stands at 100.
\<close>

definition demo_fleet :: FleetResolved where
  "demo_fleet = two_host_fleet
     [(''web'', \<lparr>host_system = ''x86'', host_tags = [], host_channel = ''stable'', host_closure_hash = None,
               host_pubkey = None, host_pin = None\<rparr>)]"

definition demo_release :: "string \<Rightarrow> FleetResolved" where
  "demo_release commit = stamp_meta (inject_closure_hashes demo_fleet [(''web'', ''w'')]) 100 (Some commit) ''ed25519''"

definition demo_manifest :: "string \<Rightarrow> RolloutManifest" where
  "demo_manifest commit =
     \<lparr>rm_schema_version = 1, rm_display_name = ''stable@'' @ take_chars 8 commit, rm_channel = ''stable'', rm_channel_ref = commit,
      rm_fleet_resolved_hash = hex_lowercase (as_bytes (''F'' @ commit)),
      rm_host_set = [\<lparr>hw_hostname = ''web'', hw_wave_index = 0, hw_target_closure = ''w''\<rparr>],
      rm_health_gate = pol_health_gate all_at_once_policy, rm_disruption_budgets = [],
      rm_meta = fl_meta (demo_release commit)\<rparr>"

definition demo_text :: "char \<Rightarrow> string \<Rightarrow> string + string" where
  "demo_text c commit = (if from_utf8 (as_bytes (c # commit)) = Some (c # commit) then Inr (c # commit) else Inl ''not UTF-8'')"

definition demo_fleet_json :: "FleetResolved \<Rightarrow> string + string" where
  "demo_fleet_json f =
     (case meta_ci_commit (fl_meta f) of
        Some commit \<Rightarrow> if f = demo_release commit then demo_text (CHR ''F'') commit else Inl ''unsupported''
      | None \<Rightarrow> Inl ''unsupported'')"

definition demo_parse_fleet :: "string \<Rightarrow> string + FleetResolved" where
  "demo_parse_fleet text =
     (case text of
        c # commit \<Rightarrow> if c = CHR ''F'' then Inr (demo_release commit) else if text = ''r'' then Inr demo_fleet else Inl ''parse''
      | [] \<Rightarrow> Inl ''parse'')"

definition demo_manifest_json :: "RolloutManifest \<Rightarrow> string + string" where
  "demo_manifest_json m =
     (if m = demo_manifest (rm_channel_ref m) then demo_text (CHR ''M'') (rm_channel_ref m) else Inl ''unsupported'')"

definition demo_parse_manifest :: "string \<Rightarrow> string + RolloutManifest" where
  "demo_parse_manifest text =
     (case text of c # commit \<Rightarrow> if c = CHR ''M'' then Inr (demo_manifest commit) else Inl ''parse'' | [] \<Rightarrow> Inl ''parse'')"

definition demo_crypto :: "(string, byte list, byte list, byte list, byte list) crypto" where
  "demo_crypto = sample_crypto\<lparr>ed25519_verify_strict := (\<lambda>k m sig. hd sig = last m)\<rparr>"

definition demo_output :: "string \<Rightarrow> string + cmd_output" where
  "demo_output text = Inr \<lparr>out_code = Some 0, out_stdout = as_bytes text, out_stderr = []\<rparr>"

definition demo_cmd :: "string \<Rightarrow> release_action \<Rightarrow> string + cmd_output" where
  "demo_cmd commit act =
     (case act of
        RunCmd _ args \<Rightarrow>
          if take 1 args = [''git''] then demo_output commit
          else if take 2 args = [''nix'', ''build''] then demo_output ''/w''
          else if ''--apply'' \<in> set args then demo_output (if ''.#nixosConfigurations'' \<in> set args then ''n'' else ''d'')
          else demo_output ''r''
      | _ \<Rightarrow> demo_output [])"

definition demo_env :: "string \<Rightarrow> (string, byte list, byte list, byte list, byte list) release_env" where
  "demo_env commit =
     \<lparr>re_crypto = demo_crypto, re_cmd = (\<lambda>_. demo_cmd commit), re_sign = (\<lambda>_ _ msg. SignOutput (replicate 64 (last msg))),
      re_now = (\<lambda>_. 100), re_read_err = (\<lambda>_ _. None), re_mkdir_err = (\<lambda>_ _. None), re_write_err = (\<lambda>_ _. None),
      re_fleet_json = demo_fleet_json, re_revocations_json = (\<lambda>_. Inl []), re_nonces_json = (\<lambda>_. Inl []),
      re_manifest_json = demo_manifest_json, re_parse_fleet = demo_parse_fleet, re_parse_revocation_entries = (\<lambda>_. Inr []),
      re_parse_nonce_entries = (\<lambda>_. Inr []), re_parse_names = (\<lambda>text. Inr (if text = ''n'' then [''web''] else [])), re_rfc3339 = (\<lambda>_. [])\<rparr>"

definition demo_config :: "bool \<Rightarrow> ReleaseConfig" where
  "demo_config reuse =
     \<lparr>rc_flake_dir = ''.'', rc_fleet_resolved_attr = ''.#fleet.resolved'', rc_hosts = Auto, rc_push_cmd = None,
      rc_sign_cmd = ''sign'', rc_signature_algorithm = ''ed25519'', rc_release_dir = ''releases'',
      rc_artifact_name = ''fleet.resolved.json'', rc_git_commit = False, rc_git_push = None, rc_commit_template = [],
      rc_git_user_name = None, rc_git_user_email = None, rc_smoke_verify = True, rc_reuse_unchanged_signature = reuse,
      rc_revocations_attr = None, rc_bootstrap_nonces_attr = None, rc_pin_source_url = None\<rparr>"

definition demo_files :: "(string \<Rightarrow> byte list option) \<Rightarrow> string \<Rightarrow> byte list \<Rightarrow> string \<Rightarrow> byte list option" where
  "demo_files files c sig = files(''releases/fleet.resolved.json'' := Some (as_bytes (CHR ''F'' # c)),
     ''releases/fleet.resolved.json.sig'' := Some sig)"

definition demo_manifest_path :: "string \<Rightarrow> string" where
  "demo_manifest_path c = ''releases/rollouts/stable@'' @ c @ ''.json''"

definition demo_release_files :: "(string \<Rightarrow> byte list option) \<Rightarrow> string \<Rightarrow> byte list \<Rightarrow> string \<Rightarrow> byte list option" where
  "demo_release_files files c sig = (demo_files files c sig)(demo_manifest_path c := Some (as_bytes (CHR ''M'' # c)),
     demo_manifest_path c @ ''.sig'' := Some (replicate 64 (last (as_bytes (CHR ''M'' # c)))))"

definition demo_start :: release_state where
  "demo_start = \<lparr>rs_files = (\<lambda>_. None), rs_log = []\<rparr>"

definition demo_trust :: TrustConfig where
  "demo_trust =
     \<lparr>tc_schema_version = 1,
      tc_ci_release_key = \<lparr>ks_current = Some sample_key, ks_previous = None, ks_reject_before = None, ks_successor = None, ks_retire_at = None\<rparr>,
      tc_cache_keys = [], tc_org_root_key = None, tc_root_ca_pem = None, tc_issuance_ca_pems = []\<rparr>"

definition demo_mirror :: "(string \<Rightarrow> byte list option) \<Rightarrow> (string, byte list, byte list, byte list, byte list) poll_env" where
  "demo_mirror files =
     \<lparr>pe_crypto = demo_crypto, pe_parse_fleet = demo_parse_fleet, pe_parse_manifest = demo_parse_manifest,
      pe_parse_revocations = (\<lambda>_. Inl []), pe_parse_nonces = (\<lambda>_. Inl []), pe_parse_trust = (\<lambda>_. Inr demo_trust),
      pe_read = (\<lambda>_. Inr []), pe_read_bytes = (\<lambda>_. Inl []),
      pe_get = (\<lambda>url _. case files url of None \<Rightarrow> Reply 404 (Inr []) | Some bytes \<Rightarrow> Reply 200 (Inr bytes))\<rparr>"

definition demo_refs :: SignedSource where
  "demo_refs = \<lparr>src_artifact_url = ''releases/fleet.resolved.json'', src_signature_url = ''releases/fleet.resolved.json.sig'',
     src_token_file = None, src_trust_path = ''trust'', src_freshness_window = seconds 60\<rparr>"

definition demo_src :: RolloutsSource where
  "demo_src = \<lparr>rsrc_artifact_url_template = ''releases/rollouts/{rolloutId}.json'',
     rsrc_signature_url_template = ''releases/rollouts/{rolloutId}.json.sig'', rsrc_token_file = None\<rparr>"

section \<open>Reasoning about steps\<close>

definition keeps :: "(string \<Rightarrow> bool) \<Rightarrow> 'a rel \<Rightarrow> bool" where
  "keeps P m \<longleftrightarrow> (\<forall>s path. P path \<longrightarrow> rs_files (snd (m s)) path = rs_files s path)"

definition emits :: "(release_action \<Rightarrow> bool) \<Rightarrow> 'a rel \<Rightarrow> bool" where
  "emits A m \<longleftrightarrow> (\<forall>s. \<exists>acts. rs_log (snd (m s)) = rs_log s @ acts \<and> list_all A acts)"

named_theorems step_rules

lemma rbind_Inr_iff: "rbind m f s = (Inr y, s') \<longleftrightarrow> (\<exists>x s1. m s = (Inr x, s1) \<and> f x s1 = (Inr y, s'))"
  by (auto simp: rbind_def split: prod.splits sum.splits)

lemma step_Inr_iffs [simp]:
  "rok x s = (Inr y, s') \<longleftrightarrow> y = x \<and> s' = s"
  "rerr e s = (Inr y, s') \<longleftrightarrow> False"
  "rlift r s = (Inr y, s') \<longleftrightarrow> r = Inr y \<and> s' = s"
  "in_context msg m s = (Inr y, s') \<longleftrightarrow> m s = (Inr y, s')"
  by (auto simp: rok_def rerr_def rlift_def in_context_def split: prod.splits sum.splits)

lemma keeps_rbind [step_rules]: "keeps P m \<Longrightarrow> (\<And>x. keeps P (f x)) \<Longrightarrow> keeps P (rbind m f)"
  by (simp add: keeps_def rbind_def split: prod.split sum.split) (metis snd_conv)

lemma emits_rbind [step_rules]:
  assumes "emits A m" "\<And>x. emits A (f x)"
  shows "emits A (rbind m f)"
  unfolding emits_def
proof
  fix s
  obtain acts where acts: "rs_log (snd (m s)) = rs_log s @ acts" "list_all A acts"
    using assms(1) by (auto simp: emits_def)
  show "\<exists>acts. rs_log (snd (rbind m f s)) = rs_log s @ acts \<and> list_all A acts"
  proof (cases "m s")
    case (Pair r s1)
    show ?thesis
    proof (cases r)
      case (Inr x)
      obtain more where "rs_log (snd (f x s1)) = rs_log s1 @ more" "list_all A more"
        using assms(2) by (auto simp: emits_def)
      then show ?thesis
        using acts Pair Inr by (intro exI [of _ "acts @ more"]) (simp add: rbind_def)
    qed (use acts Pair in \<open>simp add: rbind_def\<close>)
  qed
qed

lemma leaf_steps [step_rules]:
  "keeps P (rok x)" "keeps P (rerr e)" "keeps P (rlift r)" "emits A (rok x)" "emits A (rerr e)" "emits A (rlift r)"
  by (simp_all add: keeps_def emits_def rok_def rerr_def rlift_def)

lemma wrapped_steps [step_rules]:
  "keeps P m \<Longrightarrow> keeps P (in_context msg m)" "keeps P m \<Longrightarrow> keeps P (rtry m)"
  "emits A m \<Longrightarrow> emits A (in_context msg m)" "emits A m \<Longrightarrow> emits A (rtry m)"
  by (auto simp: keeps_def emits_def in_context_def rtry_def split: prod.splits sum.splits) (metis snd_conv)+

lemma rmap_steps [step_rules]:
  "(\<And>x. keeps P (f x)) \<Longrightarrow> keeps P (rmap f xs)"
  "(\<And>x. emits A (f x)) \<Longrightarrow> emits A (rmap f xs)"
  by (induction xs) (auto intro: step_rules)

lemma io_steps [step_rules]:
  "keeps P (run_cmd env act)" "A act \<Longrightarrow> emits A (run_cmd env act)"
  "keeps P (read_file env path)" "emits A (read_file env path)"
  by (auto simp: keeps_def emits_def run_cmd_def read_file_def split: option.split)

lemma query_steps [step_rules]:
  "keeps P (utc_now env)" "emits A (utc_now env)" "keeps P (exists_file path)" "emits A (exists_file path)"
  by (simp_all add: keeps_def emits_def utc_now_def exists_file_def)

lemma if_steps [step_rules]:
  "keeps P m \<Longrightarrow> keeps P n \<Longrightarrow> keeps P (if b then m else n)" "emits A m \<Longrightarrow> emits A n \<Longrightarrow> emits A (if b then m else n)"
  by simp_all

lemma case_steps [step_rules]:
  "keeps P m \<Longrightarrow> (\<And>x. keeps P (f x)) \<Longrightarrow> keeps P (case_option m f z)"
  "emits A m \<Longrightarrow> (\<And>x. emits A (f x)) \<Longrightarrow> emits A (case_option m f z)"
  "(\<And>x y. keeps P (g x y)) \<Longrightarrow> keeps P (case_prod g p)" "(\<And>x y. emits A (g x y)) \<Longrightarrow> emits A (case_prod g p)"
  by (simp_all split: option.split prod.split)

lemma sign_steps [step_rules]: "keeps P (sign env cmd msg)" "A (SignHook cmd msg) \<Longrightarrow> emits A (sign env cmd msg)"
  by (auto simp: keeps_def emits_def sign_def Let_def split: sign_outcome.split)

lemma git_steps [step_rules]:
  "keeps P (run_git env repo args)" "keeps P (git_head_sha env repo)" "keeps P (git_push_release env repo target)"
  "keeps P (git_commit_release env config files ci t)"
  unfolding run_git_def git_head_sha_def git_push_release_def git_commit_release_def Let_def
  by (intro step_rules)+

lemma nix_steps [step_rules]:
  "keeps P (nix_eval env dir attr msg parse)" "keeps P (list_attr_optional env dir attr)" "keeps P (nix_build env d attr)"
  "keeps P (hosts_of_spec dir nixos darwin spec)"
  unfolding nix_eval_def list_attr_optional_def nix_build_def Let_def
  by (intro step_rules)+ (cases spec; simp add: hosts_of_spec_def step_rules)

lemma host_steps [step_rules]:
  "keeps P (build_host env config resolved cc hk)" "keeps P (push_one env cmd hp)" "keeps P (enumerate_hosts env config)"
  unfolding build_host_def push_one_def enumerate_hosts_def build_local_def build_pinned_def
  by (intro step_rules)+

lemma keeps_prepare: "keeps P (prepare env config)"
  unfolding prepare_def eval_fleet_resolved_def build_hosts_def Let_def by (intro step_rules)

lemma keeps_push_all: "keeps P (push_all env config built)"
  unfolding push_all_def by (intro step_rules)

lemma keeps_commit: "keeps P (commit_release env config files ci t)"
  unfolding commit_release_def by (intro step_rules)

lemma keepsD: "keeps P m \<Longrightarrow> m s = (r, s') \<Longrightarrow> P path \<Longrightarrow> rs_files s' path = rs_files s path"
  by (metis keeps_def snd_conv)

section \<open>Paths\<close>

lemma path_join_prefix: "\<not> starts_with p ''/'' \<Longrightarrow> path_join dir p = path_prefix dir @ p"
  by (simp add: path_join_def path_prefix_def)

lemma starts_with_slash: "starts_with p ''/'' \<longleftrightarrow> (\<exists>q. p = CHR ''/'' # q)"
  by (cases p) auto

lemma path_join_sig: "\<not> starts_with p ''/'' \<Longrightarrow> path_join dir (p @ ''.sig'') = path_join dir p @ ''.sig''"
  by (cases p) (auto simp: path_join_def starts_with_slash)

section \<open>Order of the steps\<close>

lemma git_emits [step_rules]:
  assumes "\<And>d args. A (RunCmd d (''git'' # args))"
  shows "emits A (run_git env repo args)" "emits A (git_head_sha env repo)" "emits A (git_push_release env repo target)"
    "emits A (git_commit_release env config files ci t)"
  unfolding run_git_def git_head_sha_def git_push_release_def git_commit_release_def Let_def append_Cons append_Nil
  by (intro step_rules assms)+

lemma eval_emits [step_rules]:
  assumes "\<And>d args. A (RunCmd d (''nix'' # ''eval'' # args))"
  shows "emits A (nix_eval env dir attr msg parse)" "emits A (list_attr_optional env dir attr)"
  unfolding nix_eval_def list_attr_optional_def Let_def by (intro step_rules assms)+

lemma hosts_emits [step_rules]: "emits A (hosts_of_spec dir nixos darwin spec)"
  by (cases spec; simp add: hosts_of_spec_def step_rules)

lemma build_emits [step_rules]: "emits is_cmd (build_host env config resolved cc hk)"
  unfolding build_host_def build_local_def build_pinned_def nix_build_def by (intro step_rules) simp_all

lemma prepare_emits: "emits is_cmd (prepare env config)"
  unfolding prepare_def enumerate_hosts_def eval_fleet_resolved_def build_hosts_def Let_def
  by (intro step_rules) simp_all

lemma write_emits [step_rules]:
  assumes "\<And>path bytes. A (WriteFile path bytes)"
  shows "emits A (atomic_write env path bytes)" "emits A (write_release env dir name bytes sig)"
proof -
  show single: "emits A (atomic_write env path bytes)" for path bytes
    using assms by (simp add: emits_def atomic_write_def split: option.split)
  have "emits A (rbind (atomic_write env (path_join dir name) bytes) (\<lambda>_. atomic_write env (path_join dir (name @ ''.sig'')) sig))"
    by (intro step_rules single)
  then show "emits A (write_release env dir name bytes sig)"
    by (simp add: emits_def write_release_def split: option.split)
qed

lemma publish_emits [step_rules]:
  assumes "\<And>path bytes. A (WriteFile path bytes)" "\<And>cmd msg. A (SignHook cmd msg)"
  shows "emits A (publish env cmd msg dir name bytes)"
  unfolding publish_def sign_or_reuse_def Let_def by (intro step_rules assms)

lemma finish_release_emits: "emits (\<lambda>a. \<not> is_build a) (finish_release env config p)"
  unfolding finish_release_def push_all_def push_one_def release_fleet_def load_existing_signed_at_if_unchanged_def
    release_revocations_def release_bootstrap_nonces_def eval_revocations_def eval_bootstrap_nonces_def
    release_manifest_def canonical_json_def commit_release_def Let_def
  by (intro step_rules) (simp_all)

lemma interpret_build_success: "interpret_build_output attr out = Inr path \<Longrightarrow> status_success out"
  by (simp add: interpret_build_output_def split: if_splits)

lemma nix_build_succeeded:
  "nix_build env d attr s = (Inr path, s') \<Longrightarrow>
   succeeded env (rs_log s') (RunCmd d [''nix'', ''build'', ''--no-link'', ''--print-out-paths'', ''--no-warn-dirty'', attr])"
  by (fastforce simp: nix_build_def rbind_Inr_iff run_cmd_def succeeded_def dest: interpret_build_success)

lemma build_host_succeeded:
  "build_host env config fleet commit hk s = (Inr r, s') \<Longrightarrow> succeeded env (rs_log s') (build_action config fleet commit hk)"
  by (cases hk)
    (auto simp: build_host_def build_action_def rbind_Inr_iff build_local_def build_pinned_def Let_def
      dest: nix_build_succeeded split: option.splits)

lemma succeeded_later: "succeeded env log act \<Longrightarrow> succeeded env (log @ later_acts) act"
  by (fastforce simp: succeeded_def)

lemma emitsD: "emits A m \<Longrightarrow> m s = (r, s') \<Longrightarrow> \<exists>acts. rs_log s' = rs_log s @ acts \<and> list_all A acts"
  by (metis emits_def snd_conv)

lemma builds_succeeded:
  "rmap (build_host env config fleet commit) hks s = (Inr built, s') \<Longrightarrow> hk \<in> set hks \<Longrightarrow>
   succeeded env (rs_log s') (build_action config fleet commit hk)"
proof (induction hks arbitrary: s built)
  case (Cons hk' hks)
  obtain r s1 rest where first: "build_host env config fleet commit hk' s = (Inr r, s1)"
    and rest: "rmap (build_host env config fleet commit) hks s1 = (Inr rest, s')"
    using Cons.prems(1) by (auto simp: rbind_Inr_iff)
  obtain acts where "rs_log s' = rs_log s1 @ acts"
    using emitsD [OF rmap_steps(2) rest] build_emits by blast
  then show ?case
    using Cons.IH [OF rest] Cons.prems(2) build_host_succeeded [OF first] by (auto intro: succeeded_later)
qed simp

lemma prepare_builds:
  assumes "prepare env config s = (Inr (fleet, built, commit), s')"
  shows "\<exists>hosts s1. enumerate_hosts env config s = (Inr hosts, s1) \<and> hosts \<noteq> []
    \<and> (\<forall>hk \<in> set hosts. succeeded env (rs_log s') (build_action config fleet commit hk))"
  using assms
  by (auto simp: prepare_def rbind_Inr_iff Let_def build_hosts_def utc_now_def dest: builds_succeeded split: if_splits)


section \<open>What is published verifies\<close>

lemma write_release_files:
  assumes "write_release env dir name bytes sig s = (Inr u, s')" "\<not> starts_with name ''/''"
  shows "rs_files s' = (rs_files s)(path_join dir name := Some bytes, path_join dir name @ ''.sig'' := Some sig)"
  using assms(1) by (auto simp: write_release_def path_join_sig [OF assms(2)] rbind_Inr_iff atomic_write_def split: option.splits)

lemma sign_output:
  "sign env cmd msg s = (Inr sig, s') \<Longrightarrow> re_sign env (rs_log s) cmd msg = SignOutput sig \<and> rs_files s' = rs_files s"
  by (auto simp: sign_def Let_def split: sign_outcome.splits if_splits)

lemma publish_signed:
  assumes "publish env cmd msg dir name bytes s = (Inr ps, s')" "\<not> starts_with name ''/''" "hook_signs env cmd keys"
    and "locally_sound (re_crypto env) keys (rs_files s) (path_join dir name)"
  shows "signed_pair (re_crypto env) keys (rs_files s') (path_join dir name) bytes"
    "\<And>path. path \<noteq> path_join dir name \<Longrightarrow> path \<noteq> path_join dir name @ ''.sig'' \<Longrightarrow> rs_files s' path = rs_files s path"
proof -
  let ?path = "path_join dir name"
  obtain sig s1 where sig: "sign_or_reuse env cmd msg ?path (?path @ ''.sig'') bytes s = (Inr sig, s1)"
    and written: "write_release env dir name bytes sig s1 = (Inr (), s')"
    using assms(1) by (auto simp: publish_def Let_def rbind_Inr_iff path_join_sig [OF assms(2)])
  have files: "rs_files s1 = rs_files s" and "\<exists>k \<in> set keys. key_verifies (re_crypto env) bytes sig k"
    using sig assms(3,4)
    by (auto simp: sign_or_reuse_def rbind_Inr_iff exists_file_def rtry_def read_file_def hook_signs_def locally_sound_def
        signed_pair_def dest!: sign_output split: if_splits option.splits prod.splits sum.splits)
  then show "signed_pair (re_crypto env) keys (rs_files s') ?path bytes"
    "\<And>path. path \<noteq> ?path \<Longrightarrow> path \<noteq> ?path @ ''.sig'' \<Longrightarrow> rs_files s' path = rs_files s path"
    by (auto simp: write_release_files [OF written assms(2)] signed_pair_def)
qed

lemma manifest_file_prefix:
  "\<not> starts_with rid ''/'' \<Longrightarrow> manifest_file config rid = path_prefix (rc_release_dir config) @ ''rollouts/'' @ rid @ ''.json''"
  by (cases rid) (auto simp: manifest_file_def path_join_def path_prefix_def)

lemma artifact_file_prefix:
  "CHR ''/'' \<notin> set (rc_artifact_name config) \<Longrightarrow> artifact_file config = path_prefix (rc_release_dir config) @ rc_artifact_name config"
  by (cases "rc_artifact_name config") (auto simp: artifact_file_def path_join_prefix starts_with_slash)

lemma rollout_of_relative: "\<not> starts_with channel ''/'' \<Longrightarrow> \<not> starts_with (rollout_of commit channel) ''/''"
  by (cases channel) (auto simp: rollout_of_def RolloutId_new_def)

lemma manifest_file_inj:
  assumes "\<not> starts_with a ''/''" "\<not> starts_with b ''/''" "a \<noteq> b"
  shows "manifest_file config (rollout_of commit a) \<noteq> manifest_file config (rollout_of commit b)"
    "manifest_file config (rollout_of commit a) \<noteq> manifest_file config (rollout_of commit b) @ ''.sig''"
proof -
  have "rev (x @ ''.json'') \<noteq> rev (y @ ''.json.sig'')" for x y :: string
    by simp
  then have suffix: "x @ ''.json'' \<noteq> y @ ''.json.sig''" for x y :: string
    by (metis rev_rev_ident)
  show "manifest_file config (rollout_of commit a) \<noteq> manifest_file config (rollout_of commit b)"
    using assms by (simp add: manifest_file_prefix rollout_of_relative) (simp add: rollout_of_def RolloutId_new_def)
  show "manifest_file config (rollout_of commit a) \<noteq> manifest_file config (rollout_of commit b) @ ''.sig''"
    using suffix [of "rollout_of commit a" "rollout_of commit b"] assms
    by (simp add: manifest_file_prefix rollout_of_relative)
qed

lemma projected_id:
  "project_manifest fleet ch frh sa ci alg = Inr (Some m) \<Longrightarrow>
   as_str (RolloutId_new (rm_channel m) (rm_channel_ref m)) = rollout_of ci ch"
  by (auto simp: project_manifest_def Let_def rollout_of_def split: option.splits if_splits)

lemma release_manifest_published:
  assumes "release_manifest env config fleet frh t commit ch s = (Inr ps, s')" "\<not> starts_with ch ''/''"
    "hook_signs env (rc_sign_cmd config) keys"
    "locally_sound (re_crypto env) keys (rs_files s) (manifest_file config (rollout_of commit ch))"
  shows "\<exists>om. project_manifest fleet ch frh t commit (rc_signature_algorithm config) = Inr om
      \<and> (\<forall>m. om = Some m \<longrightarrow> manifest_published env config keys (rs_files s') commit ch m)"
    "\<And>path. path \<noteq> manifest_file config (rollout_of commit ch) \<Longrightarrow>
       path \<noteq> manifest_file config (rollout_of commit ch) @ ''.sig'' \<Longrightarrow> rs_files s' path = rs_files s path"
proof -
  obtain om where om: "project_manifest fleet ch frh t commit (rc_signature_algorithm config) = Inr om"
    using assms(1) by (auto simp: release_manifest_def rbind_Inr_iff)
  have both: "(\<forall>m. om = Some m \<longrightarrow> manifest_published env config keys (rs_files s') commit ch m)
    \<and> (\<forall>path. path \<noteq> manifest_file config (rollout_of commit ch) \<longrightarrow>
       path \<noteq> manifest_file config (rollout_of commit ch) @ ''.sig'' \<longrightarrow> rs_files s' path = rs_files s path)"
  proof (cases om)
    case None
    then show ?thesis
      using assms(1) om by (auto simp: release_manifest_def rbind_Inr_iff)
  next
    case (Some m)
    obtain canonical where json: "\<exists>raw. re_manifest_json env m = Inr raw \<and> canonicalize (re_crypto env) raw = Inr canonical"
      and pub: "publish env (rc_sign_cmd config) ''read existing manifest signature'' (path_join (rc_release_dir config) ''rollouts'')
        (rollout_of commit ch @ ''.json'') (as_bytes canonical) s = (Inr ps, s')"
      using assms(1) om Some projected_id [of fleet ch frh t commit _ m]
      by (auto simp: release_manifest_def rbind_Inr_iff canonical_json_def Let_def)
    have "\<not> starts_with (rollout_of commit ch @ ''.json'') ''/''"
      using rollout_of_relative [OF assms(2), of commit] by (cases "rollout_of commit ch") auto
    from publish_signed [OF pub this assms(3)] assms(4) json Some show ?thesis
      by (auto simp: manifest_published_def manifest_file_def)
  qed
  then show "\<exists>om. project_manifest fleet ch frh t commit (rc_signature_algorithm config) = Inr om
      \<and> (\<forall>m. om = Some m \<longrightarrow> manifest_published env config keys (rs_files s') commit ch m)"
    using om by blast
  show "\<And>path. path \<noteq> manifest_file config (rollout_of commit ch) \<Longrightarrow>
       path \<noteq> manifest_file config (rollout_of commit ch) @ ''.sig'' \<Longrightarrow> rs_files s' path = rs_files s path"
    using both by blast
qed

lemma signed_pair_cong:
  "files' path = files path \<Longrightarrow> files' (path @ ''.sig'') = files (path @ ''.sig'') \<Longrightarrow>
   signed_pair c keys files' path bytes \<longleftrightarrow> signed_pair c keys files path bytes"
  by (simp add: signed_pair_def)

lemma locally_sound_cong:
  "files' path = files path \<Longrightarrow> files' (path @ ''.sig'') = files (path @ ''.sig'') \<Longrightarrow>
   locally_sound c keys files' path \<longleftrightarrow> locally_sound c keys files path"
  by (simp add: locally_sound_def signed_pair_def)

lemma manifests_published:
  assumes "rmap (release_manifest env config fleet frh t commit) chs s = (Inr ps, s')"
    "distinct chs" "\<forall>ch \<in> set chs. \<not> starts_with ch ''/''" "hook_signs env (rc_sign_cmd config) keys"
    "\<forall>ch \<in> set chs. locally_sound (re_crypto env) keys (rs_files s) (manifest_file config (rollout_of commit ch))"
  shows "(\<forall>ch \<in> set chs. \<exists>om. project_manifest fleet ch frh t commit (rc_signature_algorithm config) = Inr om
      \<and> (\<forall>m. om = Some m \<longrightarrow> manifest_published env config keys (rs_files s') commit ch m))
    \<and> (\<forall>path. (\<forall>ch \<in> set chs. path \<noteq> manifest_file config (rollout_of commit ch) \<and>
          path \<noteq> manifest_file config (rollout_of commit ch) @ ''.sig'') \<longrightarrow> rs_files s' path = rs_files s path)"
  using assms
proof (induction chs arbitrary: s ps)
  case (Cons ch chs)
  let ?file = "\<lambda>ch. manifest_file config (rollout_of commit ch)"
  obtain p1 s1 p2 where first: "release_manifest env config fleet frh t commit ch s = (Inr p1, s1)"
    and rest: "rmap (release_manifest env config fleet frh t commit) chs s1 = (Inr p2, s')"
    using Cons.prems(1) by (auto simp: rbind_Inr_iff)
  have ch: "\<not> starts_with ch ''/''" "locally_sound (re_crypto env) keys (rs_files s) (?file ch)"
    using Cons.prems(3,5) by simp_all
  note published = release_manifest_published [OF first ch(1) Cons.prems(4) ch(2)]
  have apart: "?file ch' \<noteq> ?file ch" "?file ch' \<noteq> ?file ch @ ''.sig''" "?file ch \<noteq> ?file ch' @ ''.sig''"
    if "ch' \<in> set chs" for ch'
  proof -
    have "ch' \<noteq> ch" "\<not> starts_with ch' ''/''"
      using that Cons.prems(2,3) by auto
    then show "?file ch' \<noteq> ?file ch" "?file ch' \<noteq> ?file ch @ ''.sig''" "?file ch \<noteq> ?file ch' @ ''.sig''"
      using ch(1) manifest_file_inj by metis+
  qed
  have "locally_sound (re_crypto env) keys (rs_files s1) (?file ch')" if "ch' \<in> set chs" for ch'
    using that Cons.prems(5) apart [OF that]
    by (subst locally_sound_cong [of _ _ "rs_files s"]) (auto intro!: published(2))
  then have ih: "(\<forall>ch \<in> set chs. \<exists>om. project_manifest fleet ch frh t commit (rc_signature_algorithm config) = Inr om
      \<and> (\<forall>m. om = Some m \<longrightarrow> manifest_published env config keys (rs_files s') commit ch m))
    \<and> (\<forall>path. (\<forall>ch \<in> set chs. path \<noteq> ?file ch \<and> path \<noteq> ?file ch @ ''.sig'') \<longrightarrow> rs_files s' path = rs_files s1 path)"
    using Cons.prems by (intro Cons.IH [OF rest]) auto
  have "?file ch \<noteq> ?file ch' \<and> ?file ch \<noteq> ?file ch' @ ''.sig''"
    "?file ch @ ''.sig'' \<noteq> ?file ch' \<and> ?file ch @ ''.sig'' \<noteq> ?file ch' @ ''.sig''" if "ch' \<in> set chs" for ch'
    using apart [OF that] by (simp_all add: eq_commute [of "?file ch @ ''.sig''"])
  then have "rs_files s' (?file ch) = rs_files s1 (?file ch)" "rs_files s' (?file ch @ ''.sig'') = rs_files s1 (?file ch @ ''.sig'')"
    using ih by blast+
  then have "manifest_published env config keys (rs_files s') commit ch m \<longleftrightarrow> manifest_published env config keys (rs_files s1) commit ch m" for m
    by (simp add: manifest_published_def signed_pair_def)
  then have head: "\<exists>om. project_manifest fleet ch frh t commit (rc_signature_algorithm config) = Inr om
      \<and> (\<forall>m. om = Some m \<longrightarrow> manifest_published env config keys (rs_files s') commit ch m)"
    using published(1) by simp
  show ?case
  proof (intro conjI ballI allI impI)
    fix ch'
    assume "ch' \<in> set (ch # chs)"
    then show "\<exists>om. project_manifest fleet ch' frh t commit (rc_signature_algorithm config) = Inr om
      \<and> (\<forall>m. om = Some m \<longrightarrow> manifest_published env config keys (rs_files s') commit ch' m)"
      using head ih by auto
  next
    fix path
    assume "\<forall>ch' \<in> set (ch # chs). path \<noteq> ?file ch' \<and> path \<noteq> ?file ch' @ ''.sig''"
    then show "rs_files s' path = rs_files s path"
      using ih published(2) by simp
  qed
qed simp

text \<open>A verified release document, as the consumer sees it.\<close>

lemma signed_document_accepted:
  assumes "signed_codec c to_json (sc_parse sc) same" "to_json x = Inr raw" "canonicalize c raw = Inr canonical"
    "key_verifies c (as_bytes canonical) sig k" "k \<in> set keys"
    "\<And>y. same x y \<Longrightarrow> sc_schema_version sc y = 1 \<and> sc_signed_at sc y = Some t" "fresh now window rb t"
  shows "\<exists>y. same x y \<and> verify_signed_sidecar c sc (as_bytes canonical) sig keys now window rb = Inr \<lparr>v_inner = y, v_signed_at = t\<rparr>"
proof -
  obtain y where y: "from_utf8 (as_bytes canonical) = Some canonical" "canonicalize c canonical = Inr canonical"
    "sc_parse sc canonical = Inr y" "same x y"
    using assms(1-3) unfolding signed_codec_def by blast
  then have "verify_signature_against_trust_roots c (as_bytes canonical) sig keys = Inr canonical"
    using assms(4,5) by (auto simp: trust_roots_Inr_iff)
  moreover have "finish_sidecar_verification sc canonical now window rb = Inr \<lparr>v_inner = y, v_signed_at = t\<rparr>"
    using y assms(6,7) by (simp add: finish_Inr_iff)
  ultimately show ?thesis
    using y by (auto simp: verify_signed_sidecar_def)
qed

lemma normalize_fields [simp]:
  "fl_hosts (normalize_rollout_policies g) = fl_hosts g" "fl_channels (normalize_rollout_policies g) = fl_channels g"
  "fl_waves (normalize_rollout_policies g) = fl_waves g" "fl_meta (normalize_rollout_policies g) = fl_meta g"
  "fl_disruption_budgets (normalize_rollout_policies g) = fl_disruption_budgets g"
  by (simp_all add: normalize_rollout_policies_def)

lemma rollout_id_normalize:
  "compute_rollout_id_for_channel (normalize_rollout_policies g) frh ch = compute_rollout_id_for_channel g frh ch"
  by (auto simp: compute_rollout_id_for_channel_def project_manifest_def hget_normalize Let_def split: option.split)

lemma keeps_write:
  assumes "\<not> starts_with name ''/''"
  shows "keeps (\<lambda>path. path \<noteq> path_join dir name \<and> path \<noteq> path_join dir name @ ''.sig'') (write_release env dir name bytes sig)"
  by (auto simp: keeps_def write_release_def rbind_def atomic_write_def path_join_sig [OF assms] split: option.splits)

lemma keeps_publish:
  assumes "\<not> starts_with name ''/''"
  shows "keeps (\<lambda>path. path \<noteq> path_join dir name \<and> path \<noteq> path_join dir name @ ''.sig'') (publish env cmd msg dir name bytes)"
  unfolding publish_def sign_or_reuse_def Let_def by (intro step_rules keeps_write assms)

lemma keeps_sidecars:
  "keeps (\<lambda>path. path \<noteq> path_join (rc_release_dir config) ''revocations.json'' \<and>
      path \<noteq> path_join (rc_release_dir config) ''revocations.json'' @ ''.sig'') (release_revocations env config t ci)"
  "keeps (\<lambda>path. path \<noteq> path_join (rc_release_dir config) ''bootstrap-nonces.json'' \<and>
      path \<noteq> path_join (rc_release_dir config) ''bootstrap-nonces.json'' @ ''.sig'') (release_bootstrap_nonces env config t ci)"
  unfolding release_revocations_def release_bootstrap_nonces_def eval_revocations_def eval_bootstrap_nonces_def canonical_json_def
  by (intro step_rules keeps_publish; simp)+

lemma release_fleet_signed:
  assumes "release_fleet env config injected commit s = (Inr (fleet, canonical, t, preserved), s')"
    "\<not> rc_reuse_unchanged_signature config" "names_ok config" "hook_signs env (rc_sign_cmd config) keys"
  shows "fleet = stamp_meta injected t commit (rc_signature_algorithm config)" "\<exists>log. t = re_now env log"
    "\<exists>raw. re_fleet_json env fleet = Inr raw \<and> canonicalize (re_crypto env) raw = Inr canonical"
    "signed_pair (re_crypto env) keys (rs_files s') (artifact_file config) (as_bytes canonical)"
    "\<And>path. path \<noteq> artifact_file config \<Longrightarrow> path \<noteq> artifact_file config @ ''.sig'' \<Longrightarrow> rs_files s' path = rs_files s path"
proof -
  have name: "\<not> starts_with (rc_artifact_name config) ''/''"
    using assms(3) by (auto simp: names_ok_def starts_with_slash)
  obtain sig s1 s2 where fleet: "fleet = stamp_meta injected t commit (rc_signature_algorithm config)"
      "canonicalize_resolved env fleet = Inr canonical" "\<exists>log. t = re_now env log"
    and sig: "sign env (rc_sign_cmd config) (as_bytes canonical) s1 = (Inr sig, s2)" "rs_files s1 = rs_files s"
    and written: "write_release env (rc_release_dir config) (rc_artifact_name config) (as_bytes canonical) sig s2 = (Inr (), s')"
    using assms(1,2)
    by (auto simp: release_fleet_def Let_def rbind_Inr_iff utc_now_def exists_file_def split: if_splits)
  show "fleet = stamp_meta injected t commit (rc_signature_algorithm config)" "\<exists>log. t = re_now env log"
    by fact+
  show "\<exists>raw. re_fleet_json env fleet = Inr raw \<and> canonicalize (re_crypto env) raw = Inr canonical"
    using fleet(2) by (auto simp: canonicalize_resolved_def split: sum.splits)
  have "\<exists>k \<in> set keys. key_verifies (re_crypto env) (as_bytes canonical) sig k"
    using sign_output [OF sig(1)] assms(4) by (auto simp: hook_signs_def)
  then show "signed_pair (re_crypto env) keys (rs_files s') (artifact_file config) (as_bytes canonical)"
    by (simp add: signed_pair_def write_release_files [OF written name] artifact_file_def)
  show "\<And>path. path \<noteq> artifact_file config \<Longrightarrow> path \<noteq> artifact_file config @ ''.sig'' \<Longrightarrow> rs_files s' path = rs_files s path"
    using sig(2) sign_output [OF sig(1)] by (simp add: write_release_files [OF written name] artifact_file_def)
qed

lemma documents_apart:
  assumes "names_ok config" "\<not> starts_with ch ''/''"
  defines "dir \<equiv> rc_release_dir config"
  shows "\<forall>p \<in> {artifact_file config, artifact_file config @ ''.sig''}.
      p \<notin> {path_join dir ''revocations.json'', path_join dir ''revocations.json'' @ ''.sig'', path_join dir ''bootstrap-nonces.json'',
        path_join dir ''bootstrap-nonces.json'' @ ''.sig'', manifest_file config (rollout_of commit ch),
        manifest_file config (rollout_of commit ch) @ ''.sig''}"
    "\<forall>p \<in> {manifest_file config (rollout_of commit ch), manifest_file config (rollout_of commit ch) @ ''.sig''}.
      p \<notin> {path_join dir ''revocations.json'', path_join dir ''revocations.json'' @ ''.sig'', path_join dir ''bootstrap-nonces.json'',
        path_join dir ''bootstrap-nonces.json'' @ ''.sig''}"
proof -
  have art: "artifact_file config = path_prefix dir @ rc_artifact_name config" and noslash: "CHR ''/'' \<notin> set (rc_artifact_name config)"
    using assms(1) artifact_file_prefix by (auto simp: names_ok_def dir_def)
  have man: "manifest_file config (rollout_of commit ch) = path_prefix dir @ ''rollouts/'' @ rollout_of commit ch @ ''.json''"
    using manifest_file_prefix [OF rollout_of_relative [OF assms(2)]] by (simp add: dir_def)
  have slash: "rc_artifact_name config \<noteq> ''rollouts/'' @ x" "rc_artifact_name config @ ''.sig'' \<noteq> ''rollouts/'' @ x" for x
  proof -
    show "rc_artifact_name config \<noteq> ''rollouts/'' @ x"
      using noslash by force
    have "CHR ''/'' \<notin> set (rc_artifact_name config @ ''.sig'')"
      using noslash by simp
    then show "rc_artifact_name config @ ''.sig'' \<noteq> ''rollouts/'' @ x"
      by force
  qed
  have sig_end: "x @ ''.sig'' \<noteq> ''revocations.json''" "x @ ''.sig'' \<noteq> ''bootstrap-nonces.json''"
    "x @ ''.sig'' = ''revocations.json.sig'' \<longleftrightarrow> x = ''revocations.json''"
    "x @ ''.sig'' = ''bootstrap-nonces.json.sig'' \<longleftrightarrow> x = ''bootstrap-nonces.json''" for x :: string
  proof -
    have "rev (x @ ''.sig'') \<noteq> rev ''revocations.json''" "rev (x @ ''.sig'') \<noteq> rev ''bootstrap-nonces.json''"
      by simp_all
    then show "x @ ''.sig'' \<noteq> ''revocations.json''" "x @ ''.sig'' \<noteq> ''bootstrap-nonces.json''"
      by metis+
    have "''revocations.json.sig'' = ''revocations.json'' @ ''.sig''" "''bootstrap-nonces.json.sig'' = ''bootstrap-nonces.json'' @ ''.sig''"
      by simp_all
    then show "x @ ''.sig'' = ''revocations.json.sig'' \<longleftrightarrow> x = ''revocations.json''"
      "x @ ''.sig'' = ''bootstrap-nonces.json.sig'' \<longleftrightarrow> x = ''bootstrap-nonces.json''"
      by (metis append_same_eq)+
  qed
  show "\<forall>p \<in> {artifact_file config, artifact_file config @ ''.sig''}.
      p \<notin> {path_join dir ''revocations.json'', path_join dir ''revocations.json'' @ ''.sig'', path_join dir ''bootstrap-nonces.json'',
        path_join dir ''bootstrap-nonces.json'' @ ''.sig'', manifest_file config (rollout_of commit ch),
        manifest_file config (rollout_of commit ch) @ ''.sig''}"
    using assms(1) slash sig_end by (simp add: art man path_join_prefix names_ok_def del: append_Cons) simp
  show "\<forall>p \<in> {manifest_file config (rollout_of commit ch), manifest_file config (rollout_of commit ch) @ ''.sig''}.
      p \<notin> {path_join dir ''revocations.json'', path_join dir ''revocations.json'' @ ''.sig'', path_join dir ''bootstrap-nonces.json'',
        path_join dir ''bootstrap-nonces.json'' @ ''.sig''}"
    by (simp add: man path_join_prefix)
qed

lemma eval_fleet_document:
  "eval_fleet_resolved env config s = (Inr f, s') \<Longrightarrow> \<forall>text f. re_parse_fleet env text = Inr f \<longrightarrow> fleet_document f \<Longrightarrow>
   fleet_document f"
  by (auto simp: eval_fleet_resolved_def nix_eval_def rbind_Inr_iff parse_slice_def split: if_splits option.splits)

lemma map_fst_values [simp]: "map (fst \<circ> (\<lambda>(n, h). (n, g n h))) xs = map fst xs"
  by (induction xs) auto

lemma prepared_document:
  assumes "prepare env config s = (Inr (fleet, built, commit), s')" "\<forall>text f. re_parse_fleet env text = Inr f \<longrightarrow> fleet_document f"
  shows "fleet_document fleet"
proof -
  obtain f s1 s2 now where "eval_fleet_resolved env config s1 = (Inr f, s2)" and fleet: "fleet = filter_expired_pins f now"
    using assms by (fastforce simp: prepare_def rbind_Inr_iff Let_def build_hosts_def utc_now_def split: if_splits)
  then have "fleet_document f"
    using eval_fleet_document assms(2) by blast
  then show ?thesis
    using fleet by (simp add: fleet_document_def filter_expired_pins_def hwf_def)
qed

lemma stamped_document:
  "fleet_document f \<Longrightarrow> fleet_document (stamp_meta (inject_closure_hashes f hashes) t commit alg)"
  by (simp add: fleet_document_def stamp_meta_def inject_closure_hashes_def hwf_def)

lemma finish_release_steps:
  assumes "finish_release env config (prepared, built, commit) s1 = (Inr outcome, s')"
  obtains u s2 fleet canonical t preserved s3 rp s4 np s5 mp s6 where
    "push_all env config built s1 = (Inr u, s2)"
    "release_fleet env config (inject_closure_hashes prepared (map (\<lambda>(h, p). (h, closure_hash p)) built)) commit s2
       = (Inr (fleet, canonical, t, preserved), s3)"
    "release_revocations env config t commit s3 = (Inr rp, s4)"
    "release_bootstrap_nonces env config t commit s4 = (Inr np, s5)"
    "rmap (release_manifest env config fleet (sha256_hex (re_crypto env) (as_bytes canonical)) t commit)
       (hkeys (fl_channels fleet)) s5 = (Inr mp, s6)"
    "rs_files s' = rs_files s6"
proof -
  have "rs_files s' = rs_files s6" if "commit_release env config fs ci t s6 = (Inr c, s')" for s6 fs ci t c
    using keepsD [OF keeps_commit [of "\<lambda>_. True"] that] by auto
  then show thesis
    using assms by (auto simp: finish_release_def Let_def rbind_Inr_iff split: if_splits intro: that)
qed

text \<open>Everything a run without reuse leaves on disk for the control plane.\<close>

lemma run_publishes:
  assumes "run env config s = (Inr outcome, s')" "\<not> rc_reuse_unchanged_signature config" "names_ok config"
    "hook_signs env (rc_sign_cmd config) keys" "sound_dir (re_crypto env) keys (rs_files s)"
    "\<forall>text f. re_parse_fleet env text = Inr f \<longrightarrow> fleet_document f"
  shows "\<exists>prepared built commit s1 t canonical raw fleet.
      prepare env config s = (Inr (prepared, built, commit), s1)
      \<and> fleet = stamp_meta (inject_closure_hashes prepared (map (\<lambda>(h, p). (h, closure_hash p)) built)) t commit (rc_signature_algorithm config)
      \<and> (\<exists>log. t = re_now env log) \<and> fleet_document fleet
      \<and> re_fleet_json env fleet = Inr raw \<and> canonicalize (re_crypto env) raw = Inr canonical
      \<and> signed_pair (re_crypto env) keys (rs_files s') (artifact_file config) (as_bytes canonical)
      \<and> (\<forall>ch \<in> set (hkeys (fl_channels fleet)). \<exists>om.
           project_manifest fleet ch (sha256_hex (re_crypto env) (as_bytes canonical)) t commit (rc_signature_algorithm config) = Inr om
           \<and> (\<forall>m. om = Some m \<longrightarrow> manifest_published env config keys (rs_files s') commit ch m))"
proof -
  let ?dir = "rc_release_dir config"
  obtain prepared built commit s1 where prep: "prepare env config s = (Inr (prepared, built, commit), s1)"
    and fin: "finish_release env config (prepared, built, commit) s1 = (Inr outcome, s')"
    using assms(1) by (auto simp: run_def rbind_Inr_iff)
  from fin obtain u s2 fleet canonical t preserved s3 rp s4 np s5 mp s6 where
      push: "push_all env config built s1 = (Inr u, s2)"
    and fleet: "release_fleet env config (inject_closure_hashes prepared (map (\<lambda>(h, p). (h, closure_hash p)) built)) commit s2
        = (Inr (fleet, canonical, t, preserved), s3)"
    and revs: "release_revocations env config t commit s3 = (Inr rp, s4)"
    and nonces: "release_bootstrap_nonces env config t commit s4 = (Inr np, s5)"
    and mans: "rmap (release_manifest env config fleet (sha256_hex (re_crypto env) (as_bytes canonical)) t commit)
        (hkeys (fl_channels fleet)) s5 = (Inr mp, s6)"
    and files: "rs_files s' = rs_files s6"
    by (rule finish_release_steps)
  have files2: "rs_files s2 = rs_files s"
    using keepsD [OF keeps_prepare [of "\<lambda>_. True"] prep] keepsD [OF keeps_push_all [of "\<lambda>_. True"] push] by auto
  note signed = release_fleet_signed [OF fleet assms(2-4)]
  have doc: "fleet_document fleet"
    using prepared_document [OF prep assms(6)] stamped_document signed(1) by simp
  then have chs: "distinct (hkeys (fl_channels fleet))" "\<forall>ch \<in> set (hkeys (fl_channels fleet)). \<not> starts_with ch ''/''"
    by (simp_all add: fleet_document_def hwf_def hkeys_def list_all_iff)
  have side: "rs_files s5 p = rs_files s3 p"
    if "p \<notin> {path_join ?dir ''revocations.json'', path_join ?dir ''revocations.json'' @ ''.sig'',
        path_join ?dir ''bootstrap-nonces.json'', path_join ?dir ''bootstrap-nonces.json'' @ ''.sig''}" for p
    using keepsD [OF keeps_sidecars(1) revs] keepsD [OF keeps_sidecars(2) nonces] that by simp
  have "locally_sound (re_crypto env) keys (rs_files s5) (manifest_file config (rollout_of commit ch))"
    if "ch \<in> set (hkeys (fl_channels fleet))" for ch
  proof -
    have "rs_files s5 p = rs_files s p"
      if "p \<in> {manifest_file config (rollout_of commit ch), manifest_file config (rollout_of commit ch) @ ''.sig''}" for p
      using that documents_apart [OF assms(3), of ch commit] chs(2) \<open>ch \<in> _\<close> side [of p] signed(5) [of p] files2 by auto
    then show ?thesis
      using assms(5) by (subst locally_sound_cong [of _ _ "rs_files s"]) (simp_all add: sound_dir_def)
  qed
  note published = manifests_published [OF mans chs assms(4) ballI [OF this]]
  have "rs_files s' p = rs_files s3 p" if "p \<in> {artifact_file config, artifact_file config @ ''.sig''}" for p
  proof -
    have "rs_files s6 p = rs_files s5 p"
      using published that documents_apart(1) [OF assms(3), of _ commit] chs(2) by blast
    moreover have "rs_files s5 p = rs_files s3 p"
      using that documents_apart(1) [OF assms(3), of "''x''" commit] by (intro side) auto
    ultimately show ?thesis
      using files by simp
  qed
  then have "signed_pair (re_crypto env) keys (rs_files s') (artifact_file config) (as_bytes canonical)"
    using signed(4) by (simp add: signed_pair_def)
  then show ?thesis
    using prep signed(1-3) doc published files by auto
qed

lemma poll_fold:
  "hget (foldl (\<lambda>rollouts ch. case f ch of Inr (Some v) \<Rightarrow> hput ch v rollouts | _ \<Rightarrow> rollouts) acc chs) ch
     = (if ch \<in> set chs then (case f ch of Inr (Some v) \<Rightarrow> Some v | _ \<Rightarrow> hget acc ch) else hget acc ch)"
  by (induction chs arbitrary: acc) (auto split: sum.split option.split)

lemma same_channels: "same_fleet f g \<Longrightarrow> set (hkeys (fl_channels g)) = set (hkeys (fl_channels f))"
proof -
  assume "same_fleet f g"
  then have "dom (map_of (fl_channels g)) = dom (map_of (fl_channels f))"
    by (simp add: same_fleet_def hget_def fun_eq_iff dom_def)
  then show ?thesis
    by (simp add: dom_map_of_conv_image_fst hkeys_def)
qed

text \<open>One channel: the control plane derives the identifier the manifest was written under, and accepts it.\<close>

lemma channel_loads:
  assumes "manifest_published env config keys files commit ch m"
    and project: "project_manifest fleet ch frh t commit alg = Inr (Some m)"
    and meta: "meta_signed_at (fl_meta fleet) = Some t" "meta_ci_commit (fl_meta fleet) = commit"
      "meta_signature_algorithm (fl_meta fleet) = Some alg"
    and g: "same_fleet fleet g" "fl_meta g = fl_meta fleet"
    and serves: "serves pe config files refs src" "pe_crypto pe = re_crypto env"
    and codec: "signed_codec (re_crypto env) (re_manifest_json env) (pe_parse_manifest pe) (=)" "fresh now window rb t"
  shows "fetch_and_verify_channel_manifest pe src (normalize_rollout_policies g) frh ch keys now window rb
    = Inr (Some \<lparr>v_inner = m, v_signed_at = t\<rparr>)"
proof -
  have "project_manifest g ch frh t commit alg = Inr (Some m)"
    using projection_order_independent [OF g(1)] project by simp
  then have rid: "compute_rollout_id_for_channel (normalize_rollout_policies g) frh ch = Inr (Some (rollout_of commit ch))"
    using meta g(2) projected_id [OF project] unfolding rollout_id_normalize
    by (simp add: compute_rollout_id_for_channel_def signature_algorithm_or_default_def)
  obtain raw canonical sig k where doc: "re_manifest_json env m = Inr raw" "canonicalize (re_crypto env) raw = Inr canonical"
    and disk: "files (manifest_file config (rollout_of commit ch)) = Some (as_bytes canonical)"
      "files (manifest_file config (rollout_of commit ch) @ ''.sig'') = Some sig"
      "k \<in> set keys" "key_verifies (re_crypto env) (as_bytes canonical) sig k"
    using assms(1) by (auto simp: manifest_published_def signed_pair_def)
  have "rollouts_fetch_pair pe src (rollout_of commit ch) = Inr (as_bytes canonical, sig)"
    using serves(1) disk(1,2) by (auto simp: serves_def)
  moreover have "rm_schema_version m = 1 \<and> meta_signed_at (rm_meta m) = Some t"
    using project by (auto simp: project_manifest_def Let_def split: option.splits if_splits)
  then have "\<exists>y. m = y \<and> verify_signed_sidecar (re_crypto env) (manifest_sidecar (pe_parse_manifest pe)) (as_bytes canonical) sig
      keys now window rb = Inr \<lparr>v_inner = y, v_signed_at = t\<rparr>"
    by (intro signed_document_accepted [where to_json = "re_manifest_json env" and raw = raw and k = k])
      (use codec doc disk in \<open>simp_all add: manifest_sidecar_def\<close>)
  then have "verify_rollout_manifest (pe_crypto pe) (pe_parse_manifest pe) (as_bytes canonical) sig keys now window rb
      = Inr \<lparr>v_inner = m, v_signed_at = t\<rparr>"
    using serves(2) by (simp add: verify_rollout_manifest_def)
  ultimately show ?thesis
    using rid projected_id [OF project]
    by (simp add: fetch_and_verify_channel_manifest_def check_rollout_id_discriminator_def)
qed

text \<open>The poll of a published fleet accepts the same document, under the hash of its bytes.\<close>

lemma signed_fleet_loads:
  assumes codec: "signed_codec c to_json (pe_parse_fleet pe) same_document" "to_json fleet = Inr raw" "canonicalize c raw = Inr canonical"
    and doc: "fleet_document fleet" "meta_signed_at (fl_meta fleet) = Some t" "fresh now (src_freshness_window refs) rb t"
    and pair: "signed_pair c keys files (artifact_file config) (as_bytes canonical)"
    and mirror: "pe_crypto pe = c" "serves pe config files refs src" "read_trust_roots pe (src_trust_path refs) now = Inr (keys, rb)"
  shows "\<exists>g snap. same_document fleet g \<and> vfs_fleet_resolved_hash snap = sha256_hex c (as_bytes canonical)
    \<and> manifest_poll_once pe (Some refs) (Some src) now = Inr (Some (
        \<lparr>sm_fleet = \<lparr>v_inner = normalize_rollout_policies g, v_signed_at = t\<rparr>,
         sm_rollouts = poll_rollouts pe (Some src) (normalize_rollout_policies g) (sha256_hex c (as_bytes canonical)) keys now
           (src_freshness_window refs) rb\<rparr>, snap))"
proof -
  obtain sig k where sig: "files (artifact_file config) = Some (as_bytes canonical)" "files (artifact_file config @ ''.sig'') = Some sig"
      "key_verifies c (as_bytes canonical) sig k" "k \<in> set keys"
    using pair by (auto simp: signed_pair_def)
  have "\<exists>g. same_document fleet g \<and> verify_signed_sidecar c (fleet_sidecar (pe_parse_fleet pe)) (as_bytes canonical) sig keys now
      (src_freshness_window refs) rb = Inr \<lparr>v_inner = g, v_signed_at = t\<rparr>"
    by (intro signed_document_accepted [where to_json = to_json and raw = raw and k = k and same = same_document])
      (use codec sig doc in \<open>simp_all add: fleet_sidecar_def same_document_def fleet_document_def\<close>)
  then obtain g where g: "same_document fleet g"
      "verify_signed_sidecar c (fleet_sidecar (pe_parse_fleet pe)) (as_bytes canonical) sig keys now (src_freshness_window refs) rb
        = Inr \<lparr>v_inner = g, v_signed_at = t\<rparr>"
    by blast
  have "canonical_hash_from_bytes c (as_bytes canonical) = Inr (sha256_hex c (as_bytes canonical))"
    using codec by (auto simp: signed_codec_def canonical_hash_from_bytes_def sha256_hex_def split: sum.splits)
  then have "manifest_poll_once pe (Some refs) (Some src) now = Inr (Some (
      \<lparr>sm_fleet = \<lparr>v_inner = normalize_rollout_policies g, v_signed_at = t\<rparr>,
       sm_rollouts = poll_rollouts pe (Some src) (normalize_rollout_policies g) (sha256_hex c (as_bytes canonical)) keys now
         (src_freshness_window refs) rb\<rparr>,
      \<lparr>vfs_fleet = normalize_rollout_policies g, vfs_fleet_resolved_hash = sha256_hex c (as_bytes canonical),
       vfs_artifact_bytes = as_bytes canonical, vfs_signature_bytes = sig\<rparr>))"
    using mirror sig(1,2) g(2) by (auto simp: manifest_poll_once_def serves_def verify_artifact_def)
  then show ?thesis
    using g(1) by fastforce
qed

text \<open>Channel by channel, the poll finds exactly the manifests projected from the published fleet.\<close>

lemma published_rollouts_load:
  assumes manifests: "\<forall>ch \<in> set (hkeys (fl_channels fleet)). \<exists>om. project_manifest fleet ch frh t commit alg = Inr om
      \<and> (\<forall>m. om = Some m \<longrightarrow> manifest_published env config keys files commit ch m)"
    and meta: "meta_signed_at (fl_meta fleet) = Some t" "meta_ci_commit (fl_meta fleet) = commit"
      "meta_signature_algorithm (fl_meta fleet) = Some alg"
    and g: "same_fleet fleet g" "fl_meta g = fl_meta fleet"
    and serves: "serves pe config files refs src" "pe_crypto pe = re_crypto env"
    and codec: "signed_codec (re_crypto env) (re_manifest_json env) (pe_parse_manifest pe) (=)" "fresh now window rb t"
  shows "hget (poll_rollouts pe (Some src) (normalize_rollout_policies g) frh keys now window rb) ch =
    (case project_manifest fleet ch frh t commit alg of Inr (Some m) \<Rightarrow> Some \<lparr>v_inner = m, v_signed_at = t\<rparr> | _ \<Rightarrow> None)"
proof (cases "ch \<in> set (hkeys (fl_channels fleet))")
  case True
  then obtain om where om: "project_manifest fleet ch frh t commit alg = Inr om"
      "\<forall>m. om = Some m \<longrightarrow> manifest_published env config keys files commit ch m"
    using manifests by blast
  show ?thesis
  proof (cases om)
    case (Some m)
    show ?thesis
      using channel_loads [OF _ _ meta g serves codec, where ch = ch and m = m and keys = keys] om Some True same_channels [OF g(1)]
      by (simp add: poll_rollouts_def poll_fold)
  next
    case None
    then have "compute_rollout_id_for_channel (normalize_rollout_policies g) frh ch = Inr None"
      using om(1) meta g projection_order_independent [OF g(1)] unfolding rollout_id_normalize
      by (simp add: compute_rollout_id_for_channel_def signature_algorithm_or_default_def)
    then show ?thesis
      using om(1) None by (simp add: poll_rollouts_def poll_fold fetch_and_verify_channel_manifest_def)
  qed
next
  case False
  then have "hget (fl_channels fleet) ch = None"
    by (simp add: hget_def hkeys_def map_of_eq_None_iff)
  then show ?thesis
    using False same_channels [OF g(1)] by (simp add: poll_rollouts_def poll_fold project_manifest_def)
qed

text \<open>
  C1. What the release tool publishes, the control plane loads: after a successful run that signs
  afresh, a control plane that fetches the files from the release directory, trusts the key of the
  signing hook and polls within the freshness window accepts the fleet with the closures just built,
  and for every channel exactly the manifest projected from that fleet.
\<close>

theorem release_loads_on_control_plane:
  assumes run: "run env config s = (Inr outcome, s')" "\<not> rc_reuse_unchanged_signature config" "names_ok config"
    and hook: "hook_signs env (rc_sign_cmd config) keys" "sound_dir (re_crypto env) keys (rs_files s)"
    and nix: "\<forall>text f. re_parse_fleet env text = Inr f \<longrightarrow> fleet_document f"
    and json: "signed_codec (re_crypto env) (re_fleet_json env) (pe_parse_fleet pe) same_document"
      "signed_codec (re_crypto env) (re_manifest_json env) (pe_parse_manifest pe) (=)"
    and mirror: "pe_crypto pe = re_crypto env" "serves pe config (rs_files s') refs src"
      "read_trust_roots pe (src_trust_path refs) now = Inr (keys, rb)"
    and clock: "\<forall>log. fresh now (src_freshness_window refs) rb (re_now env log)"
  shows "\<exists>prepared built commit s1 t fleet g ms snap.
      prepare env config s = (Inr (prepared, built, commit), s1)
      \<and> fleet = stamp_meta (inject_closure_hashes prepared (map (\<lambda>(h, p). (h, closure_hash p)) built)) t commit (rc_signature_algorithm config)
      \<and> manifest_poll_once pe (Some refs) (Some src) now = Inr (Some (ms, snap))
      \<and> same_document fleet g \<and> v_inner (sm_fleet ms) = normalize_rollout_policies g
      \<and> (\<forall>ch. hget (sm_rollouts ms) ch =
           (case project_manifest fleet ch (vfs_fleet_resolved_hash snap) t commit (rc_signature_algorithm config) of
              Inr (Some m) \<Rightarrow> Some \<lparr>v_inner = m, v_signed_at = t\<rparr>
            | _ \<Rightarrow> None))"
proof -
  let ?alg = "rc_signature_algorithm config" and ?c = "re_crypto env"
  obtain prepared built commit s1 t canonical raw fleet where
      prep: "prepare env config s = (Inr (prepared, built, commit), s1)"
    and fleet: "fleet = stamp_meta (inject_closure_hashes prepared (map (\<lambda>(h, p). (h, closure_hash p)) built)) t commit ?alg"
    and t: "\<exists>log. t = re_now env log" and doc: "fleet_document fleet"
    and canonical: "re_fleet_json env fleet = Inr raw" "canonicalize ?c raw = Inr canonical"
    and pair: "signed_pair ?c keys (rs_files s') (artifact_file config) (as_bytes canonical)"
    and manifests: "\<forall>ch \<in> set (hkeys (fl_channels fleet)). \<exists>om.
           project_manifest fleet ch (sha256_hex ?c (as_bytes canonical)) t commit ?alg = Inr om
           \<and> (\<forall>m. om = Some m \<longrightarrow> manifest_published env config keys (rs_files s') commit ch m)"
    using run_publishes [OF run hook nix] by blast
  have meta: "meta_signed_at (fl_meta fleet) = Some t" "meta_ci_commit (fl_meta fleet) = commit"
      "meta_signature_algorithm (fl_meta fleet) = Some ?alg"
    by (simp_all add: fleet stamp_meta_def)
  have now: "fresh now (src_freshness_window refs) rb t"
    using t clock by auto
  obtain g snap where g: "same_document fleet g" "vfs_fleet_resolved_hash snap = sha256_hex ?c (as_bytes canonical)"
    and poll: "manifest_poll_once pe (Some refs) (Some src) now = Inr (Some (
        \<lparr>sm_fleet = \<lparr>v_inner = normalize_rollout_policies g, v_signed_at = t\<rparr>,
         sm_rollouts = poll_rollouts pe (Some src) (normalize_rollout_policies g) (sha256_hex ?c (as_bytes canonical)) keys now
           (src_freshness_window refs) rb\<rparr>, snap))"
    using signed_fleet_loads [OF json(1) canonical doc meta(1) now pair mirror] by blast
  have same: "same_fleet fleet g" "fl_meta g = fl_meta fleet"
    using g(1) doc by (simp_all add: same_document_def fleet_document_def)
  show ?thesis
    using prep fleet poll g published_rollouts_load [OF manifests meta same mirror(2,1) json(2) now] by fastforce
qed

lemma demo_env_fields [simp]:
  "re_crypto (demo_env c) = demo_crypto" "re_cmd (demo_env c) log act = demo_cmd c act"
  "re_sign (demo_env c) log cmd msg = SignOutput (replicate 64 (last msg))" "re_now (demo_env c) log = 100"
  "re_read_err (demo_env c) log path = None" "re_mkdir_err (demo_env c) log path = None" "re_write_err (demo_env c) log path = None"
  "re_fleet_json (demo_env c) = demo_fleet_json" "re_manifest_json (demo_env c) = demo_manifest_json"
  "re_parse_fleet (demo_env c) = demo_parse_fleet" "re_parse_names (demo_env c) text = Inr (if text = ''n'' then [''web''] else [])"
  by (simp_all add: demo_env_def)

lemma demo_cmd_build [simp]: "demo_cmd c (RunCmd d (''nix'' # ''build'' # args)) = demo_output ''/w''"
  by (simp add: demo_cmd_def)

lemma demo_cmd_git [simp]: "demo_cmd c (RunCmd d (''git'' # args)) = demo_output c"
  by (simp add: demo_cmd_def)

lemmas step_defs = rbind_def rlift_def rok_def in_context_def rtry_def run_cmd_def utc_now_def exists_file_def read_file_def
  atomic_write_def write_release_def

lemma demo_trim [simp]: "trim ''/w'' = ''/w''"
  by (simp add: trim_def is_space_def)

lemma demo_enumerate: "\<exists>log. enumerate_hosts (demo_env c) (demo_config reuse) s = (Inr [(''web'', Nixos)], s\<lparr>rs_log := log\<rparr>)"
  by (simp add: step_defs enumerate_hosts_def list_attr_optional_def demo_config_def demo_cmd_def demo_output_def status_success_def
      parse_slice_def ascii_bytes hosts_of_spec_def) blast

lemma demo_eval: "\<exists>log. eval_fleet_resolved (demo_env c) (demo_config reuse) s = (Inr demo_fleet, s\<lparr>rs_log := log\<rparr>)"
  by (simp add: step_defs eval_fleet_resolved_def nix_eval_def demo_config_def demo_cmd_def demo_output_def status_success_def
      parse_slice_def ascii_bytes demo_parse_fleet_def) blast

lemma demo_unpinned: "filter_expired_pins demo_fleet now = demo_fleet" "pin_target_commit demo_fleet host commit = None"
  by (simp_all add: filter_expired_pins_def demo_fleet_def two_host_fleet_def sample_fleet_def expire_pin_def pin_target_commit_def hget_def)

lemma demo_prepare:
  assumes "ascii c" "trim c = c"
  shows "\<exists>log. prepare (demo_env c) (demo_config reuse) s = (Inr (demo_fleet, [(''web'', ''/w'')], Some c), s\<lparr>rs_log := log\<rparr>)"
proof -
  obtain log1 where hosts: "enumerate_hosts (demo_env c) (demo_config reuse) s = (Inr [(''web'', Nixos)], s\<lparr>rs_log := log1\<rparr>)"
    using demo_enumerate by blast
  obtain log2 where fleet: "eval_fleet_resolved (demo_env c) (demo_config reuse) (s\<lparr>rs_log := log1\<rparr>)
      = (Inr demo_fleet, s\<lparr>rs_log := log2\<rparr>)"
    using demo_eval [of c reuse "s\<lparr>rs_log := log1\<rparr>"] by auto
  have "validate_config (demo_config reuse) = Inr ()" "rc_flake_dir (demo_config reuse) = ''.''"
    by (simp_all add: validate_config_def demo_config_def trim_def is_space_def)
  moreover have "validate_pin_source_url (demo_config reuse) demo_fleet (Some c) = Inr ()"
    by (simp add: validate_pin_source_url_def demo_config_def demo_fleet_def two_host_fleet_def sample_fleet_def)
  ultimately show ?thesis
    using assms
    by (simp add: prepare_def step_defs hosts fleet git_head_sha_def demo_output_def status_success_def ascii_bytes demo_unpinned Let_def
        build_hosts_def build_host_def build_local_def nix_build_def interpret_build_output_def) blast
qed

lemma demo_paths:
  "path_join ''releases'' ''fleet.resolved.json'' = ''releases/fleet.resolved.json''"
  "path_join ''releases'' ''fleet.resolved.json.sig'' = ''releases/fleet.resolved.json.sig''"
  "path_join ''releases'' ''rollouts'' = ''releases/rollouts''"
  by (simp_all add: path_join_def)

lemma demo_json:
  assumes "ascii c"
  shows "demo_fleet_json (demo_release c) = Inr (CHR ''F'' # c)" "demo_manifest_json (demo_manifest c) = Inr (CHR ''M'' # c)"
proof -
  have "demo_text (CHR ''F'') c = Inr (CHR ''F'' # c)" "demo_text (CHR ''M'') c = Inr (CHR ''M'' # c)"
    using assms by (simp_all add: demo_text_def ascii_bytes)
  moreover have "meta_ci_commit (fl_meta (demo_release c)) = Some c" "rm_channel_ref (demo_manifest c) = c"
    by (simp_all add: demo_release_def stamp_meta_def demo_manifest_def)
  ultimately show "demo_fleet_json (demo_release c) = Inr (CHR ''F'' # c)" "demo_manifest_json (demo_manifest c) = Inr (CHR ''M'' # c)"
    by (simp_all add: demo_fleet_json_def demo_manifest_json_def)
qed

lemma demo_canonicalize [simp]: "canonicalize demo_crypto text = Inr text"
  by (simp add: canonicalize_def demo_crypto_def sample_crypto_def)

lemma demo_smoke:
  assumes "ascii c" "sig \<noteq> []"
  shows "smoke_verify (demo_env d) (as_bytes (CHR ''F'' # c)) sig = Inr ()"
  using assms by (simp add: smoke_verify_def parse_slice_def ascii_bytes demo_parse_fleet_def canonicalize_resolved_def demo_json)

text \<open>The fleet is signed afresh, or gets the signature that is there.\<close>

lemma demo_fleet_fresh:
  assumes "ascii c" "reuse \<longrightarrow> rs_files s ''releases/fleet.resolved.json'' = None"
  shows "\<exists>log. release_fleet (demo_env c) (demo_config reuse) (inject_closure_hashes demo_fleet [(''web'', ''w'')]) (Some c) s
    = (Inr (demo_release c, CHR ''F'' # c, 100, False),
       s\<lparr>rs_files := demo_files (rs_files s) c (replicate 64 (last (as_bytes (CHR ''F'' # c)))), rs_log := log\<rparr>)"
proof -
  have "canonicalize_resolved (demo_env c) (demo_release c) = Inr (CHR ''F'' # c)"
    using assms by (simp add: canonicalize_resolved_def demo_json)
  then show ?thesis
    using demo_smoke [OF assms(1)] assms(2)
    by (cases reuse) (simp add: release_fleet_def load_existing_signed_at_if_unchanged_def step_defs sign_def Let_def demo_config_def demo_paths
        demo_files_def demo_release_def [symmetric], blast)+
qed

lemma demo_fleet_reuse:
  assumes "ascii c" "ascii d" "rs_files s ''releases/fleet.resolved.json'' = Some (as_bytes (CHR ''F'' # c))"
    "rs_files s ''releases/fleet.resolved.json.sig'' = Some sig" "sig \<noteq> []"
  shows "\<exists>log. release_fleet (demo_env d) (demo_config True) (inject_closure_hashes demo_fleet [(''web'', ''w'')]) (Some d) s
    = (Inr (demo_release d, CHR ''F'' # d, 100, True), s\<lparr>rs_files := demo_files (rs_files s) d sig, rs_log := log\<rparr>)"
proof -
  have "canonicalize_resolved (demo_env d) (demo_release d) = Inr (CHR ''F'' # d)"
    using assms by (simp add: canonicalize_resolved_def demo_json)
  moreover have "load_existing_signed_at_if_unchanged (demo_env d) ''releases/fleet.resolved.json''
      (inject_closure_hashes demo_fleet [(''web'', ''w'')]) s = (Inr (Some 100), s)"
    using assms
    by (simp add: load_existing_signed_at_if_unchanged_def step_defs ascii_bytes demo_parse_fleet_def demo_release_def stamp_meta_def
        host_hashes_def)
  ultimately show ?thesis
    using demo_smoke [OF assms(2,5)] assms
    by (simp add: release_fleet_def step_defs Let_def demo_config_def demo_paths demo_files_def demo_release_def [symmetric]) blast
qed

lemma demo_project:
  "project_manifest (demo_release c) ''stable'' (sha256_hex demo_crypto (as_bytes (CHR ''F'' # c))) 100 (Some c) ''ed25519''
    = Inr (Some (demo_manifest c))"
  by (simp add: project_manifest_def demo_release_def stamp_meta_def inject_closure_hashes_def demo_fleet_def two_host_fleet_def
      sample_fleet_def demo_manifest_def sha256_hex_def demo_crypto_def sample_crypto_def hget_def all_at_once_policy_def Let_def host_wave_of_def)

lemma demo_manifest_step:
  assumes "ascii c" "rs_files s (demo_manifest_path c) = None"
  shows "\<exists>log. release_manifest (demo_env c) (demo_config reuse) (demo_release c) (sha256_hex demo_crypto (as_bytes (CHR ''F'' # c))) 100 (Some c)
      ''stable'' s
    = (Inr [demo_manifest_path c, demo_manifest_path c @ ''.sig''],
       s\<lparr>rs_files := (rs_files s)(demo_manifest_path c := Some (as_bytes (CHR ''M'' # c)),
            demo_manifest_path c @ ''.sig'' := Some (replicate 64 (last (as_bytes (CHR ''M'' # c))))), rs_log := log\<rparr>)"
proof -
  have "as_str (RolloutId_new (rm_channel (demo_manifest c)) (rm_channel_ref (demo_manifest c))) = ''stable@'' @ c"
    by (simp add: RolloutId_new_def demo_manifest_def)
  moreover have "path_join ''releases/rollouts'' ((''stable@'' @ c) @ ''.json'') = demo_manifest_path c"
      "path_join ''releases/rollouts'' (((''stable@'' @ c) @ ''.json'') @ ''.sig'') = demo_manifest_path c @ ''.sig''"
    by (simp_all add: path_join_def demo_manifest_path_def)
  ultimately show ?thesis
    using assms
    by (simp add: release_manifest_def step_defs demo_config_def demo_project canonical_json_def demo_json publish_def sign_or_reuse_def
        sign_def demo_paths Let_def del: append_Cons append_assoc) blast
qed

lemma demo_run_step:
  assumes "ascii c" "trim c = c" "rs_files s (demo_manifest_path c) = None"
    and fleet: "\<And>log. \<exists>log'. release_fleet (demo_env c) (demo_config reuse) (inject_closure_hashes demo_fleet [(''web'', ''w'')]) (Some c)
        (s\<lparr>rs_log := log\<rparr>) = (Inr (demo_release c, CHR ''F'' # c, 100, b), s\<lparr>rs_files := demo_files (rs_files s) c sig, rs_log := log'\<rparr>)"
  shows "\<exists>log. run (demo_env c) (demo_config reuse) s =
    (Inr (Released None [''web'']), s\<lparr>rs_files := demo_release_files (rs_files s) c sig, rs_log := log\<rparr>)"
proof -
  obtain log1 where prep: "prepare (demo_env c) (demo_config reuse) s = (Inr (demo_fleet, [(''web'', ''/w'')], Some c), s\<lparr>rs_log := log1\<rparr>)"
    using demo_prepare assms by blast
  obtain log2 where fleet: "release_fleet (demo_env c) (demo_config reuse) (inject_closure_hashes demo_fleet [(''web'', ''w'')]) (Some c)
      (s\<lparr>rs_log := log1\<rparr>) = (Inr (demo_release c, CHR ''F'' # c, 100, b), s\<lparr>rs_files := demo_files (rs_files s) c sig, rs_log := log2\<rparr>)"
    using fleet by blast
  have "demo_files (rs_files s) c sig (demo_manifest_path c) = None"
    using assms(3) by (simp add: demo_files_def demo_manifest_path_def)
  then obtain log3 where manifest: "release_manifest (demo_env c) (demo_config reuse) (demo_release c)
        (sha256_hex demo_crypto (as_bytes (CHR ''F'' # c))) 100 (Some c) ''stable'' (s\<lparr>rs_files := demo_files (rs_files s) c sig, rs_log := log2\<rparr>)
      = (Inr [demo_manifest_path c, demo_manifest_path c @ ''.sig''],
         s\<lparr>rs_files := demo_release_files (rs_files s) c sig, rs_log := log3\<rparr>)"
    using demo_manifest_step [OF assms(1), of "s\<lparr>rs_files := demo_files (rs_files s) c sig, rs_log := log2\<rparr>" reuse]
    by (auto simp: demo_release_files_def)
  have conf: "rc_push_cmd (demo_config reuse) = None" "rc_revocations_attr (demo_config reuse) = None"
      "rc_bootstrap_nonces_attr (demo_config reuse) = None" "rc_git_commit (demo_config reuse) = False"
    by (simp_all add: demo_config_def)
  have "closure_hash ''/w'' = ''w''" "hkeys (fl_channels (demo_release c)) = [''stable'']"
    by (simp_all add: closure_hash_def file_name_def demo_release_def stamp_meta_def inject_closure_hashes_def demo_fleet_def two_host_fleet_def
        sample_fleet_def hkeys_def)
  then show ?thesis
    using conf prep fleet manifest
    by (simp add: run_def finish_release_def push_all_def release_revocations_def release_bootstrap_nonces_def rbind_def rok_def) blast
qed

lemma demo_run_fresh:
  assumes "ascii c" "trim c = c" "reuse \<longrightarrow> rs_files s ''releases/fleet.resolved.json'' = None" "rs_files s (demo_manifest_path c) = None"
  shows "\<exists>log. run (demo_env c) (demo_config reuse) s = (Inr (Released None [''web'']),
    s\<lparr>rs_files := demo_release_files (rs_files s) c (replicate 64 (last (as_bytes (CHR ''F'' # c)))), rs_log := log\<rparr>)"
proof -
  have "\<exists>log'. release_fleet (demo_env c) (demo_config reuse) (inject_closure_hashes demo_fleet [(''web'', ''w'')]) (Some c) (s\<lparr>rs_log := log\<rparr>)
      = (Inr (demo_release c, CHR ''F'' # c, 100, False),
         s\<lparr>rs_files := demo_files (rs_files s) c (replicate 64 (last (as_bytes (CHR ''F'' # c)))), rs_log := log'\<rparr>)" for log
    using demo_fleet_fresh [OF assms(1), of reuse "s\<lparr>rs_log := log\<rparr>"] assms(3) by auto
  then show ?thesis
    using demo_run_step [OF assms(1,2,4)] by blast
qed

lemma demo_run_reuse:
  assumes "ascii c" "ascii d" "trim d = d" "rs_files s (demo_manifest_path d) = None"
    and there: "rs_files s ''releases/fleet.resolved.json'' = Some (as_bytes (CHR ''F'' # c))"
      "rs_files s ''releases/fleet.resolved.json.sig'' = Some sig" "sig \<noteq> []"
  shows "\<exists>log. run (demo_env d) (demo_config True) s =
    (Inr (Released None [''web'']), s\<lparr>rs_files := demo_release_files (rs_files s) d sig, rs_log := log\<rparr>)"
proof -
  have "\<exists>log'. release_fleet (demo_env d) (demo_config True) (inject_closure_hashes demo_fleet [(''web'', ''w'')]) (Some d) (s\<lparr>rs_log := log\<rparr>)
      = (Inr (demo_release d, CHR ''F'' # d, 100, True), s\<lparr>rs_files := demo_files (rs_files s) d sig, rs_log := log'\<rparr>)" for log
    using demo_fleet_reuse [OF assms(1,2), of "s\<lparr>rs_log := log\<rparr>" sig] there by auto
  then show ?thesis
    using demo_run_step [OF assms(2,3,4)] by blast
qed

lemma demo_verifies: "key_verifies demo_crypto msg (replicate 64 b) sample_key \<longleftrightarrow> b = last msg"
  by (simp add: key_verifies_def verify_ed25519_def demo_crypto_def sample_crypto_def sample_key_def as_bytes_def numeral_eq_Suc)

lemma demo_refused:
  assumes "ascii text" "b \<noteq> last (as_bytes text)"
  shows "\<exists>e. verify_signature_against_trust_roots demo_crypto (as_bytes text) (replicate 64 b) [sample_key] = Inl e"
proof -
  have "verify_signature_against_trust_roots demo_crypto (as_bytes text) (replicate 64 b) [sample_key] \<noteq> Inr y" for y
    unfolding trust_roots_Inr_iff using assms by (auto simp: ascii_bytes demo_verifies)
  then show ?thesis
    by (metis obj_sumE)
qed

lemma demo_hook: "hook_signs (demo_env c) cmd [sample_key]"
  by (simp add: hook_signs_def demo_verifies)

lemma demo_documents: "demo_parse_fleet text = Inr f \<Longrightarrow> fleet_document f"
  by (auto simp: demo_parse_fleet_def fleet_document_def demo_release_def stamp_meta_def inject_closure_hashes_def demo_fleet_def
      two_host_fleet_def sample_fleet_def hwf_def hkeys_def split: list.splits if_splits)

lemma demo_codecs:
  "signed_codec demo_crypto demo_fleet_json demo_parse_fleet same_document"
  "signed_codec demo_crypto demo_manifest_json demo_parse_manifest (=)"
  by (auto simp: signed_codec_def demo_fleet_json_def demo_manifest_json_def demo_text_def demo_parse_fleet_def demo_parse_manifest_def
      same_document_def same_fleet_def split: if_splits option.splits)

lemma demo_fetch: "files url = Some bytes \<Longrightarrow> fetch_url (demo_mirror files) url token = Inr bytes"
  by (simp add: fetch_url_def demo_mirror_def)

lemma demo_trusted: "read_trust_roots (demo_mirror files) path now = Inr ([sample_key], None)"
  by (simp add: read_trust_roots_def read_trust_config_def demo_mirror_def demo_trust_def active_keys_at_def active_keys_def opt_to_list_def)

lemma demo_serves:
  assumes "\<And>path. files path \<noteq> None \<Longrightarrow> \<not> starts_with path ''/''"
  shows "serves (demo_mirror files) (demo_config reuse) files demo_refs demo_src"
proof -
  have "artifact_file (demo_config reuse) = ''releases/fleet.resolved.json''"
    by (simp add: artifact_file_def demo_config_def demo_paths)
  then have artifact: "\<exists>token. read_token (demo_mirror files) (src_token_file demo_refs) = Inr token
      \<and> (\<forall>bytes sig. files (artifact_file (demo_config reuse)) = Some bytes \<longrightarrow> files (artifact_file (demo_config reuse) @ ''.sig'') = Some sig
           \<longrightarrow> fetch_signed_pair (demo_mirror files) (src_artifact_url demo_refs) (src_signature_url demo_refs) token = Inr (bytes, sig))"
    by (simp add: demo_refs_def read_token_def fetch_signed_pair_def demo_fetch)
  have "rollouts_fetch_pair (demo_mirror files) demo_src rid = Inr (bytes, sig)"
    if there: "files (manifest_file (demo_config reuse) rid) = Some bytes" "files (manifest_file (demo_config reuse) rid @ ''.sig'') = Some sig"
    for rid bytes sig
  proof -
    have at: "manifest_file (demo_config reuse) rid = ''releases/rollouts/'' @ rid @ ''.json''"
      using assms [of "manifest_file (demo_config reuse) rid"] there(1)
      by (auto simp: manifest_file_def demo_config_def demo_paths path_join_def split: if_splits)
    have "str_replace ROLLOUT_ID_PLACEHOLDER rid ''releases/rollouts/{rolloutId}.json'' = ''releases/rollouts/'' @ rid @ ''.json''"
        "str_replace ROLLOUT_ID_PLACEHOLDER rid ''releases/rollouts/{rolloutId}.json.sig'' = ''releases/rollouts/'' @ rid @ ''.json.sig''"
      by (simp_all add: ROLLOUT_ID_PLACEHOLDER_def)
    then show ?thesis
      using there by (simp add: at rollouts_fetch_pair_def demo_src_def read_token_def fetch_signed_pair_def demo_fetch)
  qed
  then show ?thesis
    using artifact by (simp add: serves_def)
qed


theorem release_loads_on_control_plane_witness:
  "\<exists>s' ms snap. run (demo_env ''c'') (demo_config False) demo_start = (Inr (Released None [''web'']), s')
    \<and> manifest_poll_once (demo_mirror (rs_files s')) (Some demo_refs) (Some demo_src) 100 = Inr (Some (ms, snap))"
proof -
  obtain s' where run: "run (demo_env ''c'') (demo_config False) demo_start = (Inr (Released None [''web'']), s')"
      and files: "rs_files s' = demo_release_files (\<lambda>_. None) ''c'' (replicate 64 (last (as_bytes ''Fc'')))"
    using demo_run_fresh [of "''c''" False demo_start] by (auto simp: trim_def is_space_def demo_start_def)
  have "\<not> starts_with path ''/''" if "rs_files s' path \<noteq> None" for path
    using that by (auto simp: files demo_release_files_def demo_files_def demo_manifest_path_def split: if_splits)
  then have "serves (demo_mirror (rs_files s')) (demo_config False) (rs_files s') demo_refs demo_src"
    by (rule demo_serves)
  moreover have "sound_dir demo_crypto [sample_key] (rs_files demo_start)" "names_ok (demo_config False)"
      "fresh 100 (src_freshness_window demo_refs) None 100" "pe_crypto (demo_mirror (rs_files s')) = demo_crypto"
      "pe_parse_fleet (demo_mirror (rs_files s')) = demo_parse_fleet" "pe_parse_manifest (demo_mirror (rs_files s')) = demo_parse_manifest"
    by (simp_all add: sound_dir_def locally_sound_def demo_start_def names_ok_def demo_config_def fresh_def demo_refs_def seconds_def
        CHRONO_MAX_def demo_mirror_def)
  moreover have "\<not> rc_reuse_unchanged_signature (demo_config False)"
    by (simp add: demo_config_def)
  ultimately show ?thesis
    using release_loads_on_control_plane [OF run, of "[sample_key]" "demo_mirror (rs_files s')" demo_refs demo_src 100 None]
      demo_hook [of "''c''"] demo_codecs demo_documents demo_trusted run
    by auto
qed


end
